(* ===== verification/Prelude.thy ===== *)
theory Prelude
  imports
    Main
    "HOL-Library.Word"
    "HOL-Library.Sublist"
    "HOL-Library.Char_ord"
    "HOL-Library.List_Lexorder"
begin

text \<open>
  Shared vocabulary of the development: the machine integers and the byte strings of the
  provider agent, the operations of Rust's \<open>str\<close>, \<open>Option\<close>, \<open>BTreeMap\<close> and
  \<open>HashMap\<close> that the sources use, and the collections of rewrite rules the component
  theories share.

  A Rust \<open>String\<close> is a UTF-8 byte sequence; it is modelled by \<^typ>\<open>string\<close>, whose
  characters are bytes, so \<open>length\<close> is \<open>str::len\<close> and a literal is its own encoding.
  Case folding and trimming act on the ASCII range; every literal the sources compare against
  is ASCII.
\<close>

section \<open>Types and collections\<close>

type_synonym u8 = "8 word"
type_synonym u16 = "16 word"
type_synonym u32 = "32 word"
type_synonym u64 = "64 word"
type_synonym bytes = "u8 list"

text \<open>\<open>anyhow::Result\<close>: the error is its message.\<close>

type_synonym 'a result = "string + 'a"

abbreviation Ok :: "'a \<Rightarrow> 'e + 'a" where
  "Ok \<equiv> Inr"

abbreviation Err :: "'e \<Rightarrow> 'e + 'a" where
  "Err \<equiv> Inl"

text \<open>
  \<open>rust_defs\<close> collects the definitional equations of small operations that proofs unfold
  freely, \<open>rust_splits\<close> the case splits of the control-flow types.
\<close>

named_theorems rust_defs \<open>small operations unfolded by the component proofs\<close>

lemmas rust_splits = option.splits sum.splits prod.splits list.splits if_splits

text \<open>
  An \<open>f64\<close> that the program stores, forwards or compares is its IEEE-754 bit pattern.
\<close>

datatype f64 = F64 (f64_bits: u64)

definition f64_zero :: f64 where
  "f64_zero = F64 0"

definition f64_is_nan :: "f64 \<Rightarrow> bool" where
  "f64_is_nan x \<longleftrightarrow> unat (f64_bits x) mod 2 ^ 63 > 0x7FF0000000000000"

text \<open>The numeric order of the represented values: sign and magnitude.\<close>

definition f64_key :: "f64 \<Rightarrow> int" where
  "f64_key x = (let n = unat (f64_bits x); m = int (n mod 2 ^ 63)
     in if n < 2 ^ 63 then m else - m)"

definition f64_gt :: "f64 \<Rightarrow> f64 \<Rightarrow> bool" where
  "f64_gt x y \<longleftrightarrow> \<not> f64_is_nan x \<and> \<not> f64_is_nan y \<and> f64_key y < f64_key x"

section \<open>Strings\<close>

definition starts_with :: "string \<Rightarrow> string \<Rightarrow> bool" where
  "starts_with s p \<longleftrightarrow> prefix p s"

definition ends_with :: "string \<Rightarrow> string \<Rightarrow> bool" where
  "ends_with s p \<longleftrightarrow> prefix (rev p) (rev s)"

text \<open>\<open>str::find(&str)\<close>: the byte offset of the first occurrence.\<close>

fun str_find :: "string \<Rightarrow> string \<Rightarrow> nat option" where
  "str_find [] p = (if p = [] then Some 0 else None)"
| "str_find (c # s) p =
     (if prefix p (c # s) then Some 0 else map_option Suc (str_find s p))"

definition str_contains :: "string \<Rightarrow> string \<Rightarrow> bool" where
  "str_contains s p \<longleftrightarrow> str_find s p \<noteq> None"

lemma str_find_prefix: "prefix p s \<Longrightarrow> str_find s p = Some 0"
  by (cases s) auto

lemma str_contains_prefix: "prefix p s \<Longrightarrow> str_contains s p"
  by (simp add: str_contains_def str_find_prefix)

definition strip_prefix :: "string \<Rightarrow> string \<Rightarrow> string option" where
  "strip_prefix s p = (if prefix p s then Some (drop (length p) s) else None)"

definition strip_suffix :: "string \<Rightarrow> string \<Rightarrow> string option" where
  "strip_suffix s p =
     (if ends_with s p then Some (take (length s - length p) s) else None)"

definition trim_end_matches :: "char \<Rightarrow> string \<Rightarrow> string" where
  "trim_end_matches c s = rev (dropWhile (\<lambda>x. x = c) (rev s))"

definition is_ascii_space :: "char \<Rightarrow> bool" where
  "is_ascii_space c \<longleftrightarrow> of_char c \<in> {9, 10, 11, 12, 13, 32 :: nat}"

definition trim_start :: "string \<Rightarrow> string" where
  "trim_start s = dropWhile is_ascii_space s"

definition trim :: "string \<Rightarrow> string" where
  "trim s = rev (dropWhile is_ascii_space (rev (dropWhile is_ascii_space s)))"

definition ascii_lower :: "char \<Rightarrow> char" where
  "ascii_lower c =
     (let n = of_char c :: nat in if 65 \<le> n \<and> n \<le> 90 then char_of (n + 32) else c)"

definition to_lowercase :: "string \<Rightarrow> string" where
  "to_lowercase = map ascii_lower"

definition eq_ignore_ascii_case :: "string \<Rightarrow> string \<Rightarrow> bool" where
  "eq_ignore_ascii_case a b \<longleftrightarrow> to_lowercase a = to_lowercase b"

text \<open>\<open>str::replace\<close> with a non-empty pattern: leftmost, non-overlapping.\<close>

function str_replace :: "string \<Rightarrow> string \<Rightarrow> string \<Rightarrow> string" where
  "str_replace s p r =
     (case s of
        [] \<Rightarrow> []
      | c # cs \<Rightarrow>
          if p \<noteq> [] \<and> prefix p s then r @ str_replace (drop (length p) s) p r
          else c # str_replace cs p r)"
  by pat_completeness auto
termination
  by (relation "measure (\<lambda>(s, p, r). length s)") (auto simp: length_greater_0_conv[symmetric] simp del: length_greater_0_conv)

declare str_replace.simps [simp del]

lemma str_replace_Nil [simp]: "str_replace [] p r = []"
  by (simp add: str_replace.simps)

lemma str_replace_Cons:
  "str_replace (c # cs) p r =
     (if p \<noteq> [] \<and> prefix p (c # cs) then r @ str_replace (drop (length p) (c # cs)) p r
      else c # str_replace cs p r)"
  by (subst str_replace.simps) simp

text \<open>\<open>str::split(char)\<close>: always at least one piece.\<close>

fun str_split :: "char \<Rightarrow> string \<Rightarrow> string list" where
  "str_split d [] = [[]]"
| "str_split d (c # s) =
     (if c = d then [] # str_split d s
      else (case str_split d s of [] \<Rightarrow> [[c]] | p # ps \<Rightarrow> (c # p) # ps))"

definition newline :: char where "newline = CHR 0x0A"
definition carriage_return :: char where "carriage_return = CHR 0x0D"

text \<open>\<open>str::lines\<close>: split at line feeds, no piece after a final one; one carriage return is
  dropped where it stands right before a line feed.\<close>

definition chomp_cr :: "string \<Rightarrow> string" where
  "chomp_cr s = (case strip_suffix s [carriage_return] of None \<Rightarrow> s | Some t \<Rightarrow> t)"

definition str_lines :: "string \<Rightarrow> string list" where
  "str_lines s =
     (let ps = str_split newline s
      in map chomp_cr (butlast ps) @ (if last ps = [] then [] else [last ps]))"

fun str_join :: "string \<Rightarrow> string list \<Rightarrow> string" where
  "str_join sep [] = []"
| "str_join sep [x] = x"
| "str_join sep (x # y # ys) = x @ sep @ str_join sep (y # ys)"

text \<open>Decimal numbers: \<open>to_string\<close> and \<open>str::parse\<close> of an unsigned type.\<close>

definition digit_char :: "nat \<Rightarrow> char" where
  "digit_char d = char_of (48 + d)"

fun show_nat :: "nat \<Rightarrow> string" where
  "show_nat n = (if n < 10 then [digit_char n] else show_nat (n div 10) @ [digit_char (n mod 10)])"

declare show_nat.simps [simp del]

definition digit_val :: "char \<Rightarrow> nat option" where
  "digit_val c = (let n = of_char c in if 48 \<le> n \<and> n \<le> 57 then Some (n - 48) else None)"

fun parse_digits :: "nat \<Rightarrow> string \<Rightarrow> nat option" where
  "parse_digits acc [] = Some acc"
| "parse_digits acc (c # s) =
     (case digit_val c of None \<Rightarrow> None | Some d \<Rightarrow> parse_digits (10 * acc + d) s)"

definition parse_nat :: "string \<Rightarrow> nat option" where
  "parse_nat s =
     (let t = (case s of c # cs \<Rightarrow> if c = CHR ''+'' then cs else s | [] \<Rightarrow> s)
      in if t = [] then None else parse_digits 0 t)"

definition parse_u32 :: "string \<Rightarrow> u32 option" where
  "parse_u32 s =
     (case parse_nat s of None \<Rightarrow> None | Some n \<Rightarrow> if n < 2 ^ 32 then Some (of_nat n) else None)"

definition parse_u64 :: "string \<Rightarrow> u64 option" where
  "parse_u64 s =
     (case parse_nat s of None \<Rightarrow> None | Some n \<Rightarrow> if n < 2 ^ 64 then Some (of_nat n) else None)"

section \<open>Words\<close>

lemma ucast_conv_of_nat: "ucast w = word_of_nat (unat w)"
  by simp

lemma unat_of_nat_u64: "n < 2 ^ 64 \<Longrightarrow> unat (word_of_nat n :: u64) = n"
  by (simp add: unat_of_nat)

lemma unat_of_nat_u32: "n < 2 ^ 32 \<Longrightarrow> unat (word_of_nat n :: u32) = n"
  by (simp add: unat_of_nat)

lemma unat_add_u64: "unat x + unat y < 2 ^ 64 \<Longrightarrow> unat (x + y :: u64) = unat x + unat y"
  by (subst unat_add_lem[symmetric]) simp_all

lemma unat_sub_u64: "unat y \<le> unat x \<Longrightarrow> unat (x - y :: u64) = unat x - unat y"
  by (simp add: unat_sub word_le_nat_alt)

lemma unat_max_u64 [simp]: "unat (- 1 :: u64) = 2 ^ 64 - 1"
  by (simp add: unsigned_minus_1_eq_mask mask_eq_exp_minus_1)

section \<open>Bytes and numerals\<close>

definition str_bytes :: "string \<Rightarrow> bytes" where
  "str_bytes s = map of_char s"

lemma char_of_inject:
  "n < 256 \<Longrightarrow> m < 256 \<Longrightarrow> (char_of n :: char) = char_of m \<longleftrightarrow> n = (m :: nat)"
  by (metis of_char_of mod_less)

lemma show_nat_digits: "c \<in> set (show_nat n) \<Longrightarrow> \<exists>d < 10. c = digit_char d"
proof (induction n rule: show_nat.induct)
  case (1 n)
  then show ?case
    by (cases "n < 10") (auto simp: show_nat.simps[of n] intro: exI[of _ "n mod 10"])
qed

lemma show_nat_no_char:
  assumes "(of_char c :: nat) < 48 \<or> 57 < (of_char c :: nat)"
  shows "c \<notin> set (show_nat n)"
proof
  assume "c \<in> set (show_nat n)"
  then obtain d where "d < 10" "c = digit_char d"
    using show_nat_digits by blast
  then have "(of_char c :: nat) = 48 + d"
    by (simp add: digit_char_def)
  with \<open>d < 10\<close> assms show False by simp
qed

lemma show_nat_no_colon: "CHR '':'' \<notin> set (show_nat n)"
  by (rule show_nat_no_char) simp

lemma show_nat_inject [simp]: "show_nat n = show_nat m \<longleftrightarrow> n = m"
proof (induction n arbitrary: m rule: show_nat.induct)
  case (1 n)
  have len: "length (show_nat k) = 1 \<longleftrightarrow> k < 10" for k
    by (cases "k < 10") (simp_all add: show_nat.simps[of k] show_nat.simps[of "k div 10"])
  have dig: "digit_char a = digit_char b \<longleftrightarrow> a = b" if "a < 10" "b < 10" for a b
    using that by (simp add: digit_char_def char_of_inject)
  show ?case
  proof (cases "n < 10")
    case True
    with len[of n] len[of m] dig show ?thesis
      by (auto simp: show_nat.simps[of n] show_nat.simps[of m])
  next
    case False
    show ?thesis
    proof (cases "m < 10")
      case True
      with False len[of n] len[of m] show ?thesis by auto
    next
      case m: False
      have "show_nat n = show_nat m \<longleftrightarrow> n div 10 = m div 10 \<and> n mod 10 = m mod 10"
        using 1 False m dig[of "n mod 10" "m mod 10"]
        by (simp add: show_nat.simps[of n] show_nat.simps[of m])
      then show ?thesis by (metis div_mult_mod_eq)
    qed
  qed
qed

text \<open>Cutting a text at its first separator.\<close>

lemma append_sep_inject:
  "c \<notin> set xs \<Longrightarrow> c \<notin> set xs' \<Longrightarrow> xs @ c # ys = xs' @ c # ys' \<longleftrightarrow> xs = xs' \<and> ys = ys'"
  by (auto simp: append_eq_append_conv2 append_eq_Cons_conv Cons_eq_append_conv)

lemma of_char_u8_inject: "(of_char c :: u8) = of_char d \<longleftrightarrow> c = d"
proof
  assume "(of_char c :: u8) = of_char d"
  then have "unat (word_of_nat (of_char c) :: u8) = unat (word_of_nat (of_char d) :: u8)"
    by (simp only: of_nat_of_char)
  then have "(of_char c :: nat) = of_char d"
    by (simp only: unat_of_nat) simp
  then show "c = d" by simp
qed simp

lemma str_bytes_inject [simp]: "str_bytes s = str_bytes t \<longleftrightarrow> s = t"
  unfolding str_bytes_def by (rule inj_map_eq_map) (auto intro: injI simp: of_char_u8_inject)

definition bytes_str :: "bytes \<Rightarrow> string" where
  "bytes_str bs = map (\<lambda>b. char_of (unat b)) bs"

lemma str_bytes_bytes_str [simp]: "str_bytes (bytes_str bs) = bs"
proof -
  have "(of_char (char_of (unat b) :: char) :: u8) = b" for b :: u8
  proof -
    have "unat b < 2 ^ LENGTH(8)" by (rule unsigned_less)
    then have "(of_char (char_of (unat b) :: char) :: nat) = unat b" by simp
    then have "(word_of_nat (of_char (char_of (unat b) :: char)) :: u8) = word_of_nat (unat b)"
      by (rule arg_cong)
    then show ?thesis by (simp only: of_nat_of_char of_nat_unat ucast_id)
  qed
  then show ?thesis
    by (simp add: str_bytes_def bytes_str_def comp_def)
qed

end
