(* ===== verification/Scheduling.thy ===== *)
theory Scheduling
  imports Prelude
begin

text \<open>
  Availability windows (\<open>provider/src/scheduling.rs\<close>). A configuration is parsed into a
  list of windows; three queries evaluate it against the local clock. The clock reading is an
  argument: a weekday and a time of day. \<open>duration_until_next_active\<close> reads the clock
  twice and takes two arguments. \<open>NaiveTime\<close> of the \<open>chrono\<close> crate is its
  representation, seconds since midnight and nanoseconds; its \<open>"%H:%M"\<close> parser and its
  \<open>Display\<close> are the parameters \<open>parse_hm\<close> and \<open>show_time\<close>.

  The specification is a calendar: an occurrence of a window starts on one of its days and
  covers a stretch of the week; the schedule is active exactly when some occurrence covers the
  instant (\<open>is_active_now_covered\<close>), the two durations are the distances to the end
  and the next start of activity.
\<close>

section \<open>Data\<close>

datatype weekday = Mon | Tue | Wed | Thu | Fri | Sat | Sun

fun num_days_from_monday :: "weekday \<Rightarrow> nat" where
  "num_days_from_monday Mon = 0"
| "num_days_from_monday Tue = 1"
| "num_days_from_monday Wed = 2"
| "num_days_from_monday Thu = 3"
| "num_days_from_monday Fri = 4"
| "num_days_from_monday Sat = 5"
| "num_days_from_monday Sun = 6"

record naive_time =
  nt_secs :: u32
  nt_frac :: u32

definition nt_hour :: "naive_time \<Rightarrow> u32" where
  "nt_hour t = nt_secs t div 3600"

definition nt_minute :: "naive_time \<Rightarrow> u32" where
  "nt_minute t = (nt_secs t div 60) mod 60"

definition nt_second :: "naive_time \<Rightarrow> u32" where
  "nt_second t = nt_secs t mod 60"

definition nt_lt :: "naive_time \<Rightarrow> naive_time \<Rightarrow> bool" where
  "nt_lt a b \<longleftrightarrow> nt_secs a < nt_secs b \<or> nt_secs a = nt_secs b \<and> nt_frac a < nt_frac b"

text \<open>The range of the representation: a time is within its day.\<close>

definition nt_wf :: "naive_time \<Rightarrow> bool" where
  "nt_wf t \<longleftrightarrow> nt_secs t < 86400"

record schedule_window =
  sw_days :: "string list"
  sw_start :: string
  sw_end :: string

record schedule_config =
  sc_enabled :: bool
  sc_windows :: "schedule_window list"

definition schedule_config_default :: schedule_config where
  "schedule_config_default = \<lparr>sc_enabled = False, sc_windows = []\<rparr>"

record parsed_window =
  pw_days :: "weekday list"
  pw_start :: naive_time
  pw_end :: naive_time
  pw_overnight :: bool

record schedule =
  sched_windows :: "parsed_window list"

section \<open>Parsing\<close>

definition parse_day :: "string \<Rightarrow> weekday option" where
  "parse_day s =
     (let l = to_lowercase s in
      if l = ''mon'' \<or> l = ''monday'' then Some Mon
      else if l = ''tue'' \<or> l = ''tuesday'' then Some Tue
      else if l = ''wed'' \<or> l = ''wednesday'' then Some Wed
      else if l = ''thu'' \<or> l = ''thursday'' then Some Thu
      else if l = ''fri'' \<or> l = ''friday'' then Some Fri
      else if l = ''sat'' \<or> l = ''saturday'' then Some Sat
      else if l = ''sun'' \<or> l = ''sunday'' then Some Sun
      else None)"

type_synonym time_parser = "string \<Rightarrow> naive_time option"

text \<open>One iteration of the loop of \<open>Schedule::from_config\<close>: the window it pushes, or
  nothing for each \<open>continue\<close>.\<close>

definition parse_window :: "time_parser \<Rightarrow> schedule_window \<Rightarrow> parsed_window option" where
  "parse_window parse_hm w =
     (let days = List.map_filter parse_day (sw_days w) in
      if days = [] then None
      else case parse_hm (sw_start w) of
        None \<Rightarrow> None
      | Some start \<Rightarrow>
          (case parse_hm (sw_end w) of
             None \<Rightarrow> None
           | Some end_ \<Rightarrow>
               Some \<lparr>pw_days = days, pw_start = start, pw_end = end_,
                     pw_overnight = \<not> nt_lt start end_\<rparr>))"

definition from_config :: "time_parser \<Rightarrow> schedule_config \<Rightarrow> schedule option" where
  "from_config parse_hm config =
     (if \<not> sc_enabled config \<or> sc_windows config = [] then None
      else let windows = List.map_filter (parse_window parse_hm) (sc_windows config) in
        if windows = [] then None else Some \<lparr>sched_windows = windows\<rparr>)"

section \<open>Clock arithmetic\<close>

fun prev_weekday :: "weekday \<Rightarrow> weekday" where
  "prev_weekday Mon = Sun"
| "prev_weekday Tue = Mon"
| "prev_weekday Wed = Tue"
| "prev_weekday Thu = Wed"
| "prev_weekday Fri = Thu"
| "prev_weekday Sat = Fri"
| "prev_weekday Sun = Sat"

definition weekday_plus :: "weekday \<Rightarrow> nat \<Rightarrow> weekday" where
  "weekday_plus day n = [Mon, Tue, Wed, Thu, Fri, Sat, Sun] ! ((num_days_from_monday day + n) mod 7)"

fun weekday_abbrev :: "weekday \<Rightarrow> string" where
  "weekday_abbrev Mon = ''Mon''"
| "weekday_abbrev Tue = ''Tue''"
| "weekday_abbrev Wed = ''Wed''"
| "weekday_abbrev Thu = ''Thu''"
| "weekday_abbrev Fri = ''Fri''"
| "weekday_abbrev Sat = ''Sat''"
| "weekday_abbrev Sun = ''Sun''"

definition time_to_secs :: "naive_time \<Rightarrow> u64" where
  "time_to_secs t =
     ucast (nt_hour t) * 3600 + ucast (nt_minute t) * 60 + ucast (nt_second t)"

definition secs_until_midnight :: "naive_time \<Rightarrow> u64" where
  "secs_until_midnight t = 86400 - time_to_secs t"

section \<open>Queries\<close>

type_synonym clock = "weekday \<times> naive_time"

text \<open>The body of the loop of \<open>is_active_now\<close> for one window.\<close>

definition window_active :: "clock \<Rightarrow> parsed_window \<Rightarrow> bool" where
  "window_active now w =
     (case now of (today, time) \<Rightarrow>
        if pw_overnight w then
          today \<in> set (pw_days w) \<and> \<not> nt_lt time (pw_start w)
          \<or> prev_weekday today \<in> set (pw_days w) \<and> nt_lt time (pw_end w)
        else today \<in> set (pw_days w) \<and> \<not> nt_lt time (pw_start w) \<and> nt_lt time (pw_end w))"

definition is_active_now :: "schedule \<Rightarrow> clock \<Rightarrow> bool" where
  "is_active_now s now = list_ex (window_active now) (sched_windows s)"

fun inactive_loop :: "clock \<Rightarrow> parsed_window list \<Rightarrow> u64 option" where
  "inactive_loop now [] = None"
| "inactive_loop (today, time) (w # ws) =
     (if pw_overnight w then
        if today \<in> set (pw_days w) \<and> \<not> nt_lt time (pw_start w) then
          Some (secs_until_midnight time + time_to_secs (pw_end w))
        else if prev_weekday today \<in> set (pw_days w) \<and> nt_lt time (pw_end w) then
          Some (time_to_secs (pw_end w) - time_to_secs time)
        else inactive_loop (today, time) ws
      else if today \<in> set (pw_days w) \<and> \<not> nt_lt time (pw_start w) \<and> nt_lt time (pw_end w) then
        Some (time_to_secs (pw_end w) - time_to_secs time)
      else inactive_loop (today, time) ws)"

definition duration_until_inactive :: "schedule \<Rightarrow> clock \<Rightarrow> u64 option" where
  "duration_until_inactive s now = inactive_loop now (sched_windows s)"

text \<open>The wait the inner loop of \<open>duration_until_next_active\<close> computes for a window and a
  day offset; \<open>None\<close> for its two \<open>continue\<close> statements.\<close>

definition offset_wait :: "clock \<Rightarrow> parsed_window \<Rightarrow> nat \<Rightarrow> u64 option" where
  "offset_wait now w day_offset =
     (case now of (today, time) \<Rightarrow>
        if weekday_plus today day_offset \<notin> set (pw_days w) then None
        else if day_offset = 0 \<and> nt_lt time (pw_start w) then
          Some (time_to_secs (pw_start w) - time_to_secs time)
        else if day_offset > 0 then
          Some (secs_until_midnight time + (of_nat day_offset - 1) * 86400
                + time_to_secs (pw_start w))
        else None)"

definition min_step :: "u64 option \<Rightarrow> u64 \<Rightarrow> u64" where
  "min_step wait min_wait =
     (case wait of None \<Rightarrow> min_wait | Some x \<Rightarrow> if x < min_wait then x else min_wait)"

definition next_min_wait :: "clock \<Rightarrow> parsed_window list \<Rightarrow> u64" where
  "next_min_wait now ws =
     fold (\<lambda>w m. fold (\<lambda>off m. min_step (offset_wait now w off) m) [0..<7] m) ws (- 1)"

definition duration_until_next_active :: "schedule \<Rightarrow> clock \<Rightarrow> clock \<Rightarrow> u64" where
  "duration_until_next_active s now now' =
     (if is_active_now s now then 0
      else let min_wait = next_min_wait now' (sched_windows s) in
        if min_wait = - 1 then 3600 else min_wait)"

definition describe :: "(naive_time \<Rightarrow> string) \<Rightarrow> schedule \<Rightarrow> string" where
  "describe show_time s =
     str_join '' | ''
       (map (\<lambda>w. str_join '','' (map weekday_abbrev (pw_days w)) @ '' ''
                  @ show_time (pw_start w) @ ''-'' @ show_time (pw_end w)) (sched_windows s))"

definition format_duration :: "u64 \<Rightarrow> string" where
  "format_duration secs =
     (if secs < 60 then show_nat (unat secs) @ ''s''
      else if secs < 3600 then show_nat (unat (secs div 60)) @ ''m''
      else let h = secs div 3600; m = (secs mod 3600) div 60 in
        if m > 0 then show_nat (unat h) @ ''h '' @ show_nat (unat m) @ ''m''
        else show_nat (unat h) @ ''h'')"

section \<open>Arithmetic of one day\<close>

text \<open>Seconds since midnight as a number.\<close>

definition day_secs :: "naive_time \<Rightarrow> nat" where
  "day_secs t = unat (nt_secs t)"

lemma day_secs_less: "nt_wf t \<Longrightarrow> day_secs t < 86400"
  by (simp add: nt_wf_def day_secs_def word_less_nat_alt)

lemma unat_time_to_secs: "nt_wf t \<Longrightarrow> unat (time_to_secs t) = day_secs t"
proof -
  assume wf: "nt_wf t"
  let ?s = "unat (nt_secs t)"
  have s: "?s < 86400"
    using wf by (simp add: nt_wf_def word_less_nat_alt)
  have h: "unat (nt_hour t) = ?s div 3600" and m: "unat (nt_minute t) = (?s div 60) mod 60"
    and x: "unat (nt_second t) = ?s mod 60"
    by (simp_all add: nt_hour_def nt_minute_def nt_second_def unat_div unat_mod)
  have eq: "?s div 3600 * 3600 + (?s div 60) mod 60 * 60 + ?s mod 60 = ?s"
  proof -
    have "?s div 3600 = ?s div 60 div 60"
      by (simp flip: div_mult2_eq)
    then have "?s div 3600 * 60 + ?s div 60 mod 60 = ?s div 60"
      by simp
    then show ?thesis
      using div_mult_mod_eq[of ?s 60] by linarith
  qed
  have "time_to_secs t = word_of_nat (?s div 3600 * 3600 + (?s div 60) mod 60 * 60 + ?s mod 60)"
    unfolding time_to_secs_def ucast_conv_of_nat h m x by simp
  then show ?thesis
    using s unat_of_nat_u64[of ?s] unfolding eq day_secs_def by simp
qed

lemma unat_secs_until_midnight: "nt_wf t \<Longrightarrow> unat (secs_until_midnight t) = 86400 - day_secs t"
  using day_secs_less[of t] unat_time_to_secs[of t]
  by (simp add: secs_until_midnight_def unat_sub_u64)

lemma nt_lt_secs:
  "nt_lt a b \<longleftrightarrow> day_secs a < day_secs b \<or> day_secs a = day_secs b \<and> nt_frac a < nt_frac b"
  by (auto simp: nt_lt_def day_secs_def word_less_nat_alt word_unat_eq_iff)

lemma num_days_less: "num_days_from_monday d < 7"
  by (cases d) simp_all

lemma num_days_inject [simp]:
  "num_days_from_monday d = num_days_from_monday e \<longleftrightarrow> d = e"
  by (cases d; cases e) simp_all

lemma num_days_weekday_plus:
  "num_days_from_monday (weekday_plus d n) = (num_days_from_monday d + n) mod 7"
proof -
  have "num_days_from_monday ([Mon, Tue, Wed, Thu, Fri, Sat, Sun] ! i) = i" if "i < 7" for i
    using that by (simp add: numeral_eq_Suc less_Suc_eq nth_Cons') auto
  then show ?thesis
    by (simp add: weekday_plus_def)
qed

lemma weekday_plus_0 [simp]: "weekday_plus d 0 = d"
  using num_days_weekday_plus[of d 0] num_days_less[of d] by (simp del: One_nat_def)

lemma prev_weekday_iff:
  "prev_weekday d = e \<longleftrightarrow>
   num_days_from_monday d = num_days_from_monday e + 1
   \<or> num_days_from_monday d = 0 \<and> num_days_from_monday e = 6"
  by (cases d; cases e) simp_all

lemma prev_weekday_plus_Suc: "prev_weekday (weekday_plus d (Suc n)) = weekday_plus d n"
  unfolding prev_weekday_iff num_days_weekday_plus by (simp add: mod_Suc)

section \<open>The calendar specification\<close>

text \<open>An instant of the timeline: a day number and a time of that day. Its order is that of the
  seconds elapsed, ties broken by the fraction.\<close>

definition inst_lt :: "nat \<times> naive_time \<Rightarrow> nat \<times> naive_time \<Rightarrow> bool" where
  "inst_lt a b = (let p = fst a * 86400 + day_secs (snd a); q = fst b * 86400 + day_secs (snd b)
     in p < q \<or> p = q \<and> nt_frac (snd a) < nt_frac (snd b))"

text \<open>The occurrence of a window that starts on weekday \<open>d\<close> runs from its start to its end,
  which is on the next day for an overnight window; the clock's instant lies in this week or, seen
  from a window that started last week, seven days later.\<close>

definition covers :: "parsed_window \<Rightarrow> weekday \<Rightarrow> clock \<Rightarrow> bool" where
  "covers w d now =
     (let y = num_days_from_monday d; x = num_days_from_monday (fst now); t = snd now
      in \<exists>n \<in> {x, x + 7}.
           \<not> inst_lt (n, t) (y, pw_start w)
           \<and> inst_lt (n, t) (y + (if pw_overnight w then 1 else 0), pw_end w))"

definition window_wf :: "parsed_window \<Rightarrow> bool" where
  "window_wf w \<longleftrightarrow>
     nt_wf (pw_start w) \<and> nt_wf (pw_end w) \<and> pw_days w \<noteq> []
     \<and> nt_frac (pw_start w) = 0 \<and> nt_frac (pw_end w) = 0
     \<and> pw_overnight w = (\<not> nt_lt (pw_start w) (pw_end w))"

definition schedule_wf :: "schedule \<Rightarrow> bool" where
  "schedule_wf s \<longleftrightarrow> sched_windows s \<noteq> [] \<and> list_all window_wf (sched_windows s)"

definition advance :: "clock \<Rightarrow> nat \<Rightarrow> clock" where
  "advance now k =
     (let p = day_secs (snd now) + k
      in (weekday_plus (fst now) (p div 86400),
          (snd now)\<lparr>nt_secs := word_of_nat (p mod 86400)\<rparr>))"

lemma inst_lt_iff:
  assumes "nt_wf t" and "nt_wf u"
  shows "inst_lt (n, t) (m, u) \<longleftrightarrow> n < m \<or> n = m \<and> nt_lt t u"
proof (cases n m rule: linorder_cases)
  case less
  then have "n * 86400 + 86400 \<le> m * 86400" by simp
  with less day_secs_less[OF assms(1)] show ?thesis
    by (simp add: inst_lt_def Let_def)
next
  case greater
  then have "m * 86400 + 86400 \<le> n * 86400" by simp
  with greater day_secs_less[OF assms(2)] show ?thesis
    by (simp add: inst_lt_def Let_def)
qed (simp add: inst_lt_def Let_def nt_lt_secs)

lemma covers_arith:
  fixes x y :: nat
  assumes "x < 7" and "y < 7"
  shows "(\<exists>n \<in> {x, x + 7}. \<not> (n < y \<or> n = y \<and> A)
            \<and> (n < y + (if ov then 1 else 0) \<or> n = y + (if ov then 1 else 0) \<and> B)) \<longleftrightarrow>
    (if ov then y = x \<and> \<not> A \<or> (x = y + 1 \<or> x = 0 \<and> y = 6) \<and> B else y = x \<and> \<not> A \<and> B)"
  using assms by (cases ov; cases A; cases B; simp; linarith)

lemma window_active_covers:
  assumes "window_wf w" and "nt_wf (snd now)"
  shows "window_active now w \<longleftrightarrow> (\<exists>d \<in> set (pw_days w). covers w d now)"
proof -
  obtain D t where now: "now = (D, t)" by (cases now)
  from assms now have wf: "nt_wf t" "nt_wf (pw_start w)" "nt_wf (pw_end w)"
    by (simp_all add: window_wf_def)
  have cov: "covers w d now \<longleftrightarrow>
      (if pw_overnight w then d = D \<and> \<not> nt_lt t (pw_start w) \<or> d = prev_weekday D \<and> nt_lt t (pw_end w)
       else d = D \<and> \<not> nt_lt t (pw_start w) \<and> nt_lt t (pw_end w))" for d
    unfolding covers_def now Let_def inst_lt_iff[OF wf(1,2)] inst_lt_iff[OF wf(1,3)] fst_conv snd_conv
      covers_arith[OF num_days_less num_days_less] prev_weekday_iff[symmetric] num_days_inject
    by (simp add: eq_commute[of "prev_weekday D"])
  show ?thesis
    unfolding cov by (auto simp: window_active_def now)
qed

lemma advance_simps:
  "day_secs (snd (advance now k)) = (day_secs (snd now) + k) mod 86400"
  "nt_frac (snd (advance now k)) = nt_frac (snd now)"
  "fst (advance now k) = weekday_plus (fst now) ((day_secs (snd now) + k) div 86400)"
  "nt_wf (snd (advance now k))"
proof -
  have "unat (word_of_nat ((day_secs (snd now) + k) mod 86400) :: u32) = (day_secs (snd now) + k) mod 86400"
    by (rule unat_of_nat_u32) (simp add: less_trans[OF mod_less_divisor])
  then show "day_secs (snd (advance now k)) = (day_secs (snd now) + k) mod 86400"
    "nt_wf (snd (advance now k))"
    by (simp_all add: advance_def Let_def day_secs_def nt_wf_def word_less_nat_alt)
qed (simp_all add: advance_def Let_def)

lemma advance_same_day:
  assumes "day_secs (snd now) + k < 86400"
  shows "fst (advance now k) = fst now" "day_secs (snd (advance now k)) = day_secs (snd now) + k"
  using assms by (simp_all add: advance_simps)

lemma advance_next_day:
  assumes "86400 \<le> day_secs (snd now) + k" and "day_secs (snd now) + k < 2 * 86400"
  shows "prev_weekday (fst (advance now k)) = fst now"
    and "day_secs (snd (advance now k)) = day_secs (snd now) + k - 86400"
proof -
  obtain r where r: "day_secs (snd now) + k = 86400 + r"
    using assms(1) le_Suc_ex by blast
  with assms(2) have "r < 86400" by simp
  with r prev_weekday_plus_Suc[of "fst now" 0]
  show "prev_weekday (fst (advance now k)) = fst now"
    and "day_secs (snd (advance now k)) = day_secs (snd now) + k - 86400"
    by (simp_all add: advance_simps div_add_self1)
qed

text \<open>Each of the three active branches: the window stays active for the duration returned.\<close>

lemma overnight_today_stays:
  assumes "window_wf w" and "nt_wf (snd now)" and "pw_overnight w"
    and "fst now \<in> set (pw_days w)" and "\<not> nt_lt (snd now) (pw_start w)"
    and k: "k < 86400 - day_secs (snd now) + day_secs (pw_end w)"
  shows "window_active (advance now k) w"
proof -
  let ?s = "day_secs (snd now)"
  obtain D' t' where adv: "advance now k = (D', t')" by (cases "advance now k")
  have f: "nt_frac t' = nt_frac (snd now)"
    using advance_simps(2)[of now k] by (simp add: adv)
  have s: "?s < 86400" and e: "day_secs (pw_end w) < 86400"
    using assms(1,2) day_secs_less by (auto simp: window_wf_def)
  show ?thesis
  proof (cases "?s + k < 86400")
    case True
    with advance_same_day[OF True] assms f show ?thesis
      by (auto simp: adv window_active_def nt_lt_secs)
  next
    case False
    with k s e have b: "86400 \<le> ?s + k" "?s + k < 2 * 86400" by linarith+
    from k s b(1) have "?s + k - 86400 < day_secs (pw_end w)" by linarith
    with advance_next_day[OF b] assms show ?thesis
      by (auto simp: adv window_active_def nt_lt_secs)
  qed
qed

lemma until_end_stays:
  assumes "window_wf w" and "window_active now w" and "nt_lt (snd now) (pw_end w)"
    and "\<not> pw_overnight w \<or> prev_weekday (fst now) \<in> set (pw_days w)"
    and k: "k < day_secs (pw_end w) - day_secs (snd now)"
  shows "window_active (advance now k) w"
proof -
  obtain D' t' where adv: "advance now k = (D', t')" by (cases "advance now k")
  have "day_secs (pw_end w) < 86400"
    using assms(1) day_secs_less by (auto simp: window_wf_def)
  with k have "day_secs (snd now) + k < 86400" by linarith
  from advance_same_day[OF this] advance_simps(2)[of now k] assms k show ?thesis
    by (auto simp: adv window_active_def nt_lt_secs split: prod.splits if_splits)
qed

lemma inactive_loop_None: "inactive_loop now ws = None \<longleftrightarrow> \<not> list_ex (window_active now) ws"
  by (induction now ws rule: inactive_loop.induct) (auto simp: window_active_def)

lemma inactive_loop_Some:
  assumes "list_all window_wf ws" and "nt_wf (snd now)" and "inactive_loop now ws = Some d"
  shows "unat d \<le> 86400 \<and> (\<exists>w \<in> set ws. \<forall>k < unat d. window_active (advance now k) w)"
  using assms
proof (induction ws)
  case (Cons w ws)
  obtain today time where now: "now = (today, time)" by (cases now)
  from Cons.prems have wf: "window_wf w" "nt_wf time" and ws: "list_all window_wf ws"
    by (simp_all add: now)
  have e: "unat (time_to_secs (pw_end w)) = day_secs (pw_end w)" "day_secs (pw_end w) < 86400"
    and t: "unat (time_to_secs time) = day_secs time" "day_secs time < 86400"
    using wf unat_time_to_secs day_secs_less by (auto simp: window_wf_def)
  let ?A = "pw_overnight w \<and> today \<in> set (pw_days w) \<and> \<not> nt_lt time (pw_start w)"
  let ?B = "nt_lt time (pw_end w) \<and> window_active (today, time) w
    \<and> (\<not> pw_overnight w \<or> prev_weekday today \<in> set (pw_days w))"
  have "?A \<or> \<not> ?A \<and> ?B \<or> \<not> window_active (today, time) w"
    by (cases "pw_overnight w") (auto simp: window_active_def)
  then consider (A) ?A | (B) "\<not> ?A" ?B | (C) "\<not> window_active (today, time) w"
    by blast
  then show ?case
  proof cases
    case A
    have "day_secs (pw_end w) \<le> day_secs time"
      using A wf(1) by (auto simp: window_wf_def nt_lt_secs)
    then have "unat (secs_until_midnight time + time_to_secs (pw_end w)) = 86400 - day_secs time + day_secs (pw_end w)"
      and "86400 - day_secs time + day_secs (pw_end w) \<le> 86400"
      using e t unat_secs_until_midnight[OF wf(2)] by (simp_all add: unat_add_u64)
    with A Cons.prems(3) overnight_today_stays[OF wf(1), of "(today, time)"] wf(2) show ?thesis
      by (auto simp: now)
  next
    case B
    have "day_secs time \<le> day_secs (pw_end w)"
      using B by (auto simp: nt_lt_secs)
    then have "unat (time_to_secs (pw_end w) - time_to_secs time) = day_secs (pw_end w) - day_secs time"
      using e t by (simp add: unat_sub_u64)
    moreover have "d = time_to_secs (pw_end w) - time_to_secs time"
      using B Cons.prems(3) by (cases "pw_overnight w") (auto simp: now window_active_def)
    ultimately show ?thesis
      using B until_end_stays[OF wf(1), of "(today, time)"] e by (auto simp: now)
  next
    case C
    then have "inactive_loop now (w # ws) = inactive_loop now ws"
      by (cases "pw_overnight w") (auto simp: now window_active_def)
    with Cons ws show ?thesis
      by auto
  qed
qed simp

section \<open>The next opening\<close>

lemma fold_min_step:
  "fold min_step xs m \<le> m
   \<and> (\<forall>x. Some x \<in> set xs \<longrightarrow> fold min_step xs m \<le> x)
   \<and> (fold min_step xs m = m \<or> Some (fold min_step xs m) \<in> set xs)"
proof (induction xs arbitrary: m)
  case (Cons y ys)
  have y: "min_step y m \<le> m" "\<And>x. y = Some x \<Longrightarrow> min_step y m \<le> x"
    "min_step y m = m \<or> y = Some (min_step y m)"
    by (auto simp: min_step_def split: option.split)
  note IH = Cons.IH[of "min_step y m"]
  from IH y(1) have "fold min_step (y # ys) m \<le> m"
    by (auto intro: order_trans)
  moreover have "fold min_step (y # ys) m \<le> x" if "Some x \<in> set (y # ys)" for x
    using that IH y(2)[of x] by (auto intro: order_trans)
  moreover have "fold min_step (y # ys) m = m \<or> Some (fold min_step (y # ys) m) \<in> set (y # ys)"
    using IH y(3) by auto
  ultimately show ?case by blast
qed simp

lemma next_min_wait_flat:
  "next_min_wait now ws =
   fold min_step (concat (map (\<lambda>w. map (offset_wait now w) [0..<7]) ws)) (- 1)"
proof -
  have "fold (\<lambda>w m. fold (\<lambda>off m. min_step (offset_wait now w off) m) [0..<7] m) ws m =
      fold min_step (concat (map (\<lambda>w. map (offset_wait now w) [0..<7]) ws)) m" for m
    by (induction ws arbitrary: m) (simp_all add: fold_map comp_def del: upt_rec_numeral)
  then show ?thesis
    by (simp add: next_min_wait_def)
qed

lemma offset_wait_value:
  assumes "window_wf w" and "nt_wf (snd now)" and "off < 7" and "offset_wait now w off = Some x"
  shows "day_secs (snd now) + unat x = off * 86400 + day_secs (pw_start w)"
    and "weekday_plus (fst now) off \<in> set (pw_days w)"
proof -
  obtain D t where now: "now = (D, t)" by (cases now)
  have st: "unat (time_to_secs (pw_start w)) = day_secs (pw_start w)" "day_secs (pw_start w) < 86400"
    and t: "unat (time_to_secs t) = day_secs t" "day_secs t < 86400"
      "unat (secs_until_midnight t) = 86400 - day_secs t"
    using assms(1,2) unat_time_to_secs unat_secs_until_midnight day_secs_less
    by (auto simp: window_wf_def now)
  from assms(4) show "weekday_plus (fst now) off \<in> set (pw_days w)"
    by (simp add: offset_wait_def now split: if_splits)
  show "day_secs (snd now) + unat x = off * 86400 + day_secs (pw_start w)"
  proof (cases off)
    case 0
    with assms(4) have "nt_lt t (pw_start w)" "x = time_to_secs (pw_start w) - time_to_secs t"
      by (simp_all add: offset_wait_def now split: if_splits)
    with 0 st t show ?thesis
      by (auto simp: unat_sub_u64 nt_lt_secs now)
  next
    case (Suc p)
    then have x: "x = secs_until_midnight t + word_of_nat (p * 86400) + time_to_secs (pw_start w)"
      using assms(4) by (simp add: offset_wait_def now split: if_splits)
    have p: "p * 86400 \<le> 5 * 86400"
      using assms(3) Suc by simp
    have "unat (word_of_nat (p * 86400) :: u64) = p * 86400"
      by (rule unat_of_nat_u64) (use p in simp)
    with x p st t have "unat x = 86400 - day_secs t + p * 86400 + day_secs (pw_start w)"
      by (simp add: unat_add_u64 del: of_nat_mult)
    with Suc t show ?thesis
      by (simp add: now)
  qed
qed

lemma offset_wait_exists:
  assumes "window_wf w" and "nt_wf (snd now)" and "off < 7"
    and "weekday_plus (fst now) off \<in> set (pw_days w)"
    and "off = 0 \<Longrightarrow> nt_lt (snd now) (pw_start w)"
  obtains x where "offset_wait now w off = Some x"
    and "day_secs (snd now) + unat x = off * 86400 + day_secs (pw_start w)"
proof -
  from assms(4,5) have "offset_wait now w off \<noteq> None"
    by (auto simp: offset_wait_def split: prod.split)
  then obtain x where x: "offset_wait now w off = Some x" by blast
  from that[OF x] offset_wait_value(1)[OF assms(1-3) x] show thesis .
qed

lemma offset_wait_opens:
  assumes "window_wf w" and "nt_wf (snd now)" and "off < 7" and "offset_wait now w off = Some x"
  shows "window_active (advance now (unat x)) w"
proof -
  note v = offset_wait_value[OF assms]
  obtain D' t' where adv: "advance now (unat x) = (D', t')" by (cases "advance now (unat x)")
  have st: "day_secs (pw_start w) < 86400"
    using assms(1) day_secs_less by (auto simp: window_wf_def)
  have "D' = weekday_plus (fst now) off" "day_secs t' = day_secs (pw_start w)"
    using advance_simps(1,3)[of now "unat x"] st by (simp_all add: adv v(1))
  with v(2) assms(1) show ?thesis
    by (auto simp: adv window_active_def window_wf_def nt_lt_secs)
qed

text \<open>Conversely, a window that is closed now and open \<open>k\<close> seconds later, within the week,
  has opened at one of the seven offsets the loop visits.\<close>

lemma opened_by_offset:
  assumes wf: "window_wf w" and now: "nt_wf (snd now)"
    and open': "window_active (advance now k) w" and closed: "\<not> window_active now w"
    and k: "day_secs (snd now) + k < 7 * 86400"
  obtains off x where "off < 7" and "offset_wait now w off = Some x" and "unat x \<le> k"
proof -
  let ?s = "day_secs (snd now)"
  define q r where "q = (?s + k) div 86400" and "r = (?s + k) mod 86400"
  then have qr: "?s + k = q * 86400 + r" "r < 86400" by simp_all
  then have q: "q < 7" using k by linarith
  obtain D t where D: "now = (D, t)" by (cases now)
  obtain D' t' where adv: "advance now k = (D', t')" by (cases "advance now k")
  have t': "D' = weekday_plus D q" "day_secs t' = r" "nt_frac t' = nt_frac t"
    using advance_simps(1-3)[of now k] unfolding adv q_def r_def by (simp_all add: D)
  have same_day: "nt_lt t (pw_end w)" if "q = 0" "nt_lt t' (pw_end w)"
    using that qr by (auto simp: nt_lt_secs t' D)
  have st: "day_secs (pw_start w) < 86400"
    using wf day_secs_less by (auto simp: window_wf_def)
  note found = that
  have use: thesis if o: "o' < 7" "weekday_plus D o' \<in> set (pw_days w)"
      "o' = 0 \<Longrightarrow> nt_lt t (pw_start w)" "o' * 86400 + day_secs (pw_start w) \<le> ?s + k" for o'
  proof -
    obtain x where x: "offset_wait now w o' = Some x" "?s + unat x = o' * 86400 + day_secs (pw_start w)"
      using offset_wait_exists[OF wf now o(1)] o(2,3) by (auto simp: D)
    from x(2) o(4) have "unat x \<le> k" by linarith
    from found[OF o(1) x(1) this] show thesis .
  qed
  show thesis
  proof (cases "D' \<in> set (pw_days w) \<and> \<not> nt_lt t' (pw_start w)
      \<and> (\<not> pw_overnight w \<longrightarrow> nt_lt t' (pw_end w))")
    case True
    then have "day_secs (pw_start w) \<le> r" by (auto simp: nt_lt_secs t')
    moreover have "nt_lt t (pw_start w)" if "q = 0"
      using that True closed same_day
      by (cases "pw_overnight w") (auto simp: window_active_def D t')
    ultimately show thesis
      using use[OF q] True qr t' by auto
  next
    case False
    with open' have ov: "pw_overnight w" "prev_weekday D' \<in> set (pw_days w)" "nt_lt t' (pw_end w)"
      by (auto simp: window_active_def adv split: if_splits)
    with closed same_day have "q \<noteq> 0"
      by (cases "q = 0") (auto simp: window_active_def D t')
    then obtain p where p: "q = Suc p" by (cases q) auto
    with ov have "weekday_plus D p \<in> set (pw_days w)"
      by (simp add: t' prev_weekday_plus_Suc)
    moreover have "nt_lt t (pw_start w)" if "p = 0"
      using that calculation closed ov(1) by (auto simp: window_active_def D)
    ultimately show thesis
      using use[of p] q p qr st by simp
  qed
qed

text \<open>A window that can still open within the seven days the loop visits.\<close>

definition opens_ahead :: "clock \<Rightarrow> parsed_window \<Rightarrow> bool" where
  "opens_ahead now w \<longleftrightarrow>
     list_ex (\<lambda>d. d \<noteq> fst now \<or> nt_lt (snd now) (pw_start w)) (pw_days w)"

lemma opens_ahead_offset:
  assumes "window_wf w" and "nt_wf (snd now)"
  shows "opens_ahead now w \<longleftrightarrow> (\<exists>off < 7. offset_wait now w off \<noteq> None)"
proof
  assume "opens_ahead now w"
  then obtain d where d: "d \<in> set (pw_days w)" "d \<noteq> fst now \<or> nt_lt (snd now) (pw_start w)"
    by (auto simp: opens_ahead_def list_ex_iff)
  define off where "off = (num_days_from_monday d + 7 - num_days_from_monday (fst now)) mod 7"
  have "num_days_from_monday (weekday_plus (fst now) off) = num_days_from_monday d"
    using num_days_less[of d] num_days_less[of "fst now"]
    by (simp add: num_days_weekday_plus off_def mod_add_right_eq)
  then have "weekday_plus (fst now) off = d" by simp
  then show "\<exists>off < 7. offset_wait now w off \<noteq> None"
    using d by (intro exI[of _ off]) (auto simp: off_def offset_wait_def split: prod.split)
next
  assume "\<exists>off < 7. offset_wait now w off \<noteq> None"
  then obtain off where o: "off < 7" "offset_wait now w off \<noteq> None" by blast
  then have "weekday_plus (fst now) off \<in> set (pw_days w)"
    "off = 0 \<Longrightarrow> nt_lt (snd now) (pw_start w)"
    by (auto simp: offset_wait_def split: prod.splits if_splits)
  moreover have "weekday_plus (fst now) off \<noteq> fst now" if "off \<noteq> 0"
    using that o(1) num_days_weekday_plus[of "fst now" off] num_days_less[of "fst now"]
    by (auto simp: mod_eq_dvd_iff_nat mod_if split: if_splits)
  ultimately show "opens_ahead now w"
    by (cases "off = 0") (auto simp: opens_ahead_def list_ex_iff)
qed

lemma next_min_wait_attained:
  assumes "list_all window_wf ws" and "nt_wf (snd now)"
    and "list_ex (opens_ahead now) ws"
  obtains w off where "w \<in> set ws" and "off < 7"
    and "offset_wait now w off = Some (next_min_wait now ws)"
    and "unat (next_min_wait now ws) < 7 * 86400"
proof -
  let ?xs = "concat (map (\<lambda>w. map (offset_wait now w) [0..<7]) ws)"
  have small: "unat x < 7 * 86400" if "Some x \<in> set ?xs" for x
  proof -
    from that obtain w off where w: "w \<in> set ws" "off < 7" "offset_wait now w off = Some x"
      by (auto simp del: upt_rec_numeral)
    then have "window_wf w" using assms(1) by (auto simp: list_all_iff)
    with offset_wait_value(1)[OF this assms(2) w(2,3)] day_secs_less[of "pw_start w"] w(2)
    show ?thesis by (simp add: window_wf_def)
  qed
  obtain w off where "w \<in> set ws" "off < 7" "offset_wait now w off \<noteq> None"
    using assms opens_ahead_offset by (auto simp: list_ex_iff list_all_iff)
  then obtain x where x: "Some x \<in> set ?xs"
    by (auto simp del: upt_rec_numeral simp: image_iff) (metis atLeastLessThan_iff zero_le)
  have "next_min_wait now ws \<le> x"
    using fold_min_step[of ?xs "- 1"] x unfolding next_min_wait_flat by blast
  then have "next_min_wait now ws \<noteq> - 1"
    using small[OF x] by (auto simp: word_le_nat_alt)
  with fold_min_step[of ?xs "- 1"] have "Some (next_min_wait now ws) \<in> set ?xs"
    by (auto simp: next_min_wait_flat simp del: upt_rec_numeral)
  with small[OF this] that show thesis
    by (auto simp del: upt_rec_numeral)
qed

lemma next_min_wait_le:
  assumes "w \<in> set ws" and "off < 7" and "offset_wait now w off = Some x"
  shows "next_min_wait now ws \<le> x"
proof -
  have "Some x \<in> set (concat (map (\<lambda>w. map (offset_wait now w) [0..<7]) ws))"
    using assms by (force simp: image_iff simp del: upt_rec_numeral)
  with fold_min_step show ?thesis
    by (simp add: next_min_wait_flat del: upt_rec_numeral)
qed

section \<open>Properties\<close>

text \<open>Two concrete schedules: Monday and Wednesday evenings until 08:00, and Mondays from 09:00
  to 17:00.\<close>

definition evening_schedule :: schedule where
  "evening_schedule =
     \<lparr>sched_windows =
        [\<lparr>pw_days = [Mon, Wed], pw_start = \<lparr>nt_secs = 79200, nt_frac = 0\<rparr>,
          pw_end = \<lparr>nt_secs = 28800, nt_frac = 0\<rparr>, pw_overnight = True\<rparr>]\<rparr>"

definition past_schedule :: schedule where
  "past_schedule =
     \<lparr>sched_windows =
        [\<lparr>pw_days = [Mon], pw_start = \<lparr>nt_secs = 32400, nt_frac = 0\<rparr>,
          pw_end = \<lparr>nt_secs = 61200, nt_frac = 0\<rparr>, pw_overnight = False\<rparr>]\<rparr>"

lemma from_config_wf:
  assumes "from_config parse_hm config = Some s"
    and "\<And>x t. parse_hm x = Some t \<Longrightarrow> nt_wf t \<and> nt_frac t = 0"
  shows "schedule_wf s"
proof -
  have "window_wf w" if "parse_window parse_hm c = Some w" for c w
    using that assms(2)
    by (auto simp: parse_window_def window_wf_def Let_def split: if_splits option.splits)
  with assms(1) show ?thesis
    by (auto simp: from_config_def schedule_wf_def Let_def list_all_iff List.map_filter_def
        split: if_splits)
qed

text \<open>C33: The schedule is active at a clock reading exactly when some occurrence of some of its
  windows, seen on the calendar, covers that instant: same-day windows on one of their days,
  overnight windows from the start on one of their days to the end on the following one.\<close>

theorem is_active_now_covered:
  assumes "schedule_wf s" and "nt_wf (snd now)"
  shows "is_active_now s now \<longleftrightarrow>
    (\<exists>w \<in> set (sched_windows s). \<exists>d \<in> set (pw_days w). covers w d now)"
  using assms window_active_covers
  by (auto simp: is_active_now_def schedule_wf_def list_ex_iff list_all_iff)

lemma is_active_now_covered_witness:
  "is_active_now evening_schedule (Tue, \<lparr>nt_secs = 100, nt_frac = 7\<rparr>) \<longleftrightarrow>
    (\<exists>w \<in> set (sched_windows evening_schedule). \<exists>d \<in> set (pw_days w).
       covers w d (Tue, \<lparr>nt_secs = 100, nt_frac = 7\<rparr>))"
  by (rule is_active_now_covered; code_simp)

text \<open>There is a remaining duration exactly when the schedule is active; it is at most one
  day, its arithmetic on unsigned integers does not wrap, and the schedule is active at every
  second before it has elapsed.\<close>

theorem duration_until_inactive_stays:
  assumes "schedule_wf s" and "nt_wf (snd now)"
  shows "(duration_until_inactive s now = None \<longleftrightarrow> \<not> is_active_now s now) \<and>
    (\<forall>d. duration_until_inactive s now = Some d \<longrightarrow>
       unat d \<le> 86400 \<and> (\<forall>k < unat d. is_active_now s (advance now k)))"
proof (intro conjI allI impI)
  show "duration_until_inactive s now = None \<longleftrightarrow> \<not> is_active_now s now"
    by (simp add: duration_until_inactive_def is_active_now_def inactive_loop_None)
next
  fix d assume "duration_until_inactive s now = Some d"
  then have *: "unat d \<le> 86400 \<and> (\<exists>w \<in> set (sched_windows s). \<forall>k < unat d. window_active (advance now k) w)"
    using assms inactive_loop_Some[of "sched_windows s" now d]
    by (simp add: duration_until_inactive_def schedule_wf_def)
  from * show "unat d \<le> 86400" by blast
  show "is_active_now s (advance now k)" if "k < unat d" for k
    using that * by (auto simp: is_active_now_def list_ex_iff)
qed

lemma duration_until_inactive_stays_witness:
  "is_active_now evening_schedule (advance (Mon, \<lparr>nt_secs = 80000, nt_frac = 0\<rparr>) 35199)"
proof -
  have "schedule_wf evening_schedule" "nt_wf (snd (Mon, \<lparr>nt_secs = 80000, nt_frac = 0\<rparr>))"
    by code_simp+
  from duration_until_inactive_stays[OF this]
  have "\<forall>k < unat (35200 :: u64).
      is_active_now evening_schedule (advance (Mon, \<lparr>nt_secs = 80000, nt_frac = 0\<rparr>) k)"
    if "duration_until_inactive evening_schedule (Mon, \<lparr>nt_secs = 80000, nt_frac = 0\<rparr>) = Some 35200"
    using that by blast
  moreover have "duration_until_inactive evening_schedule (Mon, \<lparr>nt_secs = 80000, nt_frac = 0\<rparr>) = Some 35200"
    by code_simp
  ultimately show ?thesis
    by simp
qed



text \<open>A schedule all of whose windows are on the current weekday only and have already passed
  is not active for the next six days, and the function answers one hour: the fallback, not the
  distance to next week's opening.\<close>

theorem next_active_fallback:
  assumes "schedule_wf s" and "nt_wf (snd now)" and "\<not> is_active_now s now"
    and "\<not> list_ex (opens_ahead now) (sched_windows s)"
  shows "duration_until_next_active s now now = 3600 \<and>
    (\<forall>k \<le> 518400. \<not> is_active_now s (advance now k))"
proof -
  let ?xs = "concat (map (\<lambda>w. map (offset_wait now w) [0..<7]) (sched_windows s))"
  have none: "offset_wait now w off = None" if "w \<in> set (sched_windows s)" "off < 7" for w off
    using that assms opens_ahead_offset by (auto simp: list_ex_iff schedule_wf_def list_all_iff)
  then have "Some x \<notin> set ?xs" for x
    by (auto simp del: upt_rec_numeral)
  with fold_min_step[of ?xs "- 1"] have "next_min_wait now (sched_windows s) = - 1"
    unfolding next_min_wait_flat by blast
  moreover have "\<not> is_active_now s (advance now k)" if "k \<le> 518400" for k
  proof
    assume "is_active_now s (advance now k)"
    then obtain w where w: "w \<in> set (sched_windows s)" "window_active (advance now k) w"
      by (auto simp: is_active_now_def list_ex_iff)
    have "day_secs (snd now) + k < 7 * 86400"
      using that day_secs_less[OF assms(2)] by simp
    moreover have "window_wf w" "\<not> window_active now w"
      using assms w(1) by (auto simp: schedule_wf_def list_all_iff is_active_now_def list_ex_iff)
    ultimately obtain off x where "off < 7" "offset_wait now w off = Some x"
      using opened_by_offset w(2) assms(2) by metis
    with none w(1) show False by auto
  qed
  ultimately show ?thesis
    using assms(3) by (simp add: duration_until_next_active_def)
qed

lemma next_active_fallback_witness:
  "duration_until_next_active past_schedule (Mon, \<lparr>nt_secs = 70000, nt_frac = 0\<rparr>)
     (Mon, \<lparr>nt_secs = 70000, nt_frac = 0\<rparr>) = 3600 \<and>
   \<not> is_active_now past_schedule (advance (Mon, \<lparr>nt_secs = 70000, nt_frac = 0\<rparr>) 518400)"
proof -
  let ?now = "(Mon, \<lparr>nt_secs = 70000, nt_frac = 0\<rparr>)"
  have "schedule_wf past_schedule" "nt_wf (snd ?now)" "\<not> is_active_now past_schedule ?now"
    "\<not> list_ex (opens_ahead ?now) (sched_windows past_schedule)"
    by code_simp+
  from next_active_fallback[OF this] show ?thesis
    by simp
qed

end
