(* ===== verification/Maps.thy ===== *)
theory Maps
  imports Prelude
begin

text \<open>
  The two map types of Rust's standard library as the sources use them. A \<open>BTreeMap\<close> is the
  association list of its iteration order: keys strictly increasing. A \<open>HashMap\<close> is an
  association list with distinct keys in some order. Both implement one interface, the
  locale \<open>kv_map\<close>; clients prove their lemmas once, in the locale.
\<close>

section \<open>The interface\<close>

locale kv_map =
  fixes lookup :: "'m \<Rightarrow> 'k \<Rightarrow> 'v option"
    and insert :: "'k \<Rightarrow> 'v \<Rightarrow> 'm \<Rightarrow> 'm"
    and delete :: "'k \<Rightarrow> 'm \<Rightarrow> 'm"
    and invar :: "'m \<Rightarrow> bool"
  assumes lookup_insert: "invar m \<Longrightarrow> lookup (insert k v m) = (lookup m)(k \<mapsto> v)"
    and lookup_delete: "invar m \<Longrightarrow> lookup (delete k m) = (lookup m)(k := None)"
    and invar_insert: "invar m \<Longrightarrow> invar (insert k v m)"
    and invar_delete: "invar m \<Longrightarrow> invar (delete k m)"
begin

lemmas map_laws = lookup_insert lookup_delete invar_insert invar_delete

text \<open>A sequence of conditional insertions, the shape in which the sources fill a map from
  optional values.\<close>

lemma invar_insert_some:
  "invar m \<Longrightarrow> invar (fold (\<lambda>(k, ov) m. case ov of None \<Rightarrow> m | Some v \<Rightarrow> insert k v m) kvs m)"
  by (induction kvs arbitrary: m) (auto simp: invar_insert split: option.split)

lemma lookup_insert_some_other:
  "invar m \<Longrightarrow> k \<notin> fst ` set kvs \<Longrightarrow>
   lookup (fold (\<lambda>(k, ov) m. case ov of None \<Rightarrow> m | Some v \<Rightarrow> insert k v m) kvs m) k = lookup m k"
  by (induction kvs arbitrary: m) (auto simp: map_laws split: option.split)

lemma lookup_insert_some:
  assumes "invar m" and "distinct (map fst kvs)"
  shows "lookup (fold (\<lambda>(k, ov) m. case ov of None \<Rightarrow> m | Some v \<Rightarrow> insert k v m) kvs m) k =
    (case map_of kvs k of Some (Some v) \<Rightarrow> Some v | _ \<Rightarrow> lookup m k)"
  using assms
proof (induction kvs arbitrary: m)
  case (Cons kv kvs)
  obtain k' ov where kv: "kv = (k', ov)" by (cases kv)
  from Cons.prems kv have d: "distinct (map fst kvs)" and nk: "k' \<notin> fst ` set kvs"
    by auto
  then have mk: "map_of kvs k' = None"
    by (simp add: map_of_eq_None_iff)
  show ?case
    using Cons.prems(1) Cons.IH[OF Cons.prems(1) d] mk
      Cons.IH[OF invar_insert[OF Cons.prems(1)] d]
    by (cases ov) (auto simp: kv lookup_insert split: option.split)
qed simp

lemma lookup_delete_insert:
  "invar m \<Longrightarrow> lookup m k = None \<Longrightarrow> lookup (delete k (insert k v m)) = lookup m"
  by (auto simp: map_laws fun_eq_iff)

end

section \<open>Sorted association lists: \<open>BTreeMap\<close>\<close>

fun btree_insert :: "'k::linorder \<Rightarrow> 'v \<Rightarrow> ('k \<times> 'v) list \<Rightarrow> ('k \<times> 'v) list" where
  "btree_insert k v [] = [(k, v)]"
| "btree_insert k v ((k', v') # m) =
     (if k < k' then (k, v) # (k', v') # m
      else if k = k' then (k, v) # m
      else (k', v') # btree_insert k v m)"

definition btree_delete :: "'k::linorder \<Rightarrow> ('k \<times> 'v) list \<Rightarrow> ('k \<times> 'v) list" where
  "btree_delete k m = filter (\<lambda>(k', _). k' \<noteq> k) m"

definition btree_wf :: "('k::linorder \<times> 'v) list \<Rightarrow> bool" where
  "btree_wf m \<longleftrightarrow> sorted (map fst m) \<and> distinct (map fst m)"

text \<open>\<open>collect\<close> from an iterator of pairs: insertion in iteration order.\<close>

definition btree_collect :: "('k::linorder \<times> 'v) list \<Rightarrow> ('k \<times> 'v) list" where
  "btree_collect kvs = fold (\<lambda>(k, v) m. btree_insert k v m) kvs []"

lemma set_btree_insert_keys:
  "fst ` set (btree_insert k v m) = insert k (fst ` set m)"
proof (induction m)
  case (Cons kv m)
  then show ?case
    by (cases kv) (simp add: insert_commute)
qed simp

lemma map_of_btree_insert:
  "btree_wf m \<Longrightarrow> map_of (btree_insert k v m) = (map_of m)(k \<mapsto> v)"
proof (induction m)
  case (Cons kv m)
  obtain k' v' where kv: "kv = (k', v')" by (cases kv)
  from Cons.prems kv have "btree_wf m"
    by (auto simp: btree_wf_def)
  note IH = Cons.IH[OF this]
  show ?case
    by (auto simp: kv IH fun_upd_twist)
qed simp

lemma btree_wf_Cons:
  "btree_wf ((k, v) # m) \<longleftrightarrow> (\<forall>k' \<in> fst ` set m. k < k') \<and> btree_wf m"
  by (auto simp: btree_wf_def order.order_iff_strict image_iff)

lemma btree_wf_insert: "btree_wf m \<Longrightarrow> btree_wf (btree_insert k v m)"
proof (induction m)
  case (Cons kv m)
  obtain k' v' where kv: "kv = (k', v')" by (cases kv)
  from Cons.prems kv have wf: "btree_wf m" and lt: "\<forall>k'' \<in> fst ` set m. k' < k''"
    by (auto simp: btree_wf_Cons)
  note IH = Cons.IH[OF wf]
  show ?case
  proof (cases k k' rule: linorder_cases)
    case less
    with lt wf show ?thesis
      by (auto simp: kv btree_wf_Cons intro: less_trans)
  next
    case equal
    with lt wf show ?thesis
      by (auto simp: kv btree_wf_Cons)
  next
    case greater
    with lt IH show ?thesis
      by (auto simp: kv btree_wf_Cons set_btree_insert_keys)
  qed
qed (simp add: btree_wf_def)

lemma btree_wf_delete: "btree_wf m \<Longrightarrow> btree_wf (btree_delete k m)"
  by (induction m) (auto simp: btree_delete_def btree_wf_Cons btree_wf_def)

lemma map_of_btree_delete: "map_of (btree_delete k m) = (map_of m)(k := None)"
  by (induction m) (auto simp: btree_delete_def)

lemma btree_wf_Nil [simp]: "btree_wf []"
  by (simp add: btree_wf_def)

interpretation btree: kv_map "map_of :: ('k::linorder \<times> 'v) list \<Rightarrow> 'k \<Rightarrow> 'v option"
    btree_insert btree_delete btree_wf
  by unfold_locales
    (simp_all add: map_of_btree_insert map_of_btree_delete btree_wf_insert btree_wf_delete)

text \<open>A sorted association list is determined by its lookups.\<close>

lemma btree_ext:
  assumes "btree_wf m" and "btree_wf m'" and "map_of m = map_of m'"
  shows "m = m'"
proof -
  from assms(3) have "set (map fst m) = set (map fst m')"
    by (metis dom_map_of_conv_image_fst list.set_map)
  with assms(1,2) have keys: "map fst m = map fst m'"
    by (auto simp: btree_wf_def intro: sorted_distinct_set_unique)
  from assms(1,2) have d: "distinct (map fst m)" "distinct (map fst m')"
    by (auto simp: btree_wf_def)
  have "map snd n = map (the \<circ> map_of n) (map fst n)" if "distinct (map fst n)"
    for n :: "('a \<times> 'b) list"
    using that by (auto simp: map_of_eq_Some_iff)
  with d keys assms(3) have "map snd m = map snd m'"
    by metis
  with keys show ?thesis
    by (metis zip_map_fst_snd)
qed

lemma btree_wf_collect: "btree_wf (btree_collect kvs)"
proof -
  have "btree_wf m \<Longrightarrow> btree_wf (fold (\<lambda>(k, v) m. btree_insert k v m) kvs m)" for m
    by (induction kvs arbitrary: m) (auto simp: btree_wf_insert)
  then show ?thesis
    by (simp add: btree_collect_def)
qed

lemma map_of_btree_collect:
  assumes "distinct (map fst kvs)"
  shows "map_of (btree_collect kvs) = map_of kvs"
proof -
  have "btree_wf m \<Longrightarrow> distinct (map fst kvs) \<Longrightarrow>
      map_of (fold (\<lambda>(k, v) m. btree_insert k v m) kvs m) = map_of m ++ map_of kvs" for m
  proof (induction kvs arbitrary: m)
    case (Cons kv kvs)
    obtain k v where kv: "kv = (k, v)" by (cases kv)
    from Cons.prems kv have "k \<notin> dom (map_of kvs)"
      by (auto simp: dom_map_of_conv_image_fst)
    then show ?case
      using Cons kv
      by (auto simp: btree_wf_insert map_of_btree_insert fun_eq_iff map_add_def split: option.split)
  qed simp
  from this[OF btree_wf_Nil assms] show ?thesis
    by (simp add: btree_collect_def)
qed

section \<open>Association lists: \<open>HashMap\<close>\<close>

definition hash_delete :: "'k \<Rightarrow> ('k \<times> 'v) list \<Rightarrow> ('k \<times> 'v) list" where
  "hash_delete k m = filter (\<lambda>(k', _). k' \<noteq> k) m"

definition hash_insert :: "'k \<Rightarrow> 'v \<Rightarrow> ('k \<times> 'v) list \<Rightarrow> ('k \<times> 'v) list" where
  "hash_insert k v m = (k, v) # hash_delete k m"

definition hash_wf :: "('k \<times> 'v) list \<Rightarrow> bool" where
  "hash_wf m \<longleftrightarrow> distinct (map fst m)"

lemma map_of_hash_delete: "map_of (hash_delete k m) = (map_of m)(k := None)"
  by (induction m) (auto simp: hash_delete_def)

lemma hash_wf_delete: "hash_wf m \<Longrightarrow> hash_wf (hash_delete k m)"
  by (induction m) (auto simp: hash_wf_def hash_delete_def)

lemma hash_delete_Nil [simp]: "hash_delete k [] = []"
  by (simp add: hash_delete_def)

lemma hash_delete_Cons [simp]:
  "hash_delete k ((k', v) # m) = (if k' = k then hash_delete k m else (k', v) # hash_delete k m)"
  by (simp add: hash_delete_def)

lemma set_hash_delete [simp]: "set (hash_delete k m) = {kv \<in> set m. fst kv \<noteq> k}"
  by (auto simp: hash_delete_def)

interpretation hash: kv_map "map_of :: ('k \<times> 'v) list \<Rightarrow> 'k \<Rightarrow> 'v option"
    hash_insert hash_delete hash_wf
proof unfold_locales
  fix m :: "('k \<times> 'v) list" and k :: 'k and v :: 'v
  assume wf: "hash_wf m"
  then show "map_of (hash_insert k v m) = (map_of m)(k \<mapsto> v)"
    by (auto simp: hash_insert_def map_of_hash_delete)
  from wf show "hash_wf (hash_insert k v m)"
    using hash_wf_delete[OF wf, of k] by (auto simp: hash_insert_def hash_wf_def)
qed (simp_all add: map_of_hash_delete hash_wf_delete)

end
