(* ===== verification/Float64.thy ===== *)
theory Float64
  imports Prelude
begin

text \<open>
  The \<open>f64\<close> arithmetic the provider uses on sizes, page counts and rates: conversion of an
  unsigned integer, division and multiplication of non-negative finite numbers, comparison and
  \<open>clamp\<close>. A non-negative finite number is the quotient of two naturals; every operation
  computes the exact quotient and rounds it to the nearest representable number, ties to even,
  as IEEE-754 prescribes.
\<close>

fun bit_len :: "nat \<Rightarrow> nat" where
  "bit_len n = (if n = 0 then 0 else Suc (bit_len (n div 2)))"

declare bit_len.simps [simp del]

definition f64_inf :: f64 where
  "f64_inf = F64 0x7FF0000000000000"

definition f64_finite_nonneg :: "f64 \<Rightarrow> bool" where
  "f64_finite_nonneg x \<longleftrightarrow> f64_bits x < 0x7FF0000000000000"

text \<open>Numerator and denominator of a non-negative finite number.\<close>

definition f64_ratio :: "f64 \<Rightarrow> nat \<times> nat" where
  "f64_ratio x =
     (let b = unat (f64_bits x); e = b div 2 ^ 52; m = b mod 2 ^ 52
      in if e = 0 then (m, 2 ^ 1074)
         else if e \<ge> 1075 then ((m + 2 ^ 52) * 2 ^ (e - 1075), 1)
         else (m + 2 ^ 52, 2 ^ (1075 - e)))"

text \<open>Round to nearest, ties to even, on naturals.\<close>

definition round_div :: "nat \<Rightarrow> nat \<Rightarrow> nat" where
  "round_div p q =
     (let k = p div q; r = p mod q
      in if 2 * r > q \<or> 2 * r = q \<and> odd k then k + 1 else k)"

text \<open>The biased exponent of a positive quotient, at least that of the subnormal numbers.\<close>

definition f64_expo :: "nat \<Rightarrow> nat \<Rightarrow> nat" where
  "f64_expo p q =
     (let l = int (bit_len p) - int (bit_len q);
          ge = (if l \<ge> 0 then p \<ge> q * 2 ^ nat l else p * 2 ^ nat (- l) \<ge> q);
          e = (if ge then l else l - 1)
      in nat (max 1 (e + 1023)))"

definition f64_pack :: "nat \<Rightarrow> f64" where
  "f64_pack b = (if b \<ge> 0x7FF0000000000000 then f64_inf else F64 (word_of_nat b))"

definition f64_round :: "nat \<Rightarrow> nat \<Rightarrow> f64" where
  "f64_round p q =
     (if p = 0 then F64 0
      else let e = f64_expo p q;
               k = (if e \<le> 1075 then round_div (p * 2 ^ (1075 - e)) q
                    else round_div p (q * 2 ^ (e - 1075)))
        in f64_pack ((e - 1) * 2 ^ 52 + k))"

definition f64_of_nat :: "nat \<Rightarrow> f64" where
  "f64_of_nat n = f64_round n 1"

definition f64_div :: "f64 \<Rightarrow> f64 \<Rightarrow> f64" where
  "f64_div x y = (case (f64_ratio x, f64_ratio y) of ((a, b), (c, d)) \<Rightarrow> f64_round (a * d) (b * c))"

definition f64_mul :: "f64 \<Rightarrow> f64 \<Rightarrow> f64" where
  "f64_mul x y = (case (f64_ratio x, f64_ratio y) of ((a, b), (c, d)) \<Rightarrow> f64_round (a * c) (b * d))"

definition f64_le :: "f64 \<Rightarrow> f64 \<Rightarrow> bool" where
  "f64_le x y \<longleftrightarrow> \<not> f64_is_nan x \<and> \<not> f64_is_nan y \<and> f64_key x \<le> f64_key y"

definition f64_clamp :: "f64 \<Rightarrow> f64 \<Rightarrow> f64 \<Rightarrow> f64" where
  "f64_clamp x lo hi = (if f64_gt lo x then lo else if f64_gt x hi then hi else x)"

lemma f64_clamp_bounds:
  assumes "\<not> f64_is_nan x" "f64_le lo hi"
  shows "f64_le lo (f64_clamp x lo hi) \<and> f64_le (f64_clamp x lo hi) hi"
  using assms by (auto simp: f64_clamp_def f64_gt_def f64_le_def)

lemma f64_pack_not_nan: "\<not> f64_is_nan (f64_pack b)"
proof (cases "b \<ge> 0x7FF0000000000000")
  case False
  then have "unat (word_of_nat b :: u64) = b"
    by (intro unat_of_nat_u64) simp
  moreover have "b mod 2 ^ 63 \<le> b"
    by (rule mod_less_eq_dividend)
  ultimately show ?thesis
    using False by (simp add: f64_is_nan_def f64_pack_def)
qed (simp add: f64_is_nan_def f64_inf_def f64_pack_def)

lemma f64_round_not_nan: "\<not> f64_is_nan (f64_round p q)"
  using f64_pack_not_nan by (simp add: f64_round_def f64_is_nan_def Let_def)

text \<open>Concrete values: 1.0 and 0.75.\<close>

lemma f64_examples:
  "f64_of_nat 1 = F64 0x3FF0000000000000"
  "f64_round 3 4 = F64 0x3FE8000000000000"
  by (simp_all add: f64_of_nat_def f64_round_def f64_expo_def bit_len.simps round_div_def f64_pack_def)

lemma f64_le_zero: "f64_le f64_zero f64_zero"
  by (simp add: f64_le_def f64_zero_def f64_is_nan_def)

lemma f64_le_zero_one: "f64_le f64_zero (f64_of_nat 1)"
  unfolding f64_examples(1) by (simp add: f64_le_def f64_zero_def f64_is_nan_def f64_key_def)

end
