(* ===== verification/Json.thy ===== *)
theory Json
  imports Maps Float64
begin

text \<open>
  JSON documents as \<open>serde_json\<close> builds and reads them. A number is a \<open>u64\<close>, a
  negative integer or a float; an object is the list of its entries in emission order. A
  \<open>RawValue\<close> is text that is emitted verbatim.

  The wire types of the provider derive \<open>Serialize\<close> and \<open>Deserialize\<close>; their
  codecs are pairs of functions between the type and documents that follow the \<open>serde\<close>
  attributes of the source (\<open>default\<close>, \<open>skip_serializing_if\<close>, \<open>tag\<close>,
  \<open>rename_all\<close>). Structures are read from objects: unknown entries are ignored, an entry
  that occurs twice is an error, a missing one is an error unless it is optional or has a default.
  The locale \<open>codec\<close> states that reading undoes writing; its lemmas lift this through
  sequences and through the entries of an object.
\<close>

section \<open>Documents\<close>

datatype jnum = PosInt u64 | NegInt int | Float f64

datatype json =
    JNull
  | JBool bool
  | JNum jnum
  | JStr string
  | JArr "json list"
  | JObj "(string \<times> json) list"
  | JRaw string

text \<open>Accessors of \<open>serde_json::Value\<close>.\<close>

fun json_get :: "string \<Rightarrow> json \<Rightarrow> json option" where
  "json_get k (JObj kvs) = map_of kvs k"
| "json_get k _ = None"

fun json_as_str :: "json \<Rightarrow> string option" where
  "json_as_str (JStr s) = Some s"
| "json_as_str _ = None"

fun json_as_bool :: "json \<Rightarrow> bool option" where
  "json_as_bool (JBool b) = Some b"
| "json_as_bool _ = None"

fun json_as_u64 :: "json \<Rightarrow> u64 option" where
  "json_as_u64 (JNum (PosInt n)) = Some n"
| "json_as_u64 _ = None"

fun json_as_i64 :: "json \<Rightarrow> u64 option" where
  "json_as_i64 (JNum (PosInt n)) = (if n < 2 ^ 63 then Some n else None)"
| "json_as_i64 (JNum (NegInt i)) = Some (word_of_int i)"
| "json_as_i64 _ = None"

definition f64_of_int :: "int \<Rightarrow> f64" where
  "f64_of_int i =
     (if i \<ge> 0 then f64_of_nat (nat i)
      else F64 (2 ^ 63 + f64_bits (f64_of_nat (nat (- i)))))"

fun json_as_f64 :: "json \<Rightarrow> f64 option" where
  "json_as_f64 (JNum (PosInt n)) = Some (f64_of_nat (unat n))"
| "json_as_f64 (JNum (NegInt i)) = Some (f64_of_int i)"
| "json_as_f64 (JNum (Float x)) = Some x"
| "json_as_f64 _ = None"

fun json_as_array :: "json \<Rightarrow> json list option" where
  "json_as_array (JArr xs) = Some xs"
| "json_as_array _ = None"

fun json_as_object :: "json \<Rightarrow> (string \<times> json) list option" where
  "json_as_object (JObj kvs) = Some kvs"
| "json_as_object _ = None"

text \<open>\<open>v.get(k).and_then(as)\<close>\<close>

definition json_get_as :: "(json \<Rightarrow> 'a option) \<Rightarrow> string \<Rightarrow> json \<Rightarrow> 'a option" where
  "json_get_as conv k v = Option.bind (json_get k v) conv"

section \<open>Codecs\<close>

locale codec =
  fixes enc :: "'a \<Rightarrow> json"
    and dec :: "json \<Rightarrow> 'a option"
    and ok :: "'a \<Rightarrow> bool"
  assumes dec_enc: "ok x \<Longrightarrow> dec (enc x) = Some x"

text \<open>Entries of an object.\<close>

definition obj_entries :: "string \<Rightarrow> (string \<times> json) list \<Rightarrow> json list" where
  "obj_entries k kvs = map snd (filter (\<lambda>kv. fst kv = k) kvs)"

definition field_req :: "(json \<Rightarrow> 'a option) \<Rightarrow> string \<Rightarrow> (string \<times> json) list \<Rightarrow> 'a option" where
  "field_req dec k kvs = (case obj_entries k kvs of [v] \<Rightarrow> dec v | _ \<Rightarrow> None)"

definition field_opt :: "(json \<Rightarrow> 'a option) \<Rightarrow> string \<Rightarrow> (string \<times> json) list \<Rightarrow> 'a option option" where
  "field_opt dec k kvs =
     (case obj_entries k kvs of
        [] \<Rightarrow> Some None
      | [v] \<Rightarrow> if v = JNull then Some None else map_option Some (dec v)
      | _ \<Rightarrow> None)"

definition field_default :: "'a \<Rightarrow> (json \<Rightarrow> 'a option) \<Rightarrow> string \<Rightarrow> (string \<times> json) list \<Rightarrow> 'a option" where
  "field_default d dec k kvs = (case obj_entries k kvs of [] \<Rightarrow> Some d | [v] \<Rightarrow> dec v | _ \<Rightarrow> None)"

text \<open>\<open>skip_serializing_if = "Option::is_none"\<close>, and the plain encoding of an option.\<close>

definition skip_none :: "('a \<Rightarrow> json) \<Rightarrow> string \<Rightarrow> 'a option \<Rightarrow> (string \<times> json) list" where
  "skip_none enc k ov = (case ov of None \<Rightarrow> [] | Some v \<Rightarrow> [(k, enc v)])"

definition enc_option :: "('a \<Rightarrow> json) \<Rightarrow> 'a option \<Rightarrow> json" where
  "enc_option enc ov = (case ov of None \<Rightarrow> JNull | Some v \<Rightarrow> enc v)"

definition skip_if :: "('a \<Rightarrow> bool) \<Rightarrow> ('a \<Rightarrow> json) \<Rightarrow> string \<Rightarrow> 'a \<Rightarrow> (string \<times> json) list" where
  "skip_if p enc k v = (if p v then [] else [(k, enc v)])"

definition is_empty :: "'a list \<Rightarrow> bool" where
  "is_empty xs \<longleftrightarrow> xs = []"

fun dec_list :: "(json \<Rightarrow> 'a option) \<Rightarrow> json \<Rightarrow> 'a list option" where
  "dec_list dec (JArr xs) = those (map dec xs)"
| "dec_list dec _ = None"

definition enc_list :: "('a \<Rightarrow> json) \<Rightarrow> 'a list \<Rightarrow> json" where
  "enc_list enc xs = JArr (map enc xs)"

text \<open>A \<open>HashMap<String, T>\<close>: repeated keys overwrite.\<close>

definition enc_map :: "('a \<Rightarrow> json) \<Rightarrow> (string \<times> 'a) list \<Rightarrow> json" where
  "enc_map enc m = JObj (map (\<lambda>(k, v). (k, enc v)) m)"

lemma obj_entries_Nil [simp]: "obj_entries k [] = []"
  by (simp add: obj_entries_def)

lemma obj_entries_Cons [simp]:
  "obj_entries k ((k', v) # kvs) = (if k' = k then v # obj_entries k kvs else obj_entries k kvs)"
  by (simp add: obj_entries_def)

lemma obj_entries_append [simp]: "obj_entries k (xs @ ys) = obj_entries k xs @ obj_entries k ys"
  by (simp add: obj_entries_def)

lemma obj_entries_skip_none [simp]:
  "obj_entries k (skip_none enc k' ov) = (if k' = k then (case ov of None \<Rightarrow> [] | Some v \<Rightarrow> [enc v]) else [])"
  by (simp add: skip_none_def split: option.split)

lemma obj_entries_skip_if [simp]:
  "obj_entries k (skip_if p enc k' v) = (if k' = k \<and> \<not> p v then [enc v] else [])"
  by (simp add: skip_if_def)

context codec
begin

lemma field_req_enc: "ok x \<Longrightarrow> obj_entries k kvs = [enc x] \<Longrightarrow> field_req dec k kvs = Some x"
  by (simp add: field_req_def dec_enc)

lemma field_opt_enc:
  assumes "pred_option ok ov" and "\<And>x. enc x \<noteq> JNull"
    and "obj_entries k kvs = (case ov of None \<Rightarrow> [] | Some v \<Rightarrow> [enc v])"
  shows "field_opt dec k kvs = Some ov"
  using assms by (cases ov) (simp_all add: field_opt_def dec_enc)

lemma field_opt_null:
  assumes "pred_option ok ov" and "\<And>x. enc x \<noteq> JNull" and "obj_entries k kvs = [enc_option enc ov]"
  shows "field_opt dec k kvs = Some ov"
  using assms by (cases ov) (simp_all add: field_opt_def dec_enc enc_option_def)

lemma field_default_enc:
  assumes "ok x" and "obj_entries k kvs = (if \<not> p x then [enc x] else [])" and "p x \<Longrightarrow> x = d"
  shows "field_default d dec k kvs = Some x"
  using assms by (auto simp: field_default_def dec_enc)

lemma default_case:
  "ok x \<Longrightarrow> (p \<Longrightarrow> x = d) \<Longrightarrow>
   (case (if \<not> p then [enc x] else []) of [] \<Rightarrow> Some d | [v] \<Rightarrow> dec v | _ # _ # _ \<Rightarrow> None) = Some x"
  by (simp add: dec_enc)

lemma dec_list_enc: "list_all ok xs \<Longrightarrow> dec_list dec (enc_list enc xs) = Some xs"
  by (induction xs) (simp_all add: enc_list_def dec_enc)

end

section \<open>Scalars\<close>

definition enc_string :: "string \<Rightarrow> json" where "enc_string s = JStr s"
definition enc_bool :: "bool \<Rightarrow> json" where "enc_bool b = JBool b"
definition enc_u64 :: "u64 \<Rightarrow> json" where "enc_u64 n = JNum (PosInt n)"
definition enc_u32 :: "u32 \<Rightarrow> json" where "enc_u32 n = JNum (PosInt (ucast n))"
definition enc_u16 :: "u16 \<Rightarrow> json" where "enc_u16 n = JNum (PosInt (ucast n))"

definition enc_i64 :: "u64 \<Rightarrow> json" where
  "enc_i64 n = JNum (if sint n < 0 then NegInt (sint n) else PosInt n)"

text \<open>A float that is not finite is written as \<open>null\<close>.\<close>

definition f64_is_finite :: "f64 \<Rightarrow> bool" where
  "f64_is_finite x \<longleftrightarrow> unat (f64_bits x) mod 2 ^ 63 < 0x7FF0000000000000"

definition enc_f64 :: "f64 \<Rightarrow> json" where
  "enc_f64 x = (if f64_is_finite x then JNum (Float x) else JNull)"

fun dec_u32 :: "json \<Rightarrow> u32 option" where
  "dec_u32 (JNum (PosInt n)) = (if n < 2 ^ 32 then Some (ucast n) else None)"
| "dec_u32 _ = None"

interpretation string_codec: codec enc_string json_as_str "\<lambda>_. True"
  by unfold_locales (simp add: enc_string_def)

interpretation bool_codec: codec enc_bool json_as_bool "\<lambda>_. True"
  by unfold_locales (simp add: enc_bool_def)

interpretation u64_codec: codec enc_u64 json_as_u64 "\<lambda>_. True"
  by unfold_locales (simp add: enc_u64_def)

interpretation f64_codec: codec enc_f64 json_as_f64 f64_is_finite
  by unfold_locales (simp add: enc_f64_def)

lemma enc_string_not_null: "enc_string s \<noteq> JNull"
  by (simp add: enc_string_def)

end
