(* ===== verification/FloatArith.thy ===== *)
theory FloatArith
  imports Float64
begin

text \<open>
  Addition and subtraction of \<open>f64\<close>, signs, infinities and NaN included. A finite sum is the
  exact sum, rounded once to the nearest representable number. On whole numbers below \<open>2 ^ 53\<close>
  the operations and comparisons are those of the naturals.
\<close>

definition f64_negative :: "f64 \<Rightarrow> bool" where
  "f64_negative x \<longleftrightarrow> unat (f64_bits x) \<ge> 2 ^ 63"

definition f64_abs :: "f64 \<Rightarrow> f64" where
  "f64_abs x = F64 (word_of_nat (unat (f64_bits x) mod 2 ^ 63))"

definition f64_neg :: "f64 \<Rightarrow> f64" where
  "f64_neg x = F64 (f64_bits x + 0x8000000000000000)"

definition f64_infinite :: "f64 \<Rightarrow> bool" where
  "f64_infinite x \<longleftrightarrow> unat (f64_bits x) mod 2 ^ 63 = 0x7FF0000000000000"

definition f64_nan :: f64 where
  "f64_nan = F64 0x7FF8000000000000"

definition signed_num :: "f64 \<Rightarrow> int" where
  "signed_num x = (let n = int (fst (f64_ratio (f64_abs x))) in if f64_negative x then - n else n)"

definition f64_add :: "f64 \<Rightarrow> f64 \<Rightarrow> f64" where
  "f64_add x y =
     (if f64_is_nan x \<or> f64_is_nan y then f64_nan
      else if f64_infinite x then (if f64_infinite y \<and> f64_negative x \<noteq> f64_negative y then f64_nan else x)
      else if f64_infinite y then y
      else let b = snd (f64_ratio (f64_abs x)); d = snd (f64_ratio (f64_abs y));
               n = signed_num x * int d + signed_num y * int b
        in if n = 0 then (if f64_negative x \<and> f64_negative y then f64_neg f64_zero else f64_zero)
           else if n < 0 then f64_neg (f64_round (nat (- n)) (b * d))
           else f64_round (nat n) (b * d))"

definition f64_sub :: "f64 \<Rightarrow> f64 \<Rightarrow> f64" where
  "f64_sub x y = f64_add x (f64_neg y)"

text \<open>\<open>Iterator::sum\<close>, which starts from negative zero.\<close>

definition f64_sum :: "f64 list \<Rightarrow> f64" where
  "f64_sum xs = foldl f64_add (f64_neg f64_zero) xs"

section \<open>Whole numbers\<close>

lemma bit_len_pos: "0 < n \<Longrightarrow> 0 < bit_len n"
  by (subst bit_len.simps) simp

lemma bit_len_le: "0 < n \<Longrightarrow> 2 ^ (bit_len n - 1) \<le> n"
proof (induction n rule: bit_len.induct)
  case (1 n)
  show ?case
  proof (cases "n div 2 = 0")
    case True
    with 1 have "bit_len n = Suc (bit_len 0)" by (subst bit_len.simps) simp
    then show ?thesis using 1 by (simp add: bit_len.simps)
  next
    case False
    with 1 have IH: "2 ^ (bit_len (n div 2) - 1) \<le> n div 2" by simp
    have "bit_len n = Suc (bit_len (n div 2))" using 1 by (subst bit_len.simps) simp
    moreover have "0 < bit_len (n div 2)" using False by (intro bit_len_pos) simp
    ultimately have "2 ^ (bit_len n - 1) = 2 * (2 ^ (bit_len (n div 2) - 1) :: nat)"
      by (simp add: power_eq_if)
    with IH show ?thesis by linarith
  qed
qed

lemma less_bit_len: "n < 2 ^ bit_len n"
proof (induction n rule: bit_len.induct)
  case (1 n)
  show ?case
  proof (cases "n = 0")
    case False
    with 1 have "n div 2 < 2 ^ bit_len (n div 2)" by simp
    moreover have "bit_len n = Suc (bit_len (n div 2))" using False by (subst bit_len.simps) simp
    ultimately show ?thesis by simp
  qed (simp add: bit_len.simps)
qed

lemma bit_len_shift: "0 < n \<Longrightarrow> bit_len (n * 2 ^ j) = bit_len n + j"
proof (induction j)
  case (Suc j)
  have "bit_len (n * 2 ^ Suc j) = Suc (bit_len (n * 2 ^ Suc j div 2))"
    using Suc.prems by (subst bit_len.simps) simp
  with Suc show ?case by simp
qed simp

lemma bit_len_bound: "n < 2 ^ k \<Longrightarrow> bit_len n \<le> k"
proof (rule ccontr)
  assume n: "n < 2 ^ k" and k: "\<not> bit_len n \<le> k"
  then have "0 < n" by (cases n) (simp_all add: bit_len.simps)
  then have "2 ^ (bit_len n - 1) \<le> n" by (rule bit_len_le)
  moreover have "(2 :: nat) ^ k \<le> 2 ^ (bit_len n - 1)" using k by (intro power_increasing) simp_all
  ultimately show False using n by linarith
qed

text \<open>The bit pattern of a whole number.\<close>

definition whole_bits :: "nat \<Rightarrow> nat" where
  "whole_bits n = (if n = 0 then 0 else (bit_len n + 1021) * 2 ^ 52 + n * 2 ^ (53 - bit_len n))"

lemma mantissa_bounds:
  assumes "0 < n" "n < 2 ^ 53"
  shows "2 ^ 52 \<le> n * 2 ^ (53 - bit_len n) \<and> n * 2 ^ (53 - bit_len n) < 2 ^ 53"
proof -
  have l: "bit_len n \<le> 53" "0 < bit_len n" using bit_len_bound[OF assms(2)] bit_len_pos[OF assms(1)] by simp_all
  have a: "(2 :: nat) ^ 52 = 2 ^ (bit_len n - 1) * 2 ^ (53 - bit_len n)"
    and b: "(2 :: nat) ^ 53 = 2 ^ bit_len n * 2 ^ (53 - bit_len n)"
    using l unfolding power_add[symmetric] by (auto intro!: arg_cong[where f = "\<lambda>k. 2 ^ k"])
  show ?thesis
    using bit_len_le[OF assms(1)] less_bit_len[of n] unfolding a b by simp
qed

lemma f64_round_shift:
  assumes "n < 2 ^ 53"
  shows "f64_round (n * 2 ^ j) (2 ^ j) = F64 (word_of_nat (whole_bits n)) \<and> whole_bits n < 0x7FF0000000000000"
proof (cases "n = 0")
  case False
  then have n: "0 < n" by simp
  have l: "bit_len n \<le> 53" "0 < bit_len n" using bit_len_bound[OF assms] bit_len_pos[OF n] by simp_all
  have q: "bit_len (2 ^ j) = Suc j" using bit_len_shift[of 1 j] by (simp add: bit_len.simps)
  have le: "2 ^ j * 2 ^ (bit_len n - 1) \<le> n * 2 ^ j" using bit_len_le[OF n] by simp
  obtain m where m: "bit_len n = Suc m" using l by (cases "bit_len n") simp_all
  have "f64_expo (n * 2 ^ j) (2 ^ j) = Suc m + 1022"
    using le unfolding f64_expo_def bit_len_shift[OF n] q m by (simp add: nat_add_distrib)
  then have e: "f64_expo (n * 2 ^ j) (2 ^ j) = bit_len n + 1022" by (simp add: m)
  have s: "1075 - (bit_len n + 1022) = 53 - bit_len n" by simp
  have k: "round_div (n * 2 ^ j * 2 ^ (53 - bit_len n)) (2 ^ j) = n * 2 ^ (53 - bit_len n)"
    by (simp add: round_div_def mult.assoc mult.left_commute[of n])
  have "(bit_len n + 1021) * 2 ^ 52 \<le> 1074 * 2 ^ 52" using l by simp
  then have small: "whole_bits n < 0x7FF0000000000000"
    using mantissa_bounds[OF n assms] n by (simp add: whole_bits_def)
  have "f64_round (n * 2 ^ j) (2 ^ j) = f64_pack (whole_bits n)"
    using n l unfolding f64_round_def e Let_def s k by (simp add: whole_bits_def add.commute)
  with small show ?thesis by (simp add: f64_pack_def)
qed (simp add: f64_round_def whole_bits_def)

lemma f64_of_nat_bits:
  assumes "n < 2 ^ 53"
  shows "f64_of_nat n = F64 (word_of_nat (whole_bits n))" "unat (f64_bits (f64_of_nat n)) = whole_bits n"
    "whole_bits n < 0x7FF0000000000000"
proof -
  show a: "f64_of_nat n = F64 (word_of_nat (whole_bits n))" and b: "whole_bits n < 0x7FF0000000000000"
    using f64_round_shift[OF assms, of 0] by (simp_all add: f64_of_nat_def)
  show "unat (f64_bits (f64_of_nat n)) = whole_bits n"
    using b by (simp add: a unat_of_nat_u64)
qed

lemma whole_regular:
  assumes "n < 2 ^ 53"
  shows "\<not> f64_is_nan (f64_of_nat n)" "\<not> f64_infinite (f64_of_nat n)" "\<not> f64_negative (f64_of_nat n)"
    "f64_abs (f64_of_nat n) = f64_of_nat n" "f64_key (f64_of_nat n) = int (whole_bits n)"
  using f64_of_nat_bits[OF assms]
  by (simp_all add: f64_is_nan_def f64_infinite_def f64_negative_def f64_abs_def f64_key_def Let_def)

lemma whole_ratio:
  assumes "n < 2 ^ 53"
  shows "\<exists>j. f64_ratio (f64_of_nat n) = (n * 2 ^ j, 2 ^ j)"
proof (cases "n = 0")
  case True
  have "f64_ratio (f64_of_nat 0) = (0 * 2 ^ 1074, 2 ^ 1074)"
    by (simp add: f64_of_nat_def f64_round_def f64_ratio_def)
  with True show ?thesis by blast
next
  case False
  then have n: "0 < n" by simp
  have l: "bit_len n \<le> 53" "0 < bit_len n" using bit_len_bound[OF assms] bit_len_pos[OF n] by simp_all
  let ?k = "n * 2 ^ (53 - bit_len n)"
  have k: "2 ^ 52 \<le> ?k" "?k < 2 ^ 53" using mantissa_bounds[OF n assms] by simp_all
  have w: "whole_bits n = (bit_len n + 1022) * 2 ^ 52 + (?k - 2 ^ 52)"
    using k n by (simp add: whole_bits_def)
  have m: "?k - 2 ^ 52 < 2 ^ 52" using k by simp
  have e: "whole_bits n div 2 ^ 52 = bit_len n + 1022" "whole_bits n mod 2 ^ 52 = ?k - 2 ^ 52"
    using m unfolding w by (simp_all only: div_mult_self3 mod_mult_self3 mod_less div_less power_not_zero)
      simp_all
  have s: "1075 - (bit_len n + 1022) = 53 - bit_len n" by simp
  show ?thesis
  proof (cases "bit_len n = 53")
    case True
    then show ?thesis
      using k unfolding f64_ratio_def f64_of_nat_bits(2)[OF assms] Let_def e s
      by (intro exI[of _ 0]) simp
  next
    case False
    then show ?thesis
      using k l unfolding f64_ratio_def f64_of_nat_bits(2)[OF assms] Let_def e s
      by (intro exI[of _ "53 - bit_len n"]) simp
  qed
qed

lemma f64_add_whole:
  assumes "a + b < 2 ^ 53"
  shows "f64_add (f64_of_nat a) (f64_of_nat b) = f64_of_nat (a + b)"
proof -
  have a: "a < 2 ^ 53" and b: "b < 2 ^ 53" using assms by simp_all
  obtain i where i: "f64_ratio (f64_of_nat a) = (a * 2 ^ i, 2 ^ i)" using whole_ratio[OF a] by blast
  obtain j where j: "f64_ratio (f64_of_nat b) = (b * 2 ^ j, 2 ^ j)" using whole_ratio[OF b] by blast
  have n: "int (a * 2 ^ i) * int (2 ^ j) + int (b * 2 ^ j) * int (2 ^ i) = int ((a + b) * 2 ^ (i + j))"
    by (simp add: power_add algebra_simps)
  have z: "f64_zero = f64_of_nat 0" by (simp add: f64_of_nat_def f64_round_def f64_zero_def)
  show ?thesis
    using f64_round_shift[OF assms, of "i + j"] f64_of_nat_bits(1)[OF assms]
    unfolding f64_add_def signed_num_def whole_regular(4)[OF a] whole_regular(4)[OF b] i j
    by (simp add: whole_regular[OF a] whole_regular[OF b] n z power_add Let_def whole_bits_def[of 0] f64_of_nat_def[of 0]
        f64_round_def[of 0] f64_negative_def[of "F64 0"] del: of_nat_mult of_nat_add of_nat_power)
qed

lemma whole_negated:
  assumes "n < 2 ^ 53"
  shows "\<not> f64_is_nan (f64_neg (f64_of_nat n))" "\<not> f64_infinite (f64_neg (f64_of_nat n))"
    "f64_negative (f64_neg (f64_of_nat n))" "f64_abs (f64_neg (f64_of_nat n)) = f64_of_nat n"
proof -
  have u: "unat (f64_bits (f64_neg (f64_of_nat n))) = whole_bits n + 2 ^ 63"
    using f64_of_nat_bits[OF assms] by (simp add: f64_neg_def unat_add_u64)
  have m: "(whole_bits n + 2 ^ 63) mod 2 ^ 63 = whole_bits n"
    using f64_of_nat_bits(3)[OF assms] by simp
  show "\<not> f64_is_nan (f64_neg (f64_of_nat n))" "\<not> f64_infinite (f64_neg (f64_of_nat n))"
    "f64_negative (f64_neg (f64_of_nat n))" "f64_abs (f64_neg (f64_of_nat n)) = f64_of_nat n"
    using f64_of_nat_bits[OF assms] unfolding f64_is_nan_def f64_infinite_def f64_negative_def f64_abs_def u m
    by simp_all
qed

lemma f64_sub_whole:
  assumes "a < 2 ^ 53" "b \<le> a"
  shows "f64_sub (f64_of_nat a) (f64_of_nat b) = f64_of_nat (a - b)"
proof -
  have b: "b < 2 ^ 53" and d: "a - b < 2 ^ 53" using assms by simp_all
  obtain i where i: "f64_ratio (f64_of_nat a) = (a * 2 ^ i, 2 ^ i)" using whole_ratio[OF assms(1)] by blast
  obtain j where j: "f64_ratio (f64_of_nat b) = (b * 2 ^ j, 2 ^ j)" using whole_ratio[OF b] by blast
  have n: "int (a * 2 ^ i) * int (2 ^ j) + (- int (b * 2 ^ j)) * int (2 ^ i) = int ((a - b) * 2 ^ (i + j))"
    using assms(2) by (simp add: power_add algebra_simps of_nat_diff)
  have z: "f64_zero = f64_of_nat 0" by (simp add: f64_of_nat_def f64_round_def f64_zero_def)
  show ?thesis
  proof (cases "a = b")
    case True
    with n show ?thesis
      unfolding f64_sub_def f64_add_def signed_num_def whole_regular(4)[OF assms(1)] whole_negated(4)[OF b] i j
      by (simp add: whole_regular[OF b] whole_negated[OF b] z Let_def)
  next
    case False
    with assms have "0 < (a - b) * 2 ^ (i + j)" by simp
    then have "0 < int ((a - b) * 2 ^ (i + j))" by (simp only: of_nat_0_less_iff)
    moreover from this n have "int (a * 2 ^ i) * int (2 ^ j) \<noteq> int (b * 2 ^ j) * int (2 ^ i)" by linarith
    ultimately show ?thesis
      using n f64_round_shift[OF d, of "i + j"] f64_of_nat_bits(1)[OF d]
      unfolding f64_sub_def f64_add_def signed_num_def whole_regular(4)[OF assms(1)] whole_negated(4)[OF b] i j
      by (simp add: whole_regular[OF assms(1)] whole_negated[OF b] n power_add Let_def
          del: of_nat_mult of_nat_add of_nat_power)
  qed
qed

lemma f64_add_from_zero:
  assumes "a < 2 ^ 53"
  shows "f64_add (f64_neg f64_zero) (f64_of_nat a) = f64_of_nat a"
proof -
  obtain i where i: "f64_ratio (f64_of_nat a) = (a * 2 ^ i, 2 ^ i)" using whole_ratio[OF assms] by blast
  have z: "f64_zero = f64_of_nat 0" by (simp add: f64_of_nat_def f64_round_def f64_zero_def)
  have r: "f64_ratio (f64_of_nat 0) = (0, 2 ^ 1074)"
    by (simp add: f64_of_nat_def f64_round_def f64_ratio_def)
  have p: "int (a * 2 ^ i) * int (2 ^ 1074) = int (a * 2 ^ (i + 1074))" by (simp add: power_add)
  have q: "2 ^ 1074 * (2 :: nat) ^ i = 2 ^ (i + 1074)" by (simp add: power_add)
  have f: "f64_round (a * 2 ^ (i + 1074)) (2 ^ (i + 1074)) = f64_of_nat a"
    using f64_round_shift[OF assms, of "i + 1074"] f64_of_nat_bits(1)[OF assms] by simp
  show ?thesis
    unfolding z f64_add_def signed_num_def whole_regular(4)[OF assms] whole_negated(4)[of 0, simplified] i r fst_conv snd_conv
    by (simp add: whole_regular[OF assms] whole_regular[of 0, simplified] whole_negated[of 0, simplified] p q f Let_def
        del: of_nat_mult of_nat_add of_nat_power power_numeral)
qed

lemma foldl_add_whole:
  "a + sum_list ns < 2 ^ 53 \<Longrightarrow> foldl f64_add (f64_of_nat a) (map f64_of_nat ns) = f64_of_nat (a + sum_list ns)"
  by (induction ns arbitrary: a) (simp_all add: f64_add_whole ac_simps)

lemma f64_sum_whole:
  assumes "sum_list ns < 2 ^ 53"
  shows "f64_sum (map f64_of_nat ns) = (if ns = [] then f64_neg f64_zero else f64_of_nat (sum_list ns))"
proof (cases ns)
  case (Cons n ms)
  then show ?thesis
    using assms foldl_add_whole[of n ms] by (simp add: f64_sum_def f64_add_from_zero)
qed (simp add: f64_sum_def)

lemma whole_bits_mono:
  assumes "a < b" "b < 2 ^ 53"
  shows "whole_bits a < whole_bits b"
proof (cases "a = 0")
  case True
  then show ?thesis using assms by (simp add: whole_bits_def)
next
  case False
  then have a: "0 < a" and b: "0 < b" using assms by simp_all
  have l: "bit_len a \<le> bit_len b"
  proof (rule ccontr)
    assume "\<not> ?thesis"
    then have "(2 :: nat) ^ bit_len b \<le> 2 ^ (bit_len a - 1)" by (intro power_increasing) simp_all
    then show False using bit_len_le[OF a] less_bit_len[of b] assms by linarith
  qed
  show ?thesis
  proof (cases "bit_len a = bit_len b")
    case True
    then show ?thesis using assms a by (simp add: whole_bits_def)
  next
    case False
    then have "(bit_len a + 1021 + 1) * 2 ^ 52 \<le> (bit_len b + 1021) * 2 ^ 52"
      using l by (intro mult_le_mono1) simp
    moreover have "a * 2 ^ (53 - bit_len a) < 2 ^ 53" "2 ^ 52 \<le> b * 2 ^ (53 - bit_len b)"
      using mantissa_bounds[of a] mantissa_bounds[of b] a b assms by simp_all
    ultimately show ?thesis using a b by (simp add: whole_bits_def)
  qed
qed

lemma f64_le_whole:
  assumes "a < 2 ^ 53" "b < 2 ^ 53"
  shows "f64_le (f64_of_nat a) (f64_of_nat b) \<longleftrightarrow> a \<le> b"
  using whole_bits_mono[of a b] whole_bits_mono[of b a] assms
  by (cases a b rule: linorder_cases) (simp_all add: f64_le_def whole_regular)

end
