(* ===== verification/FloatParse.thy ===== *)
theory FloatParse
  imports FloatArith
begin

text \<open>
  Reading an \<open>f64\<close> from decimal text as \<open>str::parse\<close> does: an optional sign, then a name of an infinity or
  of NaN in any case, or digits with an optional point and exponent. The value is the exact decimal
  rounded once to the nearest representable number. Division by a positive finite number, with the sign,
  infinity or NaN of the dividend.
\<close>

section \<open>Definitions\<close>

definition is_digit :: "char \<Rightarrow> bool" where
  "is_digit c \<longleftrightarrow> digit_val c \<noteq> None"

definition strip_sign :: "string \<Rightarrow> bool \<times> string" where
  "strip_sign s =
     (case s of
        [] \<Rightarrow> (False, [])
      | c # cs \<Rightarrow> if c = CHR ''-'' then (True, cs) else if c = CHR ''+'' then (False, cs) else (False, s))"

definition with_sign :: "bool \<Rightarrow> f64 \<Rightarrow> f64" where
  "with_sign neg x = (if neg then f64_neg x else x)"

text \<open>The decimal \<open>n * 10 ^ e\<close>.\<close>

definition f64_decimal :: "nat \<Rightarrow> int \<Rightarrow> f64" where
  "f64_decimal n e = (if e \<ge> 0 then f64_round (n * 10 ^ nat e) 1 else f64_round n (10 ^ nat (- e)))"

definition parse_exponent :: "string \<Rightarrow> int option" where
  "parse_exponent s =
     (case s of
        [] \<Rightarrow> Some 0
      | c # cs \<Rightarrow>
          if ascii_lower c = CHR ''e'' then
            (case strip_sign cs of
               (neg, ds) \<Rightarrow> if ds = [] then None
                            else map_option (\<lambda>n. if neg then - int n else int n) (parse_digits 0 ds))
          else None)"

definition parse_number :: "string \<Rightarrow> f64 option" where
  "parse_number s =
     (let whole = takeWhile is_digit s; rest = dropWhile is_digit s;
          (part, exponent) = (case rest of
              [] \<Rightarrow> ([], [])
            | c # cs \<Rightarrow> if c = CHR ''.'' then (takeWhile is_digit cs, dropWhile is_digit cs) else ([], rest))
      in if whole = [] \<and> part = [] then None
         else case (parse_digits 0 (whole @ part), parse_exponent exponent) of
           (Some n, Some e) \<Rightarrow> Some (f64_decimal n (e - int (length part)))
         | _ \<Rightarrow> None)"

definition parse_f64 :: "string \<Rightarrow> f64 option" where
  "parse_f64 s =
     (case strip_sign s of
        (neg, t) \<Rightarrow>
          if to_lowercase t \<in> {''inf'', ''infinity''} then Some (with_sign neg f64_inf)
          else if to_lowercase t = ''nan'' then Some (with_sign neg f64_nan)
          else map_option (with_sign neg) (parse_number t))"

definition f64_div_pos :: "f64 \<Rightarrow> f64 \<Rightarrow> f64" where
  "f64_div_pos x y =
     (if f64_is_nan x then f64_nan
      else if f64_infinite x then x
      else with_sign (f64_negative x) (f64_div (f64_abs x) y))"

section \<open>Lemmas\<close>

lemma f64_neg_not_nan: "f64_is_nan (f64_neg x) \<longleftrightarrow> f64_is_nan x"
proof -
  have "unat (b + 0x8000000000000000) mod 2 ^ 63 = unat b mod 2 ^ 63" for b :: u64
  proof -
    have "unat (b + 0x8000000000000000) = (unat b + 2 ^ 63) mod 2 ^ 64" by (simp add: unat_word_ariths)
    then have "unat (b + 0x8000000000000000) mod 2 ^ 63 = (unat b + 2 ^ 63) mod 2 ^ 63"
      using mod_mod_cancel[of "2 ^ 63" "2 ^ 64" "unat b + 2 ^ 63"] by (simp add: le_imp_power_dvd)
    then show ?thesis by simp
  qed
  then show ?thesis by (simp add: f64_is_nan_def f64_neg_def)
qed

lemma with_sign_not_nan: "f64_is_nan (with_sign neg x) \<longleftrightarrow> f64_is_nan x"
  by (simp add: with_sign_def f64_neg_not_nan)

lemma f64_div_pos_not_nan: "\<not> f64_is_nan x \<Longrightarrow> \<not> f64_is_nan (f64_div_pos x y)"
  by (simp add: f64_div_pos_def with_sign_not_nan f64_div_def f64_round_not_nan split: prod.split)

lemma parse_digits_all: "list_all is_digit s \<Longrightarrow> parse_digits acc s \<noteq> None"
  by (induction s arbitrary: acc) (auto simp: is_digit_def)

text \<open>NaN is read only from its name.\<close>

lemma parse_f64_nan:
  assumes "parse_f64 s = Some x" and "f64_is_nan x"
  shows "to_lowercase (snd (strip_sign s)) = ''nan''"
proof (rule ccontr)
  assume n: "to_lowercase (snd (strip_sign s)) \<noteq> ''nan''"
  have "\<not> f64_is_nan y" if "parse_number t = Some y" for t y
    using that by (auto simp: parse_number_def f64_decimal_def f64_round_not_nan Let_def split: if_splits option.splits prod.splits)
  moreover have "\<not> f64_is_nan f64_inf" by (simp add: f64_inf_def f64_is_nan_def)
  ultimately show False
    using assms n by (auto simp: parse_f64_def with_sign_not_nan split: prod.splits if_splits)
qed

text \<open>Digits with a point are the decimal they spell, rounded once.\<close>

lemma parse_f64_decimal:
  assumes "list_all is_digit whole" and "list_all is_digit part" and "whole \<noteq> []"
  shows "\<exists>n. parse_digits 0 (whole @ part) = Some n \<and> parse_f64 (whole @ CHR ''.'' # part) = Some (f64_round n (10 ^ length part))"
proof -
  obtain n where n: "parse_digits 0 (whole @ part) = Some n"
    using assms(1,2) parse_digits_all[of "whole @ part"] by auto
  have dot: "\<not> is_digit (CHR ''.'')" by (simp add: is_digit_def digit_val_def)
  have t: "takeWhile is_digit (whole @ CHR ''.'' # part) = whole" "dropWhile is_digit (whole @ CHR ''.'' # part) = CHR ''.'' # part"
      "takeWhile is_digit part = part" "dropWhile is_digit part = []"
    using assms(1,2) dot by (auto simp: list_all_iff takeWhile_tail dropWhile_eq_Nil_conv takeWhile_eq_all_conv)
  obtain c cs where w: "whole = c # cs" "is_digit c" using assms(1,3) by (cases whole) auto
  have s: "strip_sign (whole @ CHR ''.'' # part) = (False, whole @ CHR ''.'' # part)"
    using w by (auto simp: strip_sign_def is_digit_def digit_val_def)
  have c: "ascii_lower c = c" "c \<noteq> CHR ''i''" "c \<noteq> CHR ''n''"
    using w(2) by (auto simp: is_digit_def digit_val_def ascii_lower_def Let_def split: if_splits)
  have e: "f64_decimal n (0 - int (length part)) = f64_round n (10 ^ length part)"
    by (cases part) (simp_all add: f64_decimal_def nat_add_distrib)
  have "parse_f64 (whole @ CHR ''.'' # part) = parse_number (whole @ CHR ''.'' # part)"
    using s c w(1) by (auto simp: parse_f64_def to_lowercase_def with_sign_def option.map_ident[unfolded id_def] cong: option.map_cong)
  also have "\<dots> = Some (f64_round n (10 ^ length part))"
    using e by (simp add: parse_number_def parse_exponent_def t n assms(3))
  finally show ?thesis using n by blast
qed

end
