(* ===== verification/Hardware.thy ===== *)
theory Hardware
  imports Json FloatParse
begin

text \<open>
  Hardware detection and live metrics (\<open>provider/src/hardware.rs\<close>). A command run is an
  observation: \<open>None\<close> when it could not be started, otherwise its exit status and output;
  the environment \<open>run\<close> maps a program and its arguments to the observation, and the
  JSON text parser is the parameter \<open>from_str\<close>. Errors carry the outermost context
  message.
\<close>

section \<open>Data\<close>

datatype thermal_state = Nominal | Fair | Serious | Critical

record system_metrics =
  memory_pressure :: f64
  cpu_usage :: f64
  thermal_state_of :: thermal_state

datatype chip_family = M1 | M2 | M3 | M4 | M5 | UnknownFamily
datatype chip_tier = Base | Pro | Max | Ultra | UnknownTier

record cpu_cores =
  cores_total :: u32
  cores_performance :: u32
  cores_efficiency :: u32

record hardware_info =
  machine_model :: string
  chip_name :: string
  hw_chip_family :: chip_family
  hw_chip_tier :: chip_tier
  memory_gb :: u64
  memory_available_gb :: u64
  hw_cpu_cores :: cpu_cores
  gpu_cores :: u32
  memory_bandwidth_gbs :: u32

record cmd_output =
  co_success :: bool
  co_stdout :: string
  co_stderr :: string

type_synonym cmd_env = "string \<Rightarrow> string list \<Rightarrow> cmd_output option"
type_synonym json_parser = "string \<Rightarrow> json option"

section \<open>System metrics\<close>

text \<open>The value after the first \<open>:\<close> of the first line containing the label that has one.\<close>

fun parse_pages_lines :: "string \<Rightarrow> string list \<Rightarrow> u64" where
  "parse_pages_lines label [] = 0"
| "parse_pages_lines label (line # ls) =
     (if str_contains line label then
        case str_split (CHR '':'') line of
          _ # val # _ \<Rightarrow>
            (case parse_u64 (trim_end_matches (CHR ''.'') (trim val)) of None \<Rightarrow> 0 | Some n \<Rightarrow> n)
        | _ \<Rightarrow> parse_pages_lines label ls
      else parse_pages_lines label ls)"

definition parse_pages :: "string \<Rightarrow> string \<Rightarrow> u64" where
  "parse_pages text label = parse_pages_lines label (str_lines text)"

definition memory_pressure_of :: "string \<Rightarrow> f64" where
  "memory_pressure_of text =
     (let active = parse_pages text ''Pages active'';
          inactive = parse_pages text ''Pages inactive'';
          speculative = parse_pages text ''Pages speculative'';
          wired = parse_pages text ''Pages wired down'';
          compressed = parse_pages text ''Pages used by compressor'';
          free = parse_pages text ''Pages free'';
          used = active + wired + compressed;
          total = used + inactive + speculative + free
      in if total = 0 then f64_zero
         else f64_clamp (f64_div (f64_of_nat (unat used)) (f64_of_nat (unat total)))
                f64_zero (f64_of_nat 1))"

definition collect_memory_pressure :: "cmd_env \<Rightarrow> f64 result" where
  "collect_memory_pressure run =
     (case run ''vm_stat'' [] of
        None \<Rightarrow> Err ''failed to run vm_stat''
      | Some output \<Rightarrow>
          if \<not> co_success output then Err ''vm_stat failed''
          else Ok (memory_pressure_of (co_stdout output)))"

text \<open>The first number of the load averages, printed as \<open>{ 1.23 4.56 7.89 }\<close>; what does not read as one is 0.\<close>

definition load_1m :: "string \<Rightarrow> f64" where
  "load_1m text =
     (let s = trim_end_matches (CHR ''}'') (dropWhile (\<lambda>c. c = CHR ''{'') (trim text));
          word = takeWhile (\<lambda>c. \<not> is_ascii_space c) (dropWhile is_ascii_space s)
      in case (if word = [] then None else parse_f64 word) of None \<Rightarrow> f64_zero | Some x \<Rightarrow> x)"

definition collect_cpu_usage :: "cmd_env \<Rightarrow> u32 \<Rightarrow> f64 result" where
  "collect_cpu_usage run cpu_cores =
     (case run ''sysctl'' [''-n'', ''vm.loadavg''] of
        None \<Rightarrow> Err ''failed to run sysctl vm.loadavg''
      | Some output \<Rightarrow>
          if \<not> co_success output then Err ''sysctl vm.loadavg failed''
          else
            let cores = (if cpu_cores > 0 then f64_of_nat (unat cpu_cores) else f64_of_nat 1)
            in Ok (f64_clamp (f64_div_pos (load_1m (co_stdout output)) cores) f64_zero (f64_of_nat 1)))"

fun thermal_lines :: "string list \<Rightarrow> thermal_state" where
  "thermal_lines [] = Nominal"
| "thermal_lines (line # ls) =
     (if str_contains line ''CPU_Speed_Limit'' then
        case str_split (CHR ''='') line of
          _ # val # _ \<Rightarrow>
            (let limit = (case parse_u32 (trim val) of None \<Rightarrow> 100 | Some n \<Rightarrow> n)
             in if limit = 100 then Nominal
                else if 80 \<le> limit \<and> limit \<le> 99 then Fair
                else if 50 \<le> limit \<and> limit \<le> 79 then Serious
                else Critical)
        | _ \<Rightarrow> thermal_lines ls
      else thermal_lines ls)"

definition collect_thermal_state :: "cmd_env \<Rightarrow> thermal_state result" where
  "collect_thermal_state run =
     (case run ''pmset'' [''-g'', ''therm''] of
        None \<Rightarrow> Err ''failed to run pmset -g therm''
      | Some output \<Rightarrow>
          if \<not> co_success output then Err ''pmset -g therm failed''
          else Ok (thermal_lines (str_lines (co_stdout output))))"

definition result_unwrap_or :: "'a \<Rightarrow> 'a result \<Rightarrow> 'a" where
  "result_unwrap_or d r = (case r of Err _ \<Rightarrow> d | Ok x \<Rightarrow> x)"

definition collect_system_metrics :: "cmd_env \<Rightarrow> u32 \<Rightarrow> system_metrics" where
  "collect_system_metrics run cpu_cores =
     \<lparr>memory_pressure = result_unwrap_or f64_zero (collect_memory_pressure run),
      cpu_usage = result_unwrap_or f64_zero (collect_cpu_usage run cpu_cores),
      thermal_state_of = result_unwrap_or Nominal (collect_thermal_state run)\<rparr>"

section \<open>Static detection\<close>

definition os_memory_reserve_gb :: u64 where
  "os_memory_reserve_gb = 4"

definition saturating_sub :: "u64 \<Rightarrow> u64 \<Rightarrow> u64" where
  "saturating_sub x y = (if x < y then 0 else x - y)"

definition sysctl_string :: "cmd_env \<Rightarrow> string \<Rightarrow> string result" where
  "sysctl_string run key =
     (case run ''sysctl'' [''-n'', key] of
        None \<Rightarrow> Err (''failed to run sysctl -n '' @ key)
      | Some output \<Rightarrow>
          if \<not> co_success output then
            Err (''sysctl -n '' @ key @ '' failed: '' @ co_stderr output)
          else Ok (trim (co_stdout output)))"

definition sysctl_u64 :: "cmd_env \<Rightarrow> string \<Rightarrow> u64 result" where
  "sysctl_u64 run key =
     (case sysctl_string run key of
        Err e \<Rightarrow> Err e
      | Ok s \<Rightarrow>
          (case parse_u64 s of
             None \<Rightarrow> Err (''failed to parse sysctl '' @ key @ '' value '' @ [CHR 0x27] @ s @ [CHR 0x27] @ '' as u64'')
           | Some n \<Rightarrow> Ok n))"

definition sysctl_u32 :: "cmd_env \<Rightarrow> string \<Rightarrow> u32 result" where
  "sysctl_u32 run key =
     (case sysctl_string run key of
        Err e \<Rightarrow> Err e
      | Ok s \<Rightarrow>
          (case parse_u32 s of
             None \<Rightarrow> Err (''failed to parse sysctl '' @ key @ '' value '' @ [CHR 0x27] @ s @ [CHR 0x27] @ '' as u32'')
           | Some n \<Rightarrow> Ok n))"

definition sysctl_u32_optional :: "cmd_env \<Rightarrow> string \<Rightarrow> u32 option" where
  "sysctl_u32_optional run key =
     (case sysctl_string run key of Err _ \<Rightarrow> None | Ok s \<Rightarrow> parse_u32 s)"

definition display_chip :: "json \<Rightarrow> string \<times> u32" where
  "display_chip display =
     (case json_get_as json_as_str ''sppci_model'' display of None \<Rightarrow> '''' | Some s \<Rightarrow> s,
      case Option.bind (json_get_as json_as_str ''sppci_cores'' display) parse_u32 of
        Some n \<Rightarrow> n
      | None \<Rightarrow>
          (case Option.bind (json_get_as json_as_str ''sppci_gpu_core_count'' display) parse_u32 of
             Some n \<Rightarrow> n
           | None \<Rightarrow> 0))"

definition detect_gpu_info :: "cmd_env \<Rightarrow> json_parser \<Rightarrow> (string \<times> u32) result" where
  "detect_gpu_info run from_str =
     (case run ''system_profiler'' [''SPDisplaysDataType'', ''-json''] of
        None \<Rightarrow> Err ''failed to run system_profiler SPDisplaysDataType''
      | Some output \<Rightarrow>
          if \<not> co_success output then Err (''system_profiler failed: '' @ co_stderr output)
          else case from_str (co_stdout output) of
            None \<Rightarrow> Err ''failed to parse system_profiler JSON''
          | Some doc \<Rightarrow>
              (case json_get_as json_as_array ''SPDisplaysDataType'' doc of
                 None \<Rightarrow> Err ''missing SPDisplaysDataType array''
               | Some displays \<Rightarrow>
                   (case find (\<lambda>d. fst (display_chip d) \<noteq> []) displays of
                      Some d \<Rightarrow> Ok (display_chip d)
                    | None \<Rightarrow>
                        Ok (result_unwrap_or ''Unknown Apple Silicon''
                              (sysctl_string run ''machdep.cpu.brand_string''), 0))))"

definition parse_chip_identity :: "string \<Rightarrow> chip_family \<times> chip_tier" where
  "parse_chip_identity name0 =
     (let name = to_lowercase name0;
          family =
            (if str_contains name ''m5'' then M5
             else if str_contains name ''m4'' then M4
             else if str_contains name ''m3'' then M3
             else if str_contains name ''m2'' then M2
             else if str_contains name ''m1'' then M1
             else UnknownFamily);
          tier =
            (if str_contains name ''ultra'' then Ultra
             else if str_contains name ''max'' then Max
             else if str_contains name ''pro'' then Pro
             else if family \<noteq> UnknownFamily then Base
             else UnknownTier)
      in (family, tier))"

fun lookup_bandwidth :: "chip_family \<Rightarrow> chip_tier \<Rightarrow> u32 \<Rightarrow> u32" where
  "lookup_bandwidth M1 Base _ = 68"
| "lookup_bandwidth M1 Pro _ = 200"
| "lookup_bandwidth M1 Max _ = 400"
| "lookup_bandwidth M1 Ultra _ = 800"
| "lookup_bandwidth M2 Base _ = 100"
| "lookup_bandwidth M2 Pro _ = 200"
| "lookup_bandwidth M2 Max _ = 400"
| "lookup_bandwidth M2 Ultra _ = 800"
| "lookup_bandwidth M3 Base _ = 100"
| "lookup_bandwidth M3 Pro _ = 150"
| "lookup_bandwidth M3 Max n = (if n \<ge> 40 then 400 else 300)"
| "lookup_bandwidth M3 Ultra _ = 819"
| "lookup_bandwidth M4 Base _ = 120"
| "lookup_bandwidth M4 Pro _ = 273"
| "lookup_bandwidth M4 Max n = (if n \<ge> 40 then 546 else 410)"
| "lookup_bandwidth M5 Base _ = 153"
| "lookup_bandwidth M5 Pro _ = 307"
| "lookup_bandwidth M5 Max n = (if n \<ge> 40 then 614 else 460)"
| "lookup_bandwidth _ _ _ = 100"

definition detect :: "cmd_env \<Rightarrow> json_parser \<Rightarrow> hardware_info result" where
  "detect run from_str =
     (case sysctl_string run ''hw.model'' of
        Err e \<Rightarrow> Err e
      | Ok model \<Rightarrow>
     (case sysctl_u64 run ''hw.memsize'' of
        Err e \<Rightarrow> Err e
      | Ok memory_bytes \<Rightarrow>
     (case sysctl_u32 run ''hw.ncpu'' of
        Err e \<Rightarrow> Err e
      | Ok cpu_total \<Rightarrow>
     (let mem = memory_bytes div (1024 * 1024 * 1024);
          cpu_perf = (case sysctl_u32_optional run ''hw.perflevel0.logicalcpu'' of None \<Rightarrow> cpu_total | Some n \<Rightarrow> n);
          cpu_eff = (case sysctl_u32_optional run ''hw.perflevel1.logicalcpu'' of None \<Rightarrow> 0 | Some n \<Rightarrow> n)
      in case detect_gpu_info run from_str of
        Err e \<Rightarrow> Err e
      | Ok (chip, cores) \<Rightarrow>
          (case parse_chip_identity chip of (family, tier) \<Rightarrow>
             Ok \<lparr>machine_model = model, chip_name = chip, hw_chip_family = family, hw_chip_tier = tier,
                 memory_gb = mem,
                 memory_available_gb = saturating_sub mem os_memory_reserve_gb,
                 hw_cpu_cores = \<lparr>cores_total = cpu_total, cores_performance = cpu_perf,
                                 cores_efficiency = cpu_eff\<rparr>,
                 gpu_cores = cores,
                 memory_bandwidth_gbs = lookup_bandwidth family tier cores\<rparr>)))))"

definition total_memory_gb :: "cmd_env \<Rightarrow> u64" where
  "total_memory_gb run =
     (case sysctl_u64 run ''hw.memsize'' of Err _ \<Rightarrow> 16 | Ok n \<Rightarrow> n div (1024 * 1024 * 1024))"

text \<open>\<open>Display\<close> of \<open>HardwareInfo\<close>.\<close>

fun show_family :: "chip_family \<Rightarrow> string" where
  "show_family M1 = ''M1''"
| "show_family M2 = ''M2''"
| "show_family M3 = ''M3''"
| "show_family M4 = ''M4''"
| "show_family M5 = ''M5''"
| "show_family UnknownFamily = ''Unknown''"

fun show_tier :: "chip_tier \<Rightarrow> string" where
  "show_tier Base = ''Base''"
| "show_tier Pro = ''Pro''"
| "show_tier Max = ''Max''"
| "show_tier Ultra = ''Ultra''"
| "show_tier UnknownTier = ''Unknown''"

definition show_hardware_info :: "hardware_info \<Rightarrow> string" where
  "show_hardware_info hw =
     ''Hardware Info:'' @ [newline]
     @ ''  Machine:    '' @ machine_model hw @ [newline]
     @ ''  Chip:       '' @ chip_name hw @ [newline]
     @ ''  Family:     '' @ show_family (hw_chip_family hw) @ '' '' @ show_tier (hw_chip_tier hw) @ [newline]
     @ ''  Memory:     '' @ show_nat (unat (memory_gb hw)) @ '' GB total'' @ [newline]
     @ ''  Available:  '' @ show_nat (unat (memory_available_gb hw)) @ '' GB (for inference)'' @ [newline]
     @ ''  CPU:        '' @ show_nat (unat (cores_total (hw_cpu_cores hw))) @ '' cores (''
       @ show_nat (unat (cores_performance (hw_cpu_cores hw))) @ '' P + ''
       @ show_nat (unat (cores_efficiency (hw_cpu_cores hw))) @ '' E)'' @ [newline]
     @ ''  GPU:        '' @ show_nat (unat (gpu_cores hw)) @ '' cores'' @ [newline]
     @ ''  Bandwidth:  '' @ show_nat (unat (memory_bandwidth_gbs hw)) @ '' GB/s''"

section \<open>Backend status polling\<close>

record backend_status_result =
  bs_num_running :: u32
  bs_num_waiting :: u32
  bs_active_tokens :: u64
  bs_max_tokens_potential :: u64
  bs_gpu_memory_active_gb :: f64
  bs_gpu_memory_peak_gb :: f64
  bs_gpu_memory_cache_gb :: f64

definition option_unwrap_or :: "'a \<Rightarrow> 'a option \<Rightarrow> 'a" where
  "option_unwrap_or d x = (case x of None \<Rightarrow> d | Some y \<Rightarrow> y)"

text \<open>One iteration of the loop over \<open>requests\<close>; the sums are on 64-bit two's complement.\<close>

definition add_request_tokens :: "json \<Rightarrow> u64 \<times> u64 \<Rightarrow> u64 \<times> u64" where
  "add_request_tokens req acc =
     (let prompt = option_unwrap_or 0 (json_get_as json_as_i64 ''prompt_tokens'' req);
          completion = option_unwrap_or 0 (json_get_as json_as_i64 ''completion_tokens'' req);
          mx = option_unwrap_or 0 (json_get_as json_as_i64 ''max_tokens'' req)
      in (fst acc + (prompt + completion), snd acc + mx))"

definition metal_stat :: "string \<Rightarrow> json \<Rightarrow> f64" where
  "metal_stat k body =
     option_unwrap_or f64_zero (Option.bind (json_get ''metal'' body) (json_get_as json_as_f64 k))"

definition backend_status_of :: "json \<Rightarrow> backend_status_result" where
  "backend_status_of body =
     (let sums = (case json_get_as json_as_array ''requests'' body of
                    Some requests \<Rightarrow> fold add_request_tokens requests (0, 0)
                  | None \<Rightarrow> (0, 0))
      in \<lparr>bs_num_running = ucast (option_unwrap_or 0 (json_get_as json_as_u64 ''num_running'' body)),
          bs_num_waiting = ucast (option_unwrap_or 0 (json_get_as json_as_u64 ''num_waiting'' body)),
          bs_active_tokens = fst sums,
          bs_max_tokens_potential = snd sums,
          bs_gpu_memory_active_gb = metal_stat ''active_memory_gb'' body,
          bs_gpu_memory_peak_gb = metal_stat ''peak_memory_gb'' body,
          bs_gpu_memory_cache_gb = metal_stat ''cache_memory_gb'' body\<rparr>)"

text \<open>The HTTP exchange is an observation: \<open>http_get url\<close> is \<open>None\<close> on a transport
  failure, otherwise the success flag of the status and the parsed body, if it parses.\<close>

definition poll_backend_status ::
  "(string \<Rightarrow> (bool \<times> json option) option) \<Rightarrow> string \<Rightarrow> backend_status_result option" where
  "poll_backend_status http_get url =
     (case http_get (trim_end_matches (CHR ''/'') url @ ''/v1/status'') of
        None \<Rightarrow> None
      | Some (success, body) \<Rightarrow> if \<not> success then None else map_option backend_status_of body)"

section \<open>Wire form\<close>

fun enc_thermal_state :: "thermal_state \<Rightarrow> json" where
  "enc_thermal_state Nominal = JStr ''nominal''"
| "enc_thermal_state Fair = JStr ''fair''"
| "enc_thermal_state Serious = JStr ''serious''"
| "enc_thermal_state Critical = JStr ''critical''"

definition enc_system_metrics :: "system_metrics \<Rightarrow> json" where
  "enc_system_metrics m =
     JObj [(''memory_pressure'', enc_f64 (memory_pressure m)),
           (''cpu_usage'', enc_f64 (cpu_usage m)),
           (''thermal_state'', enc_thermal_state (thermal_state_of m))]"

definition enc_cpu_cores :: "cpu_cores \<Rightarrow> json" where
  "enc_cpu_cores c =
     JObj [(''total'', enc_u32 (cores_total c)), (''performance'', enc_u32 (cores_performance c)),
           (''efficiency'', enc_u32 (cores_efficiency c))]"

definition enc_hardware_info :: "hardware_info \<Rightarrow> json" where
  "enc_hardware_info hw =
     JObj [(''machine_model'', JStr (machine_model hw)),
           (''chip_name'', JStr (chip_name hw)),
           (''chip_family'', JStr (show_family (hw_chip_family hw))),
           (''chip_tier'', JStr (show_tier (hw_chip_tier hw))),
           (''memory_gb'', enc_u64 (memory_gb hw)),
           (''memory_available_gb'', enc_u64 (memory_available_gb hw)),
           (''cpu_cores'', enc_cpu_cores (hw_cpu_cores hw)),
           (''gpu_cores'', enc_u32 (gpu_cores hw)),
           (''memory_bandwidth_gbs'', enc_u32 (memory_bandwidth_gbs hw))]"

section \<open>Properties\<close>

lemma memory_pressure_of_bounds:
  "f64_le f64_zero (memory_pressure_of text) \<and> f64_le (memory_pressure_of text) (f64_of_nat 1)"
proof -
  have "\<not> f64_is_nan (f64_div x y)" for x y
    by (simp add: f64_div_def f64_round_not_nan split: prod.split)
  from f64_clamp_bounds[OF this f64_le_zero_one] f64_le_zero f64_le_zero_one show ?thesis
    by (simp add: memory_pressure_of_def Let_def)
qed

text \<open>The reported memory pressure is always a number between 0.0 and 1.0, whatever
  \<open>vm_stat\<close> prints and also when the command fails.\<close>

theorem memory_pressure_bounds:
  "f64_le f64_zero (memory_pressure (collect_system_metrics run c)) \<and>
   f64_le (memory_pressure (collect_system_metrics run c)) (f64_of_nat 1)"
  using memory_pressure_of_bounds f64_le_zero f64_le_zero_one
  by (simp add: collect_system_metrics_def collect_memory_pressure_def result_unwrap_or_def
      split: option.split)

text \<open>So is the CPU usage, unless the load average reads \<open>nan\<close>: clamping does not help there.\<close>

lemma cpu_usage_bounds:
  assumes "\<And>output. run ''sysctl'' [''-n'', ''vm.loadavg''] = Some output \<Longrightarrow> \<not> f64_is_nan (load_1m (co_stdout output))"
  shows "f64_le f64_zero (cpu_usage (collect_system_metrics run c)) \<and>
    f64_le (cpu_usage (collect_system_metrics run c)) (f64_of_nat 1)"
  using f64_clamp_bounds[OF f64_div_pos_not_nan[OF assms] f64_le_zero_one] f64_le_zero f64_le_zero_one
  by (auto simp: collect_system_metrics_def collect_cpu_usage_def result_unwrap_or_def Let_def split: option.split)

text \<open>The load that is printed is the load that is read, rounded once.\<close>

lemma load_1m_printed:
  assumes "list_all is_digit whole" "whole \<noteq> []" "list_all is_digit part"
  shows "\<exists>n. parse_digits 0 (whole @ part) = Some n \<and>
    load_1m (''{ '' @ whole @ ''.'' @ part @ '' '' @ rest @ '' }'' @ [CHR 0x0A]) = f64_round n (10 ^ length part)"
proof -
  have digit: "\<not> is_ascii_space c" if "is_digit c" for c
    using that by (auto simp: is_digit_def digit_val_def is_ascii_space_def Let_def split: if_splits)
  let ?word = "whole @ ''.'' @ part"
  have word: "list_all (\<lambda>c. \<not> is_ascii_space c) ?word"
    using assms(1,3) digit by (auto simp: list_all_iff) (simp add: is_ascii_space_def)
  have trimmed: "trim_end_matches (CHR ''}'') (dropWhile (\<lambda>c. c = CHR ''{'') (trim (''{ '' @ ?word @ '' '' @ rest @ '' }'' @ [CHR 0x0A]))) =
      '' '' @ ?word @ '' '' @ rest @ '' ''"
    by (simp add: trim_def trim_end_matches_def is_ascii_space_def)
  have "takeWhile (\<lambda>c. \<not> is_ascii_space c) (dropWhile is_ascii_space ('' '' @ ?word @ '' '' @ rest @ '' '')) = ?word"
  proof -
    have "dropWhile is_ascii_space ('' '' @ ?word @ '' '' @ rest @ '' '') = ?word @ '' '' @ rest @ '' ''"
      using word assms(2) by (cases whole) (auto simp: is_ascii_space_def)
    moreover have "takeWhile (\<lambda>c. \<not> is_ascii_space c) (?word @ '' '' @ rest @ '' '') = ?word"
      using word by (subst takeWhile_append2) (auto simp: list_all_iff is_ascii_space_def)
    ultimately show ?thesis by simp
  qed
  with parse_f64_decimal[OF assms(1,3,2)] trimmed assms(2) show ?thesis
    by (auto simp: load_1m_def Let_def)
qed

lemma detect_memory_reserve:
  assumes "detect run from_str = Ok hw"
  shows "unat (memory_available_gb hw) = unat (memory_gb hw) - 4"
proof -
  have "unat (saturating_sub m os_memory_reserve_gb) = unat m - 4" for m
    by (simp add: saturating_sub_def os_memory_reserve_gb_def word_less_nat_alt unat_sub_u64)
  with assms show ?thesis
    by (auto simp: detect_def Let_def split: sum.splits prod.splits)
qed

end
