(* ===== verification/Config.thy ===== *)
theory Config
  imports Scheduling Hardware "HOL-Library.Finite_Map"
begin

text \<open>
  \<open>config.rs\<close>: the provider's configuration file and the \<open>autoupdate\<close> command. A configuration is written as
  a TOML value and read back with the defaults of older files; printing and parsing TOML text are
  parameters, and file operations are observations.
\<close>

datatype toml = TStr string | TInt int | TBool bool | TArr "toml list" | TTable "(string, toml) fmap"

record provider_settings =
  ps_name :: string
  ps_memory_reserve_gb :: u64
  ps_auto_update :: bool

record backend_settings =
  bs_port :: u16
  bs_model :: "string option"
  bs_continuous_batching :: bool
  bs_enabled_models :: "string list"
  bs_idle_timeout_mins :: u64

record coordinator_settings =
  cs_url :: string
  cs_heartbeat_interval_secs :: u64

record provider_config =
  pc_provider :: provider_settings
  pc_backend :: backend_settings
  pc_coordinator :: coordinator_settings
  pc_schedule :: "schedule_config option"

definition default_idle_timeout_mins :: u64 where "default_idle_timeout_mins = 60"

definition default_true :: bool where "default_true = True"

definition default_for_hardware :: "hardware_info \<Rightarrow> provider_config" where
  "default_for_hardware hw =
     \<lparr>pc_provider = \<lparr>ps_name = ''eigeninference-'' @ to_lowercase (str_replace (machine_model hw) '','' ''-''),
                     ps_memory_reserve_gb = 4, ps_auto_update = True\<rparr>,
      pc_backend = \<lparr>bs_port = 8100, bs_model = None, bs_continuous_batching = True, bs_enabled_models = [], bs_idle_timeout_mins = 60\<rparr>,
      pc_coordinator = \<lparr>cs_url = ''ws://localhost:8080/ws/provider'', cs_heartbeat_interval_secs = 5\<rparr>,
      pc_schedule = None\<rparr>"

section \<open>TOML form\<close>

text \<open>TOML integers are 64-bit signed: a larger unsigned value cannot be written.\<close>

definition enc_toml_u64 :: "u64 \<Rightarrow> toml option" where
  "enc_toml_u64 n = (if unat n < 2 ^ 63 then Some (TInt (int (unat n))) else None)"

fun dec_toml_u64 :: "toml \<Rightarrow> u64 option" where
  "dec_toml_u64 (TInt i) = (if 0 \<le> i \<and> i < 2 ^ 63 then Some (word_of_int i) else None)"
| "dec_toml_u64 _ = None"

fun dec_toml_u16 :: "toml \<Rightarrow> u16 option" where
  "dec_toml_u16 (TInt i) = (if 0 \<le> i \<and> i < 2 ^ 16 then Some (word_of_int i) else None)"
| "dec_toml_u16 _ = None"

fun dec_toml_str :: "toml \<Rightarrow> string option" where
  "dec_toml_str (TStr s) = Some s"
| "dec_toml_str _ = None"

fun dec_toml_bool :: "toml \<Rightarrow> bool option" where
  "dec_toml_bool (TBool b) = Some b"
| "dec_toml_bool _ = None"

fun dec_all :: "('a \<Rightarrow> 'b option) \<Rightarrow> 'a list \<Rightarrow> 'b list option" where
  "dec_all f [] = Some []"
| "dec_all f (x # xs) = (case f x of None \<Rightarrow> None | Some y \<Rightarrow> map_option ((#) y) (dec_all f xs))"

fun dec_toml_list :: "(toml \<Rightarrow> 'a option) \<Rightarrow> toml \<Rightarrow> 'a list option" where
  "dec_toml_list f (TArr ts) = dec_all f ts"
| "dec_toml_list f _ = None"

fun dec_toml_table :: "((string, toml) fmap \<Rightarrow> 'a option) \<Rightarrow> toml \<Rightarrow> 'a option" where
  "dec_toml_table f (TTable m) = f m"
| "dec_toml_table f _ = None"

definition req :: "(toml \<Rightarrow> 'a option) \<Rightarrow> string \<Rightarrow> (string, toml) fmap \<Rightarrow> 'a option" where
  "req f k m = Option.bind (fmlookup m k) f"

definition dflt :: "'a \<Rightarrow> (toml \<Rightarrow> 'a option) \<Rightarrow> string \<Rightarrow> (string, toml) fmap \<Rightarrow> 'a option" where
  "dflt d f k m = (case fmlookup m k of None \<Rightarrow> Some d | Some t \<Rightarrow> f t)"

definition opt :: "(toml \<Rightarrow> 'a option) \<Rightarrow> string \<Rightarrow> (string, toml) fmap \<Rightarrow> 'a option option" where
  "opt f k m = (case fmlookup m k of None \<Rightarrow> Some None | Some t \<Rightarrow> map_option Some (f t))"

definition table :: "(string \<times> toml) list \<Rightarrow> toml" where
  "table kvs = TTable (fmap_of_list kvs)"

definition enc_toml_window :: "schedule_window \<Rightarrow> toml" where
  "enc_toml_window w = table [(''days'', TArr (map TStr (sw_days w))), (''start'', TStr (sw_start w)), (''end'', TStr (sw_end w))]"

definition dec_toml_window :: "toml \<Rightarrow> schedule_window option" where
  "dec_toml_window = dec_toml_table (\<lambda>m.
     case (req (dec_toml_list dec_toml_str) ''days'' m, req dec_toml_str ''start'' m, req dec_toml_str ''end'' m) of
       (Some d, Some s, Some e) \<Rightarrow> Some \<lparr>sw_days = d, sw_start = s, sw_end = e\<rparr>
     | _ \<Rightarrow> None)"

definition enc_toml_schedule :: "schedule_config \<Rightarrow> toml" where
  "enc_toml_schedule c = table [(''enabled'', TBool (sc_enabled c)), (''windows'', TArr (map enc_toml_window (sc_windows c)))]"

definition dec_toml_schedule :: "toml \<Rightarrow> schedule_config option" where
  "dec_toml_schedule = dec_toml_table (\<lambda>m.
     case (req dec_toml_bool ''enabled'' m, dflt [] (dec_toml_list dec_toml_window) ''windows'' m) of
       (Some e, Some ws) \<Rightarrow> Some \<lparr>sc_enabled = e, sc_windows = ws\<rparr>
     | _ \<Rightarrow> None)"

definition enc_toml_provider :: "provider_settings \<Rightarrow> toml option" where
  "enc_toml_provider p =
     map_option (\<lambda>r. table [(''name'', TStr (ps_name p)), (''memory_reserve_gb'', r), (''auto_update'', TBool (ps_auto_update p))])
       (enc_toml_u64 (ps_memory_reserve_gb p))"

definition dec_toml_provider :: "toml \<Rightarrow> provider_settings option" where
  "dec_toml_provider = dec_toml_table (\<lambda>m.
     case (req dec_toml_str ''name'' m, req dec_toml_u64 ''memory_reserve_gb'' m, dflt default_true dec_toml_bool ''auto_update'' m) of
       (Some n, Some r, Some a) \<Rightarrow> Some \<lparr>ps_name = n, ps_memory_reserve_gb = r, ps_auto_update = a\<rparr>
     | _ \<Rightarrow> None)"

definition enc_toml_backend :: "backend_settings \<Rightarrow> toml option" where
  "enc_toml_backend b =
     map_option (\<lambda>t. table ([(''port'', TInt (int (unat (bs_port b))))]
         @ (case bs_model b of None \<Rightarrow> [] | Some m \<Rightarrow> [(''model'', TStr m)])
         @ [(''continuous_batching'', TBool (bs_continuous_batching b)),
            (''enabled_models'', TArr (map TStr (bs_enabled_models b))), (''idle_timeout_mins'', t)]))
       (enc_toml_u64 (bs_idle_timeout_mins b))"

definition dec_toml_backend :: "toml \<Rightarrow> backend_settings option" where
  "dec_toml_backend = dec_toml_table (\<lambda>m.
     case (req dec_toml_u16 ''port'' m, opt dec_toml_str ''model'' m, req dec_toml_bool ''continuous_batching'' m,
           dflt [] (dec_toml_list dec_toml_str) ''enabled_models'' m, dflt default_idle_timeout_mins dec_toml_u64 ''idle_timeout_mins'' m) of
       (Some p, Some mo, Some c, Some e, Some t) \<Rightarrow>
         Some \<lparr>bs_port = p, bs_model = mo, bs_continuous_batching = c, bs_enabled_models = e, bs_idle_timeout_mins = t\<rparr>
     | _ \<Rightarrow> None)"

definition enc_toml_coordinator :: "coordinator_settings \<Rightarrow> toml option" where
  "enc_toml_coordinator c =
     map_option (\<lambda>h. table [(''url'', TStr (cs_url c)), (''heartbeat_interval_secs'', h)]) (enc_toml_u64 (cs_heartbeat_interval_secs c))"

definition dec_toml_coordinator :: "toml \<Rightarrow> coordinator_settings option" where
  "dec_toml_coordinator = dec_toml_table (\<lambda>m.
     case (req dec_toml_str ''url'' m, req dec_toml_u64 ''heartbeat_interval_secs'' m) of
       (Some u, Some h) \<Rightarrow> Some \<lparr>cs_url = u, cs_heartbeat_interval_secs = h\<rparr>
     | _ \<Rightarrow> None)"

definition enc_toml_config :: "provider_config \<Rightarrow> toml option" where
  "enc_toml_config c =
     (case (enc_toml_provider (pc_provider c), enc_toml_backend (pc_backend c), enc_toml_coordinator (pc_coordinator c)) of
        (Some p, Some b, Some co) \<Rightarrow>
          Some (table ([(''provider'', p), (''backend'', b), (''coordinator'', co)]
            @ (case pc_schedule c of None \<Rightarrow> [] | Some s \<Rightarrow> [(''schedule'', enc_toml_schedule s)])))
      | _ \<Rightarrow> None)"

definition dec_toml_config :: "toml \<Rightarrow> provider_config option" where
  "dec_toml_config = dec_toml_table (\<lambda>m.
     case (req dec_toml_provider ''provider'' m, req dec_toml_backend ''backend'' m, req dec_toml_coordinator ''coordinator'' m,
           opt dec_toml_schedule ''schedule'' m) of
       (Some p, Some b, Some co, Some s) \<Rightarrow> Some \<lparr>pc_provider = p, pc_backend = b, pc_coordinator = co, pc_schedule = s\<rparr>
     | _ \<Rightarrow> None)"

section \<open>The file\<close>

record config_env =
  ce_config_dir :: "string option"
  ce_print :: "toml \<Rightarrow> string"
  ce_parse :: "string \<Rightarrow> toml option"
  ce_mkdir_ok :: bool
  ce_write_ok :: bool
  ce_read_ok :: bool

definition default_config_path :: "config_env \<Rightarrow> string result" where
  "default_config_path env =
     (case ce_config_dir env of
        None \<Rightarrow> Err ''could not determine config directory''
      | Some d \<Rightarrow> Ok (d @ ''/eigeninference/provider.toml''))"

definition config_save :: "config_env \<Rightarrow> provider_config \<Rightarrow> string option \<Rightarrow> unit result \<times> string option" where
  "config_save env config file =
     (if \<not> ce_mkdir_ok env then (Err ''failed to create config directory'', file)
      else case enc_toml_config config of
        None \<Rightarrow> (Err ''failed to serialize config to TOML'', file)
      | Some t \<Rightarrow>
          if ce_write_ok env then (Ok (), Some (ce_print env t)) else (Err ''failed to write config'', file))"

definition config_load :: "config_env \<Rightarrow> string option \<Rightarrow> provider_config result" where
  "config_load env file =
     (case file of
        None \<Rightarrow> Err ''failed to read config''
      | Some content \<Rightarrow>
          if \<not> ce_read_ok env then Err ''failed to read config''
          else (case Option.bind (ce_parse env content) dec_toml_config of
             None \<Rightarrow> Err ''failed to parse config TOML''
           | Some c \<Rightarrow> Ok c))"

text \<open>\<open>darkbloom autoupdate\<close>; the last component tells whether the running service is restarted.\<close>

definition cmd_autoupdate ::
  "config_env \<Rightarrow> hardware_info result \<Rightarrow> bool \<Rightarrow> string \<Rightarrow> string option \<Rightarrow> unit result \<times> string option \<times> bool" where
  "cmd_autoupdate env hw loaded action config_file =
     (case default_config_path env of
        Inl e \<Rightarrow> (Err e, config_file, False)
      | Inr _ \<Rightarrow>
          (case (if config_file \<noteq> None then config_load env config_file
                 else (case hw of Inl e \<Rightarrow> Err e | Inr h \<Rightarrow> Ok (default_for_hardware h))) of
             Inl e \<Rightarrow> (Err e, config_file, False)
           | Inr cfg \<Rightarrow>
               if action = ''enable'' \<or> action = ''disable''
               then (case config_save env (cfg\<lparr>pc_provider := (pc_provider cfg)\<lparr>ps_auto_update := (action = ''enable'')\<rparr>\<rparr>) config_file of
                       (Inl e, f) \<Rightarrow> (Err e, f, False)
                     | (Inr _, f) \<Rightarrow> (Ok (), f, loaded))
               else if action = ''status'' then (Ok (), config_file, False)
               else (Err ''usage'', config_file, False)))"

section \<open>Lemmas\<close>

lemma dec_enc_u64: "enc_toml_u64 n = Some t \<Longrightarrow> dec_toml_u64 t = Some n"
proof -
  assume enc: "enc_toml_u64 n = Some t"
  then have "unat n < 2 ^ 63" and t: "t = TInt (int (unat n))"
    by (simp_all add: enc_toml_u64_def split: if_splits)
  then have "int (unat n) < int (2 ^ 63)"
    by (simp only: of_nat_less_iff)
  then show ?thesis by (simp add: t)
qed

lemma dec_u64_bound: "dec_toml_u64 t = Some n \<Longrightarrow> unat n < 2 ^ 63"
proof (induction t rule: dec_toml_u64.induct)
  case (1 i)
  then have i: "0 \<le> i" "i < 2 ^ 63" and n: "n = word_of_int i" by (auto split: if_splits)
  have "uint n = i"
    using i by (simp add: n uint_word_of_int_eq take_bit_int_eq_self)
  with i have "int (unat n) < int (2 ^ 63)" by simp
  then show ?case by (simp only: of_nat_less_iff)
qed simp_all

lemma dec_enc_u16: "dec_toml_u16 (TInt (int (unat (n :: u16)))) = Some n"
  using unsigned_less[of n] by simp

lemma dec_all_map: "(\<And>x. x \<in> set xs \<Longrightarrow> f (g x) = Some x) \<Longrightarrow> dec_all f (map g xs) = Some xs"
  by (induction xs) auto

lemma dec_strings: "dec_toml_list dec_toml_str (TArr (map TStr xs)) = Some xs"
  by (simp add: dec_all_map)

lemma dec_enc_window: "dec_toml_window (enc_toml_window w) = Some w"
  by (simp add: dec_toml_window_def enc_toml_window_def table_def req_def fmlookup_of_list dec_all_map)

lemma dec_enc_schedule: "dec_toml_schedule (enc_toml_schedule c) = Some c"
  by (simp add: dec_toml_schedule_def enc_toml_schedule_def table_def req_def dflt_def fmlookup_of_list dec_all_map dec_enc_window)

lemma dec_enc_provider: "enc_toml_provider p = Some t \<Longrightarrow> dec_toml_provider t = Some p"
  by (auto simp: enc_toml_provider_def dec_toml_provider_def table_def req_def dflt_def fmlookup_of_list dest!: dec_enc_u64)

lemma dec_enc_backend: "enc_toml_backend b = Some t \<Longrightarrow> dec_toml_backend t = Some b"
  using dec_enc_u16[of "bs_port b"]
  by (auto simp: enc_toml_backend_def dec_toml_backend_def table_def req_def dflt_def opt_def fmlookup_of_list dec_all_map
      dest!: dec_enc_u64 split: option.splits simp del: dec_toml_u16.simps)

lemma dec_enc_coordinator: "enc_toml_coordinator c = Some t \<Longrightarrow> dec_toml_coordinator t = Some c"
  by (auto simp: enc_toml_coordinator_def dec_toml_coordinator_def table_def req_def fmlookup_of_list dest!: dec_enc_u64)

lemma dec_enc_config: "enc_toml_config c = Some t \<Longrightarrow> dec_toml_config t = Some c"
  by (auto simp: enc_toml_config_def dec_toml_config_def table_def req_def opt_def fmlookup_of_list dec_enc_schedule
      dest!: dec_enc_provider dec_enc_backend dec_enc_coordinator split: option.splits)

text \<open>The counters of a configuration that fit a TOML integer.\<close>

definition writable_config :: "provider_config \<Rightarrow> bool" where
  "writable_config c \<longleftrightarrow> unat (ps_memory_reserve_gb (pc_provider c)) < 2 ^ 63 \<and> unat (bs_idle_timeout_mins (pc_backend c)) < 2 ^ 63 \<and>
     unat (cs_heartbeat_interval_secs (pc_coordinator c)) < 2 ^ 63"

lemma enc_config_total: "enc_toml_config c \<noteq> None \<longleftrightarrow> writable_config c"
  by (auto simp: enc_toml_config_def enc_toml_provider_def enc_toml_backend_def enc_toml_coordinator_def enc_toml_u64_def
      writable_config_def)

text \<open>Working file operations, and a TOML printer whose text for this configuration parses back.\<close>

definition files_work :: "config_env \<Rightarrow> provider_config \<Rightarrow> bool" where
  "files_work env c \<longleftrightarrow> ce_mkdir_ok env \<and> ce_write_ok env \<and> ce_read_ok env \<and>
     pred_option (\<lambda>t. ce_parse env (ce_print env t) = Some t) (enc_toml_config c)"

lemma save_load:
  assumes "files_work env c"
  shows "config_save env c file = (if writable_config c then (Ok (), Some (ce_print env (the (enc_toml_config c)))) else (Err ''failed to serialize config to TOML'', file))"
    and "writable_config c \<Longrightarrow> config_load env (Some (ce_print env (the (enc_toml_config c)))) = Ok c"
  using assms enc_config_total[of c] dec_enc_config[of c]
  by (auto simp: config_save_def config_load_def files_work_def split: option.splits)

section \<open>Properties\<close>

text \<open>C30: A configuration that is saved is loaded back exactly, and one with a counter beyond 63 bits is
  refused without touching the file.\<close>

theorem config_save_load:
  assumes "files_work env c"
  shows "case config_save env c file of
      (Inr _, file') \<Rightarrow> writable_config c \<and> config_load env file' = Ok c
    | (Inl _, file') \<Rightarrow> \<not> writable_config c \<and> file' = file"
  using save_load[OF assms] by simp


definition sample_config :: provider_config where
  "sample_config = \<lparr>pc_provider = \<lparr>ps_name = ''n'', ps_memory_reserve_gb = 4, ps_auto_update = True\<rparr>,
     pc_backend = \<lparr>bs_port = 8100, bs_model = Some ''m'', bs_continuous_batching = True, bs_enabled_models = [''a''], bs_idle_timeout_mins = 60\<rparr>,
     pc_coordinator = \<lparr>cs_url = ''u'', cs_heartbeat_interval_secs = 5\<rparr>,
     pc_schedule = Some \<lparr>sc_enabled = True, sc_windows = [\<lparr>sw_days = [''mon''], sw_start = ''22:00'', sw_end = ''08:00''\<rparr>]\<rparr>\<rparr>"

definition sample_config_env :: config_env where
  "sample_config_env = \<lparr>ce_config_dir = Some ''c'', ce_print = (\<lambda>_. ''toml''), ce_parse = (\<lambda>_. enc_toml_config sample_config),
     ce_mkdir_ok = True, ce_write_ok = True, ce_read_ok = True\<rparr>"

theorem config_save_load_witness:
  "\<exists>file'. config_save sample_config_env sample_config None = (Ok (), file') \<and> config_load sample_config_env file' = Ok sample_config"
proof -
  have w: "writable_config sample_config" by (simp add: writable_config_def sample_config_def)
  have "files_work sample_config_env sample_config"
    by (simp add: files_work_def sample_config_env_def pred_option_def)
  from config_save_load[OF this, of None] w show ?thesis
    by (auto split: prod.splits sum.splits)
qed


text \<open>\<open>autoupdate\<close> changes the one setting and nothing else.\<close>

lemma autoupdate_sets:
  assumes "files_work env (c\<lparr>pc_provider := (pc_provider c)\<lparr>ps_auto_update := (action = ''enable'')\<rparr>\<rparr>)" "ce_config_dir env = Some d" "config_load env (Some f) = Ok c" "writable_config c" "action \<in> {''enable'', ''disable''}"
  shows "\<exists>f'. cmd_autoupdate env hw loaded action (Some f) = (Ok (), Some f', loaded) \<and>
    config_load env (Some f') = Ok (c\<lparr>pc_provider := (pc_provider c)\<lparr>ps_auto_update := (action = ''enable'')\<rparr>\<rparr>)"
proof -
  have "writable_config (c\<lparr>pc_provider := (pc_provider c)\<lparr>ps_auto_update := (action = ''enable'')\<rparr>\<rparr>)"
    using assms(4) by (simp add: writable_config_def)
  with save_load[OF assms(1)] assms show ?thesis
    by (auto simp: cmd_autoupdate_def default_config_path_def)
qed

text \<open>Older files lack newer keys: they load with the defaults.\<close>

lemma old_config_defaults:
  "dec_toml_config (table
     [(''provider'', table [(''name'', TStr n), (''memory_reserve_gb'', TInt 4)]),
      (''backend'', table [(''port'', TInt 8100), (''continuous_batching'', TBool True)]),
      (''coordinator'', table [(''url'', TStr u), (''heartbeat_interval_secs'', TInt 30)])]) =
   Some \<lparr>pc_provider = \<lparr>ps_name = n, ps_memory_reserve_gb = 4, ps_auto_update = True\<rparr>,
     pc_backend = \<lparr>bs_port = 8100, bs_model = None, bs_continuous_batching = True, bs_enabled_models = [], bs_idle_timeout_mins = 60\<rparr>,
     pc_coordinator = \<lparr>cs_url = u, cs_heartbeat_interval_secs = 30\<rparr>, pc_schedule = None\<rparr>"
  by (simp add: dec_toml_config_def dec_toml_provider_def dec_toml_backend_def dec_toml_coordinator_def table_def req_def opt_def dflt_def
      fmlookup_of_list default_true_def default_idle_timeout_mins_def)

end
