(* ===== verification/Backend.thy ===== *)
theory Backend
  imports Hardware
begin

text \<open>
  Inference backends (\<open>provider/src/backend/mod.rs\<close>, \<open>backend/vllm_mlx.rs\<close>): the
  reconnection and restart backoff, the \<open>vllm-mlx\<close> child process, its health checks and
  the monitor that restarts it. The trait \<open>Backend\<close> is the locale \<open>backend_iface\<close>;
  the monitor takes the trait's operations as arguments and is verified once, in the locale.
  Spawning, waiting, HTTP responses are observations. Telemetry of the monitor is returned as the
  list of event messages.
\<close>

section \<open>Exponential backoff\<close>

record exponential_backoff =
  eb_current :: nat
  eb_max :: nat

definition backoff_new :: exponential_backoff where
  "backoff_new = \<lparr>eb_current = 1, eb_max = 5\<rparr>"

definition next_delay :: "exponential_backoff \<Rightarrow> nat \<times> exponential_backoff" where
  "next_delay b = (eb_current b, b\<lparr>eb_current := min (eb_current b * 2) (eb_max b)\<rparr>)"

definition backoff_reset :: "exponential_backoff \<Rightarrow> exponential_backoff" where
  "backoff_reset b = b\<lparr>eb_current := 1\<rparr>"

text \<open>The delays of consecutive failures.\<close>

fun delays :: "nat \<Rightarrow> exponential_backoff \<Rightarrow> nat list" where
  "delays 0 b = []"
| "delays (Suc n) b = (case next_delay b of (d, b') \<Rightarrow> d # delays n b')"

section \<open>HTTP checks\<close>

text \<open>A GET is \<open>None\<close> on a transport error, otherwise the success flag and the JSON body if
  the body is JSON.\<close>

type_synonym http_get = "string \<Rightarrow> (bool \<times> json option) option"

definition http_success :: "http_get \<Rightarrow> string \<Rightarrow> bool" where
  "http_success get url = (case get url of Some (True, _) \<Rightarrow> True | _ \<Rightarrow> False)"

definition binary_exists :: "cmd_env \<Rightarrow> string \<Rightarrow> bool" where
  "binary_exists run name = (case run ''which'' [name] of Some o' \<Rightarrow> co_success o' | None \<Rightarrow> False)"

definition check_health :: "http_get \<Rightarrow> string \<Rightarrow> bool" where
  "check_health get base_url = list_ex (\<lambda>p. http_success get (base_url @ p)) [''/health'', ''/v1/models'']"

definition check_model_loaded :: "http_get \<Rightarrow> string \<Rightarrow> bool" where
  "check_model_loaded get base_url =
     (case (case get (base_url @ ''/health'') of
              Some (True, Some body) \<Rightarrow> json_get_as json_as_bool ''model_loaded'' body
            | _ \<Rightarrow> None) of
        Some loaded \<Rightarrow> loaded
      | None \<Rightarrow> http_success get (base_url @ ''/v1/models''))"

definition first_model_name :: "json \<Rightarrow> string option" where
  "first_model_name v =
     (case json_get_as json_as_array ''data'' v of
        Some (m # _) \<Rightarrow> json_get_as json_as_str ''id'' m
      | _ \<Rightarrow> None)"

definition warmup_body :: "string \<Rightarrow> json" where
  "warmup_body model_name =
     JObj [(''max_tokens'', JNum (PosInt 1)),
           (''messages'', JArr [JObj [(''content'', JStr ''hi''), (''role'', JStr ''user'')]]),
           (''model'', JStr model_name),
           (''stream'', JBool False)]"

text \<open>The POST's answer: \<open>None\<close> on a transport error, otherwise the success flag.\<close>

definition warmup_backend :: "http_get \<Rightarrow> (string \<Rightarrow> json \<Rightarrow> bool option) \<Rightarrow> string \<Rightarrow> bool" where
  "warmup_backend get post base_url =
     (let model_name =
            (case get (base_url @ ''/v1/models'') of
               Some (True, Some v) \<Rightarrow> option_unwrap_or ''default'' (first_model_name v)
             | _ \<Rightarrow> ''default'')
      in post (base_url @ ''/v1/chat/completions'') (warmup_body model_name) = Some True)"

section \<open>The vllm-mlx process\<close>

record vllm_backend =
  vb_model :: string
  vb_port :: u16
  vb_continuous_batching :: bool
  vb_child :: "nat option"
  vb_unix_socket_path :: "string option"

definition vllm_new :: "string \<Rightarrow> u16 \<Rightarrow> bool \<Rightarrow> vllm_backend" where
  "vllm_new model port continuous_batching =
     \<lparr>vb_model = model, vb_port = port, vb_continuous_batching = continuous_batching,
      vb_child = None, vb_unix_socket_path = None\<rparr>"

definition with_unix_socket :: "vllm_backend \<Rightarrow> string \<Rightarrow> vllm_backend" where
  "with_unix_socket b path = b\<lparr>vb_unix_socket_path := Some path\<rparr>"

definition build_args :: "vllm_backend \<Rightarrow> string list" where
  "build_args b =
     (let model_lower = to_lowercase (vb_model b);
          tool_parser =
            (if str_contains model_lower ''gemma'' then ''gemma4''
             else if str_contains model_lower ''deepseek'' \<or> str_contains model_lower ''trinity'' then ''hermes''
             else if str_contains model_lower ''qwen'' then ''nemotron''
             else ''auto'');
          reasoning_parser =
            (if str_contains model_lower ''gemma'' then ''gemma4''
             else if str_contains model_lower ''deepseek'' \<or> str_contains model_lower ''trinity''
                  \<or> str_contains model_lower ''minimax'' then ''deepseek_r1''
             else ''qwen3'')
      in [''serve'', vb_model b]
         @ (case vb_unix_socket_path b of
              Some p \<Rightarrow> [''--unix-socket'', p]
            | None \<Rightarrow> [''--port'', show_nat (unat (vb_port b)), ''--host'', ''127.0.0.1''])
         @ (if vb_continuous_batching b then [''--continuous-batching''] else [])
         @ [''--enable-auto-tool-choice'', ''--tool-call-parser'', tool_parser,
            ''--reasoning-parser'', reasoning_parser])"

definition vllm_base_url :: "vllm_backend \<Rightarrow> string" where
  "vllm_base_url b = ''http://127.0.0.1:'' @ show_nat (unat (vb_port b))"

text \<open>The environment of a start: whether the binary is on the path and the process identifier of
  a successful spawn.\<close>

type_synonym spawn_env = "bool \<times> nat option"

definition vllm_start :: "spawn_env \<Rightarrow> vllm_backend \<Rightarrow> vllm_backend \<times> unit result" where
  "vllm_start env b =
     (if vb_child b \<noteq> None then (b, Err ''vllm-mlx backend is already running'')
      else if \<not> fst env then
        (b, Err ''vllm-mlx binary not found on PATH. Install it with: pip install vllm-mlx'')
      else case snd env of
        None \<Rightarrow> (b, Err ''failed to spawn vllm-mlx process'')
      | Some pid \<Rightarrow> (b\<lparr>vb_child := Some pid\<rparr>, Ok ()))"

datatype wait_result = Exited | WaitError | WaitTimeout
datatype signal = SigTerm nat | SigKill nat

text \<open>Stopping: \<open>live_id\<close> is \<open>Child::id\<close>, \<open>None\<close> once the child has been
  waited for.\<close>

definition stop_signals :: "nat \<Rightarrow> nat option \<Rightarrow> wait_result \<Rightarrow> signal list" where
  "stop_signals child live_id w =
     (case live_id of
        Some pid \<Rightarrow> SigTerm pid # (case w of Exited \<Rightarrow> [] | _ \<Rightarrow> [SigKill child])
      | None \<Rightarrow> [SigKill child])"

definition vllm_stop :: "nat option \<times> wait_result \<Rightarrow> vllm_backend \<Rightarrow> vllm_backend \<times> signal list" where
  "vllm_stop env b =
     (case vb_child b of
        None \<Rightarrow> (b, [])
      | Some child \<Rightarrow> (b\<lparr>vb_child := None\<rparr>, stop_signals child (fst env) (snd env)))"

definition vllm_health :: "http_get \<Rightarrow> vllm_backend \<Rightarrow> bool" where
  "vllm_health get b = check_health get (vllm_base_url b)"

section \<open>The monitor\<close>

record 'b monitor =
  mon_backend :: 'b
  mon_backoff :: exponential_backoff

text \<open>One wake-up of the health monitor: the new state, the delay slept before the restart if
  there is one, and the telemetry messages.\<close>

definition monitor_tick ::
  "('b \<Rightarrow> bool) \<Rightarrow> ('b \<Rightarrow> 'b \<times> 's) \<Rightarrow> ('b \<Rightarrow> 'b \<times> unit result) \<Rightarrow> string \<Rightarrow> 'b monitor
   \<Rightarrow> 'b monitor \<times> nat option \<times> string list" where
  "monitor_tick health stop start name m =
     (if health (mon_backend m) then (m\<lparr>mon_backoff := backoff_reset (mon_backoff m)\<rparr>, None, [])
      else
        let (delay, backoff) = next_delay (mon_backoff m);
            stopped = fst (stop (mon_backend m));
            crash = ''backend health check failed: '' @ name
        in case start stopped of
             (b, Ok _) \<Rightarrow>
               (m\<lparr>mon_backend := b, mon_backoff := backoff_reset backoff\<rparr>, Some delay, [crash])
           | (b, Err e) \<Rightarrow>
               (m\<lparr>mon_backend := b, mon_backoff := backoff\<rparr>, Some delay, [crash, ''backend restart failed'']))"

text \<open>The contract of the trait: stopping leaves no process, starting a stopped backend runs one
  when the environment allows it, and a start that fails changes nothing.\<close>

locale backend_iface =
  fixes start :: "'b \<Rightarrow> 'b \<times> unit result"
    and stop :: "'b \<Rightarrow> 'b \<times> 's"
    and running :: "'b \<Rightarrow> bool"
    and available :: bool
  assumes stop_not_running: "\<not> running (fst (stop b))"
    and start_ok: "\<not> running b \<Longrightarrow> available \<Longrightarrow> snd (start b) = Ok () \<and> running (fst (start b))"
    and start_unavailable: "\<not> available \<Longrightarrow> (\<exists>e. snd (start b) = Err e) \<and> fst (start b) = b"
begin

lemma tick_restarts:
  assumes "\<not> health (mon_backend m)" and available
  shows "running (mon_backend (fst (monitor_tick health stop start name m)))"
    and "eb_current (mon_backoff (fst (monitor_tick health stop start name m))) = 1"
    and "snd (snd (monitor_tick health stop start name m)) = [''backend health check failed: '' @ name]"
  using assms start_ok[OF stop_not_running, of "mon_backend m"]
  by (auto simp: monitor_tick_def Let_def next_delay_def backoff_reset_def split: prod.splits sum.splits)

lemma tick_fails:
  assumes "\<not> health (mon_backend m)" and "\<not> available"
  shows "\<not> running (mon_backend (fst (monitor_tick health stop start name m)))"
    and "mon_backoff (fst (monitor_tick health stop start name m)) = snd (next_delay (mon_backoff m))"
  using assms start_unavailable[of "fst (stop (mon_backend m))"] stop_not_running[of "mon_backend m"]
  by (auto simp: monitor_tick_def Let_def next_delay_def split: prod.splits sum.splits)

end

interpretation vllm: backend_iface "vllm_start env" "vllm_stop wenv" "\<lambda>b. vb_child b \<noteq> None"
    "fst env \<and> snd env \<noteq> None"
  by unfold_locales (auto simp: vllm_start_def vllm_stop_def split: option.split)

section \<open>Properties\<close>

lemma backoff_delays_aux:
  "eb_max b = 5 \<Longrightarrow> eb_current b = min (2 ^ k) 5 \<Longrightarrow> delays n b = map (\<lambda>i. min (2 ^ (k + i)) 5) [0..<n]"
proof (induction n arbitrary: b k)
  case (Suc n)
  have "min (min (2 ^ k) 5 * 2) (5::nat) = min (2 ^ Suc k) 5"
    by auto
  with Suc.prems Suc.IH[of "snd (next_delay b)" "Suc k"] show ?case
    by (simp add: next_delay_def map_upt_Suc del: upt_Suc)
qed simp

text \<open>Consecutive failures wait 1, 2, 4 and then always 5 seconds: the \<open>n\<close>-th delay
  after a reset is the smaller of \<open>2 ^ n\<close> and 5.\<close>

theorem backoff_delays: "delays n backoff_new = map (\<lambda>i. min (2 ^ i) 5) [0..<n]"
  using backoff_delays_aux[of backoff_new 0 n] by (simp add: backoff_new_def)

text \<open>When the health check fails and the binary can be spawned, one wake-up of the monitor
  leaves the backend running and the backoff reset: the restart never trips over the old child,
  because it is stopped first. When it cannot be spawned, no stale child is left behind and the
  next delay is the backed-off one.\<close>

theorem monitor_restarts_vllm:
  assumes "\<not> vllm_health get (mon_backend m)"
  shows "let m' = fst (monitor_tick (vllm_health get) (vllm_stop wenv) (vllm_start env) name m)
    in if fst env \<and> snd env \<noteq> None
       then vb_child (mon_backend m') \<noteq> None \<and> eb_current (mon_backoff m') = 1
       else vb_child (mon_backend m') = None \<and> mon_backoff m' = snd (next_delay (mon_backoff m))"
  using vllm.tick_restarts[where m = m and health = "vllm_health get" and env = env and wenv = wenv and name = name]
    vllm.tick_fails[where m = m and health = "vllm_health get" and env = env and wenv = wenv and name = name] assms
  by (auto simp: Let_def)

lemma monitor_restarts_vllm_witness:
  "vb_child (mon_backend (fst (monitor_tick (vllm_health (\<lambda>_. None)) (vllm_stop (Some 7, WaitTimeout))
     (vllm_start (True, Some 8)) ''vllm-mlx''
     \<lparr>mon_backend = (vllm_new ''qwen'' 8100 True)\<lparr>vb_child := Some 7\<rparr>, mon_backoff = backoff_new\<rparr>))) \<noteq> None"
  using monitor_restarts_vllm[of "\<lambda>_. None"
      "\<lparr>mon_backend = (vllm_new ''qwen'' 8100 True)\<lparr>vb_child := Some 7\<rparr>, mon_backoff = backoff_new\<rparr>"
      "(Some 7, WaitTimeout)" "(True, Some 8)" "''vllm-mlx''"]
  by (simp add: Let_def vllm_health_def check_health_def http_success_def)

end
