(* ===== verification/FileTree.thy ===== *)
theory FileTree
  imports Maps "HOL-Library.Multiset"
begin

text \<open>
  Directory trees, paths and the file hashing of \<open>provider/src/security.rs\<close>. A path is the
  list of its components, ordered component by component as \<open>PathBuf\<close> is; its text joins
  them with slashes. A node is a file, a directory, or a symbolic link to one of these; file
  contents are \<open>None\<close> when the file cannot be read. SHA-256 is the parameter
  \<open>sha256\<close>; a streaming digest of chunks is the digest of their concatenation.

  \<open>covered\<close> specifies which files the runtime hash depends on; \<open>collect_runtime_files\<close>
  returns exactly those. \<open>hash_files_sorted\<close> orders the paths component-wise whatever order
  it receives.
\<close>

section \<open>Paths\<close>

type_synonym path = "string list"

definition path_string :: "path \<Rightarrow> string" where
  "path_string p = str_join ''/'' p"

text \<open>\<open>Path::extension\<close> and \<open>Path::file_stem\<close> of a file name: the split at the last
  dot, unless that dot is the first byte.\<close>

definition path_extension :: "string \<Rightarrow> string option" where
  "path_extension name =
     (let ps = str_split (CHR ''.'') name
      in if length ps = 1 \<or> ps = ['''', last ps] then None else Some (last ps))"

definition path_file_stem :: "string \<Rightarrow> string" where
  "path_file_stem name =
     (case path_extension name of
        None \<Rightarrow> name
      | Some e \<Rightarrow> take (length name - length e - 1) name)"

section \<open>Trees\<close>

datatype fnode =
    FFile "bytes option"
  | FSymFile "bytes option"
  | FDir "(string \<times> fnode) list"
  | FDeniedDir
  | FSymDir fnode

text \<open>\<open>Path::is_dir\<close>, which follows links.\<close>

fun is_dir :: "fnode \<Rightarrow> bool" where
  "is_dir (FDir _) = True"
| "is_dir FDeniedDir = True"
| "is_dir (FSymDir _) = True"
| "is_dir _ = False"

text \<open>
  \<open>purge_pycache\<close>: entries named \<open>__pycache__\<close> that are directories and files with
  extension \<open>pyc\<close> are removed, other directories are purged in turn. A removal that fails
  is ignored; \<open>rm\<close> says which removals succeed.
\<close>

function purge_pycache :: "(path \<Rightarrow> bool) \<Rightarrow> path \<Rightarrow> fnode \<Rightarrow> fnode"
  and purge_entries :: "(path \<Rightarrow> bool) \<Rightarrow> path \<Rightarrow> (string \<times> fnode) list \<Rightarrow> (string \<times> fnode) list" where
  "purge_pycache rm p (FFile c) = FFile c"
| "purge_pycache rm p (FSymFile c) = FSymFile c"
| "purge_pycache rm p FDeniedDir = FDeniedDir"
| "purge_pycache rm p (FSymDir t) = FSymDir (purge_pycache rm p t)"
| "purge_pycache rm p (FDir es) = FDir (purge_entries rm p es)"
| "purge_entries rm p [] = []"
| "purge_entries rm p ((name, n) # es) =
     (let path = p @ [name]; rest = purge_entries rm p es
      in if is_dir n then
           if name = ''__pycache__'' then (if rm path then rest else (name, n) # rest)
           else (name, purge_pycache rm path n) # rest
         else if path_extension name = Some ''pyc'' then (if rm path then rest else (name, n) # rest)
         else (name, n) # rest)"
  by pat_completeness auto
termination
  by (relation "measure (case_sum (\<lambda>(_, _, n). size n) (\<lambda>(_, _, es). size_list (size_prod (\<lambda>_. 0) size) es))") auto

text \<open>\<open>collect_runtime_files\<close>: links to directories are not followed.\<close>

function collect_runtime_files :: "path \<Rightarrow> fnode \<Rightarrow> path list"
  and collect_entries :: "path \<Rightarrow> (string \<times> fnode) list \<Rightarrow> path list" where
  "collect_runtime_files p (FDir es) = collect_entries p es"
| "collect_runtime_files p (FFile c) = []"
| "collect_runtime_files p (FSymFile c) = []"
| "collect_runtime_files p FDeniedDir = []"
| "collect_runtime_files p (FSymDir t) = []"
| "collect_entries p [] = []"
| "collect_entries p ((name, n) # es) =
     (case n of
        FDir es' \<Rightarrow>
          (if name = ''__pycache__'' then [] else collect_runtime_files (p @ [name]) n)
      | FDeniedDir \<Rightarrow> []
      | FSymDir _ \<Rightarrow> []
      | _ \<Rightarrow> (if path_extension name = Some ''pyc'' then [] else [p @ [name]]))
     @ collect_entries p es"
  by pat_completeness auto
termination
  by (relation "measure (case_sum (\<lambda>(_, n). size n) (\<lambda>(_, es). size_list (size_prod (\<lambda>_. 0) size) es))") auto

text \<open>\<open>collect_files_recursive\<close>: the files with an extension, or all for a star; links to directories are
  followed.\<close>

function collect_files_recursive :: "string \<Rightarrow> path \<Rightarrow> fnode \<Rightarrow> path list"
  and collect_ext_entries :: "string \<Rightarrow> path \<Rightarrow> (string \<times> fnode) list \<Rightarrow> path list" where
  "collect_files_recursive ext p (FDir es) = collect_ext_entries ext p es"
| "collect_files_recursive ext p (FSymDir t) = collect_files_recursive ext p t"
| "collect_files_recursive ext p (FFile c) = []"
| "collect_files_recursive ext p (FSymFile c) = []"
| "collect_files_recursive ext p FDeniedDir = []"
| "collect_ext_entries ext p [] = []"
| "collect_ext_entries ext p ((name, n) # es) =
     (if is_dir n then
        (if name = ''__pycache__'' then [] else collect_files_recursive ext (p @ [name]) n)
      else if ext = ''*'' \<or> path_extension name = Some ext then [p @ [name]] else [])
     @ collect_ext_entries ext p es"
  by pat_completeness auto
termination
  by (relation "measure (case_sum (\<lambda>(_, _, n). size n) (\<lambda>(_, _, es). size_list (size_prod (\<lambda>_. 0) size) es))") auto

text \<open>\<open>File::open\<close> and reading to the end, which follow links.\<close>

fun node_at :: "fnode \<Rightarrow> path \<Rightarrow> fnode option" where
  "node_at n [] = Some n"
| "node_at (FDir es) (c # cs) = (case map_of es c of None \<Rightarrow> None | Some n \<Rightarrow> node_at n cs)"
| "node_at (FSymDir t) (c # cs) = node_at t (c # cs)"
| "node_at _ (c # cs) = None"

definition read_file :: "fnode \<Rightarrow> path \<Rightarrow> bytes option" where
  "read_file root p =
     (case node_at root p of Some (FFile c) \<Rightarrow> c | Some (FSymFile c) \<Rightarrow> c | _ \<Rightarrow> None)"

section \<open>Hashing\<close>

definition hex_digit :: "nat \<Rightarrow> char" where
  "hex_digit d = (if d < 10 then char_of (48 + d) else char_of (87 + d))"

definition hex_lower :: "bytes \<Rightarrow> string" where
  "hex_lower bs = concat (map (\<lambda>b. [hex_digit (unat b div 16), hex_digit (unat b mod 16)]) bs)"

definition hash_file :: "(bytes \<Rightarrow> bytes) \<Rightarrow> (path \<Rightarrow> bytes option) \<Rightarrow> path \<Rightarrow> string option" where
  "hash_file sha256 read p = map_option (\<lambda>c. hex_lower (sha256 c)) (read p)"

definition hash_files_sorted :: "(bytes \<Rightarrow> bytes) \<Rightarrow> (path \<Rightarrow> bytes option) \<Rightarrow> path list \<Rightarrow> string option" where
  "hash_files_sorted sha256 read paths =
     map_option (\<lambda>digests. hex_lower (sha256 (concat digests)))
       (those (map (\<lambda>p. map_option sha256 (read p)) (sort paths)))"

text \<open>The runtime hash of \<open>compute_runtime_hashes\<close> for an existing library directory.\<close>

definition runtime_tree_hash :: "(bytes \<Rightarrow> bytes) \<Rightarrow> (path \<Rightarrow> bool) \<Rightarrow> fnode \<Rightarrow> string option" where
  "runtime_tree_hash sha256 rm lib =
     (let lib' = purge_pycache rm [] lib;
          files = sort_key path_string (collect_runtime_files [] lib')
      in hash_files_sorted sha256 (read_file lib') files)"

lemma hex_lower_inject [simp]: "hex_lower a = hex_lower b \<longleftrightarrow> a = b"
proof -
  have dig: "hex_digit x = hex_digit y \<longleftrightarrow> x = y" if "x < 16" "y < 16" for x y
    using that by (auto simp: hex_digit_def char_of_inject)
  have byte: "unat x div 16 < 16" for x :: u8
  proof -
    have "unat x < 2 ^ LENGTH(8)" by (rule unsigned_less)
    then show ?thesis by (simp add: less_mult_imp_div_less)
  qed
  have eq: "x = y \<longleftrightarrow> unat x div 16 = unat y div 16 \<and> unat x mod 16 = unat y mod 16" for x y :: u8
    by (metis div_mult_mod_eq word_unat_eq_iff)
  show ?thesis
  proof (induction a arbitrary: b)
    case (Cons x a)
    then show ?case
      using dig byte by (cases b) (auto simp: hex_lower_def eq)
  qed (auto simp: hex_lower_def split: list.split)
qed

section \<open>What the hash covers\<close>

text \<open>A file below real directories none of which is a bytecode cache, and which is not itself
  bytecode.\<close>

fun covered :: "fnode \<Rightarrow> path \<Rightarrow> bool" where
  "covered (FDir es) [name] =
     list_ex (\<lambda>(m, n). m = name \<and> \<not> is_dir n \<and> path_extension name \<noteq> Some ''pyc'') es"
| "covered (FDir es) (name # c # cs) =
     list_ex (\<lambda>(m, n). m = name \<and> name \<noteq> ''__pycache__'' \<and> covered n (c # cs)) es"
| "covered _ _ = False"

lemma covered_not_Nil [simp]: "\<not> covered n []"
  by (cases n) auto

lemma covered_empty [simp]: "\<not> covered (FDir []) cs"
  by (cases "(FDir [], cs)" rule: covered.cases) auto

lemma covered_is_FDir: "covered n cs \<Longrightarrow> \<exists>es. n = FDir es"
  by (cases n) auto

lemma collect_covered:
  "q \<in> set (collect_runtime_files p n) \<longleftrightarrow> (\<exists>cs. q = p @ cs \<and> covered n cs)"
  "q \<in> set (collect_entries p es) \<longleftrightarrow> (\<exists>cs. q = p @ cs \<and> covered (FDir es) cs)"
proof (induction p n and p es arbitrary: q and q rule: collect_runtime_files_collect_entries.induct)
  case (7 p name n es)
  have tail: "q \<in> set (collect_entries p es) \<longleftrightarrow> (\<exists>cs. q = p @ cs \<and> covered (FDir es) cs)"
    using "7.IH" by auto
  show ?case
  proof (cases "is_dir n")
    case False
    then have "set (collect_entries p ((name, n) # es)) =
        (if path_extension name = Some ''pyc'' then {} else {p @ [name]}) \<union> set (collect_entries p es)"
      by (cases n) auto
    moreover have "covered (FDir ((name, n) # es)) cs \<longleftrightarrow>
        cs = [name] \<and> path_extension name \<noteq> Some ''pyc'' \<or> covered (FDir es) cs" for cs
      using False by (cases "(FDir es, cs)" rule: covered.cases) (auto dest: covered_is_FDir)
    ultimately show ?thesis
      using tail by auto
  next
    case True
    have head: "covered (FDir ((name, n) # es)) cs \<longleftrightarrow>
        (\<exists>ds. cs = name # ds \<and> name \<noteq> ''__pycache__'' \<and> covered n ds) \<or> covered (FDir es) cs" for cs
      using True by (cases "(FDir es, cs)" rule: covered.cases) auto
    show ?thesis
    proof (cases n)
      case (FDir es')
      with "7.IH"(1)[OF this] tail head show ?thesis
        by (auto simp del: collect_runtime_files.simps split: if_splits)
    qed (use True tail head in auto)
  qed
qed auto

lemma sort_mset_cong:
  fixes xs ys :: "'a::linorder list"
  assumes "mset xs = mset ys"
  shows "sort xs = sort ys"
  using assms by (metis mset_sort properties_for_sort sorted_sort)

lemma sort_sort_key [simp]: "sort (sort_key f xs) = sort (xs :: 'a::linorder list)"
  by (rule sort_mset_cong) simp

lemma hash_files_sorted_mset:
  "mset ps = mset qs \<Longrightarrow> hash_files_sorted sha256 read ps = hash_files_sorted sha256 read qs"
  using sort_mset_cong[of ps qs] by (simp add: hash_files_sorted_def)

section \<open>Purging does not change what is hashed\<close>

fun tree_wf :: "fnode \<Rightarrow> bool" where
  "tree_wf (FDir es) \<longleftrightarrow> distinct (map fst es) \<and> list_all (\<lambda>(_, n). tree_wf n) es"
| "tree_wf (FSymDir t) \<longleftrightarrow> tree_wf t"
| "tree_wf _ \<longleftrightarrow> True"

lemma is_dir_purge [simp]: "is_dir (purge_pycache rm p n) = is_dir n"
  by (cases n) auto

lemma collect_purge:
  "collect_runtime_files q (purge_pycache rm p n) = collect_runtime_files q n"
  "collect_entries q (purge_entries rm p es) = collect_entries q es"
proof (induction rm p n and rm p es arbitrary: q and q rule: purge_pycache_purge_entries.induct)
  case (7 rm p name n es)
  then show ?case
    by (cases n) (auto simp: Let_def)
qed auto

lemma map_of_purge_entries:
  assumes "distinct (map fst es)" and "map_of es c = Some n"
    and "is_dir n \<Longrightarrow> c \<noteq> ''__pycache__''" and "\<not> is_dir n \<Longrightarrow> path_extension c \<noteq> Some ''pyc''"
  shows "map_of (purge_entries rm p es) c =
    Some (if is_dir n then purge_pycache rm (p @ [c]) n else n)"
  using assms
proof (induction es)
  case (Cons e es)
  obtain m k where e: "e = (m, k)" by (cases e)
  show ?case
  proof (cases "m = c")
    case True
    with Cons.prems e show ?thesis by (auto simp: Let_def)
  next
    case False
    with Cons e show ?thesis by (auto simp: Let_def)
  qed
qed simp

lemma covered_lookup:
  assumes "tree_wf (FDir es)" and "covered (FDir es) (c # cs)"
  obtains n where "map_of es c = Some n" and "tree_wf n"
    and "cs = [] \<Longrightarrow> \<not> is_dir n \<and> path_extension c \<noteq> Some ''pyc''"
    and "cs \<noteq> [] \<Longrightarrow> c \<noteq> ''__pycache__'' \<and> covered n cs"
proof -
  from assms(2) obtain n where "(c, n) \<in> set es"
    and "cs = [] \<Longrightarrow> \<not> is_dir n \<and> path_extension c \<noteq> Some ''pyc''"
    and "cs \<noteq> [] \<Longrightarrow> c \<noteq> ''__pycache__'' \<and> covered n cs"
    by (cases cs) (auto simp: list_ex_iff)
  with assms(1) that show thesis
    by (auto simp: list_all_iff)
qed

lemma node_at_purge:
  assumes "tree_wf n" and "covered n cs"
  shows "node_at (purge_pycache rm p n) cs = node_at n cs"
  using assms
proof (induction cs arbitrary: n p)
  case (Cons c cs)
  then obtain es where n: "n = FDir es" using covered_is_FDir by blast
  with Cons.prems obtain k where k: "map_of es c = Some k" "tree_wf k"
    "cs = [] \<Longrightarrow> \<not> is_dir k \<and> path_extension c \<noteq> Some ''pyc''"
    "cs \<noteq> [] \<Longrightarrow> c \<noteq> ''__pycache__'' \<and> covered k cs"
    using covered_lookup by metis
  have "is_dir k \<longleftrightarrow> cs \<noteq> []"
    using k(3,4) covered_is_FDir[of k cs] by (cases "cs = []") auto
  with k n Cons.prems(1)
  have "map_of (purge_entries rm p es) c = Some (if cs = [] then k else purge_pycache rm (p @ [c]) k)"
    using map_of_purge_entries[of es c k rm p] by auto
  with k n Cons.IH[of k "p @ [c]"] show ?case
    by auto
qed simp

text \<open>The two collectors: everything that is hashed is also found by the general one; what only the general
  one finds is bytecode or lies behind a link to a directory.\<close>

lemma collect_runtime_subset:
  "set (collect_runtime_files p n) \<subseteq> set (collect_files_recursive ''*'' p n)"
  "set (collect_entries p es) \<subseteq> set (collect_ext_entries ''*'' p es)"
proof (induction p n and p es rule: collect_runtime_files_collect_entries.induct)
  case (7 p name n es)
  then show ?case by (cases n) auto
qed auto

fun no_links :: "fnode \<Rightarrow> bool" where
  "no_links (FDir es) \<longleftrightarrow> list_all (\<lambda>(_, n). no_links n) es"
| "no_links (FSymDir t) \<longleftrightarrow> False"
| "no_links _ \<longleftrightarrow> True"

lemma collect_runtime_complete:
  "no_links n \<Longrightarrow> q \<in> set (collect_files_recursive ''*'' p n) \<Longrightarrow> path_extension (last q) \<noteq> Some ''pyc'' \<Longrightarrow>
     q \<in> set (collect_runtime_files p n)"
  "list_all (\<lambda>(_, n). no_links n) es \<Longrightarrow> q \<in> set (collect_ext_entries ''*'' p es) \<Longrightarrow> path_extension (last q) \<noteq> Some ''pyc'' \<Longrightarrow>
     q \<in> set (collect_entries p es)"
proof (induction p n and p es rule: collect_runtime_files_collect_entries.induct)
  case (7 p name n es)
  then show ?case by (cases n) (auto split: if_splits)
qed auto

lemma hash_files_sorted_cong:
  assumes "\<And>p. p \<in> set ps \<Longrightarrow> read p = read' p"
  shows "hash_files_sorted sha256 read ps = hash_files_sorted sha256 read' ps"
proof -
  have "map (\<lambda>p. map_option sha256 (read p)) (sort ps) = map (\<lambda>p. map_option sha256 (read' p)) (sort ps)"
    using assms by simp
  then show ?thesis
    by (simp only: hash_files_sorted_def)
qed

lemma runtime_tree_hash_eq:
  assumes "tree_wf lib"
  shows "runtime_tree_hash sha256 rm lib =
    hash_files_sorted sha256 (read_file lib) (collect_runtime_files [] lib)"
proof -
  let ?fs = "collect_runtime_files [] lib"
  have "hash_files_sorted sha256 (read_file (purge_pycache rm [] lib)) ?fs =
      hash_files_sorted sha256 (read_file lib) ?fs"
    using assms by (intro hash_files_sorted_cong) (auto simp: collect_covered read_file_def node_at_purge)
  moreover have "hash_files_sorted sha256 read (sort_key path_string ?fs) = hash_files_sorted sha256 read ?fs" for read
    by (rule hash_files_sorted_mset) simp
  ultimately show ?thesis
    by (simp add: runtime_tree_hash_def Let_def collect_purge)
qed

end
