(* ===== verification/Security.thy ===== *)
theory Security
  imports FileTree Hardware
begin

text \<open>
  Security posture, runtime integrity and response attestation
  (\<open>provider/src/security.rs\<close>), on macOS. System calls and commands are observations.
  SHA-256 is the parameter \<open>sha256\<close>; signing with the Secure Enclave key is the parameter
  \<open>sign\<close>, \<open>None\<close> when it fails or there is no key. The text the operating system
  gives for a command that could not be started is left out of the error messages.
\<close>

section \<open>Process hardening\<close>

definition deny_debugger_attachment :: "int \<Rightarrow> string \<Rightarrow> unit result" where
  "deny_debugger_attachment ptrace_result last_os_error =
     (if ptrace_result = 0 then Ok ()
      else Err (''PT_DENY_ATTACH failed; refusing to continue without anti-debug protection: '' @ last_os_error))"

definition disable_core_dumps :: "int \<Rightarrow> string \<Rightarrow> unit result" where
  "disable_core_dumps setrlimit_result last_os_error =
     (if setrlimit_result = 0 then Ok () else Err (''failed to disable core dumps: '' @ last_os_error))"

type_synonym env = "(string \<times> string) list"

definition dangerous_vars :: "string list" where
  "dangerous_vars =
     [''PYTHONPATH'', ''PYTHONSTARTUP'', ''PYTHONHOME'', ''PYTHONDONTWRITEBYTECODE'',
      ''PYTHONIOENCODING'', ''LD_PRELOAD'', ''DYLD_INSERT_LIBRARIES'', ''DYLD_LIBRARY_PATH'',
      ''DYLD_FRAMEWORK_PATH'']"

definition scrub_private_env :: "env \<Rightarrow> env" where
  "scrub_private_env env =
     fold (\<lambda>var e. if map_of e var \<noteq> None then hash_delete var e else e) dangerous_vars env"

definition isolate_python_preinit :: "env \<Rightarrow> env" where
  "isolate_python_preinit env =
     hash_insert ''PYTHONDONTWRITEBYTECODE'' ''1'' (hash_insert ''PYTHONNOUSERSITE'' ''1'' env)"

section \<open>Security posture\<close>

definition check_sip_enabled :: "cmd_env \<Rightarrow> bool" where
  "check_sip_enabled run =
     (case run ''/usr/bin/csrutil'' [''status''] of
        Some output \<Rightarrow> str_contains (co_stdout output) ''enabled''
      | None \<Rightarrow> False)"

definition check_rdma_disabled :: "cmd_env \<Rightarrow> bool" where
  "check_rdma_disabled run =
     (case run ''/usr/bin/rdma_ctl'' [''status''] of
        Some output \<Rightarrow> trim (co_stdout output) = ''disabled''
      | None \<Rightarrow> True)"

text \<open>The walk from the executable up to an enclosing \<open>.app\<close> directory, on the reversed
  path: the root has no parent and is not looked at.\<close>

fun find_app :: "path \<Rightarrow> path option" where
  "find_app [] = None"
| "find_app (c # parents) =
     (if path_extension c = Some ''app'' then Some (rev (c # parents)) else find_app parents)"

definition verify_bundle_signature :: "cmd_env \<Rightarrow> path result \<Rightarrow> unit result" where
  "verify_bundle_signature run current_exe =
     (case current_exe of
        Err e \<Rightarrow> Err (''cannot find exe: '' @ e)
      | Ok exe \<Rightarrow>
          (case find_app (rev exe) of
             None \<Rightarrow> Ok ()
           | Some app \<Rightarrow>
               (case run ''/usr/bin/codesign'' [''--verify'', ''--verbose=0'', ''/'' @ path_string app] of
                  None \<Rightarrow> Ok ()
                | Some output \<Rightarrow>
                    if co_success output then Ok ()
                    else Err (''App bundle signature INVALID: '' @ co_stderr output))))"

text \<open>The two refusals carry fixed instructions to the user, \<open>sip_help\<close> and
  \<open>rdma_help\<close>, which follow the quoted first sentence.\<close>

definition verify_security_posture ::
  "cmd_env \<Rightarrow> path result \<Rightarrow> bool \<Rightarrow> string \<Rightarrow> string \<Rightarrow> unit result" where
  "verify_security_posture run current_exe hypervisor_active sip_help rdma_help =
     (if \<not> check_sip_enabled run then
        Err (''SIP is disabled'' @ sip_help)
      else if \<not> check_rdma_disabled run \<and> \<not> hypervisor_active then
        Err (''RDMA is enabled without hypervisor memory isolation'' @ rdma_help)
      else case verify_bundle_signature run current_exe of
        Err e \<Rightarrow> Err e
      | Ok _ \<Rightarrow> Ok ())"

definition profiles_enrolled :: "cmd_env \<Rightarrow> string list \<Rightarrow> bool" where
  "profiles_enrolled run args =
     (case run ''profiles'' args of
        None \<Rightarrow> False
      | Some o' \<Rightarrow>
          let combined = to_lowercase (co_stdout o' @ co_stderr o');
              has_profile = str_contains combined ''micromdm''
                \<or> str_contains combined ''com.github.micromdm''
                \<or> str_contains combined ''eigeninference''
                \<or> str_contains combined ''attribute: profileidentifier'';
              no_profiles = str_contains combined ''no configuration profiles''
          in has_profile \<or> (\<not> no_profiles \<and> str_contains combined ''profileidentifier''))"

definition check_mdm_enrolled :: "cmd_env \<Rightarrow> bool \<Rightarrow> bool" where
  "check_mdm_enrolled run marker_exists =
     (if marker_exists then True
      else if profiles_enrolled run [''list''] then True
      else if profiles_enrolled run [''list'', ''-type'', ''enrollment''] then True
      else case run ''/usr/libexec/mdmclient'' [''QueryDeviceInformation''] of
        None \<Rightarrow> False
      | Some output \<Rightarrow>
          let out = to_lowercase (co_stdout output)
          in str_contains out ''enrolled'' \<or> str_contains out ''serverurl'')"

section \<open>Memory wiping\<close>

definition secure_zero :: "bytes \<Rightarrow> bytes" where
  "secure_zero buf = map (\<lambda>_. 0) buf"

text \<open>The wiped document, and the buffers that were overwritten, in order.\<close>

function secure_zero_json_value :: "json \<Rightarrow> json \<times> string list" where
  "secure_zero_json_value (JStr s) = (JNull, [s])"
| "secure_zero_json_value (JArr items) = (JNull, concat (map (\<lambda>v. snd (secure_zero_json_value v)) items))"
| "secure_zero_json_value (JObj m) = (JNull, concat (map (\<lambda>kv. snd (secure_zero_json_value (snd kv))) m))"
| "secure_zero_json_value JNull = (JNull, [])"
| "secure_zero_json_value (JBool b) = (JNull, [])"
| "secure_zero_json_value (JNum n) = (JNull, [])"
| "secure_zero_json_value (JRaw t) = (JNull, [])"
  by pat_completeness auto
termination
proof (relation "measure size")
  show "(v, JArr items) \<in> measure size" if "v \<in> set items" for v items
    using that size_list_estimation'[of v items "size v" size] by simp
  show "(snd kv, JObj m) \<in> measure size" if "kv \<in> set m" for kv m
  proof (cases kv)
    case (Pair k v)
    with that size_list_estimation'[of kv m "size v" "size_prod (\<lambda>_. 0) size"] show ?thesis
      by simp
  qed
qed simp

section \<open>Runtime hashes\<close>

record runtime_hashes =
  rh_python_hash :: "string option"
  rh_runtime_hash :: "string option"
  rh_template_hashes :: "(string \<times> string) list"

definition template_step ::
  "(bytes \<Rightarrow> bytes) \<Rightarrow> string \<times> bytes option \<Rightarrow> (string \<times> string) list \<Rightarrow> (string \<times> string) list" where
  "template_step sha256 entry m =
     (case entry of (name, content) \<Rightarrow>
        if path_extension name = Some ''jinja'' then
          (case map_option (\<lambda>c. hex_lower (sha256 c)) content of
             Some h \<Rightarrow> hash_insert (path_file_stem name) h m
           | None \<Rightarrow> m)
        else m)"

text \<open>\<open>compute_runtime_hashes\<close>: the interpreter's bytes, the library tree if it exists, the
  entries of the templates directory if it exists.\<close>

definition compute_runtime_hashes ::
  "(bytes \<Rightarrow> bytes) \<Rightarrow> (path \<Rightarrow> bool) \<Rightarrow> bytes option \<Rightarrow> fnode option \<Rightarrow> (string \<times> bytes option) list
   \<Rightarrow> runtime_hashes" where
  "compute_runtime_hashes sha256 rm python lib templates =
     \<lparr>rh_python_hash = map_option (\<lambda>c. hex_lower (sha256 c)) python,
      rh_runtime_hash = (case lib of None \<Rightarrow> None | Some t \<Rightarrow> runtime_tree_hash sha256 rm t),
      rh_template_hashes = fold (template_step sha256) templates []\<rparr>"

text \<open>Where the library tree of an interpreter is looked for: beside its \<open>bin\<close> directory if that exists, else
  in the home directory.\<close>

definition path_parent :: "path \<Rightarrow> path option" where
  "path_parent p = (if p = [] then None else Some (butlast p))"

definition runtime_lib_dir_from_python_cmd :: "(path \<Rightarrow> bool) \<Rightarrow> path option \<Rightarrow> path \<Rightarrow> path option" where
  "runtime_lib_dir_from_python_cmd exists home python_cmd =
     (let from_python_bin = map_option (\<lambda>root. root @ [''lib'', ''python3.12''])
            (Option.bind (path_parent python_cmd) path_parent)
      in case Option.bind from_python_bin (\<lambda>p. if exists p then Some p else None) of
           Some lib_dir \<Rightarrow> Some lib_dir
         | None \<Rightarrow> map_option (\<lambda>h. h @ [''.darkbloom'', ''python'', ''lib'', ''python3.12'']) home)"

definition self_binary_hash :: "(bytes \<Rightarrow> bytes) \<Rightarrow> (path \<Rightarrow> bytes option) \<Rightarrow> path result \<Rightarrow> string option" where
  "self_binary_hash sha256 read current_exe =
     (case current_exe of Inl _ \<Rightarrow> None | Inr exe_path \<Rightarrow> hash_file sha256 read exe_path)"

definition verify_backend_integrity ::
  "cmd_env \<Rightarrow> (bytes \<Rightarrow> bytes) \<Rightarrow> (string \<Rightarrow> bytes option) \<Rightarrow> string \<Rightarrow> string result" where
  "verify_backend_integrity run sha256 read binary_name =
     (case run ''which'' [binary_name] of
        None \<Rightarrow> Err (''failed to locate '' @ binary_name)
      | Some output \<Rightarrow>
          if \<not> co_success output then Err (binary_name @ '' not found on PATH'')
          else let path_str = trim (co_stdout output)
            in case read path_str of
                 Some c \<Rightarrow> Ok (hex_lower (sha256 c))
               | None \<Rightarrow> Err (''failed to hash '' @ binary_name @ '' at '' @ path_str))"

section \<open>The backend socket\<close>

definition backend_socket_path :: "nat \<Rightarrow> string" where
  "backend_socket_path pid = ''/tmp/eigeninference-backend-'' @ show_nat pid @ ''.sock''"

definition cleanup_socket :: "bool \<Rightarrow> string \<Rightarrow> (string \<Rightarrow> bool) \<Rightarrow> (string \<Rightarrow> bool)" where
  "cleanup_socket remove_ok p present = (if present p \<and> remove_ok then present(p := False) else present)"

section \<open>Response attestation\<close>

definition sha256_bytes :: "(bytes \<Rightarrow> bytes) \<Rightarrow> bytes \<Rightarrow> string" where
  "sha256_bytes sha256 data = hex_lower (sha256 data)"

definition se_sign :: "(bytes \<Rightarrow> string option) option \<Rightarrow> bytes \<Rightarrow> string option" where
  "se_sign handle data = Option.bind handle (\<lambda>sign. sign data)"

definition sign_data :: "string \<Rightarrow> u64 \<Rightarrow> string \<Rightarrow> string" where
  "sign_data request_id completion_tokens response_body =
     request_id @ '':'' @ show_nat (unat completion_tokens) @ '':'' @ response_body"

definition compute_response_attestation ::
  "(bytes \<Rightarrow> bytes) \<Rightarrow> (bytes \<Rightarrow> string option) option \<Rightarrow> string \<Rightarrow> u64 \<Rightarrow> string \<Rightarrow> string \<times> string option" where
  "compute_response_attestation sha256 se_handle request_id completion_tokens response_body =
     (let response_hash = sha256_bytes sha256 (str_bytes (sign_data request_id completion_tokens response_body))
      in (response_hash, se_sign se_handle (str_bytes response_hash)))"

section \<open>Lemmas\<close>

lemma map_of_scrub: "map_of (scrub_private_env env) v = (if v \<in> set dangerous_vars then None else map_of env v)"
proof -
  have "map_of (fold (\<lambda>var e. if map_of e var \<noteq> None then hash_delete var e else e) vs env) v =
      (if v \<in> set vs then None else map_of env v)" for vs
    by (induction vs arbitrary: env) (auto simp: map_of_hash_delete)
  then show ?thesis
    by (simp add: scrub_private_env_def)
qed

section \<open>Properties\<close>

text \<open>The posture check passes exactly when SIP is enabled, memory is not reachable over RDMA
  (RDMA is off or the hypervisor isolates memory), and the executable's bundle, if it runs from
  one, is not reported as invalid by \<open>codesign\<close>; every refusal is an error value.\<close>

theorem verify_security_posture_ok:
  "verify_security_posture run (Ok exe) hyp sip_help rdma_help = Ok () \<longleftrightarrow>
     check_sip_enabled run
     \<and> (check_rdma_disabled run \<or> hyp)
     \<and> (case find_app (rev exe) of
          None \<Rightarrow> True
        | Some app \<Rightarrow>
            (case run ''/usr/bin/codesign'' [''--verify'', ''--verbose=0'', ''/'' @ path_string app] of
               None \<Rightarrow> True
             | Some output \<Rightarrow> co_success output))"
  by (simp add: verify_security_posture_def verify_bundle_signature_def split: option.split)

text \<open>After scrubbing and the Python pre-initialisation no loader or interpreter hook variable
  of the list is left except the bytecode switch the pre-initialisation sets, and every other
  variable keeps its value.\<close>

theorem scrub_then_isolate_env:
  "map_of (isolate_python_preinit (scrub_private_env env)) v =
    (if v = ''PYTHONDONTWRITEBYTECODE'' \<or> v = ''PYTHONNOUSERSITE'' then Some ''1''
     else if v \<in> set dangerous_vars then None
     else map_of env v)"
  by (simp add: isolate_python_preinit_def hash_insert_def map_of_hash_delete map_of_scrub)

text \<open>C27: The signed text of a response determines the request, the token count and the body:
  for request identifiers without a colon, two responses with the same attested hash are the same
  response, unless SHA-256 collides on them.\<close>

theorem response_attestation_binding:
  assumes "CHR '':'' \<notin> set rid" and "CHR '':'' \<notin> set rid'"
    and "fst (compute_response_attestation sha256 h rid n body) =
         fst (compute_response_attestation sha256 h' rid' n' body')"
    and no_collision: "\<And>x y. x \<in> {str_bytes (sign_data rid n body), str_bytes (sign_data rid' n' body')} \<Longrightarrow>
          y \<in> {str_bytes (sign_data rid n body), str_bytes (sign_data rid' n' body')} \<Longrightarrow>
          sha256 x = sha256 y \<Longrightarrow> x = y"
  shows "rid = rid' \<and> n = n' \<and> body = body'"
proof -
  from assms(3) have "sha256 (str_bytes (sign_data rid n body)) = sha256 (str_bytes (sign_data rid' n' body'))"
    by (simp add: compute_response_attestation_def Let_def sha256_bytes_def)
  from no_collision[OF _ _ this] have "sign_data rid n body = sign_data rid' n' body'"
    by simp
  then show ?thesis
    using assms(1,2) show_nat_no_colon
    by (simp add: sign_data_def append_sep_inject word_unat_eq_iff)
qed

lemma response_attestation_binding_witness:
  "fst (compute_response_attestation (\<lambda>x. x) None ''req-1'' 12 ''hello'') \<noteq>
   fst (compute_response_attestation (\<lambda>x. x) None ''req-1'' 12 ''hallo'')"
proof
  assume "fst (compute_response_attestation (\<lambda>x. x) None ''req-1'' 12 ''hello'') =
    fst (compute_response_attestation (\<lambda>x. x) None ''req-1'' 12 ''hallo'')"
  from response_attestation_binding[OF _ _ this] show False
    by simp
qed


definition two_packages :: "bytes \<Rightarrow> bytes \<Rightarrow> fnode" where
  "two_packages a b =
     FDir [(''numpy-2.0.dist-info'', FDir [(''RECORD'', FFile (Some a))]),
           (''numpy'', FDir [(''core.py'', FFile (Some b))])]"


text \<open>The final hash orders files by path components, not by the path text the preceding sort
  uses: for a package directory beside its metadata directory the digest of the package file comes
  first although its path text is the greater one.\<close>

theorem runtime_hash_component_order:
  "collect_runtime_files [] (two_packages a b) =
     sort_key path_string (collect_runtime_files [] (two_packages a b))
   \<and> runtime_tree_hash sha256 rm (two_packages a b) = Some (hex_lower (sha256 (sha256 b @ sha256 a)))"
proof -
  have c: "collect_runtime_files [] (two_packages a b) =
      [[''numpy-2.0.dist-info'', ''RECORD''], [''numpy'', ''core.py'']]"
    by (simp add: two_packages_def path_extension_def Let_def)
  have s: "sort [[''numpy-2.0.dist-info'', ''RECORD''], [''numpy'', ''core.py'']] =
      [[''numpy'', ''core.py''], [''numpy-2.0.dist-info'', ''RECORD'']]"
    by (simp add: sort_key_def)
  have "sort_key path_string [[''numpy-2.0.dist-info'', ''RECORD''], [''numpy'', ''core.py'']] =
      [[''numpy-2.0.dist-info'', ''RECORD''], [''numpy'', ''core.py'']]"
    by (simp add: path_string_def)
  moreover have "tree_wf (two_packages a b)"
    by (simp add: two_packages_def)
  ultimately show ?thesis
    by (simp add: runtime_tree_hash_eq c) (simp add: hash_files_sorted_def s two_packages_def read_file_def)
qed

text \<open>A package behind a link to a directory is not part of the hash: adding one, whatever it holds, leaves
  the hash as it was, although the interpreter imports from it.\<close>

lemma linked_directory_not_hashed:
  assumes "tree_wf (FDir ((name, FSymDir t) # es))"
  shows "runtime_tree_hash sha256 rm (FDir ((name, FSymDir t) # es)) = runtime_tree_hash sha256 rm (FDir es)"
proof -
  let ?lib = "FDir ((name, FSymDir t) # es)"
  have "read_file ?lib p = read_file (FDir es) p" if "p \<in> set (collect_runtime_files [] (FDir es))" for p
  proof -
    have "covered (FDir es) p" using that collect_covered(1)[of p "[]" "FDir es"] by simp
    then obtain c cs where p: "p = c # cs" by (cases p) auto
    with \<open>covered (FDir es) p\<close> have "c \<in> fst ` set es" by (cases cs) (force simp: list_ex_iff)+
    then have "c \<noteq> name" using assms by auto
    then show ?thesis by (simp add: p read_file_def)
  qed
  then have "hash_files_sorted sha256 (read_file ?lib) (collect_runtime_files [] (FDir es)) =
      hash_files_sorted sha256 (read_file (FDir es)) (collect_runtime_files [] (FDir es))"
    by (rule hash_files_sorted_cong)
  moreover have "tree_wf (FDir es)" using assms by simp
  ultimately show ?thesis using runtime_tree_hash_eq[OF assms] runtime_tree_hash_eq by simp
qed

text \<open>The interpreter under the home directory, or in an application, has its own library hashed, when it is
  there.\<close>

lemma runtime_lib_dir_own:
  "exists (root @ [''lib'', ''python3.12'']) \<Longrightarrow>
     runtime_lib_dir_from_python_cmd exists home (root @ [''bin'', python]) = Some (root @ [''lib'', ''python3.12''])"
  by (simp add: runtime_lib_dir_from_python_cmd_def path_parent_def butlast_append)

text \<open>A bare command name, or an interpreter whose library is elsewhere, has the library of the home
  directory hashed in its place.\<close>

lemma runtime_lib_dir_other:
  "runtime_lib_dir_from_python_cmd exists (Some h) [''python3''] = Some (h @ [''.darkbloom'', ''python'', ''lib'', ''python3.12''])"
  by (simp add: runtime_lib_dir_from_python_cmd_def path_parent_def)

end
