(* ===== verification/Models.thy ===== *)
theory Models
  imports Security
begin

text \<open>
  Discovery of locally cached models (\<open>provider/src/models.rs\<close>). The file system is an
  observation, the record \<open>model_fs\<close>: which paths exist, what a directory lists (with the
  metadata of each entry) and the text and bytes of files. Times of modification are numbers.
  The JSON parser and SHA-256 are parameters.
\<close>

section \<open>Data\<close>

record model_info =
  mi_id :: string
  mi_model_type :: "string option"
  mi_parameters :: "u64 option"
  mi_quantization :: "string option"
  mi_size_bytes :: u64
  mi_estimated_memory_gb :: f64
  mi_weight_hash :: "string option"

text \<open>An entry's own metadata, without following a link.\<close>

datatype file_meta = MFile u64 | MSymlink | MOther

record dir_entry =
  de_name :: string
  de_is_dir :: bool
  de_modified :: "nat option"
  de_meta :: "file_meta option"
  de_resolved_len :: "u64 option"

record model_fs =
  mf_home :: "path option"
  mf_exists :: "path \<Rightarrow> bool"
  mf_read_dir :: "path \<Rightarrow> dir_entry list option"
  mf_read_to_string :: "path \<Rightarrow> string option"
  mf_read_bytes :: "path \<Rightarrow> bytes option"

section \<open>Locating snapshots\<close>

definition default_hf_cache_dir :: "model_fs \<Rightarrow> path option" where
  "default_hf_cache_dir fs = map_option (\<lambda>h. h @ [''.cache'', ''huggingface'', ''hub'']) (mf_home fs)"

text \<open>The candidate kept by the loop of \<open>find_latest_snapshot\<close>: the first entry, then every
  strictly newer one; an unreadable time is the epoch.\<close>

definition snapshot_step :: "path \<Rightarrow> dir_entry \<Rightarrow> (path \<times> nat) option \<Rightarrow> (path \<times> nat) option" where
  "snapshot_step dir e latest =
     (if \<not> de_is_dir e then latest
      else let modified = (case de_modified e of None \<Rightarrow> 0 | Some t \<Rightarrow> t)
        in case latest of
             Some (_, prev) \<Rightarrow> if modified > prev then Some (dir @ [de_name e], modified) else latest
           | None \<Rightarrow> Some (dir @ [de_name e], modified))"

definition find_latest_snapshot :: "model_fs \<Rightarrow> path \<Rightarrow> path option" where
  "find_latest_snapshot fs dir =
     (case mf_read_dir fs dir of
        None \<Rightarrow> None
      | Some entries \<Rightarrow> map_option fst (fold (snapshot_step dir) entries None))"

definition cached_snapshot :: "model_fs \<Rightarrow> path \<Rightarrow> string \<Rightarrow> path option" where
  "cached_snapshot fs cache_dir dir_name =
     (let model_dir = cache_dir @ [dir_name]
      in if mf_exists fs model_dir then find_latest_snapshot fs (model_dir @ [''snapshots'']) else None)"

definition resolve_local_path :: "model_fs \<Rightarrow> string \<Rightarrow> path option" where
  "resolve_local_path fs model_id =
     (case default_hf_cache_dir fs of
        None \<Rightarrow> None
      | Some cache_dir \<Rightarrow>
          (case cached_snapshot fs cache_dir (''models--'' @ str_replace model_id ''/'' ''--'') of
             Some s \<Rightarrow> Some s
           | None \<Rightarrow> cached_snapshot fs cache_dir (''models--'' @ model_id)))"

section \<open>Inspecting a snapshot\<close>

definition is_mlx_model :: "model_fs \<Rightarrow> path \<Rightarrow> string \<Rightarrow> bool" where
  "is_mlx_model fs dir model_name =
     (let name_lower = to_lowercase model_name;
          has_mlx_weights = mf_exists fs (dir @ [''weights.npz''])
            \<or> mf_exists fs (dir @ [''model.safetensors''])
            \<or> mf_exists fs (dir @ [''model.safetensors.index.json''])
      in if str_contains name_lower ''mlx'' then True
         else if has_mlx_weights
                 \<and> (str_contains name_lower ''4bit'' \<or> str_contains name_lower ''8bit''
                    \<or> str_contains name_lower ''quantized'') then True
         else if has_mlx_weights then mf_exists fs (dir @ [''config.json''])
         else False)"

definition estimate_parameters :: "json \<Rightarrow> u64 option" where
  "estimate_parameters doc =
     (case json_get_as json_as_u64 ''hidden_size'' doc of
        None \<Rightarrow> None
      | Some hidden \<Rightarrow>
          (case json_get_as json_as_u64 ''num_hidden_layers'' doc of
             None \<Rightarrow> None
           | Some layers \<Rightarrow>
               let vocab = option_unwrap_or 32000 (json_get_as json_as_u64 ''vocab_size'' doc)
               in Some (12 * hidden * hidden * layers div 1000000 * 1000000 + vocab * hidden)))"

definition parse_config_json :: "json_parser \<Rightarrow> model_fs \<Rightarrow> path \<Rightarrow> string option \<times> u64 option" where
  "parse_config_json from_str fs config_path =
     (case Option.bind (mf_read_to_string fs config_path) from_str of
        None \<Rightarrow> (None, None)
      | Some doc \<Rightarrow>
          (json_get_as json_as_str ''model_type'' doc,
           case json_get_as json_as_u64 ''num_parameters'' doc of
             Some n \<Rightarrow> Some n
           | None \<Rightarrow> estimate_parameters doc))"

definition detect_quantization :: "json_parser \<Rightarrow> model_fs \<Rightarrow> string \<Rightarrow> path \<Rightarrow> string option" where
  "detect_quantization from_str fs model_name dir =
     (let n = to_lowercase model_name; quant_config = dir @ [''quantize_config.json'']
      in if str_contains n ''4bit'' \<or> str_contains n ''q4'' \<or> str_contains n ''int4'' then Some ''4bit''
         else if str_contains n ''8bit'' \<or> str_contains n ''q8'' \<or> str_contains n ''int8'' then Some ''8bit''
         else if str_contains n ''3bit'' \<or> str_contains n ''q3'' then Some ''3bit''
         else if str_contains n ''bf16'' then Some ''bf16''
         else if str_contains n ''fp16'' \<or> str_contains n ''f16'' then Some ''fp16''
         else if mf_exists fs quant_config then
           (case Option.bind (mf_read_to_string fs quant_config) from_str of
              None \<Rightarrow> None
            | Some doc \<Rightarrow>
                map_option (\<lambda>bits. show_nat (unat bits) @ ''bit'') (json_get_as json_as_u64 ''bits'' doc))
         else None)"

definition weight_extensions :: "string list" where
  "weight_extensions = [''.safetensors'', ''.npz'', ''.bin'']"

definition integrity_files :: "string list" where
  "integrity_files =
     [''config.json'', ''tokenizer.json'', ''tokenizer_config.json'', ''tokenizer.model'',
      ''generation_config.json'', ''chat_template.jinja'', ''quantize_config.json'']"

definition is_weight_file :: "string \<Rightarrow> bool" where
  "is_weight_file name \<longleftrightarrow> list_ex (ends_with name) weight_extensions \<or> name = ''weights.npz''"

definition is_integrity_file :: "string \<Rightarrow> bool" where
  "is_integrity_file name \<longleftrightarrow>
     list_ex (ends_with name) weight_extensions \<or> name = ''weights.npz'' \<or> name \<in> set integrity_files"

definition weight_step :: "path \<Rightarrow> dir_entry \<Rightarrow> u64 \<times> path list \<Rightarrow> u64 \<times> path list" where
  "weight_step dir e acc =
     (case acc of (tot, paths) \<Rightarrow>
        let name = de_name e in
        if \<not> is_integrity_file name then acc
        else case de_meta e of
          None \<Rightarrow> acc
        | Some (MFile len) \<Rightarrow> (if is_weight_file name then tot + len else tot, paths @ [dir @ [name]])
        | Some MSymlink \<Rightarrow>
            (case de_resolved_len e of
               Some len \<Rightarrow> (if is_weight_file name then tot + len else tot, paths @ [dir @ [name]])
             | None \<Rightarrow> acc)
        | Some MOther \<Rightarrow> acc)"

definition collect_weight_files :: "model_fs \<Rightarrow> path \<Rightarrow> u64 \<times> path list" where
  "collect_weight_files fs dir =
     (case mf_read_dir fs dir of
        None \<Rightarrow> (0, [])
      | Some entries \<Rightarrow> fold (weight_step dir) entries (0, []))"

definition compute_weight_hash :: "(bytes \<Rightarrow> bytes) \<Rightarrow> model_fs \<Rightarrow> string \<Rightarrow> string option" where
  "compute_weight_hash sha256 fs model_id =
     (case resolve_local_path fs model_id of
        None \<Rightarrow> None
      | Some dir \<Rightarrow>
          (case collect_weight_files fs dir of (_, paths) \<Rightarrow>
             if paths = [] then None else hash_files_sorted sha256 (mf_read_bytes fs) paths))"

text \<open>Size in GB times 1.2.\<close>

definition estimate_memory_gb :: "u64 \<Rightarrow> f64" where
  "estimate_memory_gb size_bytes =
     f64_mul (f64_div (f64_of_nat (unat size_bytes)) (f64_of_nat (1024 * 1024 * 1024))) (f64_round 12 10)"

definition parse_model_info_opt ::
  "(bytes \<Rightarrow> bytes) \<Rightarrow> json_parser \<Rightarrow> model_fs \<Rightarrow> path \<Rightarrow> string \<Rightarrow> bool \<Rightarrow> model_info option" where
  "parse_model_info_opt sha256 from_str fs dir model_name compute_hash =
     (let config_path = dir @ [''config.json''];
          (model_type, parameters) =
            (if mf_exists fs config_path then parse_config_json from_str fs config_path else (None, None));
          quantization = detect_quantization from_str fs model_name dir;
          (size_bytes, weight_paths) = collect_weight_files fs dir
      in if size_bytes = 0 then None
         else Some \<lparr>mi_id = model_name, mi_model_type = model_type, mi_parameters = parameters,
                    mi_quantization = quantization, mi_size_bytes = size_bytes,
                    mi_estimated_memory_gb = estimate_memory_gb size_bytes,
                    mi_weight_hash =
                      (if compute_hash then hash_files_sorted sha256 (mf_read_bytes fs) weight_paths else None)\<rparr>)"

section \<open>Scanning\<close>

text \<open>One entry of the cache directory: the model it contributes, or nothing for each
  \<open>continue\<close>.\<close>

definition model_name_of_dir :: "string \<Rightarrow> string" where
  "model_name_of_dir dir_name =
     str_replace (case strip_prefix dir_name ''models--'' of None \<Rightarrow> dir_name | Some s \<Rightarrow> s) ''--'' ''/''"

definition scan_entry ::
  "(bytes \<Rightarrow> bytes) \<Rightarrow> json_parser \<Rightarrow> model_fs \<Rightarrow> path \<Rightarrow> u64 \<Rightarrow> dir_entry \<Rightarrow> model_info option" where
  "scan_entry sha256 from_str fs cache_dir available_memory_gb e =
     (let dir_name = de_name e; model_name = model_name_of_dir dir_name;
          snapshots_dir = cache_dir @ [dir_name, ''snapshots'']
      in if \<not> starts_with dir_name ''models--'' then None
         else if \<not> mf_exists fs snapshots_dir then None
         else case find_latest_snapshot fs snapshots_dir of
           None \<Rightarrow> None
         | Some snapshot \<Rightarrow>
             if \<not> is_mlx_model fs snapshot model_name then None
             else case parse_model_info_opt sha256 from_str fs snapshot model_name False of
               None \<Rightarrow> None
             | Some info \<Rightarrow>
                 if f64_le (mi_estimated_memory_gb info) (f64_of_nat (unat available_memory_gb))
                 then Some info else None)"

definition scan_models_in_dir ::
  "(bytes \<Rightarrow> bytes) \<Rightarrow> json_parser \<Rightarrow> model_fs \<Rightarrow> path \<Rightarrow> u64 \<Rightarrow> model_info list" where
  "scan_models_in_dir sha256 from_str fs cache_dir available_memory_gb =
     (case mf_read_dir fs cache_dir of
        None \<Rightarrow> []
      | Some entries \<Rightarrow>
          sort_key (\<lambda>m. f64_key (mi_estimated_memory_gb m))
            (List.map_filter (scan_entry sha256 from_str fs cache_dir available_memory_gb) entries))"

definition scan_models :: "(bytes \<Rightarrow> bytes) \<Rightarrow> json_parser \<Rightarrow> model_fs \<Rightarrow> hardware_info \<Rightarrow> model_info list" where
  "scan_models sha256 from_str fs hw =
     (case default_hf_cache_dir fs of
        Some d \<Rightarrow> if mf_exists fs d then scan_models_in_dir sha256 from_str fs d (memory_available_gb hw) else []
      | None \<Rightarrow> [])"

definition enc_model_info :: "model_info \<Rightarrow> json" where
  "enc_model_info m =
     JObj ([(''id'', enc_string (mi_id m)),
            (''model_type'', enc_option enc_string (mi_model_type m)),
            (''parameters'', enc_option enc_u64 (mi_parameters m)),
            (''quantization'', enc_option enc_string (mi_quantization m)),
            (''size_bytes'', enc_u64 (mi_size_bytes m)),
            (''estimated_memory_gb'', enc_f64 (mi_estimated_memory_gb m))]
           @ skip_none enc_string ''weight_hash'' (mi_weight_hash m))"

definition dec_model_info :: "json \<Rightarrow> model_info option" where
  "dec_model_info v =
     (case v of
        JObj kvs \<Rightarrow>
          (case (field_req json_as_str ''id'' kvs, field_opt json_as_str ''model_type'' kvs,
                 field_opt json_as_u64 ''parameters'' kvs, field_opt json_as_str ''quantization'' kvs,
                 field_req json_as_u64 ''size_bytes'' kvs, field_req json_as_f64 ''estimated_memory_gb'' kvs,
                 field_opt json_as_str ''weight_hash'' kvs) of
             (Some i, Some mt, Some ps, Some q, Some sz, Some mem, Some wh) \<Rightarrow>
               Some \<lparr>mi_id = i, mi_model_type = mt, mi_parameters = ps, mi_quantization = q,
                     mi_size_bytes = sz, mi_estimated_memory_gb = mem, mi_weight_hash = wh\<rparr>
           | _ \<Rightarrow> None)
      | _ \<Rightarrow> None)"

section \<open>Properties\<close>

lemma enc_u64_not_null: "enc_u64 n \<noteq> JNull"
  by (simp add: enc_u64_def)

interpretation model_info_codec: codec enc_model_info dec_model_info
    "\<lambda>m. f64_is_finite (mi_estimated_memory_gb m)"
proof unfold_locales
  fix m :: model_info
  assume "f64_is_finite (mi_estimated_memory_gb m)"
  then show "dec_model_info (enc_model_info m) = Some m"
    by (simp add: dec_model_info_def enc_model_info_def string_codec.field_req_enc
        string_codec.field_opt_null u64_codec.field_opt_null u64_codec.field_req_enc
        f64_codec.field_req_enc string_codec.field_opt_enc enc_string_not_null enc_u64_not_null
        pred_option_def)
qed

text \<open>Undoing a directory name: both replacements are inverse on names without a slash.\<close>

lemma replace_dashes_slash:
  assumes "CHR ''/'' \<notin> set s"
  shows "str_replace (str_replace s ''--'' ''/'') ''/'' ''--'' = s"
  using assms
proof (induction s rule: length_induct)
  case (1 s)
  show ?case
  proof (cases s)
    case (Cons c cs)
    show ?thesis
    proof (cases "prefix ''--'' s")
      case True
      then obtain t where t: "s = CHR ''-'' # CHR ''-'' # t"
        by (auto simp: prefix_def)
      with 1 show ?thesis
        by (simp add: str_replace_Cons)
    next
      case False
      with 1 Cons show ?thesis
        by (auto simp: str_replace_Cons)
    qed
  qed simp
qed

text \<open>Every scanned model fits the available memory and comes from a cache directory whose
  name the identifier reproduces: resolving the identifier looks into the very directory the scan
  found it in. The models are listed by increasing memory estimate.\<close>

theorem scan_models_in_dir_fits:
  assumes "mf_read_dir fs cache_dir = Some es"
    and "list_all (\<lambda>e. CHR ''/'' \<notin> set (de_name e)) es"
  shows "sorted (map (\<lambda>m. f64_key (mi_estimated_memory_gb m)) (scan_models_in_dir sha256 from_str fs cache_dir avail))
    \<and> (\<forall>m \<in> set (scan_models_in_dir sha256 from_str fs cache_dir avail).
         f64_le (mi_estimated_memory_gb m) (f64_of_nat (unat avail))
         \<and> ''models--'' @ str_replace (mi_id m) ''/'' ''--'' \<in> de_name ` set es)"
proof (intro conjI ballI)
  show "sorted (map (\<lambda>m. f64_key (mi_estimated_memory_gb m)) (scan_models_in_dir sha256 from_str fs cache_dir avail))"
    by (simp add: scan_models_in_dir_def assms(1))
next
  fix m
  assume "m \<in> set (scan_models_in_dir sha256 from_str fs cache_dir avail)"
  then obtain e where e: "e \<in> set es" "scan_entry sha256 from_str fs cache_dir avail e = Some m"
    by (auto simp: scan_models_in_dir_def assms(1) List.map_filter_def)
  show "f64_le (mi_estimated_memory_gb m) (f64_of_nat (unat avail))"
    using e(2) by (auto simp: scan_entry_def Let_def split: if_splits option.splits)
  from e(2) have "starts_with (de_name e) ''models--''" and id: "mi_id m = model_name_of_dir (de_name e)"
    by (auto simp: scan_entry_def parse_model_info_opt_def Let_def split: if_splits option.splits prod.splits)
  then obtain t where t: "de_name e = ''models--'' @ t"
    by (auto simp: starts_with_def prefix_def)
  with assms(2) e(1) have "CHR ''/'' \<notin> set t"
    by (auto simp: list_all_iff)
  then have "''models--'' @ str_replace (mi_id m) ''/'' ''--'' = de_name e"
    by (simp add: id t model_name_of_dir_def strip_prefix_def replace_dashes_slash)
  with e(1) show "''models--'' @ str_replace (mi_id m) ''/'' ''--'' \<in> de_name ` set es"
    by (metis image_eqI)
qed

definition demo_fs :: model_fs where
  "demo_fs =
     \<lparr>mf_home = Some [''home''], mf_exists = (\<lambda>_. True),
      mf_read_dir = (\<lambda>p. if p = [''hub''] then
          Some [\<lparr>de_name = ''models--mlx--tiny-4bit'', de_is_dir = True, de_modified = None,
                 de_meta = None, de_resolved_len = None\<rparr>]
        else None),
      mf_read_to_string = (\<lambda>_. None), mf_read_bytes = (\<lambda>_. None)\<rparr>"

lemma scan_models_in_dir_fits_witness:
  "sorted (map (\<lambda>m. f64_key (mi_estimated_memory_gb m))
     (scan_models_in_dir (\<lambda>x. x) (\<lambda>_. None) demo_fs [''hub''] 8))"
  by (rule conjunct1[OF scan_models_in_dir_fits], simp add: demo_fs_def, simp)

end
