(* ===== verification/Protocol.thy ===== *)
theory Protocol
  imports Models
begin

text \<open>
  The wire protocol between provider and coordinator (\<open>provider/src/protocol.rs\<close>): the
  message types and their JSON form. Messages the provider sends are written; messages it receives
  are read, and for those the writer of the same derive is modelled too, so that reading is shown
  to undo writing. The registration's attestation blob is raw text and is emitted verbatim.
\<close>

section \<open>Payload types\<close>

record encrypted_payload =
  ephemeral_public_key :: string
  ciphertext :: string

record privacy_capabilities =
  text_backend_inprocess :: bool
  text_proxy_disabled :: bool
  python_runtime_locked :: bool
  dangerous_modules_blocked :: bool
  pc_sip_enabled :: bool
  anti_debug_enabled :: bool
  core_dumps_disabled :: bool
  env_scrubbed :: bool
  pc_hypervisor_active :: bool

record runtime_mismatch =
  rm_component :: string
  rm_expected :: string
  rm_got :: string

record backend_slot_capacity =
  slot_model :: string
  slot_state :: string
  num_running :: u32
  num_waiting :: u32
  active_tokens :: u64
  max_tokens_potential :: u64

record backend_capacity =
  bc_slots :: "backend_slot_capacity list"
  gpu_memory_active_gb :: f64
  gpu_memory_peak_gb :: f64
  gpu_memory_cache_gb :: f64
  bc_total_memory_gb :: f64

datatype provider_status = Idle | Serving

record provider_stats =
  requests_served :: u64
  tokens_generated :: u64

definition provider_stats_default :: provider_stats where
  "provider_stats_default = \<lparr>requests_served = 0, tokens_generated = 0\<rparr>"

record usage_info =
  prompt_tokens :: u64
  completion_tokens :: u64

section \<open>Messages\<close>

record register_msg =
  reg_hardware :: hardware_info
  reg_models :: "model_info list"
  reg_backend :: string
  reg_version :: "string option"
  reg_public_key :: "string option"
  reg_encrypted_response_chunks :: bool
  reg_wallet_address :: "string option"
  reg_attestation :: "string option"
  reg_prefill_tps :: "f64 option"
  reg_decode_tps :: "f64 option"
  reg_auth_token :: "string option"
  reg_python_hash :: "string option"
  reg_runtime_hash :: "string option"
  reg_template_hashes :: "(string \<times> string) list"
  reg_privacy_capabilities :: "privacy_capabilities option"

record heartbeat_msg =
  hb_status :: provider_status
  hb_active_model :: "string option"
  hb_warm_models :: "string list"
  hb_stats :: provider_stats
  hb_system_metrics :: system_metrics
  hb_backend_capacity :: "backend_capacity option"

record attestation_response_msg =
  ar_nonce :: string
  ar_signature :: string
  ar_status_signature :: "string option"
  ar_public_key :: string
  ar_hypervisor_active :: "bool option"
  ar_rdma_disabled :: "bool option"
  ar_sip_enabled :: "bool option"
  ar_secure_boot_enabled :: "bool option"
  ar_binary_hash :: "string option"
  ar_active_model_hash :: "string option"
  ar_python_hash :: "string option"
  ar_runtime_hash :: "string option"
  ar_template_hashes :: "(string \<times> string) list"
  ar_model_hashes :: "(string \<times> string) list"

datatype provider_message =
    Register register_msg
  | Heartbeat heartbeat_msg
  | InferenceAccepted string
  | InferenceResponseChunk string string "encrypted_payload option"
  | InferenceComplete string usage_info "string option" "string option"
  | InferenceError string string u16
  | AttestationResponse attestation_response_msg

datatype coordinator_message =
    InferenceRequest string json "encrypted_payload option"
  | Cancel string
  | AttestationChallenge string string
  | RuntimeStatus bool "runtime_mismatch list"

section \<open>Writing\<close>

definition enc_encrypted_payload :: "encrypted_payload \<Rightarrow> json" where
  "enc_encrypted_payload p =
     JObj [(''ephemeral_public_key'', enc_string (ephemeral_public_key p)),
           (''ciphertext'', enc_string (ciphertext p))]"

definition enc_privacy_capabilities :: "privacy_capabilities \<Rightarrow> json" where
  "enc_privacy_capabilities c =
     JObj [(''text_backend_inprocess'', enc_bool (text_backend_inprocess c)),
           (''text_proxy_disabled'', enc_bool (text_proxy_disabled c)),
           (''python_runtime_locked'', enc_bool (python_runtime_locked c)),
           (''dangerous_modules_blocked'', enc_bool (dangerous_modules_blocked c)),
           (''sip_enabled'', enc_bool (pc_sip_enabled c)),
           (''anti_debug_enabled'', enc_bool (anti_debug_enabled c)),
           (''core_dumps_disabled'', enc_bool (core_dumps_disabled c)),
           (''env_scrubbed'', enc_bool (env_scrubbed c)),
           (''hypervisor_active'', enc_bool (pc_hypervisor_active c))]"

definition enc_runtime_mismatch :: "runtime_mismatch \<Rightarrow> json" where
  "enc_runtime_mismatch m =
     JObj [(''component'', enc_string (rm_component m)), (''expected'', enc_string (rm_expected m)),
           (''got'', enc_string (rm_got m))]"

definition enc_backend_slot_capacity :: "backend_slot_capacity \<Rightarrow> json" where
  "enc_backend_slot_capacity s =
     JObj [(''model'', enc_string (slot_model s)), (''state'', enc_string (slot_state s)),
           (''num_running'', enc_u32 (num_running s)), (''num_waiting'', enc_u32 (num_waiting s)),
           (''active_tokens'', enc_i64 (active_tokens s)),
           (''max_tokens_potential'', enc_i64 (max_tokens_potential s))]"

definition enc_backend_capacity :: "backend_capacity \<Rightarrow> json" where
  "enc_backend_capacity c =
     JObj [(''slots'', enc_list enc_backend_slot_capacity (bc_slots c)),
           (''gpu_memory_active_gb'', enc_f64 (gpu_memory_active_gb c)),
           (''gpu_memory_peak_gb'', enc_f64 (gpu_memory_peak_gb c)),
           (''gpu_memory_cache_gb'', enc_f64 (gpu_memory_cache_gb c)),
           (''total_memory_gb'', enc_f64 (bc_total_memory_gb c))]"

fun enc_provider_status :: "provider_status \<Rightarrow> json" where
  "enc_provider_status Idle = JStr ''idle''"
| "enc_provider_status Serving = JStr ''serving''"

definition enc_provider_stats :: "provider_stats \<Rightarrow> json" where
  "enc_provider_stats s =
     JObj [(''requests_served'', enc_u64 (requests_served s)),
           (''tokens_generated'', enc_u64 (tokens_generated s))]"

definition enc_usage_info :: "usage_info \<Rightarrow> json" where
  "enc_usage_info u =
     JObj [(''prompt_tokens'', enc_u64 (prompt_tokens u)),
           (''completion_tokens'', enc_u64 (completion_tokens u))]"

definition is_false :: "bool \<Rightarrow> bool" where
  "is_false value = (\<not> value)"

fun enc_provider_message :: "provider_message \<Rightarrow> json" where
  "enc_provider_message (Register r) =
     JObj ([(''type'', JStr ''register''),
            (''hardware'', enc_hardware_info (reg_hardware r)),
            (''models'', enc_list enc_model_info (reg_models r)),
            (''backend'', enc_string (reg_backend r))]
           @ skip_none enc_string ''version'' (reg_version r)
           @ skip_none enc_string ''public_key'' (reg_public_key r)
           @ skip_if is_false enc_bool ''encrypted_response_chunks'' (reg_encrypted_response_chunks r)
           @ skip_none enc_string ''wallet_address'' (reg_wallet_address r)
           @ skip_none JRaw ''attestation'' (reg_attestation r)
           @ skip_none enc_f64 ''prefill_tps'' (reg_prefill_tps r)
           @ skip_none enc_f64 ''decode_tps'' (reg_decode_tps r)
           @ skip_none enc_string ''auth_token'' (reg_auth_token r)
           @ skip_none enc_string ''python_hash'' (reg_python_hash r)
           @ skip_none enc_string ''runtime_hash'' (reg_runtime_hash r)
           @ skip_if is_empty (enc_map enc_string) ''template_hashes'' (reg_template_hashes r)
           @ skip_none enc_privacy_capabilities ''privacy_capabilities'' (reg_privacy_capabilities r))"
| "enc_provider_message (Heartbeat h) =
     JObj ([(''type'', JStr ''heartbeat''),
            (''status'', enc_provider_status (hb_status h))]
           @ skip_none enc_string ''active_model'' (hb_active_model h)
           @ skip_if is_empty (enc_list enc_string) ''warm_models'' (hb_warm_models h)
           @ [(''stats'', enc_provider_stats (hb_stats h)),
              (''system_metrics'', enc_system_metrics (hb_system_metrics h))]
           @ skip_none enc_backend_capacity ''backend_capacity'' (hb_backend_capacity h))"
| "enc_provider_message (InferenceAccepted request_id) =
     JObj [(''type'', JStr ''inference_accepted''), (''request_id'', enc_string request_id)]"
| "enc_provider_message (InferenceResponseChunk request_id data encrypted_data) =
     JObj ([(''type'', JStr ''inference_response_chunk''), (''request_id'', enc_string request_id)]
           @ skip_if is_empty enc_string ''data'' data
           @ skip_none enc_encrypted_payload ''encrypted_data'' encrypted_data)"
| "enc_provider_message (InferenceComplete request_id usage se_signature response_hash) =
     JObj ([(''type'', JStr ''inference_complete''), (''request_id'', enc_string request_id),
            (''usage'', enc_usage_info usage)]
           @ skip_none enc_string ''se_signature'' se_signature
           @ skip_none enc_string ''response_hash'' response_hash)"
| "enc_provider_message (InferenceError request_id error status_code) =
     JObj [(''type'', JStr ''inference_error''), (''request_id'', enc_string request_id),
           (''error'', enc_string error), (''status_code'', enc_u16 status_code)]"
| "enc_provider_message (AttestationResponse a) =
     JObj ([(''type'', JStr ''attestation_response''),
            (''nonce'', enc_string (ar_nonce a)), (''signature'', enc_string (ar_signature a))]
           @ skip_none enc_string ''status_signature'' (ar_status_signature a)
           @ [(''public_key'', enc_string (ar_public_key a))]
           @ skip_none enc_bool ''hypervisor_active'' (ar_hypervisor_active a)
           @ skip_none enc_bool ''rdma_disabled'' (ar_rdma_disabled a)
           @ skip_none enc_bool ''sip_enabled'' (ar_sip_enabled a)
           @ skip_none enc_bool ''secure_boot_enabled'' (ar_secure_boot_enabled a)
           @ skip_none enc_string ''binary_hash'' (ar_binary_hash a)
           @ skip_none enc_string ''active_model_hash'' (ar_active_model_hash a)
           @ skip_none enc_string ''python_hash'' (ar_python_hash a)
           @ skip_none enc_string ''runtime_hash'' (ar_runtime_hash a)
           @ skip_if is_empty (enc_map enc_string) ''template_hashes'' (ar_template_hashes a)
           @ skip_if is_empty (enc_map enc_string) ''model_hashes'' (ar_model_hashes a))"

text \<open>\<open>PartialEq for ProviderMessage\<close> compares the serialised text; a failure to serialise
  counts as the empty text.\<close>

definition provider_message_eq :: "(json \<Rightarrow> string option) \<Rightarrow> provider_message \<Rightarrow> provider_message \<Rightarrow> bool" where
  "provider_message_eq to_string a b =
     (option_unwrap_or '''' (to_string (enc_provider_message a)) =
      option_unwrap_or '''' (to_string (enc_provider_message b)))"

fun enc_coordinator_message :: "coordinator_message \<Rightarrow> json" where
  "enc_coordinator_message (InferenceRequest request_id body encrypted_body) =
     JObj ([(''type'', JStr ''inference_request''), (''request_id'', enc_string request_id), (''body'', body)]
           @ skip_none enc_encrypted_payload ''encrypted_body'' encrypted_body)"
| "enc_coordinator_message (Cancel request_id) =
     JObj [(''type'', JStr ''cancel''), (''request_id'', enc_string request_id)]"
| "enc_coordinator_message (AttestationChallenge nonce timestamp) =
     JObj [(''type'', JStr ''attestation_challenge''), (''nonce'', enc_string nonce),
           (''timestamp'', enc_string timestamp)]"
| "enc_coordinator_message (RuntimeStatus verified mismatches) =
     JObj ([(''type'', JStr ''runtime_status''), (''verified'', enc_bool verified)]
           @ skip_if is_empty (enc_list enc_runtime_mismatch) ''mismatches'' mismatches)"

section \<open>Reading\<close>

definition dec_encrypted_payload :: "json \<Rightarrow> encrypted_payload option" where
  "dec_encrypted_payload v =
     (case v of
        JObj kvs \<Rightarrow>
          (case (field_req json_as_str ''ephemeral_public_key'' kvs, field_req json_as_str ''ciphertext'' kvs) of
             (Some k, Some c) \<Rightarrow> Some \<lparr>ephemeral_public_key = k, ciphertext = c\<rparr>
           | _ \<Rightarrow> None)
      | _ \<Rightarrow> None)"

definition dec_runtime_mismatch :: "json \<Rightarrow> runtime_mismatch option" where
  "dec_runtime_mismatch v =
     (case v of
        JObj kvs \<Rightarrow>
          (case (field_req json_as_str ''component'' kvs, field_req json_as_str ''expected'' kvs,
                 field_req json_as_str ''got'' kvs) of
             (Some c, Some e, Some g) \<Rightarrow> Some \<lparr>rm_component = c, rm_expected = e, rm_got = g\<rparr>
           | _ \<Rightarrow> None)
      | _ \<Rightarrow> None)"

text \<open>The body of each variant, selected by the \<open>type\<close> entry.\<close>

definition dec_coordinator_variant :: "string \<Rightarrow> (string \<times> json) list \<Rightarrow> coordinator_message option" where
  "dec_coordinator_variant tag kvs =
     (if tag = ''inference_request'' then
        (case (field_req json_as_str ''request_id'' kvs, field_default JNull Some ''body'' kvs,
               field_opt dec_encrypted_payload ''encrypted_body'' kvs) of
           (Some r, Some b, Some e) \<Rightarrow> Some (InferenceRequest r b e)
         | _ \<Rightarrow> None)
      else if tag = ''cancel'' then
        map_option Cancel (field_req json_as_str ''request_id'' kvs)
      else if tag = ''attestation_challenge'' then
        (case (field_req json_as_str ''nonce'' kvs, field_req json_as_str ''timestamp'' kvs) of
           (Some n, Some t) \<Rightarrow> Some (AttestationChallenge n t)
         | _ \<Rightarrow> None)
      else if tag = ''runtime_status'' then
        (case (field_req json_as_bool ''verified'' kvs,
               field_default [] (dec_list dec_runtime_mismatch) ''mismatches'' kvs) of
           (Some v, Some ms) \<Rightarrow> Some (RuntimeStatus v ms)
         | _ \<Rightarrow> None)
      else None)"

definition dec_coordinator_message :: "json \<Rightarrow> coordinator_message option" where
  "dec_coordinator_message v =
     (case v of
        JObj kvs \<Rightarrow>
          (case field_req json_as_str ''type'' kvs of
             Some tag \<Rightarrow> dec_coordinator_variant tag kvs
           | None \<Rightarrow> None)
      | _ \<Rightarrow> None)"

section \<open>Properties\<close>

interpretation payload_codec: codec enc_encrypted_payload dec_encrypted_payload "\<lambda>_. True"
  by unfold_locales
    (simp add: enc_encrypted_payload_def dec_encrypted_payload_def string_codec.field_req_enc)

interpretation mismatch_codec: codec enc_runtime_mismatch dec_runtime_mismatch "\<lambda>_. True"
  by unfold_locales
    (simp add: enc_runtime_mismatch_def dec_runtime_mismatch_def string_codec.field_req_enc)

interpretation mismatches_codec: codec "enc_list enc_runtime_mismatch" "dec_list dec_runtime_mismatch" "\<lambda>_. True"
  by unfold_locales (simp add: mismatch_codec.dec_list_enc list_all_iff)

interpretation value_codec: codec "\<lambda>v. v" Some "\<lambda>_. True"
  by unfold_locales simp

lemma enc_encrypted_payload_not_null: "enc_encrypted_payload p \<noteq> JNull"
  by (simp add: enc_encrypted_payload_def)

interpretation coordinator_message_codec: codec enc_coordinator_message dec_coordinator_message "\<lambda>_. True"
proof unfold_locales
  fix m :: coordinator_message
  have tag: "field_req json_as_str k ((k, JStr t) # kvs) = Some t" if "obj_entries k kvs = []" for k t kvs
    using that by (simp add: field_req_def)
  show "dec_coordinator_message (enc_coordinator_message m) = Some m"
  proof (cases m)
    case (InferenceRequest r b e)
    then show ?thesis
      by (simp add: dec_coordinator_message_def tag dec_coordinator_variant_def
          string_codec.field_req_enc payload_codec.field_opt_enc[of e] enc_encrypted_payload_not_null
          value_codec.field_default_enc[where p = "\<lambda>_. False"] pred_option_def)
  next
    case (RuntimeStatus v ms)
    have "field_default [] (dec_list dec_runtime_mismatch) ''mismatches''
        ((''type'', JStr ''runtime_status'') # (''verified'', enc_bool v)
         # skip_if is_empty (enc_list enc_runtime_mismatch) ''mismatches'' ms) = Some ms"
      by (rule mismatches_codec.field_default_enc[where p = is_empty]) (simp_all add: is_empty_def)
    with RuntimeStatus show ?thesis
      by (simp add: dec_coordinator_message_def tag dec_coordinator_variant_def bool_codec.field_req_enc)
  qed (simp_all add: dec_coordinator_message_def tag dec_coordinator_variant_def string_codec.field_req_enc)
qed

text \<open>C28: Every message of the coordinator survives the wire: reading the document that writing
  produces gives the message back, for all four variants, with optional entries present or
  omitted.\<close>

theorem coordinator_message_roundtrip:
  "dec_coordinator_message (enc_coordinator_message m) = Some m"
  by (rule coordinator_message_codec.dec_enc) simp

end
