(* ===== verification/Attestation.thy ===== *)
theory Attestation
  imports Protocol
begin

text \<open>
  The answer to an attestation challenge (\<open>handle_attestation_challenge\<close> and
  \<open>build_status_canonical\<close> in \<open>provider/src/coordinator.rs\<close>). The canonical status
  document is a \<open>BTreeMap\<close>, so its entries are in key order; its bytes are
  \<open>to_vec\<close> of the document, a parameter (\<open>serde_json::to_vec\<close>), as is the signing
  operation.

  Shown here: the document does not depend on the iteration order of the hash maps it is built
  from, it determines every status field, and the signature that a response carries is over the
  document that the receiver rebuilds from the fields of that same response.
\<close>

section \<open>The canonical document\<close>

text \<open>\<open>BTreeMap::collect\<close> from the iterator of a hash map, then \<open>to_value\<close>.\<close>

definition sorted_map_value :: "(string \<times> string) list \<Rightarrow> json" where
  "sorted_map_value m = JObj (map (\<lambda>(k, v). (k, JStr v)) (btree_collect m))"

definition nonempty_str :: "string option \<Rightarrow> json option" where
  "nonempty_str s = (case s of Some v \<Rightarrow> if v \<noteq> [] then Some (JStr v) else None | None \<Rightarrow> None)"

definition nonempty_map :: "(string \<times> string) list \<Rightarrow> json option" where
  "nonempty_map m = (if m \<noteq> [] then Some (sorted_map_value m) else None)"

definition status_fields ::
  "string \<Rightarrow> string \<Rightarrow> bool option \<Rightarrow> bool option \<Rightarrow> bool option \<Rightarrow> bool option
   \<Rightarrow> string option \<Rightarrow> string option \<Rightarrow> string option \<Rightarrow> string option
   \<Rightarrow> (string \<times> string) list \<Rightarrow> string option \<Rightarrow> (string \<times> string) list
   \<Rightarrow> (string \<times> json option) list" where
  "status_fields nonce timestamp hypervisor_active rdma_disabled sip_enabled secure_boot_enabled
     binary_hash active_model_hash python_hash runtime_hash template_hashes grpc_binary_hash model_hashes =
     [(''nonce'', Some (JStr nonce)),
      (''timestamp'', Some (JStr timestamp)),
      (''hypervisor_active'', map_option JBool hypervisor_active),
      (''rdma_disabled'', map_option JBool rdma_disabled),
      (''sip_enabled'', map_option JBool sip_enabled),
      (''secure_boot_enabled'', map_option JBool secure_boot_enabled),
      (''binary_hash'', nonempty_str binary_hash),
      (''active_model_hash'', nonempty_str active_model_hash),
      (''python_hash'', nonempty_str python_hash),
      (''runtime_hash'', nonempty_str runtime_hash),
      (''grpc_binary_hash'', nonempty_str grpc_binary_hash),
      (''template_hashes'', nonempty_map template_hashes),
      (''model_hashes'', nonempty_map model_hashes)]"

text \<open>The insertions of \<open>build_status_canonical\<close>, in program order.\<close>

definition insert_present :: "(string \<times> json option) list \<Rightarrow> (string \<times> json) list \<Rightarrow> (string \<times> json) list" where
  "insert_present fs m =
     fold (\<lambda>(k, ov) m. case ov of None \<Rightarrow> m | Some v \<Rightarrow> btree_insert k v m) fs m"

definition build_status_canonical ::
  "string \<Rightarrow> string \<Rightarrow> bool option \<Rightarrow> bool option \<Rightarrow> bool option \<Rightarrow> bool option
   \<Rightarrow> string option \<Rightarrow> string option \<Rightarrow> string option \<Rightarrow> string option
   \<Rightarrow> (string \<times> string) list \<Rightarrow> string option \<Rightarrow> (string \<times> string) list \<Rightarrow> json" where
  "build_status_canonical nonce timestamp hypervisor_active rdma_disabled sip_enabled secure_boot_enabled
     binary_hash active_model_hash python_hash runtime_hash template_hashes grpc_binary_hash model_hashes =
     JObj (insert_present
       (status_fields nonce timestamp hypervisor_active rdma_disabled sip_enabled secure_boot_enabled
          binary_hash active_model_hash python_hash runtime_hash template_hashes grpc_binary_hash model_hashes) [])"

section \<open>The response\<close>

text \<open>What the handler observes when the challenge arrives.\<close>

record posture =
  po_sip_enabled :: bool
  po_rdma_disabled :: bool
  po_hypervisor_active :: bool
  po_binary_hash :: "string option"

definition handle_attestation_challenge ::
  "(json \<Rightarrow> bytes option) \<Rightarrow> posture \<Rightarrow> string \<Rightarrow> string \<Rightarrow> string option \<Rightarrow> string option
   \<Rightarrow> runtime_hashes option \<Rightarrow> (string \<times> string) list \<Rightarrow> (bytes \<Rightarrow> string option) option
   \<Rightarrow> attestation_response_msg" where
  "handle_attestation_challenge to_vec po nonce timestamp public_key current_model_hash
     runtime_hashes model_hashes se_handle =
     (let pk_str = option_unwrap_or '''' public_key;
          sig = option_unwrap_or '''' (se_sign se_handle (str_bytes (nonce @ timestamp)));
          (python_hash, rt_hash, template_hashes) =
            (case runtime_hashes of
               Some rh \<Rightarrow> (rh_python_hash rh, rh_runtime_hash rh, rh_template_hashes rh)
             | None \<Rightarrow> (None, None, []));
          canonical =
            to_vec (build_status_canonical nonce timestamp
              (Some (po_hypervisor_active po)) (Some (po_rdma_disabled po)) (Some (po_sip_enabled po)) (Some True)
              (po_binary_hash po) current_model_hash python_hash rt_hash template_hashes None model_hashes);
          status_signature = (case canonical of Some bs \<Rightarrow> se_sign se_handle bs | None \<Rightarrow> None)
      in \<lparr>ar_nonce = nonce, ar_signature = sig, ar_status_signature = status_signature,
          ar_public_key = pk_str,
          ar_hypervisor_active = Some (po_hypervisor_active po),
          ar_rdma_disabled = Some (po_rdma_disabled po),
          ar_sip_enabled = Some (po_sip_enabled po),
          ar_secure_boot_enabled = Some True,
          ar_binary_hash = po_binary_hash po,
          ar_active_model_hash = current_model_hash,
          ar_python_hash = python_hash, ar_runtime_hash = rt_hash,
          ar_template_hashes = template_hashes, ar_model_hashes = model_hashes\<rparr>)"

section \<open>Lemmas\<close>

lemma distinct_status_keys:
  "distinct (map fst (status_fields nonce ts ha rd sip sb bh amh ph rh th gh mh))"
  by (simp add: status_fields_def)

lemma btree_wf_insert_present: "btree_wf m \<Longrightarrow> btree_wf (insert_present fs m)"
  unfolding insert_present_def by (rule btree.invar_insert_some)

lemma map_of_insert_present:
  assumes "distinct (map fst fs)"
  shows "map_of (insert_present fs []) k = Option.bind (map_of fs k) (\<lambda>v. v)"
  unfolding insert_present_def using btree.lookup_insert_some[OF btree_wf_Nil assms, of k]
  by (auto split: option.splits)

lemma sorted_map_value_cong:
  assumes "hash_wf m" and "hash_wf m'" and "map_of m = map_of m'"
  shows "sorted_map_value m = sorted_map_value m'"
proof -
  have "btree_collect m = btree_collect m'"
    using assms by (intro btree_ext) (simp_all add: btree_wf_collect map_of_btree_collect hash_wf_def)
  then show ?thesis by (simp add: sorted_map_value_def)
qed

lemma map_of_map_JStr: "map_of (map (\<lambda>(k, v). (k, JStr v)) m) k = map_option JStr (map_of m k)"
  by (induction m) auto

lemma sorted_map_value_inject:
  assumes "hash_wf m" and "hash_wf m'" and "sorted_map_value m = sorted_map_value m'"
  shows "map_of m = map_of m'"
proof
  fix k
  from assms(3) have "map_option JStr (map_of (btree_collect m) k) = map_option JStr (map_of (btree_collect m') k)"
    by (simp add: sorted_map_value_def flip: map_of_map_JStr)
  then have "map_option JStr (map_of m k) = map_option JStr (map_of m' k)"
    using assms(1,2) by (simp add: map_of_btree_collect hash_wf_def)
  then show "map_of m k = map_of m' k"
    by (cases "map_of m k"; cases "map_of m' k") simp_all
qed

lemma nonempty_map_eq:
  assumes "hash_wf m" and "hash_wf m'" and "nonempty_map m = nonempty_map m'"
  shows "map_of m = map_of m'"
  using assms(3)
  by (cases "m = []"; cases "m' = []")
    (simp_all add: nonempty_map_def sorted_map_value_inject[OF assms(1,2)])

lemma nonempty_map_cong:
  assumes "hash_wf m" and "hash_wf m'" and "map_of m = map_of m'"
  shows "nonempty_map m = nonempty_map m'"
proof -
  from assms(3) have "m = [] \<longleftrightarrow> m' = []"
    using map_of_eq_empty_iff[of m] map_of_eq_empty_iff[of m'] by simp
  with sorted_map_value_cong[OF assms] show ?thesis
    by (simp add: nonempty_map_def)
qed

lemma build_status_canonical_get:
  "json_get k (build_status_canonical nonce ts ha rd sip sb bh amh ph rh th gh mh) =
   Option.bind (map_of (status_fields nonce ts ha rd sip sb bh amh ph rh th gh mh) k) (\<lambda>v. v)"
  by (simp add: build_status_canonical_def map_of_insert_present[OF distinct_status_keys])

section \<open>Properties\<close>

text \<open>The canonical status document has its keys in strictly increasing order and does not
  depend on the iteration order of the hash maps it is computed from.\<close>

theorem status_canonical_order_independent:
  assumes "hash_wf th" "hash_wf th'" "map_of th = map_of th'"
    and "hash_wf mh" "hash_wf mh'" "map_of mh = map_of mh'"
  shows "build_status_canonical nonce ts ha rd sip sb bh amh ph rh th gh mh =
      build_status_canonical nonce ts ha rd sip sb bh amh ph rh th' gh mh'
    \<and> (\<exists>kvs. build_status_canonical nonce ts ha rd sip sb bh amh ph rh th gh mh = JObj kvs \<and> btree_wf kvs)"
proof -
  have "nonempty_map th = nonempty_map th'" "nonempty_map mh = nonempty_map mh'"
    using assms by (auto intro!: nonempty_map_cong)
  then show ?thesis
    by (simp add: build_status_canonical_def status_fields_def btree_wf_insert_present)
qed

lemma status_canonical_order_independent_witness:
  "build_status_canonical ''n'' ''t'' None None None None None None None None
     [(''a'', ''1''), (''b'', ''2'')] None [] =
   build_status_canonical ''n'' ''t'' None None None None None None None None
     [(''b'', ''2''), (''a'', ''1'')] None []"
  by (rule conjunct1[OF status_canonical_order_independent]) (auto simp: hash_wf_def)

text \<open>C15: The canonical document binds every status field: two calls with the same document have
  the same nonce, timestamp and flags, the same hashes (an absent and an empty hash are the same
  claim), and the same template and model hash maps.\<close>

theorem status_canonical_binds:
  assumes eq: "build_status_canonical nonce ts ha rd sip sb bh amh ph rh th gh mh =
      build_status_canonical nonce' ts' ha' rd' sip' sb' bh' amh' ph' rh' th' gh' mh'"
    and wf: "hash_wf th" "hash_wf th'" "hash_wf mh" "hash_wf mh'"
  shows "nonce = nonce' \<and> ts = ts' \<and> ha = ha' \<and> rd = rd' \<and> sip = sip' \<and> sb = sb'
    \<and> nonempty_str bh = nonempty_str bh' \<and> nonempty_str amh = nonempty_str amh'
    \<and> nonempty_str ph = nonempty_str ph' \<and> nonempty_str rh = nonempty_str rh'
    \<and> nonempty_str gh = nonempty_str gh' \<and> map_of th = map_of th' \<and> map_of mh = map_of mh'"
proof -
  have get: "Option.bind (map_of (status_fields nonce ts ha rd sip sb bh amh ph rh th gh mh) k) (\<lambda>v. v) =
      Option.bind (map_of (status_fields nonce' ts' ha' rd' sip' sb' bh' amh' ph' rh' th' gh' mh') k) (\<lambda>v. v)" for k
    using eq build_status_canonical_get by metis
  have JBool: "map_option JBool x = map_option JBool y \<Longrightarrow> x = y" for x y
    by (cases x; cases y) auto
  note at = get[unfolded status_fields_def]
  show ?thesis
    using at[of "''nonce''"] at[of "''timestamp''"] at[of "''hypervisor_active''"] at[of "''rdma_disabled''"]
      at[of "''sip_enabled''"] at[of "''secure_boot_enabled''"] at[of "''binary_hash''"]
      at[of "''active_model_hash''"] at[of "''python_hash''"] at[of "''runtime_hash''"]
      at[of "''grpc_binary_hash''"] at[of "''template_hashes''"] at[of "''model_hashes''"]
      nonempty_map_eq[OF wf(1,2)] nonempty_map_eq[OF wf(3,4)]
    by (simp add: JBool)
qed

lemma status_canonical_binds_witness:
  "build_status_canonical ''n'' ''t'' None None (Some True) None None None None None [] None [] \<noteq>
   build_status_canonical ''n'' ''t'' None None (Some False) None None None None None [] None []"
proof
  assume "build_status_canonical ''n'' ''t'' None None (Some True) None None None None None [] None [] =
    build_status_canonical ''n'' ''t'' None None (Some False) None None None None None [] None []"
  from status_canonical_binds[OF this] show False
    by (simp add: hash_wf_def)
qed

text \<open>C16: The status signature of a response covers exactly what the response reports: it is the
  signature over the canonical document rebuilt from the response's own fields and the challenge's
  timestamp, and the plain signature is over nonce and timestamp, with the empty text when signing
  is not available.\<close>

theorem challenge_signature_covers_response:
  assumes "r = handle_attestation_challenge to_vec po nonce timestamp pk mhash rhs mhs se"
  shows "ar_status_signature r =
      Option.bind (to_vec (build_status_canonical (ar_nonce r) timestamp
        (ar_hypervisor_active r) (ar_rdma_disabled r) (ar_sip_enabled r) (ar_secure_boot_enabled r)
        (ar_binary_hash r) (ar_active_model_hash r) (ar_python_hash r) (ar_runtime_hash r)
        (ar_template_hashes r) None (ar_model_hashes r))) (se_sign se)
    \<and> ar_nonce r = nonce
    \<and> ar_signature r = option_unwrap_or '''' (se_sign se (str_bytes (nonce @ timestamp)))
    \<and> ar_sip_enabled r = Some (po_sip_enabled po) \<and> ar_binary_hash r = po_binary_hash po"
  using assms
  by (auto simp: handle_attestation_challenge_def Let_def split: prod.splits option.splits)

lemma challenge_signature_covers_response_witness:
  "ar_signature (handle_attestation_challenge (\<lambda>_. None)
     \<lparr>po_sip_enabled = True, po_rdma_disabled = True, po_hypervisor_active = False, po_binary_hash = None\<rparr>
     ''n'' ''t'' None None None [] None) = ''''"
  using challenge_signature_covers_response[OF refl, of "\<lambda>_. None"
      "\<lparr>po_sip_enabled = True, po_rdma_disabled = True, po_hypervisor_active = False, po_binary_hash = None\<rparr>"
      "''n''" "''t''" None None None "[]" None]
  by (simp add: se_sign_def option_unwrap_or_def)

end
