(* ===== verification/Crypto.thy ===== *)
theory Crypto
  imports FileTree
begin

text \<open>
  End-to-end encryption keys (\<open>provider/src/crypto.rs\<close>). The NaCl box of the
  \<open>crypto_box\<close> crate is the record \<open>crypto_box\<close> of its three operations; what the
  provider relies on is \<open>crypto_box_ok\<close>: opening with the peer's keys undoes sealing. Random
  secrets and nonces are arguments. A message on the wire is its 24-byte nonce followed by the
  sealed text.
\<close>

record crypto_box =
  cb_public :: "bytes \<Rightarrow> bytes"
  cb_seal :: "bytes \<Rightarrow> bytes \<Rightarrow> bytes \<Rightarrow> bytes \<Rightarrow> bytes option"
  cb_open :: "bytes \<Rightarrow> bytes \<Rightarrow> bytes \<Rightarrow> bytes \<Rightarrow> bytes option"

definition crypto_box_ok :: "crypto_box \<Rightarrow> bool" where
  "crypto_box_ok cb \<longleftrightarrow>
     (\<forall>a b nonce m c. cb_seal cb (cb_public cb b) a nonce m = Some c \<longrightarrow>
        cb_open cb (cb_public cb a) b nonce c = Some m)"

record node_key_pair =
  kp_secret :: bytes
  kp_public :: bytes

definition kp_generate :: "crypto_box \<Rightarrow> bytes \<Rightarrow> node_key_pair" where
  "kp_generate cb random_secret = \<lparr>kp_secret = random_secret, kp_public = cb_public cb random_secret\<rparr>"

definition public_key_base64 :: "(bytes \<Rightarrow> string) \<Rightarrow> node_key_pair \<Rightarrow> string" where
  "public_key_base64 b64_encode kp = b64_encode (kp_public kp)"

definition kp_decrypt :: "crypto_box \<Rightarrow> node_key_pair \<Rightarrow> bytes \<Rightarrow> bytes \<Rightarrow> bytes result" where
  "kp_decrypt cb kp consumer_public data =
     (if length data < 24 then Err ''ciphertext too short: expected at least 24 bytes for nonce''
      else case cb_open cb consumer_public (kp_secret kp) (take 24 data) (drop 24 data) of
        Some plaintext \<Rightarrow> Ok plaintext
      | None \<Rightarrow> Err ''decryption failed'')"

definition kp_encrypt :: "crypto_box \<Rightarrow> bytes \<Rightarrow> node_key_pair \<Rightarrow> bytes \<Rightarrow> bytes \<Rightarrow> bytes result" where
  "kp_encrypt cb nonce kp consumer_public plaintext =
     (case cb_seal cb consumer_public (kp_secret kp) nonce plaintext of
        Some encrypted \<Rightarrow> Ok (nonce @ encrypted)
      | None \<Rightarrow> Err ''encryption failed'')"

text \<open>The files in which earlier versions kept secrets, and their removal: the paths for which it
  is attempted.\<close>

definition legacy_secret_paths :: "path option \<Rightarrow> string \<Rightarrow> path list" where
  "legacy_secret_paths home file_name =
     (case home of
        Some h \<Rightarrow> map (\<lambda>dir. h @ [dir, file_name]) [''.darkbloom'', ''.dginf'', ''.eigeninference'']
      | None \<Rightarrow> [])"

definition legacy_node_key_paths :: "path option \<Rightarrow> path list" where
  "legacy_node_key_paths home = legacy_secret_paths home ''node_key''"

definition legacy_enclave_e2e_key_paths :: "path option \<Rightarrow> path list" where
  "legacy_enclave_e2e_key_paths home = legacy_secret_paths home ''enclave_e2e_ka.data''"

definition purge_legacy_e2e_files :: "(path \<Rightarrow> bool) \<Rightarrow> path option \<Rightarrow> path list" where
  "purge_legacy_e2e_files exists home =
     filter exists (legacy_node_key_paths home @ legacy_enclave_e2e_key_paths home)"

text \<open>The invariant of a key pair: its public half belongs to its secret.\<close>

definition kp_wf :: "crypto_box \<Rightarrow> node_key_pair \<Rightarrow> bool" where
  "kp_wf cb kp \<longleftrightarrow> kp_public kp = cb_public cb (kp_secret kp)"

lemma kp_wf_generate [simp]: "kp_wf cb (kp_generate cb s)"
  by (simp add: kp_wf_def kp_generate_def)

lemma kp_decrypt_encrypt:
  assumes "crypto_box_ok cb" and "kp_wf cb a" and "kp_wf cb b" and "length nonce = 24"
    and "kp_encrypt cb nonce a (kp_public b) m = Ok c"
  shows "kp_decrypt cb b (kp_public a) c = Ok m"
proof -
  from assms(5) obtain e where e: "cb_seal cb (kp_public b) (kp_secret a) nonce m = Some e" "c = nonce @ e"
    by (auto simp: kp_encrypt_def split: option.splits)
  then have "cb_open cb (kp_public a) (kp_secret b) nonce e = Some m"
    using assms(1-3) unfolding crypto_box_ok_def kp_wf_def by metis
  with assms(4) e show ?thesis
    by (simp add: kp_decrypt_def)
qed

text \<open>A concrete box for examples: the sealed text carries a tag that both sides compute.\<close>

definition plain_box :: crypto_box where
  "plain_box =
     \<lparr>cb_public = (\<lambda>s. s),
      cb_seal = (\<lambda>pk sk n m. Some (map2 (+) pk sk @ m)),
      cb_open = (\<lambda>pk sk n c.
        let tag = map2 (+) sk pk
        in if take (length tag) c = tag then Some (drop (length tag) c) else None)\<rparr>"

lemma map2_add_commute: "map2 (+) xs ys = map2 (+) ys (xs :: u8 list)"
  by (induction xs ys rule: list_induct2') (auto simp: add.commute)

lemma plain_box_ok: "crypto_box_ok plain_box"
  by (auto simp: crypto_box_ok_def plain_box_def Let_def map2_add_commute)

text \<open>End-to-end round trip: what one well-formed key pair encrypts for the public key of
  another, that one decrypts to the same bytes; a message shorter than the nonce is refused.\<close>

theorem e2e_roundtrip:
  assumes "crypto_box_ok cb" and "kp_wf cb a" and "kp_wf cb b" and "length nonce = 24"
    and "kp_encrypt cb nonce a (kp_public b) m = Ok c"
  shows "kp_decrypt cb b (kp_public a) c = Ok m \<and> 24 \<le> length c
    \<and> kp_decrypt cb b (kp_public a) (take 23 c) = Err ''ciphertext too short: expected at least 24 bytes for nonce''"
proof -
  from assms(4,5) have "24 \<le> length c"
    by (auto simp: kp_encrypt_def split: option.splits)
  with kp_decrypt_encrypt[OF assms] show ?thesis
    by (simp add: kp_decrypt_def)
qed

lemma e2e_roundtrip_witness:
  "kp_decrypt plain_box (kp_generate plain_box [5, 6]) [1, 2]
     (replicate 24 0 @ [6, 8, 104, 105]) = Ok [104, 105]"
proof -
  have "kp_encrypt plain_box (replicate 24 0) (kp_generate plain_box [1, 2])
      (kp_public (kp_generate plain_box [5, 6])) [104, 105] = Ok (replicate 24 0 @ [6, 8, 104, 105])"
    by (simp add: kp_encrypt_def kp_generate_def plain_box_def)
  from e2e_roundtrip[OF plain_box_ok kp_wf_generate kp_wf_generate _ this]
  show ?thesis
    by (simp add: kp_generate_def plain_box_def)
qed

end
