(* ===== verification/Coordinator.thy ===== *)
theory Coordinator
  imports Attestation Crypto Backend
begin

text \<open>
  The coordinator connection (\<open>provider/src/coordinator.rs\<close>): registration, the select loop
  of one connection, decryption of requests, and the reconnect loop. One iteration of the select
  loop is \<open>conn_step\<close>: its input is the branch that fired with what it observed (including
  whether the write succeeded), its output the frames sent, the events handed to the main loop and
  whether the connection goes on. Frames carry the JSON document; JSON text, base64 and the NaCl
  box are operations of the environment \<open>conn_env\<close>. Times are milliseconds.
\<close>

section \<open>State\<close>

record shared_state =
  sh_stats :: provider_stats
  sh_inference_active :: bool
  sh_current_model :: "string option"
  sh_warm_models :: "string list"
  sh_current_model_hash :: "string option"
  sh_backend_capacity :: "backend_capacity option"

definition atomic_provider_stats_new :: provider_stats where
  "atomic_provider_stats_new = \<lparr>requests_served = 0, tokens_generated = 0\<rparr>"

record coordinator_client =
  cc_url :: string
  cc_hardware :: hardware_info
  cc_models :: "model_info list"
  cc_backend_name :: string
  cc_heartbeat_interval :: nat
  cc_public_key :: "string option"
  cc_node_keypair :: node_key_pair
  cc_wallet_address :: "string option"
  cc_attestation :: "string option"
  cc_auth_token :: "string option"
  cc_runtime_hashes :: "runtime_hashes option"
  cc_runtime_hash_command :: "string option"
  cc_model_hashes :: "(string \<times> string) list"
  cc_se_handle :: "(bytes \<Rightarrow> string option) option"

definition client_new ::
  "string \<Rightarrow> hardware_info \<Rightarrow> model_info list \<Rightarrow> string \<Rightarrow> nat \<Rightarrow> string option \<Rightarrow> node_key_pair
   \<Rightarrow> coordinator_client \<times> shared_state" where
  "client_new url hardware models backend_name heartbeat_interval public_key node_keypair =
     (\<lparr>cc_url = url, cc_hardware = hardware, cc_models = models, cc_backend_name = backend_name,
       cc_heartbeat_interval = heartbeat_interval, cc_public_key = public_key,
       cc_node_keypair = node_keypair, cc_wallet_address = None, cc_attestation = None,
       cc_auth_token = None, cc_runtime_hashes = None, cc_runtime_hash_command = None,
       cc_model_hashes = [], cc_se_handle = None\<rparr>,
      \<lparr>sh_stats = atomic_provider_stats_new, sh_inference_active = False, sh_current_model = None,
       sh_warm_models = [], sh_current_model_hash = None, sh_backend_capacity = None\<rparr>)"

definition with_model_hashes :: "coordinator_client \<Rightarrow> (string \<times> string) list \<Rightarrow> coordinator_client" where
  "with_model_hashes c hashes = c\<lparr>cc_model_hashes := hashes\<rparr>"

definition with_wallet_address :: "coordinator_client \<Rightarrow> string option \<Rightarrow> coordinator_client" where
  "with_wallet_address c w = c\<lparr>cc_wallet_address := w\<rparr>"

definition with_attestation :: "coordinator_client \<Rightarrow> string option \<Rightarrow> coordinator_client" where
  "with_attestation c a = c\<lparr>cc_attestation := a\<rparr>"

definition with_auth_token :: "coordinator_client \<Rightarrow> string option \<Rightarrow> coordinator_client" where
  "with_auth_token c t = c\<lparr>cc_auth_token := t\<rparr>"

definition with_runtime_hashes :: "coordinator_client \<Rightarrow> runtime_hashes option \<Rightarrow> coordinator_client" where
  "with_runtime_hashes c h = c\<lparr>cc_runtime_hashes := h\<rparr>"

definition with_runtime_hash_command :: "coordinator_client \<Rightarrow> string option \<Rightarrow> coordinator_client" where
  "with_runtime_hash_command c cmd = c\<lparr>cc_runtime_hash_command := cmd\<rparr>"

definition with_se_handle :: "coordinator_client \<Rightarrow> (bytes \<Rightarrow> string option) option \<Rightarrow> coordinator_client" where
  "with_se_handle c h = c\<lparr>cc_se_handle := h\<rparr>"

datatype coordinator_event =
    EvConnected
  | EvDisconnected
  | EvInferenceRequest string json "bytes option"
  | EvCancel string
  | EvAttestationChallenge string string
  | EvRuntimeOutdated "runtime_mismatch list"

text \<open>Outgoing and incoming WebSocket frames, and the branches of the select.\<close>

datatype ws_frame = TextFrame json | PingFrame string | PongFrame string | CloseFrame

datatype ws_message =
    WsText string
  | WsPing string
  | WsPong
  | WsClose
  | WsOther
  | WsError string
  | WsEnd

datatype select_event =
    SelShutdown
  | SelPing bool
  | SelHeartbeat cmd_env bool
  | SelOutbound "provider_message option" bool
  | SelIncoming ws_message bool

record connection =
  cn_last_pong :: nat
  cn_sent :: "ws_frame list"
  cn_events :: "coordinator_event list"

datatype conn_result =
    Continue connection
  | ReturnOk connection
  | Bail string connection

record conn_env =
  ce_run :: cmd_env
  ce_hypervisor_active :: bool
  ce_from_str :: json_parser
  ce_from_slice :: "bytes \<Rightarrow> json option"
  ce_b64_decode :: "string \<Rightarrow> bytes option"
  ce_box :: crypto_box
  ce_to_vec :: "json \<Rightarrow> bytes option"
  ce_binary_hash :: "string option"
  ce_compute_runtime_hashes :: "string \<Rightarrow> runtime_hashes"
  ce_version :: string

section \<open>Requests\<close>

definition decrypt_request_body ::
  "conn_env \<Rightarrow> encrypted_payload \<Rightarrow> node_key_pair \<Rightarrow> (json \<times> bytes option) result" where
  "decrypt_request_body env encrypted keypair =
     (case ce_b64_decode env (ephemeral_public_key encrypted) of
        None \<Rightarrow> Err ''invalid ephemeral public key''
      | Some ephemeral_pub \<Rightarrow>
          if length ephemeral_pub \<noteq> 32 then
            Err (''invalid ephemeral key length: '' @ show_nat (length ephemeral_pub))
          else case ce_b64_decode env (ciphertext encrypted) of
            None \<Rightarrow> Err ''invalid ciphertext''
          | Some c \<Rightarrow>
              (case kp_decrypt (ce_box env) keypair ephemeral_pub c of
                 Err e \<Rightarrow> Err e
               | Ok plaintext \<Rightarrow>
                   (case ce_from_slice env plaintext of
                      None \<Rightarrow> Err ''decrypted body is not valid JSON''
                    | Some body \<Rightarrow> Ok (body, Some ephemeral_pub))))"

section \<open>One connection\<close>

definition send_if :: "bool \<Rightarrow> ws_frame \<Rightarrow> connection \<Rightarrow> connection" where
  "send_if ok f cn = (if ok then cn\<lparr>cn_sent := cn_sent cn @ [f]\<rparr> else cn)"

definition emit_event :: "coordinator_event \<Rightarrow> connection \<Rightarrow> connection" where
  "emit_event e cn = cn\<lparr>cn_events := cn_events cn @ [e]\<rparr>"

definition privacy_capabilities_of :: "conn_env \<Rightarrow> privacy_capabilities" where
  "privacy_capabilities_of env =
     \<lparr>text_backend_inprocess = True, text_proxy_disabled = True, python_runtime_locked = True,
      dangerous_modules_blocked = True, pc_sip_enabled = check_sip_enabled (ce_run env),
      anti_debug_enabled = True, core_dumps_disabled = True, env_scrubbed = True,
      pc_hypervisor_active = ce_hypervisor_active env\<rparr>"

definition register_message :: "conn_env \<Rightarrow> coordinator_client \<Rightarrow> provider_message" where
  "register_message env c =
     (let (python_hash, runtime_hash, template_hashes) =
            (case cc_runtime_hashes c of
               Some rh \<Rightarrow> (rh_python_hash rh, rh_runtime_hash rh, rh_template_hashes rh)
             | None \<Rightarrow> (None, None, []))
      in Register
        \<lparr>reg_hardware = cc_hardware c, reg_models = cc_models c, reg_backend = cc_backend_name c,
         reg_version = Some (ce_version env), reg_public_key = cc_public_key c,
         reg_encrypted_response_chunks = True, reg_wallet_address = cc_wallet_address c,
         reg_attestation = cc_attestation c, reg_prefill_tps = None, reg_decode_tps = None,
         reg_auth_token = cc_auth_token c, reg_python_hash = python_hash,
         reg_runtime_hash = runtime_hash, reg_template_hashes = template_hashes,
         reg_privacy_capabilities = Some (privacy_capabilities_of env)\<rparr>)"

definition heartbeat_message :: "coordinator_client \<Rightarrow> cmd_env \<Rightarrow> shared_state \<Rightarrow> provider_message" where
  "heartbeat_message c run sh =
     Heartbeat
       \<lparr>hb_status = (if sh_inference_active sh then Serving else Idle),
        hb_active_model = sh_current_model sh, hb_warm_models = sh_warm_models sh,
        hb_stats = sh_stats sh,
        hb_system_metrics = collect_system_metrics run (cores_total (hw_cpu_cores (cc_hardware c))),
        hb_backend_capacity = sh_backend_capacity sh\<rparr>"

definition posture_of :: "conn_env \<Rightarrow> posture" where
  "posture_of env =
     \<lparr>po_sip_enabled = check_sip_enabled (ce_run env),
      po_rdma_disabled = check_rdma_disabled (ce_run env),
      po_hypervisor_active = ce_hypervisor_active env,
      po_binary_hash = ce_binary_hash env\<rparr>"

definition challenge_response ::
  "conn_env \<Rightarrow> coordinator_client \<Rightarrow> shared_state \<Rightarrow> string \<Rightarrow> string \<Rightarrow> provider_message" where
  "challenge_response env c sh nonce timestamp =
     (let fresh = map_option (ce_compute_runtime_hashes env) (cc_runtime_hash_command c);
          hashes = (case fresh of Some h \<Rightarrow> Some h | None \<Rightarrow> cc_runtime_hashes c)
      in AttestationResponse
           (handle_attestation_challenge (ce_to_vec env) (posture_of env) nonce timestamp
              (cc_public_key c) (sh_current_model_hash sh) hashes (cc_model_hashes c) (cc_se_handle c)))"

definition handle_text ::
  "conn_env \<Rightarrow> coordinator_client \<Rightarrow> shared_state \<Rightarrow> string \<Rightarrow> bool \<Rightarrow> connection \<Rightarrow> connection" where
  "handle_text env c sh text send_ok cn =
     (case Option.bind (ce_from_str env text) dec_coordinator_message of
        None \<Rightarrow> cn
      | Some (InferenceRequest request_id body encrypted_body) \<Rightarrow>
          (case encrypted_body of
             None \<Rightarrow>
               send_if send_ok (TextFrame (enc_provider_message
                 (InferenceError request_id ''coordinator text request missing encrypted body'' 400))) cn
           | Some enc \<Rightarrow>
               (case decrypt_request_body env enc (cc_node_keypair c) of
                  Err e \<Rightarrow> cn
                | Ok (decrypted_body, response_public_key) \<Rightarrow>
                    emit_event (EvInferenceRequest request_id decrypted_body response_public_key) cn))
      | Some (Cancel request_id) \<Rightarrow> emit_event (EvCancel request_id) cn
      | Some (AttestationChallenge nonce timestamp) \<Rightarrow>
          send_if send_ok (TextFrame (enc_provider_message (challenge_response env c sh nonce timestamp))) cn
      | Some (RuntimeStatus verified mismatches) \<Rightarrow>
          if verified then cn else emit_event (EvRuntimeOutdated mismatches) cn)"

definition pong_timeout :: nat where
  "pong_timeout = 30000"

text \<open>One iteration of the select loop: \<open>t_check\<close> is the time of the pong check at its top,
  \<open>t_event\<close> the time the branch runs.\<close>

definition conn_step ::
  "conn_env \<Rightarrow> coordinator_client \<Rightarrow> shared_state \<Rightarrow> nat \<Rightarrow> nat \<Rightarrow> select_event \<Rightarrow> connection \<Rightarrow> conn_result" where
  "conn_step env c sh t_check t_event ev cn =
     (if t_check - cn_last_pong cn > pong_timeout then
        Bail ''WebSocket pong timeout (no response in 30s)'' cn
      else case ev of
        SelShutdown \<Rightarrow> ReturnOk (cn\<lparr>cn_sent := cn_sent cn @ [CloseFrame]\<rparr>)
      | SelPing send_ok \<Rightarrow>
          if send_ok then Continue (send_if True (PingFrame ''eigeninference'') cn)
          else Bail ''Failed to send ping'' cn
      | SelHeartbeat run send_ok \<Rightarrow>
          if send_ok then Continue (send_if True (TextFrame (enc_provider_message (heartbeat_message c run sh))) cn)
          else Bail ''send failed'' cn
      | SelOutbound msg send_ok \<Rightarrow>
          (case msg of
             Some m \<Rightarrow>
               if send_ok then Continue (send_if True (TextFrame (enc_provider_message m)) cn)
               else Bail ''send failed'' cn
           | None \<Rightarrow> ReturnOk (cn\<lparr>cn_sent := cn_sent cn @ [CloseFrame]\<rparr>))
      | SelIncoming msg send_ok \<Rightarrow>
          (case msg of
             WsText text \<Rightarrow> Continue (handle_text env c sh text send_ok cn)
           | WsPing d \<Rightarrow> Continue (send_if send_ok (PongFrame d) cn)
           | WsPong \<Rightarrow> Continue (cn\<lparr>cn_last_pong := t_event\<rparr>)
           | WsClose \<Rightarrow> Bail ''connection closed by coordinator'' cn
           | WsError e \<Rightarrow> Bail (''WebSocket error: '' @ e) cn
           | WsEnd \<Rightarrow> Bail ''WebSocket stream ended'' cn
           | WsOther \<Rightarrow> Continue cn))"

record select_input =
  si_shared :: shared_state
  si_check :: nat
  si_time :: nat
  si_event :: select_event

fun conn_loop :: "conn_env \<Rightarrow> coordinator_client \<Rightarrow> select_input list \<Rightarrow> connection \<Rightarrow> conn_result" where
  "conn_loop env c [] cn = Continue cn"
| "conn_loop env c (i # is) cn =
     (case conn_step env c (si_shared i) (si_check i) (si_time i) (si_event i) cn of
        Continue cn' \<Rightarrow> conn_loop env c is cn'
      | r \<Rightarrow> r)"

text \<open>\<open>connect_and_run\<close>: dialling, registration, then the loop.\<close>

definition connect_and_run ::
  "conn_env \<Rightarrow> coordinator_client \<Rightarrow> bool \<Rightarrow> bool \<Rightarrow> nat \<Rightarrow> select_input list \<Rightarrow> conn_result" where
  "connect_and_run env c connected register_ok t0 inputs =
     (let cn = \<lparr>cn_last_pong = t0, cn_sent = [], cn_events = []\<rparr>
      in if \<not> connected then Bail ''failed to connect to coordinator WebSocket'' cn
         else if \<not> register_ok then Bail ''send failed'' cn
         else conn_loop env c inputs
           (emit_event EvConnected
             (send_if True (TextFrame (enc_provider_message (register_message env c))) cn)))"

fun result_conn :: "conn_result \<Rightarrow> connection" where
  "result_conn (Continue cn) = cn"
| "result_conn (ReturnOk cn) = cn"
| "result_conn (Bail e cn) = cn"

section \<open>Reconnecting\<close>

record run_state =
  rs_backoff :: exponential_backoff
  rs_reconnect_count :: u64
  rs_events :: "coordinator_event list"
  rs_slept :: "nat list"
  rs_telemetry :: "u64 list"

definition run_init :: run_state where
  "run_init = \<lparr>rs_backoff = backoff_new, rs_reconnect_count = 0, rs_events = [], rs_slept = [], rs_telemetry = []\<rparr>"

definition report_connectivity :: "u64 \<Rightarrow> bool" where
  "report_connectivity n \<longleftrightarrow> n = 3 \<or> n = 10 \<or> n mod 30 = 0"

text \<open>What \<open>run\<close> observes in one turn of its loop: whether shutdown is set before the attempt, what
  happens to the connection, and whether shutdown fires during the wait after a failure.\<close>

record attempt =
  at_shutdown :: bool
  at_env :: conn_env
  at_connected :: bool
  at_register_ok :: bool
  at_start :: nat
  at_inputs :: "select_input list"
  at_shutdown_in_wait :: bool

definition attempt_result :: "coordinator_client \<Rightarrow> attempt \<Rightarrow> conn_result" where
  "attempt_result c a =
     connect_and_run (at_env a) c (at_connected a) (at_register_ok a) (at_start a) (at_inputs a)"

text \<open>One turn, and whether the loop goes on. The events of a connection have been sent when it ends,
  however it ends; a connection that still lives ends the observation.\<close>

definition run_turn :: "coordinator_client \<Rightarrow> attempt \<Rightarrow> run_state \<Rightarrow> run_state \<times> bool" where
  "run_turn c a rs =
     (if at_shutdown a then (rs, False)
      else case attempt_result c a of
        ReturnOk cn \<Rightarrow>
          (rs\<lparr>rs_events := rs_events rs @ cn_events cn, rs_backoff := backoff_reset (rs_backoff rs)\<rparr>, True)
      | Bail e cn \<Rightarrow>
          (case next_delay (rs_backoff rs) of (delay, b) \<Rightarrow>
             let n = rs_reconnect_count rs + 1;
                 rs' = rs\<lparr>rs_events := rs_events rs @ cn_events cn @ [EvDisconnected], rs_backoff := b,
                          rs_reconnect_count := n,
                          rs_slept := rs_slept rs @ [delay],
                          rs_telemetry := rs_telemetry rs @ (if report_connectivity n then [n] else [])\<rparr>
             in (rs', \<not> at_shutdown_in_wait a))
      | Continue cn \<Rightarrow> (rs\<lparr>rs_events := rs_events rs @ cn_events cn\<rparr>, False))"

fun run_loop :: "coordinator_client \<Rightarrow> attempt list \<Rightarrow> run_state \<Rightarrow> run_state" where
  "run_loop c [] rs = rs"
| "run_loop c (a # as) rs =
     (case run_turn c a rs of (rs', go_on) \<Rightarrow> if go_on then run_loop c as rs' else rs')"

section \<open>Messages for tests and tools\<close>

definition build_register_message_with_wallet ::
  "hardware_info \<Rightarrow> model_info list \<Rightarrow> string \<Rightarrow> string option \<Rightarrow> string option \<Rightarrow> string option \<Rightarrow> provider_message" where
  "build_register_message_with_wallet hardware models backend_name public_key wallet_address attestation =
     Register
       \<lparr>reg_hardware = hardware, reg_models = models, reg_backend = backend_name, reg_version = None,
        reg_public_key = public_key, reg_encrypted_response_chunks = True,
        reg_wallet_address = wallet_address, reg_attestation = attestation, reg_prefill_tps = None,
        reg_decode_tps = None, reg_auth_token = None, reg_python_hash = None, reg_runtime_hash = None,
        reg_template_hashes = [], reg_privacy_capabilities = None\<rparr>"

definition build_register_message ::
  "hardware_info \<Rightarrow> model_info list \<Rightarrow> string \<Rightarrow> string option \<Rightarrow> provider_message" where
  "build_register_message hardware models backend_name public_key =
     build_register_message_with_wallet hardware models backend_name public_key None None"

section \<open>Lemmas\<close>

definition received_request :: "conn_env \<Rightarrow> node_key_pair \<Rightarrow> string \<Rightarrow> json \<Rightarrow> bytes option \<Rightarrow> select_input \<Rightarrow> bool" where
  "received_request env kp rid body k i \<longleftrightarrow>
     (case si_event i of
        SelIncoming (WsText text) _ \<Rightarrow>
          (case Option.bind (ce_from_str env text) dec_coordinator_message of
             Some (InferenceRequest rid' _ (Some enc)) \<Rightarrow>
               rid' = rid \<and> decrypt_request_body env enc kp = Ok (body, k)
           | _ \<Rightarrow> False)
      | _ \<Rightarrow> False)"

lemma cn_events_send_if [simp]: "cn_events (send_if ok f cn) = cn_events cn"
  by (simp add: send_if_def)

lemma cn_last_pong_send_if [simp]: "cn_last_pong (send_if ok f cn) = cn_last_pong cn"
  by (simp add: send_if_def)

lemma cn_last_pong_handle_text [simp]: "cn_last_pong (handle_text env c sh t ok cn) = cn_last_pong cn"
  by (auto simp: handle_text_def emit_event_def split: option.split coordinator_message.split sum.split)

lemma handle_text_event:
  assumes "EvInferenceRequest rid body k \<in> set (cn_events (handle_text env c sh t ok cn))"
  shows "EvInferenceRequest rid body k \<in> set (cn_events cn)
    \<or> (\<exists>b enc. Option.bind (ce_from_str env t) dec_coordinator_message = Some (InferenceRequest rid b (Some enc))
         \<and> decrypt_request_body env enc (cc_node_keypair c) = Ok (body, k))"
  using assms
  by (auto simp: handle_text_def emit_event_def split: option.splits coordinator_message.splits sum.splits if_splits)

lemma conn_step_event:
  assumes "EvInferenceRequest rid body k \<in> set (cn_events (result_conn
      (conn_step env c (si_shared i) (si_check i) (si_time i) (si_event i) cn)))"
  shows "EvInferenceRequest rid body k \<in> set (cn_events cn)
    \<or> received_request env (cc_node_keypair c) rid body k i"
proof (cases "\<exists>t ok. si_event i = SelIncoming (WsText t) ok")
  case True
  then obtain t ok where t: "si_event i = SelIncoming (WsText t) ok" by blast
  with assms have "EvInferenceRequest rid body k \<in> set (cn_events cn)
      \<or> EvInferenceRequest rid body k \<in> set (cn_events (handle_text env c (si_shared i) t ok cn))"
    by (auto simp: conn_step_def split: if_splits)
  then show ?thesis
    using handle_text_event by (fastforce simp: received_request_def t)
next
  case False
  with assms show ?thesis
    by (auto simp: conn_step_def split: if_splits select_event.splits ws_message.splits option.splits)
qed

lemma conn_loop_event:
  assumes "EvInferenceRequest rid body k \<in> set (cn_events (result_conn (conn_loop env c is cn)))"
  shows "EvInferenceRequest rid body k \<in> set (cn_events cn)
    \<or> (\<exists>i \<in> set is. received_request env (cc_node_keypair c) rid body k i)"
  using assms
proof (induction "is" arbitrary: cn)
  case (Cons i "is")
  note step = conn_step_event[of rid body k env c i cn]
  show ?case
  proof (cases "conn_step env c (si_shared i) (si_check i) (si_time i) (si_event i) cn")
    case (Continue cn')
    with Cons step show ?thesis by auto
  qed (use Cons.prems step in auto)
qed simp

lemma decrypt_request_body_key:
  "decrypt_request_body env enc kp = Ok (body, k) \<Longrightarrow> \<exists>pk. k = Some pk \<and> length pk = 32"
  by (auto simp: decrypt_request_body_def dest!: sym[of "Some _"] split: option.splits sum.splits if_splits)

lemma conn_loop_dead:
  assumes "cn_last_pong cn = t0"
    and "list_all (\<lambda>i. \<forall>ok. si_event i \<noteq> SelIncoming WsPong ok) is"
    and "list_ex (\<lambda>i. si_check i > t0 + pong_timeout) is"
  shows "\<nexists>cn'. conn_loop env c is cn = Continue cn'"
  using assms
proof (induction "is" arbitrary: cn)
  case (Cons i "is")
  let ?r = "conn_step env c (si_shared i) (si_check i) (si_time i) (si_event i) cn"
  show ?case
  proof (cases ?r)
    case (Continue cn')
    then have "\<not> si_check i > t0 + pong_timeout"
      using Cons.prems(1) by (auto simp: conn_step_def split: if_splits)
    moreover have "cn_last_pong cn' = t0"
      using Continue Cons.prems(1,2)
      by (auto simp: conn_step_def split: if_splits select_event.splits ws_message.splits option.splits)
    ultimately show ?thesis
      using Continue Cons by simp
  qed simp_all
qed simp

text \<open>An attempt that fails, with the wait after it undisturbed.\<close>

definition attempt_fails :: "coordinator_client \<Rightarrow> attempt \<Rightarrow> bool" where
  "attempt_fails c a \<longleftrightarrow> \<not> at_shutdown a \<and> \<not> at_shutdown_in_wait a \<and> (\<exists>e cn. attempt_result c a = Bail e cn)"

definition attempt_events :: "coordinator_client \<Rightarrow> attempt \<Rightarrow> coordinator_event list" where
  "attempt_events c a = cn_events (result_conn (attempt_result c a))"

lemma run_failures_state:
  assumes "eb_max (rs_backoff rs) = 5" and "eb_current (rs_backoff rs) = min (2 ^ k) 5" and "list_all (attempt_fails c) as"
  shows "rs_slept (run_loop c as rs) = rs_slept rs @ map (\<lambda>i. min (2 ^ (k + i)) 5) [0..<length as]
    \<and> rs_events (run_loop c as rs) = rs_events rs @ concat (map (\<lambda>a. attempt_events c a @ [EvDisconnected]) as)
    \<and> rs_telemetry (run_loop c as rs) = rs_telemetry rs @
        filter report_connectivity (map (\<lambda>i. rs_reconnect_count rs + of_nat (Suc i)) [0..<length as])"
  using assms
proof (induction as arbitrary: rs k)
  case (Cons a as)
  from Cons.prems(3) obtain e cn where a: "\<not> at_shutdown a" "\<not> at_shutdown_in_wait a" "attempt_result c a = Bail e cn"
    by (auto simp: attempt_fails_def)
  let ?rs' = "fst (run_turn c a rs)"
  have "min (min (2 ^ k) 5 * 2) (5::nat) = min (2 ^ Suc k) 5" by auto
  with Cons.prems have "eb_max (rs_backoff ?rs') = 5" "eb_current (rs_backoff ?rs') = min (2 ^ Suc k) 5"
    by (simp_all add: run_turn_def a next_delay_def Let_def)
  from Cons.IH[OF this] Cons.prems show ?case
    by (simp add: run_turn_def a next_delay_def Let_def map_upt_Suc attempt_events_def
        add.assoc del: upt_Suc)
qed simp

lemma run_turn_events:
  "set (rs_events (fst (run_turn c a rs))) \<subseteq> set (rs_events rs) \<union> {EvDisconnected} \<union> set (attempt_events c a)"
  by (auto simp: run_turn_def attempt_events_def Let_def next_delay_def split: conn_result.splits prod.splits)

lemma run_loop_events:
  "set (rs_events (run_loop c as rs)) \<subseteq> set (rs_events rs) \<union> {EvDisconnected} \<union> \<Union> (set (map (set \<circ> attempt_events c) as))"
proof (induction as arbitrary: rs)
  case (Cons a as)
  obtain rs' go_on where t: "run_turn c a rs = (rs', go_on)" by fastforce
  with run_turn_events[of c a rs] Cons[of rs'] show ?case by auto
qed auto

text \<open>What the requests of a connection come to: the ones that are handed over, and the ones that are
  refused because they are not encrypted.\<close>

definition request_event :: "coordinator_event \<Rightarrow> (string \<times> json \<times> bytes option) option" where
  "request_event ev = (case ev of EvInferenceRequest rid body k \<Rightarrow> Some (rid, body, k) | _ \<Rightarrow> None)"

definition incoming_request :: "conn_env \<Rightarrow> select_input \<Rightarrow> (string \<times> encrypted_payload option) option" where
  "incoming_request env i =
     (case si_event i of
        SelIncoming (WsText text) _ \<Rightarrow>
          (case Option.bind (ce_from_str env text) dec_coordinator_message of
             Some (InferenceRequest rid _ enc) \<Rightarrow> Some (rid, enc)
           | _ \<Rightarrow> None)
      | _ \<Rightarrow> None)"

definition opened_request :: "conn_env \<Rightarrow> node_key_pair \<Rightarrow> select_input \<Rightarrow> (string \<times> json \<times> bytes option) option" where
  "opened_request env kp i =
     (case incoming_request env i of
        Some (rid, Some enc) \<Rightarrow>
          (case decrypt_request_body env enc kp of Ok (body, k) \<Rightarrow> Some (rid, body, k) | Err _ \<Rightarrow> None)
      | _ \<Rightarrow> None)"

definition input_send_ok :: "select_input \<Rightarrow> bool" where
  "input_send_ok i = (case si_event i of SelIncoming _ ok \<Rightarrow> ok | _ \<Rightarrow> False)"

definition refusal :: "conn_env \<Rightarrow> select_input \<Rightarrow> ws_frame option" where
  "refusal env i =
     (case incoming_request env i of
        Some (rid, None) \<Rightarrow>
          (if input_send_ok i then Some (TextFrame (enc_provider_message
             (InferenceError rid ''coordinator text request missing encrypted body'' 400))) else None)
      | _ \<Rightarrow> None)"

definition ends_connection :: "conn_result \<Rightarrow> bool" where
  "ends_connection r = (case r of Continue _ \<Rightarrow> False | _ \<Rightarrow> True)"

lemma handle_text_requests:
  assumes "si_event i = SelIncoming (WsText text) ok"
  shows "List.map_filter request_event (cn_events (handle_text env c sh text ok cn)) =
      List.map_filter request_event (cn_events cn) @ List.map_filter (opened_request env (cc_node_keypair c)) [i]"
    and "\<exists>frames. cn_sent (handle_text env c sh text ok cn) = cn_sent cn @ frames \<and> subseq (List.map_filter (refusal env) [i]) frames"
  using assms
  by (auto simp: handle_text_def List.map_filter_def opened_request_def incoming_request_def refusal_def input_send_ok_def
      request_event_def emit_event_def send_if_def split: option.splits coordinator_message.splits sum.splits)

lemma conn_step_requests:
  assumes "conn_step env c (si_shared i) t t' (si_event i) cn = r"
  shows "List.map_filter request_event (cn_events (result_conn r)) = List.map_filter request_event (cn_events cn) @
      (if ends_connection r then [] else List.map_filter (opened_request env (cc_node_keypair c)) [i])"
    and "\<exists>frames. cn_sent (result_conn r) = cn_sent cn @ frames \<and>
      (\<not> ends_connection r \<longrightarrow> subseq (List.map_filter (refusal env) [i]) frames)"
proof -
  have "(List.map_filter request_event (cn_events (result_conn r)) = List.map_filter request_event (cn_events cn) @
      (if ends_connection r then [] else List.map_filter (opened_request env (cc_node_keypair c)) [i])) \<and>
    (\<exists>frames. cn_sent (result_conn r) = cn_sent cn @ frames \<and>
      (\<not> ends_connection r \<longrightarrow> subseq (List.map_filter (refusal env) [i]) frames))"
  proof (cases "\<exists>text ok. si_event i = SelIncoming (WsText text) ok")
    case True
    then obtain s ok where ev: "si_event i = SelIncoming (WsText s) ok" by blast
    show ?thesis
    proof (cases "t - cn_last_pong cn > pong_timeout")
      case True
      with assms show ?thesis by (auto simp: conn_step_def ends_connection_def)
    next
      case False
      with assms ev have "r = Continue (handle_text env c (si_shared i) s ok cn)" by (simp add: conn_step_def)
      with handle_text_requests[OF ev, of env c "si_shared i" cn] show ?thesis by (simp add: ends_connection_def)
    qed
  next
    case False
    then have n: "opened_request env kp i = None" "refusal env i = None" for kp
      by (auto simp: opened_request_def refusal_def incoming_request_def split: select_event.splits ws_message.splits)
    from assms False show ?thesis
      by (auto simp: conn_step_def ends_connection_def List.map_filter_def n send_if_def
          split: if_splits select_event.splits ws_message.splits option.splits)
  qed
  then show "List.map_filter request_event (cn_events (result_conn r)) = List.map_filter request_event (cn_events cn) @
      (if ends_connection r then [] else List.map_filter (opened_request env (cc_node_keypair c)) [i])"
    and "\<exists>frames. cn_sent (result_conn r) = cn_sent cn @ frames \<and>
      (\<not> ends_connection r \<longrightarrow> subseq (List.map_filter (refusal env) [i]) frames)"
    by blast+
qed

lemma map_filter_Cons_append: "List.map_filter f (x # xs) = List.map_filter f [x] @ List.map_filter f xs"
  by (simp add: List.map_filter_def)

lemma conn_loop_requests:
  assumes "conn_loop env c is cn = r"
  shows "\<exists>n \<le> length is. \<exists>frames. (ends_connection r \<longleftrightarrow> n < length is) \<and>
    List.map_filter request_event (cn_events (result_conn r)) =
      List.map_filter request_event (cn_events cn) @ List.map_filter (opened_request env (cc_node_keypair c)) (take n is) \<and>
    cn_sent (result_conn r) = cn_sent cn @ frames \<and> subseq (List.map_filter (refusal env) (take n is)) frames"
  using assms
proof (induction "is" arbitrary: cn)
  case Nil
  then show ?case by (auto simp: ends_connection_def List.map_filter_def)
next
  case (Cons i "is")
  let ?s = "conn_step env c (si_shared i) (si_check i) (si_time i) (si_event i) cn"
  note step = conn_step_requests[OF refl, of env c i "si_check i" "si_time i" cn]
  obtain frames where f: "cn_sent (result_conn ?s) = cn_sent cn @ frames"
      "\<not> ends_connection ?s \<longrightarrow> subseq (List.map_filter (refusal env) [i]) frames"
    using step(2) by blast
  show ?case
  proof (cases "ends_connection ?s")
    case True
    then have "r = ?s" using Cons.prems by (auto simp: ends_connection_def split: conn_result.splits)
    with True step(1) f show ?thesis
      by (intro exI[of _ 0] conjI exI[of _ frames]) (simp_all add: List.map_filter_def)
  next
    case False
    then obtain cn' where s: "?s = Continue cn'" by (auto simp: ends_connection_def split: conn_result.splits)
    with Cons.prems have "conn_loop env c is cn' = r" by simp
    from Cons.IH[OF this] obtain n frames' where n: "n \<le> length is" "ends_connection r \<longleftrightarrow> n < length is"
        "List.map_filter request_event (cn_events (result_conn r)) =
          List.map_filter request_event (cn_events cn') @ List.map_filter (opened_request env (cc_node_keypair c)) (take n is)"
        "cn_sent (result_conn r) = cn_sent cn' @ frames'" "subseq (List.map_filter (refusal env) (take n is)) frames'"
      by blast
    note split = map_filter_Cons_append[of _ i "take n is"]
    have "subseq (List.map_filter (refusal env) [i] @ List.map_filter (refusal env) (take n is)) (frames @ frames')"
      using f(2) False n(5) by (intro list_emb_append_mono) auto
    then have q: "subseq (List.map_filter (refusal env) (take (Suc n) (i # is))) (frames @ frames')"
      by (simp only: take_Suc_Cons split)
    have e: "List.map_filter request_event (cn_events (result_conn r)) = List.map_filter request_event (cn_events cn) @
        List.map_filter (opened_request env (cc_node_keypair c)) (take (Suc n) (i # is))"
      using n(3) step(1) False s by (simp only: take_Suc_Cons split) simp
    have "cn_sent (result_conn r) = cn_sent cn @ frames @ frames'" using n(4) f(1) s by simp
    with n(1,2) q e show ?thesis
      by (intro exI[of _ "Suc n"] conjI exI[of _ "frames @ frames'"]) simp_all
  qed
qed

lemma connection_requests:
  assumes "connect_and_run env c True True t0 inputs = r"
  shows "\<exists>n \<le> length inputs. (ends_connection r \<longleftrightarrow> n < length inputs) \<and>
    List.map_filter request_event (cn_events (result_conn r)) =
      List.map_filter (opened_request env (cc_node_keypair c)) (take n inputs) \<and>
    subseq (List.map_filter (refusal env) (take n inputs)) (cn_sent (result_conn r))"
proof -
  let ?cn = "emit_event EvConnected (send_if True (TextFrame (enc_provider_message (register_message env c)))
    \<lparr>cn_last_pong = t0, cn_sent = [], cn_events = []\<rparr>)"
  have start: "List.map_filter request_event (cn_events ?cn) = []"
    by (simp add: emit_event_def List.map_filter_def request_event_def)
  have "conn_loop env c inputs ?cn = r" using assms by (simp add: connect_and_run_def Let_def)
  from conn_loop_requests[OF this] obtain n frames where n: "n \<le> length inputs" "ends_connection r \<longleftrightarrow> n < length inputs"
      "List.map_filter request_event (cn_events (result_conn r)) =
        List.map_filter request_event (cn_events ?cn) @ List.map_filter (opened_request env (cc_node_keypair c)) (take n inputs)"
      "cn_sent (result_conn r) = cn_sent ?cn @ frames" "subseq (List.map_filter (refusal env) (take n inputs)) frames"
    by blast
  have "subseq (List.map_filter (refusal env) (take n inputs)) (cn_sent (result_conn r))"
    unfolding n(4) by (rule list_emb_append2[OF n(5)])
  with n(1-3) start show ?thesis by auto
qed

lemma run_request_received:
  assumes "EvInferenceRequest rid body k \<in> set (rs_events (run_loop c attempts run_init))"
  shows "\<exists>a \<in> set attempts. \<exists>i \<in> set (at_inputs a). received_request (at_env a) (cc_node_keypair c) rid body k i"
proof -
  from assms run_loop_events[of c attempts run_init] obtain a where a: "a \<in> set attempts"
      "EvInferenceRequest rid body k \<in> set (attempt_events c a)"
    by (fastforce simp: run_init_def)
  then obtain i where "i \<in> set (at_inputs a)" "received_request (at_env a) (cc_node_keypair c) rid body k i"
    using conn_loop_event
    by (fastforce simp: attempt_events_def attempt_result_def connect_and_run_def Let_def emit_event_def split: if_splits)
  with a show ?thesis by blast
qed

lemma received_request_key: "received_request env kp rid body k i \<Longrightarrow> \<exists>pk. k = Some pk \<and> length pk = 32"
  using decrypt_request_body_key
  by (fastforce simp: received_request_def split: select_event.splits ws_message.splits option.splits coordinator_message.splits)

lemma run_request_key:
  "EvInferenceRequest rid body k \<in> set (rs_events (run_loop c attempts run_init)) \<Longrightarrow> \<exists>pk. k = Some pk \<and> length pk = 32"
  using run_request_received received_request_key by blast

section \<open>A concrete connection\<close>

definition demo_hardware :: hardware_info where
  "demo_hardware =
     \<lparr>machine_model = ''Mac16,1'', chip_name = ''Apple M4 Max'', hw_chip_family = M4, hw_chip_tier = Max,
      memory_gb = 64, memory_available_gb = 60,
      hw_cpu_cores = \<lparr>cores_total = 16, cores_performance = 12, cores_efficiency = 4\<rparr>,
      gpu_cores = 40, memory_bandwidth_gbs = 546\<rparr>"

definition demo_client :: coordinator_client where
  "demo_client = fst (client_new ''wss://c'' demo_hardware [] ''inprocess'' 5000 None
     (kp_generate plain_box (replicate 32 7)))"

definition demo_sealed :: bytes where
  "demo_sealed = replicate 24 0 @ replicate 32 8 @ [123, 125]"

definition demo_message :: json where
  "demo_message = enc_coordinator_message (InferenceRequest ''r1'' JNull
     (Some \<lparr>ephemeral_public_key = bytes_str (replicate 32 1), ciphertext = bytes_str demo_sealed\<rparr>))"

definition demo_env :: "json \<Rightarrow> conn_env" where
  "demo_env message =
     \<lparr>ce_run = (\<lambda>_ _. None), ce_hypervisor_active = False,
      ce_from_str = (\<lambda>_. Some message),
      ce_from_slice = (\<lambda>bs. if bs = [123, 125] then Some (JObj []) else None),
      ce_b64_decode = (\<lambda>s. Some (str_bytes s)), ce_box = plain_box, ce_to_vec = (\<lambda>_. None),
      ce_binary_hash = None, ce_compute_runtime_hashes = (\<lambda>_. \<lparr>rh_python_hash = None, rh_runtime_hash = None, rh_template_hashes = []\<rparr>), ce_version = ''0.4.8''\<rparr>"

definition demo_shared :: shared_state where
  "demo_shared = snd (client_new ''wss://c'' demo_hardware [] ''inprocess'' 5000 None
     (kp_generate plain_box (replicate 32 7)))"

definition demo_connection :: connection where
  "demo_connection = \<lparr>cn_last_pong = 0, cn_sent = [], cn_events = []\<rparr>"

lemma demo_decrypts:
  "decrypt_request_body (demo_env demo_message)
      \<lparr>ephemeral_public_key = bytes_str (replicate 32 1), ciphertext = bytes_str demo_sealed\<rparr>
      (cc_node_keypair demo_client) = Ok (JObj [], Some (replicate 32 1))"
proof -
  have "kp_decrypt plain_box (kp_generate plain_box (replicate 32 7)) (replicate 32 1) demo_sealed = Ok [123, 125]"
    by (simp add: kp_decrypt_def kp_generate_def plain_box_def demo_sealed_def Let_def)
  then show ?thesis
    by (simp add: decrypt_request_body_def demo_env_def demo_client_def client_new_def)
qed

lemma demo_decodes:
  "Option.bind (ce_from_str (demo_env demo_message) m) dec_coordinator_message =
     Some (InferenceRequest ''r1'' JNull
       (Some \<lparr>ephemeral_public_key = bytes_str (replicate 32 1), ciphertext = bytes_str demo_sealed\<rparr>))"
  by (simp only: demo_message_def demo_env_def conn_env.simps Option.bind.simps coordinator_message_codec.dec_enc)

lemma demo_handle_text:
  "handle_text (demo_env demo_message) demo_client sh m ok cn =
   emit_event (EvInferenceRequest ''r1'' (JObj []) (Some (replicate 32 1))) cn"
  by (simp add: handle_text_def demo_decodes demo_decrypts)

section \<open>Properties\<close>

text \<open>C14: Whatever happens over the life of the client, over any number of connections, every inference
  request handed to the main loop stems from a received message whose encrypted body decrypted under
  the provider's key, and carries the sender's 32-byte key for the encrypted answer: plaintext never
  reaches inference.\<close>

theorem requests_were_encrypted:
  assumes "EvInferenceRequest rid body k \<in> set (rs_events (run_loop c attempts run_init))"
  shows "(\<exists>a \<in> set attempts. \<exists>i \<in> set (at_inputs a). received_request (at_env a) (cc_node_keypair c) rid body k i)
    \<and> (\<exists>pk. k = Some pk \<and> length pk = 32)"
  using run_request_received[OF assms] run_request_key[OF assms] by blast

definition demo_input :: select_input where
  "demo_input = \<lparr>si_shared = demo_shared, si_check = 0, si_time = 5, si_event = SelIncoming (WsText ''m'') True\<rparr>"

definition demo_attempt :: attempt where
  "demo_attempt = \<lparr>at_shutdown = False, at_env = demo_env demo_message, at_connected = True, at_register_ok = True,
     at_start = 0, at_inputs = [demo_input], at_shutdown_in_wait = False\<rparr>"

lemma requests_were_encrypted_witness:
  "\<exists>a \<in> set [demo_attempt]. \<exists>i \<in> set (at_inputs a).
     received_request (at_env a) (cc_node_keypair demo_client) ''r1'' (JObj []) (Some (replicate 32 1)) i"
proof (rule conjunct1[OF requests_were_encrypted])
  show "EvInferenceRequest ''r1'' (JObj []) (Some (replicate 32 1)) \<in> set (rs_events (run_loop demo_client [demo_attempt] run_init))"
    by (simp add: run_turn_def attempt_result_def demo_attempt_def demo_input_def connect_and_run_def Let_def conn_step_def
        pong_timeout_def demo_handle_text emit_event_def)
qed

text \<open>C17: The requests of a connection are accounted for. Up to the input that ends the connection, if
  one does, the requests handed to the main loop are exactly the received ones whose body decrypts, in
  the order of arrival; and every request without encrypted body is refused with error 400, in order,
  as long as frames can be sent.\<close>

theorem requests_accounted:
  assumes "connect_and_run env c True True t0 inputs = r"
  shows "\<exists>n \<le> length inputs. (ends_connection r \<longleftrightarrow> n < length inputs) \<and>
    List.map_filter request_event (cn_events (result_conn r)) =
      List.map_filter (opened_request env (cc_node_keypair c)) (take n inputs) \<and>
    subseq (List.map_filter (refusal env) (take n inputs)) (cn_sent (result_conn r))"
  using assms by (rule connection_requests)

lemma requests_accounted_witness:
  "List.map_filter request_event (cn_events (result_conn (connect_and_run (demo_env demo_message) demo_client True True 0 [demo_input]))) =
     [(''r1'', JObj [], Some (replicate 32 1))]"
proof -
  let ?r = "connect_and_run (demo_env demo_message) demo_client True True 0 [demo_input]"
  have "opened_request (demo_env demo_message) (cc_node_keypair demo_client) demo_input = Some (''r1'', JObj [], Some (replicate 32 1))"
    using demo_decodes demo_decrypts by (simp add: opened_request_def incoming_request_def demo_input_def)
  then have "\<not> ends_connection ?r" "List.map_filter (opened_request (demo_env demo_message) (cc_node_keypair demo_client)) [demo_input] =
      [(''r1'', JObj [], Some (replicate 32 1))]"
    by (simp_all add: List.map_filter_def connect_and_run_def Let_def conn_step_def ends_connection_def demo_input_def
        pong_timeout_def emit_event_def)
  with requests_accounted[of "demo_env demo_message" demo_client 0 "[demo_input]", OF refl] show ?thesis
    by (auto simp: le_less_Suc_eq)
qed

text \<open>In particular a single request without an encrypted body is answered with error 400 and is not
  handed to the main loop.\<close>

theorem plaintext_request_rejected:
  assumes "Option.bind (ce_from_str env text) dec_coordinator_message = Some (InferenceRequest rid body None)"
  shows "cn_events (handle_text env c sh text ok cn) = cn_events cn
    \<and> cn_sent (handle_text env c sh text True cn) = cn_sent cn @ [TextFrame (enc_provider_message
        (InferenceError rid ''coordinator text request missing encrypted body'' 400))]"
  using assms by (simp add: handle_text_def send_if_def)

lemma plaintext_request_rejected_witness:
  "cn_events (handle_text (demo_env (enc_coordinator_message (InferenceRequest ''r2'' (JObj []) None)))
     demo_client demo_shared ''m'' True demo_connection) = []"
proof -
  have "Option.bind (ce_from_str (demo_env (enc_coordinator_message (InferenceRequest ''r2'' (JObj []) None))) ''m'')
      dec_coordinator_message = Some (InferenceRequest ''r2'' (JObj []) None)"
    by (simp only: demo_env_def conn_env.simps Option.bind.simps coordinator_message_codec.dec_enc)
  from plaintext_request_rejected[OF this] show ?thesis
    by (simp add: demo_connection_def)
qed

lemma request_delivered:
  assumes box: "crypto_box_ok (ce_box env)"
    and b64: "\<And>x. ce_b64_decode env (b64_encode x) = Some x"
    and slice: "ce_from_slice env (to_slice body) = Some body"
    and printed: "ce_from_str env message = Some (enc_coordinator_message (InferenceRequest rid JNull
         (Some \<lparr>ephemeral_public_key = b64_encode (kp_public e), ciphertext = b64_encode sealed\<rparr>)))"
    and keys: "kp_wf (ce_box env) e" "kp_wf (ce_box env) (cc_node_keypair c)" "length (kp_public e) = 32"
    and nonce: "length nonce = 24"
    and enc: "kp_encrypt (ce_box env) nonce e (kp_public (cc_node_keypair c)) (to_slice body) = Ok sealed"
  shows "handle_text env c sh message ok cn =
    emit_event (EvInferenceRequest rid body (Some (kp_public e))) cn"
proof -
  have "kp_decrypt (ce_box env) (cc_node_keypair c) (kp_public e) sealed = Ok (to_slice body)"
    by (rule kp_decrypt_encrypt[OF box keys(1,2) nonce enc])
  with keys(3) slice have "decrypt_request_body env
      \<lparr>ephemeral_public_key = b64_encode (kp_public e), ciphertext = b64_encode sealed\<rparr> (cc_node_keypair c) =
      Ok (body, Some (kp_public e))"
    by (simp add: decrypt_request_body_def b64)
  then show ?thesis
    by (simp only: handle_text_def printed Option.bind.simps coordinator_message_codec.dec_enc) simp
qed

text \<open>A request the coordinator encrypts to the provider's public key is delivered: for any
  ephemeral key pair and body, the message built from the encrypted body is decoded, decrypted and
  handed to the main loop with exactly that body and the ephemeral public key.\<close>

theorem encrypted_request_delivered:
  assumes box: "crypto_box_ok (ce_box env)"
    and b64: "\<And>x. ce_b64_decode env (b64_encode x) = Some x"
    and slice: "ce_from_slice env (to_slice body) = Some body"
    and printed: "ce_from_str env message = Some (enc_coordinator_message (InferenceRequest rid JNull
         (Some \<lparr>ephemeral_public_key = b64_encode (kp_public e), ciphertext = b64_encode sealed\<rparr>)))"
    and keys: "kp_wf (ce_box env) e" "kp_wf (ce_box env) (cc_node_keypair c)" "length (kp_public e) = 32"
    and nonce: "length nonce = 24"
    and enc: "kp_encrypt (ce_box env) nonce e (kp_public (cc_node_keypair c)) (to_slice body) = Ok sealed"
  shows "handle_text env c sh message ok cn =
    emit_event (EvInferenceRequest rid body (Some (kp_public e))) cn"
  using assms by (rule request_delivered)

lemma encrypted_request_delivered_witness:
  "handle_text (demo_env demo_message) demo_client demo_shared ''m'' True demo_connection =
   emit_event (EvInferenceRequest ''r1'' (JObj []) (Some (replicate 32 1))) demo_connection"
  using encrypted_request_delivered[where env = "demo_env demo_message" and b64_encode = bytes_str
      and to_slice = "\<lambda>_. [123, 125]" and body = "JObj []" and e = "kp_generate plain_box (replicate 32 1)"
      and c = demo_client and nonce = "replicate 24 0" and sealed = demo_sealed and message = "''m''"
      and rid = "''r1''" and sh = demo_shared and ok = True and cn = demo_connection]
  by (simp add: demo_env_def demo_client_def client_new_def plain_box_ok kp_generate_def kp_wf_def
      kp_encrypt_def demo_message_def demo_sealed_def) (simp add: plain_box_def)

text \<open>Repeated failures back off 1, 2, 4, 5, 5, ... seconds, however the connections fail; the main loop
  gets the events of each connection followed by one disconnection; and connectivity telemetry is
  reported exactly at the failures numbered 3, 10 and the multiples of 30.\<close>

theorem run_failures_backoff:
  assumes "list_all (attempt_fails c) as"
  shows "rs_slept (run_loop c as run_init) = map (\<lambda>i. min (2 ^ i) 5) [0..<length as]
   \<and> rs_events (run_loop c as run_init) = concat (map (\<lambda>a. attempt_events c a @ [EvDisconnected]) as)
   \<and> rs_telemetry (run_loop c as run_init) =
       filter report_connectivity (map (\<lambda>i. of_nat (Suc i)) [0..<length as])"
  using run_failures_state[OF _ _ assms, of run_init 0] by (simp add: run_init_def backoff_new_def)

text \<open>A connection that ends because the outbound channel is closed counts as a clean end: the client
  connects again at once, any number of times, without a wait and without telling the main loop.\<close>

lemma closed_outbound_reconnects_at_once:
  assumes "\<not> at_shutdown a" "at_connected a" "at_register_ok a" "at_inputs a = [i]" "si_event i = SelOutbound None ok"
    and "si_check i \<le> at_start a + pong_timeout"
  shows "rs_slept (run_loop c (replicate n a) rs) = rs_slept rs \<and>
    rs_events (run_loop c (replicate n a) rs) = rs_events rs @ replicate n EvConnected"
proof (induction n arbitrary: rs)
  case (Suc n)
  have "\<exists>cn. attempt_result c a = ReturnOk cn \<and> cn_events cn = [EvConnected]"
    using assms by (simp add: attempt_result_def connect_and_run_def Let_def conn_step_def emit_event_def send_if_def)
  with Suc assms(1) show ?case by (auto simp: run_turn_def replicate_app_Cons_same)
qed simp

text \<open>A dead connection is noticed: if no pong arrives and some iteration starts more than 30
  seconds after the connection was made, the loop has ended.\<close>

theorem dead_connection_ends:
  assumes "list_all (\<lambda>i. \<forall>ok. si_event i \<noteq> SelIncoming WsPong ok) inputs"
    and "list_ex (\<lambda>i. si_check i > t0 + pong_timeout) inputs"
  shows "\<nexists>cn. connect_and_run env c connected register_ok t0 inputs = Continue cn"
  using conn_loop_dead[OF _ assms] by (simp add: connect_and_run_def Let_def emit_event_def)

lemma dead_connection_ends_witness:
  "\<nexists>cn. connect_and_run (demo_env demo_message) demo_client True True 0
     [\<lparr>si_shared = demo_shared, si_check = 10000, si_time = 10000, si_event = SelPing True\<rparr>,
      \<lparr>si_shared = demo_shared, si_check = 30001, si_time = 30001, si_event = SelPing True\<rparr>] = Continue cn"
  by (rule dead_connection_ends) (simp_all add: pong_timeout_def)

end
