(* ===== verification/Inference.thy ===== *)
theory Inference
  imports Coordinator
begin

text \<open>
  Private inference in \<open>provider/src/main.rs\<close>: the map of in-process engines
  (\<open>get_or_load_inprocess_engine\<close>, \<open>unload_inprocess_engines\<close>), the encryption of
  response chunks and the request handler \<open>handle_inprocess_request\<close>. The embedded engine
  is an observation: the texts it streams and how the stream ends, or the result of a plain
  generation. The nonce of the \<open>k\<close>-th encryption and whether the outbound channel is still
  open at that point come from the environment \<open>reply_env\<close>.
\<close>

section \<open>Engines\<close>

text \<open>Engines are references; \<open>eg_loaded\<close> says which of them hold a model.\<close>

record engines =
  eg_map :: "(string \<times> nat) list"
  eg_loaded :: "nat \<Rightarrow> bool"
  eg_next :: nat

definition engines_init :: engines where
  "engines_init = \<lparr>eg_map = [], eg_loaded = (\<lambda>_. False), eg_next = 0\<rparr>"

text \<open>Loading creates a new engine; the map keeps an entry it already has
  (\<open>or_insert_with\<close>).\<close>

definition load_new_engine ::
  "unit result \<Rightarrow> string \<Rightarrow> engines \<Rightarrow> engines \<times> (nat \<times> bool) result" where
  "load_new_engine load_result model_id eg =
     (let engine = eg_next eg; eg1 = eg\<lparr>eg_next := Suc engine\<rparr>
      in case load_result of
           Err e \<Rightarrow> (eg1, Err e)
         | Ok _ \<Rightarrow>
             (let eg2 = eg1\<lparr>eg_loaded := (eg_loaded eg1)(engine := True)\<rparr>
              in case map_of (eg_map eg2) model_id of
                   Some entry \<Rightarrow> (eg2, Ok (entry, True))
                 | None \<Rightarrow> (eg2\<lparr>eg_map := hash_insert model_id engine (eg_map eg2)\<rparr>, Ok (engine, True))))"

definition get_or_load_inprocess_engine ::
  "unit result \<Rightarrow> string \<Rightarrow> engines \<Rightarrow> engines \<times> (nat \<times> bool) result" where
  "get_or_load_inprocess_engine load_result model_id eg =
     (case map_of (eg_map eg) model_id of
        Some e \<Rightarrow>
          if eg_loaded eg e then (eg, Ok (e, False)) else load_new_engine load_result model_id eg
      | None \<Rightarrow> load_new_engine load_result model_id eg)"

text \<open>A failed unload is only logged; \<open>unload_ok\<close> says which engines let go.\<close>

definition unload_inprocess_engines :: "(nat \<Rightarrow> bool) \<Rightarrow> engines \<Rightarrow> engines" where
  "unload_inprocess_engines unload_ok eg =
     (let to_unload = map snd (eg_map eg)
      in fold (\<lambda>e eg. if unload_ok e then eg\<lparr>eg_loaded := (eg_loaded eg)(e := False)\<rparr> else eg)
           to_unload (eg\<lparr>eg_map := []\<rparr>))"

text \<open>The invariant: every engine in the map is loaded and older than the next reference.\<close>

definition engines_wf :: "engines \<Rightarrow> bool" where
  "engines_wf eg \<longleftrightarrow> hash_wf (eg_map eg) \<and> list_all (\<lambda>(_, e). eg_loaded eg e \<and> e < eg_next eg) (eg_map eg)"

section \<open>Encrypted chunks\<close>

record reply_env =
  re_box :: crypto_box
  re_b64_encode :: "bytes \<Rightarrow> string"
  re_nonce :: "nat \<Rightarrow> bytes"
  re_open :: "nat \<Rightarrow> bool"
  re_sha256 :: "bytes \<Rightarrow> bytes"

text \<open>The message put on the outbound channel by the \<open>k\<close>-th encryption.\<close>

definition send_encrypted_inference_chunk ::
  "reply_env \<Rightarrow> nat \<Rightarrow> string \<Rightarrow> bytes \<Rightarrow> node_key_pair \<Rightarrow> string \<Rightarrow> provider_message result" where
  "send_encrypted_inference_chunk env k request_id response_public_key node_keypair plaintext =
     (case kp_encrypt (re_box env) (re_nonce env k) node_keypair response_public_key (str_bytes plaintext) of
        Err _ \<Rightarrow> Err ''failed to encrypt inference chunk''
      | Ok c \<Rightarrow>
          if re_open env k then
            Ok (InferenceResponseChunk request_id []
                  (Some \<lparr>ephemeral_public_key = public_key_base64 (re_b64_encode env) node_keypair,
                         ciphertext = re_b64_encode env c\<rparr>))
          else Err ''failed to send encrypted inference chunk'')"

text \<open>The receive loop over the streamed texts: messages sent, text accumulated for the signature,
  number of chunks sent, and the error that ended it early.\<close>

fun stream_loop ::
  "reply_env \<Rightarrow> string \<Rightarrow> bytes \<Rightarrow> node_key_pair \<Rightarrow> nat \<Rightarrow> string list
   \<Rightarrow> provider_message list \<times> string \<times> u64 \<times> string option" where
  "stream_loop env rid rpk kp k [] = ([], [], 0, None)"
| "stream_loop env rid rpk kp k (t # ts) =
     (case send_encrypted_inference_chunk env k rid rpk kp t of
        Err e \<Rightarrow> ([], t, 0, Some e)
      | Ok m \<Rightarrow>
          (case stream_loop env rid rpk kp (Suc k) ts of
             (ms, acc_text, n, err) \<Rightarrow> (m # ms, t @ acc_text, 1 + n, err)))"

section \<open>The request handler\<close>

record inference_result =
  ir_text :: string
  ir_prompt_tokens :: u64
  ir_completion_tokens :: u64

datatype stream_end = StreamOk u64 u64 | StreamErr string | StreamPanic string

record engine_run =
  er_tokens :: "string list"
  er_stream_end :: stream_end
  er_generate :: "inference_result result"

text \<open>The streaming branch: the messages sent and either the error message it returns with or the
  result of the stream.\<close>

definition stream_request ::
  "reply_env \<Rightarrow> string \<Rightarrow> bytes \<Rightarrow> node_key_pair \<Rightarrow> engine_run
   \<Rightarrow> provider_message list \<times> (provider_message + inference_result result)" where
  "stream_request env rid rpk kp run =
     (case stream_loop env rid rpk kp 0 (er_tokens run) of
        (ms, acc_text, streamed, Some err) \<Rightarrow>
          (ms, Inl (InferenceError rid (''failed to encrypt streaming chunk: '' @ err) 500))
      | (ms, acc_text, streamed, None) \<Rightarrow>
          (case er_stream_end run of
             StreamOk p c \<Rightarrow>
               (case send_encrypted_inference_chunk env (length (er_tokens run)) rid rpk kp ''data: [DONE]'' of
                  Err err \<Rightarrow>
                    (ms, Inl (InferenceError rid (''failed to encrypt terminal chunk: '' @ err) 500))
                | Ok m \<Rightarrow>
                    (ms @ [m], Inr (Ok \<lparr>ir_text = acc_text, ir_prompt_tokens = p,
                                         ir_completion_tokens = (if c < streamed then streamed else c)\<rparr>)))
           | StreamErr e \<Rightarrow> (ms, Inr (Err e))
           | StreamPanic e \<Rightarrow> (ms, Inr (Err (''stream generate task panicked: '' @ e)))))"

definition complete_message ::
  "reply_env \<Rightarrow> (bytes \<Rightarrow> string option) option \<Rightarrow> string \<Rightarrow> inference_result \<Rightarrow> string \<Rightarrow> provider_message" where
  "complete_message env se_handle rid res payload =
     (case compute_response_attestation (re_sha256 env) se_handle rid (ir_completion_tokens res) payload of
        (response_hash, se_signature) \<Rightarrow>
          InferenceComplete rid
            \<lparr>prompt_tokens = ir_prompt_tokens res, completion_tokens = ir_completion_tokens res\<rparr>
            se_signature (Some response_hash))"

definition count_served :: "u64 \<Rightarrow> provider_stats \<Rightarrow> provider_stats" where
  "count_served completion st =
     st\<lparr>requests_served := requests_served st + 1, tokens_generated := tokens_generated st + completion\<rparr>"

text \<open>The messages put on the outbound channel, in order, and the updated counters.\<close>

definition handle_inprocess_request ::
  "reply_env \<Rightarrow> bool \<Rightarrow> engine_run \<Rightarrow> string \<Rightarrow> json \<Rightarrow> bytes \<Rightarrow> node_key_pair
   \<Rightarrow> (bytes \<Rightarrow> string option) option \<Rightarrow> provider_stats \<Rightarrow> provider_message list \<times> provider_stats" where
  "handle_inprocess_request env sip_enabled run rid body rpk kp se_handle st =
     (if \<not> sip_enabled then ([InferenceError rid ''SIP disabled'' 503], st)
      else
        let is_streaming = option_unwrap_or False (json_get_as json_as_bool ''stream'' body);
            (ms, result) =
              (if is_streaming then stream_request env rid rpk kp run else ([], Inr (er_generate run)))
        in case result of
             Inl err \<Rightarrow> (ms @ [err], st)
           | Inr (Err e) \<Rightarrow> (ms @ [InferenceError rid ''in-process inference failed'' 500], st)
           | Inr (Ok res) \<Rightarrow>
               if \<not> is_streaming then
                 let payload = ''data: '' @ ir_text res
                 in case send_encrypted_inference_chunk env 0 rid rpk kp payload of
                      Err err \<Rightarrow>
                        (ms @ [InferenceError rid (''failed to encrypt non-streaming response: '' @ err) 500], st)
                    | Ok m \<Rightarrow>
                        (ms @ [m, complete_message env se_handle rid res payload],
                         count_served (ir_completion_tokens res) st)
               else
                 (ms @ [complete_message env se_handle rid res (ir_text res)],
                  count_served (ir_completion_tokens res) st))"

section \<open>Lemmas on engines\<close>

lemma engines_wf_init: "engines_wf engines_init"
  by (simp add: engines_wf_def engines_init_def hash_wf_def)

lemma load_new_engine_wf:
  assumes "engines_wf eg" and "map_of (eg_map eg) model_id = None"
  shows "engines_wf (fst (load_new_engine r model_id eg))"
    and "snd (load_new_engine r model_id eg) = Ok (e, fresh) \<Longrightarrow>
         eg_loaded (fst (load_new_engine r model_id eg)) e
         \<and> map_of (eg_map (fst (load_new_engine r model_id eg))) model_id = Some e"
  using assms hash.invar_insert[of "eg_map eg" model_id "eg_next eg"]
  by (auto simp: load_new_engine_def Let_def engines_wf_def list_all_iff hash_insert_def split: sum.splits)

lemma get_or_load_wf:
  assumes "engines_wf eg"
  shows "engines_wf (fst (get_or_load_inprocess_engine r model_id eg))"
    and "snd (get_or_load_inprocess_engine r model_id eg) = Ok (e, fresh) \<Longrightarrow>
         eg_loaded (fst (get_or_load_inprocess_engine r model_id eg)) e
         \<and> map_of (eg_map (fst (get_or_load_inprocess_engine r model_id eg))) model_id = Some e"
proof -
  have loaded: "eg_loaded eg e" if "map_of (eg_map eg) model_id = Some e" for e
    using assms map_of_SomeD[OF that] by (auto simp: engines_wf_def list_all_iff)
  show "engines_wf (fst (get_or_load_inprocess_engine r model_id eg))"
    using assms loaded load_new_engine_wf(1)[OF assms]
    by (auto simp: get_or_load_inprocess_engine_def split: option.split)
  show "eg_loaded (fst (get_or_load_inprocess_engine r model_id eg)) e
         \<and> map_of (eg_map (fst (get_or_load_inprocess_engine r model_id eg))) model_id = Some e"
    if "snd (get_or_load_inprocess_engine r model_id eg) = Ok (e, fresh)"
    using that loaded load_new_engine_wf(2)[OF assms]
    by (auto simp: get_or_load_inprocess_engine_def split: option.splits)
qed

lemma unload_engines_map: "eg_map (unload_inprocess_engines u eg) = []"
proof -
  have "eg_map (fold (\<lambda>e eg. if u e then eg\<lparr>eg_loaded := (eg_loaded eg)(e := False)\<rparr> else eg) es eg') = eg_map eg'"
    for es and eg' :: engines
    by (induction es arbitrary: eg') auto
  then show ?thesis
    by (simp add: unload_inprocess_engines_def Let_def)
qed

lemma unload_engines_wf: "engines_wf (unload_inprocess_engines u eg)"
  by (simp add: engines_wf_def unload_engines_map hash_wf_def)

section \<open>Lemmas on replies\<close>

text \<open>A chunk that carries only ciphertext, and the two messages that end a request.\<close>

fun encrypted_chunk :: "string \<Rightarrow> provider_message \<Rightarrow> bool" where
  "encrypted_chunk rid (InferenceResponseChunk rid' data enc) \<longleftrightarrow> rid' = rid \<and> data = [] \<and> enc \<noteq> None"
| "encrypted_chunk rid _ \<longleftrightarrow> False"

fun terminal_message :: "string \<Rightarrow> provider_message \<Rightarrow> bool" where
  "terminal_message rid (InferenceComplete rid' _ _ _) \<longleftrightarrow> rid' = rid"
| "terminal_message rid (InferenceError rid' _ _) \<longleftrightarrow> rid' = rid"
| "terminal_message rid _ \<longleftrightarrow> False"

fun served_tokens :: "provider_message \<Rightarrow> u64 option" where
  "served_tokens (InferenceComplete _ u _ _) = Some (completion_tokens u)"
| "served_tokens _ = None"

lemma send_chunk_encrypted:
  "send_encrypted_inference_chunk env k rid rpk kp t = Ok m \<Longrightarrow> encrypted_chunk rid m"
  by (auto simp: send_encrypted_inference_chunk_def split: sum.splits if_splits)

lemma stream_loop_encrypted: "list_all (encrypted_chunk rid) (fst (stream_loop env rid rpk kp k ts))"
proof (induction ts arbitrary: k)
  case (Cons t ts)
  from Cons.IH[of "Suc k"] show ?case
    by (auto simp: send_chunk_encrypted split: sum.split prod.split)
qed simp

lemma stream_request_encrypted:
  "list_all (encrypted_chunk rid) (fst (stream_request env rid rpk kp run))"
  "snd (stream_request env rid rpk kp run) = Inl m \<Longrightarrow> terminal_message rid m \<and> served_tokens m = None"
  using stream_loop_encrypted[where rid = rid and env = env and rpk = rpk and kp = kp and k = 0 and ts = "er_tokens run"]
  by (auto simp: stream_request_def send_chunk_encrypted split: prod.splits option.splits stream_end.splits sum.splits)

lemma complete_message_terminal [simp]:
  "terminal_message rid (complete_message env se rid res payload)"
  "served_tokens (complete_message env se rid res payload) = Some (ir_completion_tokens res)"
  by (simp_all add: complete_message_def split: prod.split)

text \<open>What the holder of the response key makes of a chunk.\<close>

fun consumer_open :: "crypto_box \<Rightarrow> (string \<Rightarrow> bytes option) \<Rightarrow> node_key_pair \<Rightarrow> provider_message \<Rightarrow> bytes option" where
  "consumer_open cb b64_decode consumer (InferenceResponseChunk _ _ (Some p)) =
     (case (b64_decode (ephemeral_public_key p), b64_decode (ciphertext p)) of
        (Some pk, Some c) \<Rightarrow> (case kp_decrypt cb consumer pk c of Ok t \<Rightarrow> Some t | Err _ \<Rightarrow> None)
      | _ \<Rightarrow> None)"
| "consumer_open _ _ _ _ = None"

definition reply_keys_ok :: "reply_env \<Rightarrow> (string \<Rightarrow> bytes option) \<Rightarrow> node_key_pair \<Rightarrow> node_key_pair \<Rightarrow> bool" where
  "reply_keys_ok env b64_decode kp consumer \<longleftrightarrow>
     crypto_box_ok (re_box env) \<and> kp_wf (re_box env) kp \<and> kp_wf (re_box env) consumer
     \<and> (\<forall>k. length (re_nonce env k) = 24) \<and> (\<forall>x. b64_decode (re_b64_encode env x) = Some x)"

lemma consumer_open_chunk:
  assumes "reply_keys_ok env b64_decode kp consumer"
    and "send_encrypted_inference_chunk env k rid (kp_public consumer) kp t = Ok m"
  shows "consumer_open (re_box env) b64_decode consumer m = Some (str_bytes t)"
  using assms kp_decrypt_encrypt[of "re_box env" kp consumer "re_nonce env k" "str_bytes t"]
  by (auto simp: send_encrypted_inference_chunk_def reply_keys_ok_def public_key_base64_def
      split: sum.splits if_splits)

lemma consumer_open_stream:
  assumes "reply_keys_ok env b64_decode kp consumer"
    and "stream_loop env rid (kp_public consumer) kp k ts = (ms, acc, n, None)"
  shows "map (consumer_open (re_box env) b64_decode consumer) ms = map (\<lambda>t. Some (str_bytes t)) ts
    \<and> acc = concat ts"
  using assms(2)
proof (induction ts arbitrary: k ms acc n)
  case (Cons t ts)
  then show ?case
    using consumer_open_chunk[OF assms(1)]
    by (auto split: sum.splits prod.splits)
qed auto

section \<open>Properties\<close>

text \<open>C6: Every request is answered by any number of chunks that carry only ciphertext, followed by
  exactly one closing message for that request, a completion or an error, whatever the engine,
  the encryption or the channel does; the served counters change exactly when it is a completion,
  by one request and its completion tokens.\<close>

theorem reply_shape:
  "fst (handle_inprocess_request env sip run rid body rpk kp se st) \<noteq> []
   \<and> list_all (encrypted_chunk rid) (butlast (fst (handle_inprocess_request env sip run rid body rpk kp se st)))
   \<and> terminal_message rid (last (fst (handle_inprocess_request env sip run rid body rpk kp se st)))
   \<and> snd (handle_inprocess_request env sip run rid body rpk kp se st) =
       (case served_tokens (last (fst (handle_inprocess_request env sip run rid body rpk kp se st))) of
          Some n \<Rightarrow> count_served n st
        | None \<Rightarrow> st)"
  using stream_request_encrypted[where rid = rid and env = env and rpk = rpk and kp = kp and run = run]
    send_chunk_encrypted[of env 0 rid rpk kp]
  by (auto simp: handle_inprocess_request_def Let_def butlast_append split: sum.splits prod.splits)

lemma reply_opens:
  assumes "reply_keys_ok env b64_decode kp consumer"
    and "handle_inprocess_request env sip run rid body (kp_public consumer) kp se st = (ms @ [InferenceComplete rid u sig h], st')"
  shows "let texts = (if option_unwrap_or False (json_get_as json_as_bool ''stream'' body)
                      then er_tokens run @ [''data: [DONE]'']
                      else (case er_generate run of Ok res \<Rightarrow> [''data: '' @ ir_text res] | Err _ \<Rightarrow> []));
             attested = (if option_unwrap_or False (json_get_as json_as_bool ''stream'' body)
                         then concat (er_tokens run) else concat texts)
    in map (consumer_open (re_box env) b64_decode consumer) ms = map (\<lambda>t. Some (str_bytes t)) texts
       \<and> h = Some (sha256_bytes (re_sha256 env) (str_bytes (sign_data rid (completion_tokens u) attested)))"
  using assms(2) consumer_open_chunk[OF assms(1)]
  by (auto simp: handle_inprocess_request_def stream_request_def complete_message_def Let_def
      compute_response_attestation_def
      dest!: consumer_open_stream[OF assms(1)]
      split: if_splits sum.splits prod.splits option.splits stream_end.splits)

text \<open>A completed request is readable and verifiable by the holder of the response key: the
  chunks decrypt, in order, to the texts the engine streamed followed by the end marker (or to the
  one response line), and the attested hash is that of the request identifier, the reported token
  count and exactly those texts.\<close>

theorem reply_decrypts:
  assumes "reply_keys_ok env b64_decode kp consumer"
    and "handle_inprocess_request env sip run rid body (kp_public consumer) kp se st = (ms @ [InferenceComplete rid u sig h], st')"
  shows "let texts = (if option_unwrap_or False (json_get_as json_as_bool ''stream'' body)
                      then er_tokens run @ [''data: [DONE]'']
                      else (case er_generate run of Ok res \<Rightarrow> [''data: '' @ ir_text res] | Err _ \<Rightarrow> []));
             attested = (if option_unwrap_or False (json_get_as json_as_bool ''stream'' body)
                         then concat (er_tokens run) else concat texts)
    in map (consumer_open (re_box env) b64_decode consumer) ms = map (\<lambda>t. Some (str_bytes t)) texts
       \<and> h = Some (sha256_bytes (re_sha256 env) (str_bytes (sign_data rid (completion_tokens u) attested)))"
  using assms by (rule reply_opens)

definition demo_reply_env :: reply_env where
  "demo_reply_env =
     \<lparr>re_box = plain_box, re_b64_encode = bytes_str, re_nonce = (\<lambda>_. replicate 24 0),
      re_open = (\<lambda>_. True), re_sha256 = (\<lambda>x. x)\<rparr>"

definition demo_run :: engine_run where
  "demo_run =
     \<lparr>er_tokens = [''data: a'', ''data: b''], er_stream_end = StreamOk 3 2,
      er_generate = Ok \<lparr>ir_text = ''x'', ir_prompt_tokens = 3, ir_completion_tokens = 2\<rparr>\<rparr>"

lemma demo_reply_keys: "reply_keys_ok demo_reply_env (\<lambda>s. Some (str_bytes s)) (kp_generate plain_box a) (kp_generate plain_box b)"
  by (simp add: reply_keys_ok_def demo_reply_env_def plain_box_ok)

lemma reply_decrypts_witness:
  "map (consumer_open plain_box (\<lambda>s. Some (str_bytes s)) (kp_generate plain_box [5]))
     (butlast (fst (handle_inprocess_request demo_reply_env True demo_run ''r1''
        (JObj [(''stream'', JBool True)]) (kp_public (kp_generate plain_box [5])) (kp_generate plain_box [9]) None
        provider_stats_default))) =
   map (\<lambda>t. Some (str_bytes t)) [''data: a'', ''data: b'', ''data: [DONE]'']"
proof -
  let ?h = "handle_inprocess_request demo_reply_env True demo_run ''r1''
        (JObj [(''stream'', JBool True)]) (kp_public (kp_generate plain_box [5])) (kp_generate plain_box [9]) None
        provider_stats_default"
  have "\<exists>ms u sg h st'. ?h = (ms @ [InferenceComplete ''r1'' u sg h], st')"
    by (simp add: handle_inprocess_request_def json_get_as_def option_unwrap_or_def stream_request_def
        demo_run_def send_encrypted_inference_chunk_def kp_encrypt_def demo_reply_env_def plain_box_def
        complete_message_def split: prod.split)
  then obtain ms u sg h st' where eq: "?h = (ms @ [InferenceComplete ''r1'' u sg h], st')" by blast
  from reply_decrypts[OF demo_reply_keys eq] show ?thesis
    unfolding eq by (simp add: demo_reply_env_def demo_run_def json_get_as_def option_unwrap_or_def)
qed

text \<open>C11: The engine a request gets is loaded and is the one the map holds for its model, under the
  invariant that mapped engines are loaded, which loading and unloading keep.\<close>

theorem engine_is_loaded:
  assumes "engines_wf eg"
  shows "engines_wf (fst (get_or_load_inprocess_engine r model_id eg))
    \<and> engines_wf (unload_inprocess_engines u eg)
    \<and> (\<forall>e fresh. snd (get_or_load_inprocess_engine r model_id eg) = Ok (e, fresh) \<longrightarrow>
         eg_loaded (fst (get_or_load_inprocess_engine r model_id eg)) e
         \<and> map_of (eg_map (fst (get_or_load_inprocess_engine r model_id eg))) model_id = Some e)"
  using get_or_load_wf[OF assms] unload_engines_wf by blast

lemma engine_is_loaded_witness:
  "eg_loaded (fst (get_or_load_inprocess_engine (Ok ()) ''qwen'' engines_init)) 0"
  using engine_is_loaded[OF engines_wf_init, of "Ok ()" "''qwen''"]
  by (simp add: get_or_load_inprocess_engine_def load_new_engine_def engines_init_def)

end
