(* ===== verification/Serve.thy ===== *)
theory Serve
  imports Inference
begin

text \<open>
  The main event loop of \<open>darkbloom serve\<close> (\<open>cmd_serve\<close> in
  \<open>provider/src/main.rs\<close>): dispatch of coordinator events to inference tasks, the tracking
  of requests in flight, cancellation, idle shutdown, and the self-heal trigger. Each branch of
  the loop's select is a step of \<open>serve_step\<close>; \<open>serve_reach\<close> are the states that
  sequences of steps reach. Tasks are numbered; \<open>sv_running\<close> are the spawned tasks that
  have neither finished nor been aborted. What a branch observes (the clock, the result of loading
  an engine or reloading a backend, health, weight hashes) is its \<open>serve_obs\<close>.
\<close>

section \<open>State\<close>

datatype backend_state = BackendRunning | BackendIdleShutdown | BackendCrashed

record slot =
  sl_model_id :: string
  sl_model_path :: string
  sl_port :: u16
  sl_pid :: "nat option"
  sl_healthy :: bool
  sl_restarting :: bool

record serve_state =
  sv_inflight :: "(string \<times> nat) list"
  sv_running :: "nat list"
  sv_cancelled :: "nat list"
  sv_next_task :: nat
  sv_inference_active :: bool
  sv_last_request_time :: nat
  sv_backend_state :: backend_state
  sv_slots :: "slot list"
  sv_engines :: engines
  sv_model_hash :: "string option"
  sv_outbound :: "provider_message list"
  sv_self_heal_running :: bool

record serve_config =
  sc_inprocess :: bool
  sc_engines_available :: bool
  sc_idle_timeout :: "nat option"
  sc_rehash :: bool

record serve_obs =
  ob_now :: nat
  ob_load_result :: "unit result"
  ob_reload_result :: "nat result"
  ob_check_health :: bool
  ob_weight_hash :: "string \<Rightarrow> string option"
  ob_unload_ok :: "nat \<Rightarrow> bool"

definition serve_init :: "nat \<Rightarrow> slot list \<Rightarrow> engines \<Rightarrow> serve_state" where
  "serve_init now slots eg =
     \<lparr>sv_inflight = [], sv_running = [], sv_cancelled = [], sv_next_task = 0,
      sv_inference_active = False, sv_last_request_time = now, sv_backend_state = BackendRunning,
      sv_slots = slots, sv_engines = eg, sv_model_hash = None, sv_outbound = [],
      sv_self_heal_running = False\<rparr>"

section \<open>Routing\<close>

text \<open>The first slot whose identifier equals, contains or is contained in the requested model.\<close>

definition find_slot :: "string \<Rightarrow> slot list \<Rightarrow> slot option" where
  "find_slot req_model_id slots =
     find (\<lambda>s. sl_model_id s = req_model_id \<or> str_contains (sl_model_id s) req_model_id
                \<or> str_contains req_model_id (sl_model_id s)) slots"

text \<open>\<open>slots.iter_mut().find(|s| s.port == port)\<close>: the first slot of a port.\<close>

fun update_slot :: "u16 \<Rightarrow> (slot \<Rightarrow> slot) \<Rightarrow> slot list \<Rightarrow> slot list" where
  "update_slot port f [] = []"
| "update_slot port f (s # ss) = (if sl_port s = port then f s # ss else s # update_slot port f ss)"

definition on_slot :: "u16 \<Rightarrow> (slot \<Rightarrow> slot) \<Rightarrow> serve_state \<Rightarrow> serve_state" where
  "on_slot port f st = st\<lparr>sv_slots := update_slot port f (sv_slots st)\<rparr>"

definition send_out :: "provider_message \<Rightarrow> serve_state \<Rightarrow> serve_state" where
  "send_out m st = st\<lparr>sv_outbound := sv_outbound st @ [m]\<rparr>"

definition rehash :: "serve_config \<Rightarrow> serve_obs \<Rightarrow> string \<Rightarrow> serve_state \<Rightarrow> serve_state" where
  "rehash cfg ob model_id st =
     (if sc_rehash cfg then
        (case ob_weight_hash ob model_id of Some h \<Rightarrow> st\<lparr>sv_model_hash := Some h\<rparr> | None \<Rightarrow> st)
      else st)"

section \<open>Handlers\<close>

text \<open>Preparing the in-process engine for a slot: the engine, or the state in which the request has
  been refused.\<close>

definition prepare_engine ::
  "serve_config \<Rightarrow> serve_obs \<Rightarrow> string \<Rightarrow> slot \<Rightarrow> serve_state \<Rightarrow> serve_state + serve_state \<times> nat" where
  "prepare_engine cfg ob rid s st =
     (if \<not> sc_engines_available cfg then
        Inl (send_out (InferenceError rid ''in-process engine support unavailable in this build'' 503) st)
      else
        let st1 = on_slot (sl_port s) (\<lambda>s. s\<lparr>sl_restarting := True\<rparr>) st
        in case get_or_load_inprocess_engine (ob_load_result ob) (sl_model_id s) (sv_engines st1) of
             (eg, Ok (engine, freshly_loaded)) \<Rightarrow>
               (let st2 = on_slot (sl_port s) (\<lambda>s. s\<lparr>sl_healthy := True, sl_restarting := False\<rparr>)
                            (st1\<lparr>sv_engines := eg, sv_backend_state := BackendRunning\<rparr>)
                in Inr (if freshly_loaded then rehash cfg ob (sl_model_id s) st2 else st2, engine))
           | (eg, Err e) \<Rightarrow>
               Inl (send_out (InferenceError rid ''in-process model load failed'' 503)
                 (on_slot (sl_port s) (\<lambda>s. s\<lparr>sl_healthy := False, sl_restarting := False\<rparr>)
                   (st1\<lparr>sv_engines := eg\<rparr>))))"

text \<open>The subprocess path: the slot is reloaded when needed, then the request is refused, because
  private text is never proxied.\<close>

definition subprocess_request :: "serve_config \<Rightarrow> serve_obs \<Rightarrow> string \<Rightarrow> slot \<Rightarrow> serve_state \<Rightarrow> serve_state" where
  "subprocess_request cfg ob rid s st =
     (let needs_reload = \<not> sl_healthy s \<or> \<not> ob_check_health ob;
          refuse = send_out (InferenceError rid ''private text requests require the embedded in-process engine; refusing to proxy through a local backend'' 503)
      in if needs_reload \<and> \<not> sl_restarting s then
           let st1 = on_slot (sl_port s) (\<lambda>s. s\<lparr>sl_restarting := True\<rparr>) st
           in case ob_reload_result ob of
                Ok new_pid \<Rightarrow>
                  refuse (rehash cfg ob (sl_model_id s)
                    (on_slot (sl_port s) (\<lambda>s. s\<lparr>sl_pid := Some new_pid, sl_healthy := True, sl_restarting := False\<rparr>)
                      (st1\<lparr>sv_backend_state := BackendRunning\<rparr>)))
              | Err e \<Rightarrow>
                  send_out (InferenceError rid ''backend reload failed'' 503)
                    (on_slot (sl_port s) (\<lambda>s. s\<lparr>sl_restarting := False\<rparr>) st1)
         else refuse st)"

definition spawn_task :: "string \<Rightarrow> serve_state \<Rightarrow> serve_state" where
  "spawn_task rid st =
     st\<lparr>sv_inflight := hash_insert rid (sv_next_task st) (sv_inflight st),
        sv_running := sv_next_task st # sv_running st,
        sv_next_task := Suc (sv_next_task st)\<rparr>"

definition requested_model :: "json \<Rightarrow> string" where
  "requested_model body = option_unwrap_or [] (json_get_as json_as_str ''model'' body)"

definition on_inference_request ::
  "serve_config \<Rightarrow> serve_obs \<Rightarrow> string \<Rightarrow> json \<Rightarrow> bytes option \<Rightarrow> serve_state \<Rightarrow> serve_state" where
  "on_inference_request cfg ob rid body response_public_key st =
     (case response_public_key of
        None \<Rightarrow>
          send_out (InferenceError rid ''coordinator text request missing encrypted response session key'' 400) st
      | Some pk \<Rightarrow>
          let st1 = send_out (InferenceAccepted rid)
                      (st\<lparr>sv_last_request_time := ob_now ob, sv_inference_active := True\<rparr>)
          in case find_slot (requested_model body) (sv_slots st1) of
               None \<Rightarrow>
                 send_out (InferenceError rid (''no backend slot for model '' @ requested_model body) 404) st1
             | Some s \<Rightarrow>
                 if sc_inprocess cfg then
                   (case prepare_engine cfg ob rid s st1 of
                      Inl st2 \<Rightarrow> st2
                    | Inr (st2, engine) \<Rightarrow> spawn_task rid st2)
                 else subprocess_request cfg ob rid s st1)"

definition on_disconnected :: "serve_state \<Rightarrow> serve_state" where
  "on_disconnected st =
     (if length (sv_inflight st) > 0 then
        st\<lparr>sv_inflight := [],
           sv_running := filter (\<lambda>t. t \<notin> snd ` set (sv_inflight st)) (sv_running st),
           sv_cancelled := map snd (sv_inflight st) @ sv_cancelled st,
           sv_inference_active := False\<rparr>
      else st)"

text \<open>Removal from the tracker, which clears the activity flag when nothing is left.\<close>

definition untrack :: "string \<Rightarrow> serve_state \<Rightarrow> serve_state" where
  "untrack rid st =
     (let inflight = hash_delete rid (sv_inflight st)
      in st\<lparr>sv_inflight := inflight,
            sv_inference_active := (if inflight = [] then False else sv_inference_active st)\<rparr>)"

definition on_cancel :: "string \<Rightarrow> serve_state \<Rightarrow> serve_state" where
  "on_cancel rid st =
     (case map_of (sv_inflight st) rid of
        Some task \<Rightarrow> (untrack rid st)\<lparr>sv_cancelled := task # sv_cancelled st\<rparr>
      | None \<Rightarrow> st)"

definition on_runtime_outdated :: "serve_state \<Rightarrow> serve_state" where
  "on_runtime_outdated st = (if sv_self_heal_running st then st else st\<lparr>sv_self_heal_running := True\<rparr>)"

fun on_coordinator_event :: "serve_config \<Rightarrow> serve_obs \<Rightarrow> coordinator_event \<Rightarrow> serve_state \<Rightarrow> serve_state" where
  "on_coordinator_event cfg ob EvConnected st = st"
| "on_coordinator_event cfg ob EvDisconnected st = on_disconnected st"
| "on_coordinator_event cfg ob (EvInferenceRequest rid body k) st = on_inference_request cfg ob rid body k st"
| "on_coordinator_event cfg ob (EvCancel rid) st = on_cancel rid st"
| "on_coordinator_event cfg ob (EvAttestationChallenge nonce ts) st = st"
| "on_coordinator_event cfg ob (EvRuntimeOutdated ms) st = on_runtime_outdated st"

text \<open>The completion notice of a task.\<close>

definition on_done :: "string \<Rightarrow> bool \<Rightarrow> serve_state \<Rightarrow> serve_state" where
  "on_done rid backend_dead st =
     (let st1 = (case map_of (sv_inflight st) rid of Some _ \<Rightarrow> untrack rid st | None \<Rightarrow> st)
      in if backend_dead \<and> sv_backend_state st1 = BackendRunning
         then st1\<lparr>sv_backend_state := BackendCrashed\<rparr> else st1)"

definition on_idle :: "serve_config \<Rightarrow> serve_obs \<Rightarrow> serve_state \<Rightarrow> serve_state" where
  "on_idle cfg ob st =
     (let st1 =
        (if sc_inprocess cfg then
           (if sc_engines_available cfg
            then st\<lparr>sv_engines := unload_inprocess_engines (ob_unload_ok ob) (sv_engines st)\<rparr> else st)
           \<lparr>sv_slots := map (\<lambda>s. s\<lparr>sl_healthy := False, sl_restarting := False\<rparr>) (sv_slots st)\<rparr>
         else st)
      in st1\<lparr>sv_backend_state := BackendIdleShutdown\<rparr>)"

text \<open>When the idle timer of the select is armed and has expired.\<close>

definition idle_fires :: "serve_config \<Rightarrow> nat \<Rightarrow> serve_state \<Rightarrow> bool" where
  "idle_fires cfg now st \<longleftrightarrow>
     (case sc_idle_timeout cfg of
        None \<Rightarrow> False
      | Some timeout \<Rightarrow>
          sv_backend_state st = BackendRunning \<and> sv_inflight st = []
          \<and> now \<ge> sv_last_request_time st + timeout)"

section \<open>Steps\<close>

datatype serve_event =
    SvCoordinator coordinator_event
  | SvTaskEnds nat
  | SvDone string bool
  | SvIdle
  | SvHealDone

inductive serve_step :: "serve_config \<Rightarrow> serve_state \<Rightarrow> serve_event \<Rightarrow> serve_state \<Rightarrow> bool" for cfg where
  coordinator: "serve_step cfg st (SvCoordinator ev) (on_coordinator_event cfg ob ev st)"
| task_ends: "t \<in> set (sv_running st) \<Longrightarrow>
    serve_step cfg st (SvTaskEnds t) (st\<lparr>sv_running := removeAll t (sv_running st)\<rparr>)"
| finished: "serve_step cfg st (SvDone rid dead) (on_done rid dead st)"
| idle: "idle_fires cfg (ob_now ob) st \<Longrightarrow> serve_step cfg st SvIdle (on_idle cfg ob st)"
| heal_done: "serve_step cfg st SvHealDone (st\<lparr>sv_self_heal_running := False\<rparr>)"

inductive_cases serve_idleE: "serve_step cfg st SvIdle st'"

inductive serve_reach :: "serve_config \<Rightarrow> serve_state \<Rightarrow> serve_state \<Rightarrow> bool" for cfg st0 where
  start: "serve_reach cfg st0 st0"
| step: "serve_reach cfg st0 st \<Longrightarrow> serve_step cfg st ev st' \<Longrightarrow> serve_reach cfg st0 st'"

section \<open>Invariants\<close>

definition serve_inv :: "serve_state \<Rightarrow> bool" where
  "serve_inv st \<longleftrightarrow>
     hash_wf (sv_inflight st)
     \<and> (sv_inflight st \<noteq> [] \<longrightarrow> sv_inference_active st)
     \<and> engines_wf (sv_engines st)
     \<and> list_all (\<lambda>(_, t). t < sv_next_task st) (sv_inflight st)
     \<and> list_all (\<lambda>t. t < sv_next_task st) (sv_running st) \<and> distinct (sv_running st)"

lemma send_out_simps [simp]:
  "sv_inflight (send_out m st) = sv_inflight st" "sv_running (send_out m st) = sv_running st"
  "sv_inference_active (send_out m st) = sv_inference_active st" "sv_engines (send_out m st) = sv_engines st"
  "sv_next_task (send_out m st) = sv_next_task st" "sv_slots (send_out m st) = sv_slots st"
  "sv_outbound (send_out m st) = sv_outbound st @ [m]" "sv_backend_state (send_out m st) = sv_backend_state st"
  by (simp_all add: send_out_def)

lemma on_slot_simps [simp]:
  "sv_inflight (on_slot p f st) = sv_inflight st" "sv_running (on_slot p f st) = sv_running st"
  "sv_inference_active (on_slot p f st) = sv_inference_active st" "sv_engines (on_slot p f st) = sv_engines st"
  "sv_next_task (on_slot p f st) = sv_next_task st" "sv_outbound (on_slot p f st) = sv_outbound st"
  by (simp_all add: on_slot_def)

lemma rehash_simps [simp]:
  "sv_inflight (rehash cfg ob m st) = sv_inflight st" "sv_running (rehash cfg ob m st) = sv_running st"
  "sv_inference_active (rehash cfg ob m st) = sv_inference_active st" "sv_engines (rehash cfg ob m st) = sv_engines st"
  "sv_next_task (rehash cfg ob m st) = sv_next_task st" "sv_outbound (rehash cfg ob m st) = sv_outbound st"
  by (simp_all add: rehash_def split: option.split)

lemma serve_inv_init: "engines_wf eg \<Longrightarrow> serve_inv (serve_init now slots eg)"
  by (simp add: serve_inv_def serve_init_def hash_wf_def)

text \<open>Preparing an engine keeps everything but slots, engines and the weight hash.\<close>

lemma prepare_engine_frame:
  assumes "serve_inv st"
  shows "prepare_engine cfg ob rid s st = Inr (st', e) \<Longrightarrow>
      serve_inv st' \<and> sv_inflight st' = sv_inflight st \<and> sv_running st' = sv_running st
      \<and> sv_inference_active st' = sv_inference_active st \<and> sv_next_task st' = sv_next_task st
      \<and> sv_outbound st' = sv_outbound st"
    and "prepare_engine cfg ob rid s st = Inl st' \<Longrightarrow>
      serve_inv st' \<and> sv_inflight st' = sv_inflight st \<and> sv_running st' = sv_running st
      \<and> sv_inference_active st' = sv_inference_active st \<and> sv_next_task st' = sv_next_task st
      \<and> (\<exists>err. sv_outbound st' = sv_outbound st @ [InferenceError rid err 503])"
proof -
  have eg: "engines_wf (fst (get_or_load_inprocess_engine r m (sv_engines st)))" for r m
    using assms get_or_load_wf(1) by (simp add: serve_inv_def)
  show "prepare_engine cfg ob rid s st = Inr (st', e) \<Longrightarrow>
      serve_inv st' \<and> sv_inflight st' = sv_inflight st \<and> sv_running st' = sv_running st
      \<and> sv_inference_active st' = sv_inference_active st \<and> sv_next_task st' = sv_next_task st
      \<and> sv_outbound st' = sv_outbound st"
    using assms eg[of "ob_load_result ob" "sl_model_id s"]
    by (auto simp: prepare_engine_def Let_def serve_inv_def split: if_splits prod.splits sum.splits)
  show "prepare_engine cfg ob rid s st = Inl st' \<Longrightarrow>
      serve_inv st' \<and> sv_inflight st' = sv_inflight st \<and> sv_running st' = sv_running st
      \<and> sv_inference_active st' = sv_inference_active st \<and> sv_next_task st' = sv_next_task st
      \<and> (\<exists>err. sv_outbound st' = sv_outbound st @ [InferenceError rid err 503])"
    using assms eg[of "ob_load_result ob" "sl_model_id s"]
    by (auto simp: prepare_engine_def Let_def serve_inv_def split: if_splits prod.splits sum.splits)
qed

lemma subprocess_request_frame:
  "sv_inflight (subprocess_request cfg ob rid s st) = sv_inflight st"
  "sv_running (subprocess_request cfg ob rid s st) = sv_running st"
  "sv_inference_active (subprocess_request cfg ob rid s st) = sv_inference_active st"
  "sv_next_task (subprocess_request cfg ob rid s st) = sv_next_task st"
  "sv_engines (subprocess_request cfg ob rid s st) = sv_engines st"
  "\<exists>err. sv_outbound (subprocess_request cfg ob rid s st) = sv_outbound st @ [InferenceError rid err 503]"
  by (auto simp: subprocess_request_def Let_def split: sum.split)

lemma spawn_task_inv:
  assumes "serve_inv st" and "sv_inference_active st"
  shows "serve_inv (spawn_task rid st)"
proof -
  have "hash_wf (hash_insert rid (sv_next_task st) (sv_inflight st))"
    using assms(1) hash.invar_insert[of "sv_inflight st" rid "sv_next_task st"] by (simp add: serve_inv_def)
  with assms show ?thesis
    by (auto simp: serve_inv_def spawn_task_def hash_insert_def list_all_iff less_Suc_eq)
qed

lemma accepted_inv:
  "serve_inv st \<Longrightarrow> serve_inv (send_out m (st\<lparr>sv_last_request_time := t, sv_inference_active := True\<rparr>))"
  by (simp add: serve_inv_def)

lemma on_inference_request_inv:
  assumes "serve_inv st"
  shows "serve_inv (on_inference_request cfg ob rid body k st)"
proof (cases k)
  case None
  with assms show ?thesis by (simp add: on_inference_request_def serve_inv_def)
next
  case (Some pk)
  let ?st1 = "send_out (InferenceAccepted rid) (st\<lparr>sv_last_request_time := ob_now ob, sv_inference_active := True\<rparr>)"
  have inv: "serve_inv ?st1" using assms by (rule accepted_inv)
  have act: "sv_inference_active ?st1" by simp
  have req: "on_inference_request cfg ob rid body k st =
      (case find_slot (requested_model body) (sv_slots ?st1) of
         None \<Rightarrow> send_out (InferenceError rid (''no backend slot for model '' @ requested_model body) 404) ?st1
       | Some s \<Rightarrow>
           if sc_inprocess cfg then
             (case prepare_engine cfg ob rid s ?st1 of Inl st2 \<Rightarrow> st2 | Inr (st2, engine) \<Rightarrow> spawn_task rid st2)
           else subprocess_request cfg ob rid s ?st1)"
    by (simp add: on_inference_request_def Some Let_def)
  show ?thesis
  proof (cases "find_slot (requested_model body) (sv_slots ?st1)")
    case None
    with inv show ?thesis by (simp add: req serve_inv_def)
  next
    case (Some s)
    show ?thesis
    proof (cases "sc_inprocess cfg")
      case True
      show ?thesis
      proof (cases "prepare_engine cfg ob rid s ?st1")
        case (Inl st2)
        with prepare_engine_frame(2)[OF inv Inl] Some True show ?thesis by (simp add: req)
      next
        case (Inr p)
        obtain st2 e where p: "p = (st2, e)" by (cases p)
        note frame = prepare_engine_frame(1)[OF inv Inr[unfolded p]]
        with act have "serve_inv (spawn_task rid st2)" by (intro spawn_task_inv) simp_all
        with Some True Inr p show ?thesis by (simp add: req)
      qed
    next
      case False
      with inv Some show ?thesis by (simp add: req serve_inv_def subprocess_request_frame)
    qed
  qed
qed

lemma untrack_inv: "serve_inv st \<Longrightarrow> serve_inv (untrack rid st)"
  using hash.invar_delete[of "sv_inflight st" rid]
  by (auto simp: untrack_def Let_def serve_inv_def list_all_iff)

lemma serve_step_inv: "serve_step cfg st ev st' \<Longrightarrow> serve_inv st \<Longrightarrow> serve_inv st'"
proof (induction rule: serve_step.induct)
  case (coordinator st ev ob)
  then show ?case
    using on_inference_request_inv untrack_inv
    by (cases ev) (auto simp: on_disconnected_def on_cancel_def on_runtime_outdated_def serve_inv_def
        hash_wf_def list_all_iff split: option.split)
next
  case (finished st rid dead)
  then show ?case
    using untrack_inv[of st rid] by (auto simp: on_done_def Let_def serve_inv_def split: option.split)
next
  case (idle ob st)
  then show ?case
    using unload_engines_wf by (auto simp: on_idle_def Let_def serve_inv_def)
qed (auto simp: serve_inv_def list_all_iff distinct_removeAll)

lemma serve_reach_inv: "serve_reach cfg st0 st \<Longrightarrow> serve_inv st0 \<Longrightarrow> serve_inv st"
  by (induction rule: serve_reach.induct) (auto intro: serve_step_inv)

text \<open>What a request with a response key does to the tracker and to the outbound channel.\<close>

lemma on_inference_request_effect:
  assumes "serve_inv st" and "st' = on_inference_request cfg ob rid body (Some pk) st"
  shows "(sv_outbound st' = sv_outbound st @ [InferenceAccepted rid]
          \<and> map_of (sv_inflight st') rid = Some (sv_next_task st) \<and> sv_running st' = sv_next_task st # sv_running st
          \<and> sv_next_task st' = Suc (sv_next_task st) \<and> sc_inprocess cfg)
    \<or> (\<exists>err code. sv_outbound st' = sv_outbound st @ [InferenceAccepted rid, InferenceError rid err code]
          \<and> sv_inflight st' = sv_inflight st \<and> sv_running st' = sv_running st \<and> sv_next_task st' = sv_next_task st)"
proof -
  let ?st1 = "send_out (InferenceAccepted rid) (st\<lparr>sv_last_request_time := ob_now ob, sv_inference_active := True\<rparr>)"
  have inv: "serve_inv ?st1" using assms(1) by (rule accepted_inv)
  show ?thesis
  proof (cases "find_slot (requested_model body) (sv_slots ?st1)")
    case None
    with assms(2) show ?thesis by (simp add: on_inference_request_def)
  next
    case (Some s)
    show ?thesis
    proof (cases "sc_inprocess cfg")
      case True
      show ?thesis
      proof (cases "prepare_engine cfg ob rid s ?st1")
        case (Inl st2)
        with prepare_engine_frame(2)[OF inv Inl] Some True assms(2) show ?thesis
          by (auto simp: on_inference_request_def)
      next
        case (Inr p)
        obtain st2 e where p: "p = (st2, e)" by (cases p)
        with prepare_engine_frame(1)[OF inv Inr[unfolded p]] Some True Inr assms(2) show ?thesis
          by (simp add: on_inference_request_def spawn_task_def hash_insert_def)
      qed
    next
      case False
      with Some assms(2) subprocess_request_frame[of cfg ob rid s ?st1] show ?thesis
        by (auto simp: on_inference_request_def)
    qed
  qed
qed

lemma on_inference_request_subprocess:
  assumes "\<not> sc_inprocess cfg"
  shows "sv_running (on_inference_request cfg ob rid body k st) = sv_running st"
    and "sv_inflight (on_inference_request cfg ob rid body k st) = sv_inflight st"
  using assms subprocess_request_frame
  by (auto simp: on_inference_request_def Let_def split: option.split)

section \<open>Properties\<close>

text \<open>C8: In every state the event loop reaches, requests in flight are tracked under distinct
  identifiers, the provider reports itself serving while any is tracked, every mapped engine is
  loaded, and task numbers are fresh.\<close>

theorem serve_invariant:
  assumes "engines_wf eg" and "serve_reach cfg (serve_init now slots eg) st"
  shows "hash_wf (sv_inflight st) \<and> (sv_inflight st = [] \<or> sv_inference_active st)
    \<and> engines_wf (sv_engines st) \<and> list_all (\<lambda>(_, t). t < sv_next_task st) (sv_inflight st)"
  using serve_reach_inv[OF assms(2) serve_inv_init[OF assms(1)]] by (auto simp: serve_inv_def)

lemma serve_invariant_witness:
  "sv_inflight (serve_init 0 [] engines_init) = [] \<or> sv_inference_active (serve_init 0 [] engines_init)"
  using serve_invariant[OF engines_wf_init serve_reach.start] by blast

text \<open>With a matching slot and an engine that loads, a request runs.\<close>

lemma on_inference_request_served:
  assumes "serve_inv st" and "sc_inprocess cfg" and "sc_engines_available cfg"
    and "find_slot (requested_model body) (sv_slots st) = Some s" and "ob_load_result ob = Ok ()"
  shows "sv_outbound (on_inference_request cfg ob rid body (Some pk) st) = sv_outbound st @ [InferenceAccepted rid]
    \<and> map_of (sv_inflight (on_inference_request cfg ob rid body (Some pk) st)) rid = Some (sv_next_task st)
    \<and> sv_running (on_inference_request cfg ob rid body (Some pk) st) = sv_next_task st # sv_running st"
proof -
  let ?st1 = "send_out (InferenceAccepted rid) (st\<lparr>sv_last_request_time := ob_now ob, sv_inference_active := True\<rparr>)"
  have inv: "serve_inv ?st1" using assms(1) by (rule accepted_inv)
  have "\<exists>eg e fresh. get_or_load_inprocess_engine (ob_load_result ob) (sl_model_id s) (sv_engines st) = (eg, Ok (e, fresh))"
    using assms(5)
    by (auto simp: get_or_load_inprocess_engine_def load_new_engine_def Let_def split: option.split)
  then obtain st2 e where p: "prepare_engine cfg ob rid s ?st1 = Inr (st2, e)"
    using assms(3) by (auto simp: prepare_engine_def Let_def)
  have "sv_slots ?st1 = sv_slots st" by simp
  with p assms(2,4) have "on_inference_request cfg ob rid body (Some pk) st = spawn_task rid st2"
    by (simp add: on_inference_request_def)
  with prepare_engine_frame(1)[OF inv p] show ?thesis
    by (simp add: spawn_task_def hash_insert_def)
qed

text \<open>No request is lost: a request with a response key is acknowledged first and then either
  runs as a tracked task of the in-process engine or is answered by exactly one error; a request
  without a key gets one error and no acknowledgement.\<close>

theorem request_not_lost:
  assumes "serve_inv st"
  shows "((sv_outbound (on_inference_request cfg ob rid body (Some pk) st) = sv_outbound st @ [InferenceAccepted rid]
        \<and> map_of (sv_inflight (on_inference_request cfg ob rid body (Some pk) st)) rid = Some (sv_next_task st)
        \<and> sv_next_task st \<in> set (sv_running (on_inference_request cfg ob rid body (Some pk) st)) \<and> sc_inprocess cfg)
      \<or> (\<exists>err code. sv_outbound (on_inference_request cfg ob rid body (Some pk) st) =
            sv_outbound st @ [InferenceAccepted rid, InferenceError rid err code]
          \<and> sv_inflight (on_inference_request cfg ob rid body (Some pk) st) = sv_inflight st))
    \<and> (\<exists>err. sv_outbound (on_inference_request cfg ob rid body None st) = sv_outbound st @ [InferenceError rid err 400])
    \<and> sv_inflight (on_inference_request cfg ob rid body None st) = sv_inflight st"
  using on_inference_request_effect[OF assms refl, of cfg ob rid body pk]
  by (auto simp: on_inference_request_def)

definition demo_obs :: serve_obs where
  "demo_obs = \<lparr>ob_now = 5, ob_load_result = Ok (), ob_reload_result = Err [], ob_check_health = False,
     ob_weight_hash = (\<lambda>_. None), ob_unload_ok = (\<lambda>_. True)\<rparr>"

definition demo_config :: serve_config where
  "demo_config = \<lparr>sc_inprocess = True, sc_engines_available = True, sc_idle_timeout = Some 10, sc_rehash = True\<rparr>"

definition demo_slot :: "string \<Rightarrow> u16 \<Rightarrow> slot" where
  "demo_slot m port = \<lparr>sl_model_id = m, sl_model_path = ''/models/'' @ m, sl_port = port, sl_pid = None,
     sl_healthy = True, sl_restarting = False\<rparr>"

lemma request_not_lost_witness:
  "map_of (sv_inflight (on_inference_request demo_config demo_obs ''r1'' (JObj [(''model'', JStr ''qwen'')]) (Some [1])
     (serve_init 0 [demo_slot ''qwen'' 8100] engines_init))) ''r1'' = Some 0 \<and>
   sv_inflight (on_inference_request demo_config demo_obs ''r1'' (JObj []) None
     (serve_init 0 [demo_slot ''qwen'' 8100] engines_init)) = []"
proof -
  let ?st = "serve_init 0 [demo_slot ''qwen'' 8100] engines_init"
  have "sv_outbound (on_inference_request demo_config demo_obs ''r1'' (JObj [(''model'', JStr ''qwen'')]) (Some [1]) ?st)
      = [InferenceAccepted ''r1'']"
    by code_simp
  with request_not_lost[OF serve_inv_init[OF engines_wf_init],
      of demo_config demo_obs "''r1''" "JObj [(''model'', JStr ''qwen'')]" "[1]" 0 "[demo_slot ''qwen'' 8100]"]
    request_not_lost[OF serve_inv_init[OF engines_wf_init],
      of demo_config demo_obs "''r1''" "JObj []" "[1]" 0 "[demo_slot ''qwen'' 8100]"]
  show ?thesis
    by (simp add: serve_init_def)
qed

text \<open>C10: Idle shutdown never interrupts work: it happens only with no request in flight, at least
  the configured time after the last one; afterwards no engine is mapped, every slot is marked
  down and the timer stays disarmed until a request has brought the backend back.\<close>

theorem idle_shutdown_safe:
  assumes "serve_step cfg st SvIdle st'" and "sc_inprocess cfg" and "sc_engines_available cfg"
  shows "sv_inflight st = [] \<and> sv_inflight st' = []
    \<and> eg_map (sv_engines st') = [] \<and> list_all (\<lambda>s. \<not> sl_healthy s) (sv_slots st')
    \<and> sv_backend_state st' = BackendIdleShutdown \<and> \<not> idle_fires cfg now st'"
  using assms
  by (auto elim!: serve_idleE simp: idle_fires_def on_idle_def Let_def unload_engines_map list_all_iff
      split: option.splits)

lemma idle_shutdown_safe_witness:
  "eg_map (sv_engines (on_idle demo_config (demo_obs\<lparr>ob_now := 11\<rparr>)
     (serve_init 0 [demo_slot ''qwen'' 8100] engines_init))) = []"
proof -
  have "idle_fires demo_config (ob_now (demo_obs\<lparr>ob_now := 11\<rparr>)) (serve_init 0 [demo_slot ''qwen'' 8100] engines_init)"
    by (simp add: idle_fires_def demo_config_def demo_obs_def serve_init_def)
  from idle_shutdown_safe[OF serve_step.idle[OF this]] show ?thesis
    by (simp add: demo_config_def)
qed

text \<open>A provider that runs subprocess backends never runs a private request: in every reachable
  state no task is running and nothing is in flight.\<close>

theorem subprocess_never_serves:
  assumes "\<not> sc_inprocess cfg" and "serve_reach cfg (serve_init now slots eg) st"
  shows "sv_running st = [] \<and> sv_inflight st = []"
  using assms(2)
proof (induction rule: serve_reach.induct)
  case (step st ev st')
  from step.hyps(2) step.IH show ?case
  proof (induction rule: serve_step.induct)
    case (coordinator st ev ob)
    then show ?case
      using on_inference_request_subprocess[OF assms(1)]
      by (cases ev) (auto simp: on_disconnected_def on_cancel_def on_runtime_outdated_def)
  qed (auto simp: on_done_def on_idle_def Let_def)
qed (simp add: serve_init_def)

lemma subprocess_never_serves_witness:
  "sv_running (on_coordinator_event (demo_config\<lparr>sc_inprocess := False\<rparr>) demo_obs
     (EvInferenceRequest ''r1'' (JObj [(''model'', JStr ''qwen'')]) (Some [1]))
     (serve_init 0 [demo_slot ''qwen'' 8100] engines_init)) = []"
  by (rule conjunct1[OF subprocess_never_serves[where cfg = "demo_config\<lparr>sc_inprocess := False\<rparr>",
        OF _ serve_reach.step[OF serve_reach.start serve_step.coordinator]]]) simp

text \<open>The activity flag can outlive all work: a request that is refused after it was
  acknowledged leaves the provider reporting itself as serving with nothing in flight and nothing
  running.\<close>

theorem activity_flag_stuck:
  "\<exists>st. serve_reach cfg (serve_init now [] eg) st
    \<and> sv_inflight st = [] \<and> sv_running st = [] \<and> sv_inference_active st"
proof -
  let ?st0 = "serve_init now [] eg"
  let ?ev = "EvInferenceRequest ''r'' (JObj []) (Some [])"
  have "serve_reach cfg ?st0 (on_coordinator_event cfg demo_obs ?ev ?st0)"
    by (rule serve_reach.step[OF serve_reach.start serve_step.coordinator])
  moreover have "on_coordinator_event cfg demo_obs ?ev ?st0 =
      send_out (InferenceError ''r'' (''no backend slot for model '' @ requested_model (JObj [])) 404)
        (send_out (InferenceAccepted ''r'') (?st0\<lparr>sv_last_request_time := ob_now demo_obs, sv_inference_active := True\<rparr>))"
    by (simp add: on_inference_request_def find_slot_def serve_init_def)
  ultimately show ?thesis
    by (intro exI[of _ "on_coordinator_event cfg demo_obs ?ev ?st0"]) (simp add: serve_init_def)
qed

text \<open>Cancelling forgets the request but does not stop it: the task keeps running untracked,
  and when it was the only one the provider reports itself idle. A disconnection stops every
  tracked task.\<close>

theorem cancel_leaves_task_running:
  assumes "serve_inv st" and "map_of (sv_inflight st) rid = Some t" and "t \<in> set (sv_running st)"
  shows "map_of (sv_inflight (on_cancel rid st)) rid = None
    \<and> t \<in> set (sv_running (on_cancel rid st))
    \<and> (sv_inflight st = [(rid, t)] \<longrightarrow> \<not> sv_inference_active (on_cancel rid st))
    \<and> t \<notin> set (sv_running (on_disconnected st))"
  using assms map_of_SomeD[OF assms(2)]
  by (auto simp: on_cancel_def untrack_def Let_def map_of_hash_delete on_disconnected_def
      intro: rev_image_eqI)

lemma cancel_leaves_task_running_witness:
  "0 \<in> set (sv_running (on_cancel ''r1'' (spawn_task ''r1''
     ((serve_init 0 [demo_slot ''qwen'' 8100] engines_init)\<lparr>sv_inference_active := True\<rparr>))))"
proof -
  let ?st = "(serve_init 0 [demo_slot ''qwen'' 8100] engines_init)\<lparr>sv_inference_active := True\<rparr>"
  have "serve_inv ?st"
    using serve_inv_init[OF engines_wf_init, of 0 "[demo_slot ''qwen'' 8100]"] by (simp add: serve_inv_def)
  then have "serve_inv (spawn_task ''r1'' ?st)"
    by (rule spawn_task_inv) simp
  from cancel_leaves_task_running[OF this, of "''r1''" 0] show ?thesis
    by (simp add: spawn_task_def serve_init_def hash_insert_def)
qed

text \<open>Routing takes the first slot in list order that matches loosely: a slot whose identifier
  merely starts with the requested name hides a later slot with exactly that name, and a request
  without a model goes to the first slot.\<close>

theorem find_slot_first_loose_match:
  "find_slot req (demo_slot (req @ tail) p # demo_slot req q # slots) = Some (demo_slot (req @ tail) p)
   \<and> find_slot [] (s # slots) = Some s"
proof -
  have "str_contains (req @ tail) req" "str_contains x []" for x
    by (simp_all add: str_contains_prefix)
  then show ?thesis
    by (simp add: find_slot_def demo_slot_def)
qed

end
