(* ===== verification/Supervisor.thy ===== *)
theory Supervisor
  imports Backend Serve
begin

text \<open>
  Supervision of subprocess backends (\<open>main.rs\<close>): the command line of a backend, waiting for a reloaded
  backend to come up, the per-slot health monitor, the capacity poll, the shutdown, and the gate that
  allows only the embedded runtime. A turn of the monitor is one step; probes, process creation and
  signals are observations or logged.
\<close>

section \<open>Starting a backend\<close>

definition tool_parser :: "string \<Rightarrow> string" where
  "tool_parser model_lower =
     (if str_contains model_lower ''gemma'' then ''gemma4''
      else if str_contains model_lower ''deepseek'' \<or> str_contains model_lower ''trinity'' then ''hermes''
      else if str_contains model_lower ''qwen'' then ''nemotron''
      else ''auto'')"

definition reasoning_parser :: "string \<Rightarrow> string" where
  "reasoning_parser model_lower =
     (if str_contains model_lower ''gemma'' then ''gemma4''
      else if str_contains model_lower ''deepseek'' \<or> str_contains model_lower ''trinity'' then ''deepseek_r1''
      else if str_contains model_lower ''minimax'' then ''deepseek_r1''
      else ''qwen3'')"

definition spawn_args :: "string \<Rightarrow> string \<Rightarrow> u16 \<Rightarrow> string list" where
  "spawn_args module model port =
     [''-m'', module, ''--model'', model, ''--port'', show_nat (unat port), ''--host'', ''127.0.0.1'']
     @ (if module = ''vllm_mlx.server''
        then [''--enable-auto-tool-choice'', ''--tool-call-parser'', tool_parser (to_lowercase model),
              ''--reasoning-parser'', reasoning_parser (to_lowercase model)]
        else [])"

text \<open>\<open>spawn\<close> is \<open>None\<close> when the process cannot be created, and \<open>Some None\<close> when it has no identifier any more.\<close>

definition spawn_inference_backend ::
  "(string \<Rightarrow> string list \<Rightarrow> nat option option) \<Rightarrow> string \<Rightarrow> string \<Rightarrow> string \<Rightarrow> u16 \<Rightarrow> nat result" where
  "spawn_inference_backend spawn python_cmd module model port =
     (case spawn python_cmd (spawn_args module model port) of
        None \<Rightarrow> Err ''spawn''
      | Some pid \<Rightarrow> Ok (case pid of Some p \<Rightarrow> p | None \<Rightarrow> 0))"

text \<open>What a reload sees: the process, and the answers to the probes of its three phases by number.\<close>

record reload_obs =
  ro_spawn :: "string \<Rightarrow> string list \<Rightarrow> nat option option"
  ro_up :: "nat \<Rightarrow> http_get"
  ro_loaded :: "nat \<Rightarrow> http_get"
  ro_warm_get :: "nat \<Rightarrow> http_get"
  ro_warm_post :: "nat \<Rightarrow> string \<Rightarrow> json \<Rightarrow> bool option"

text \<open>The result and the seconds slept between the probes.\<close>

definition reload_backend :: "reload_obs \<Rightarrow> string \<Rightarrow> string \<Rightarrow> string \<Rightarrow> u16 \<Rightarrow> nat result \<times> nat" where
  "reload_backend ob python_cmd backend_name model port =
     (let module = (if backend_name = ''vllm-mlx'' \<or> backend_name = ''vllm_mlx'' then ''vllm_mlx.server'' else ''mlx_lm.server'');
          url = ''http://127.0.0.1:'' @ show_nat (unat port)
      in case spawn_inference_backend (ro_spawn ob) python_cmd module model port of
           Inl e \<Rightarrow> (Err ''failed to spawn backend'', 0)
         | Inr new_pid \<Rightarrow>
             (case List.find (\<lambda>i. check_health (ro_up ob i) url) [0..<150] of
                None \<Rightarrow> (Err ''backend HTTP server did not start within 300s after reload'', 300)
              | Some i \<Rightarrow>
                  let t1 = 2 * (i + 1) in
                  (case List.find (\<lambda>i. check_model_loaded (ro_loaded ob i) url) [0..<150] of
                     None \<Rightarrow> (Err ''model did not load into GPU memory within 300s after reload'', t1 + 300)
                   | Some j \<Rightarrow>
                       let t2 = t1 + 2 * j in
                       (case List.find (\<lambda>i. warmup_backend (ro_warm_get ob i) (ro_warm_post ob i) url) [0..<5] of
                          None \<Rightarrow> (Err ''backend warmup failed after 5 attempts'', t2 + 20)
                        | Some k \<Rightarrow> (Ok new_pid, t2 + 5 * k)))))"

section \<open>The health monitor\<close>

text \<open>Signals are logged with the process number as the system call gets it, a 32-bit signed integer.\<close>

datatype pid_signal = Terminate | Kill

record monitor_state =
  hm_slots :: "slot list"
  hm_failures :: "u32 list"
  hm_flag :: backend_state
  hm_signals :: "(int \<times> pid_signal) list"
  hm_reloads :: "u16 list"

definition as_i32 :: "nat \<Rightarrow> int" where
  "as_i32 pid = sint (word_of_nat pid :: 32 word)"

definition monitor_init :: "slot list \<Rightarrow> backend_state \<Rightarrow> monitor_state" where
  "monitor_init slots flag =
     \<lparr>hm_slots = slots, hm_failures = replicate (length slots) 0, hm_flag = flag, hm_signals = [], hm_reloads = []\<rparr>"

definition set_slot :: "nat \<Rightarrow> (slot \<Rightarrow> slot) \<Rightarrow> monitor_state \<Rightarrow> monitor_state" where
  "set_slot idx f st = (if idx < length (hm_slots st) then st\<lparr>hm_slots := (hm_slots st)[idx := f (hm_slots st ! idx)]\<rparr> else st)"

definition kill_slot :: "nat option \<Rightarrow> monitor_state \<Rightarrow> monitor_state" where
  "kill_slot pid st =
     (case pid of
        Some p \<Rightarrow>
          if p > 0 then st\<lparr>hm_signals := hm_signals st @ [(as_i32 p, Terminate), (as_i32 p, Kill)]\<rparr> else st
      | None \<Rightarrow> st)"

text \<open>Restarting a slot; \<open>reload\<close> is the outcome of \<open>reload_backend\<close> for a port.\<close>

definition restart_slot :: "(string \<Rightarrow> u16 \<Rightarrow> nat result) \<Rightarrow> nat \<Rightarrow> slot \<Rightarrow> monitor_state \<Rightarrow> monitor_state" where
  "restart_slot reload idx s st =
     (let st1 = set_slot idx (\<lambda>s. s\<lparr>sl_healthy := False, sl_restarting := True\<rparr>) st;
          st2 = kill_slot (sl_pid s) st1;
          st3 = st2\<lparr>hm_reloads := hm_reloads st2 @ [sl_port s], hm_failures := (hm_failures st2)[idx := 0]\<rparr>
      in case reload (sl_model_path s) (sl_port s) of
           Inr new_pid \<Rightarrow> set_slot idx (\<lambda>s. s\<lparr>sl_pid := Some new_pid, sl_healthy := True, sl_restarting := False\<rparr>) st3
         | Inl _ \<Rightarrow> set_slot idx (\<lambda>s. s\<lparr>sl_restarting := False\<rparr>) st3)"

text \<open>One slot in one turn, with the snapshot taken at the start of the turn.\<close>

definition monitor_slot ::
  "(u16 \<Rightarrow> bool) \<Rightarrow> (string \<Rightarrow> u16 \<Rightarrow> nat result) \<Rightarrow> nat \<times> slot \<Rightarrow> bool \<times> monitor_state \<Rightarrow> bool \<times> monitor_state" where
  "monitor_slot healthy reload is bst =
     (case (is, bst) of ((idx, s), (any_crashed, st)) \<Rightarrow>
        if healthy (sl_port s)
        then (any_crashed,
              if hm_failures st ! idx > 0
              then set_slot idx (\<lambda>s. s\<lparr>sl_healthy := True\<rparr>) (st\<lparr>hm_failures := (hm_failures st)[idx := 0]\<rparr>)
              else st)
        else
          let st1 = st\<lparr>hm_failures := (hm_failures st)[idx := hm_failures st ! idx + 1]\<rparr> in
          if hm_failures st1 ! idx \<ge> 5
          then (if idx < length (hm_slots st1) \<and> sl_restarting (hm_slots st1 ! idx) then (any_crashed, st1)
                else (True, restart_slot reload idx s st1))
          else (any_crashed, st1))"

definition monitor_turn :: "(u16 \<Rightarrow> bool) \<Rightarrow> (string \<Rightarrow> u16 \<Rightarrow> nat result) \<Rightarrow> monitor_state \<Rightarrow> monitor_state" where
  "monitor_turn healthy reload st =
     (case fold (monitor_slot healthy reload) (enumerate 0 (hm_slots st)) (False, st) of
        (any_crashed, st1) \<Rightarrow>
          if any_crashed then st1\<lparr>hm_flag := BackendCrashed\<rparr>
          else if list_all sl_healthy (hm_slots st1) then st1\<lparr>hm_flag := BackendRunning\<rparr> else st1)"

section \<open>The capacity poll\<close>

definition slot_capacity :: "string \<Rightarrow> string \<Rightarrow> backend_slot_capacity" where
  "slot_capacity model state =
     \<lparr>slot_model = model, slot_state = state, num_running = 0, num_waiting = 0, active_tokens = 0, max_tokens_potential = 0\<rparr>"

definition f64_raise :: "f64 \<Rightarrow> f64 \<Rightarrow> f64" where
  "f64_raise cur new = (if f64_gt new cur then new else cur)"

definition poll_slot :: "(string \<Rightarrow> (bool \<times> json option) option) \<Rightarrow> backend_state \<Rightarrow> slot \<Rightarrow> backend_capacity \<Rightarrow> backend_capacity" where
  "poll_slot get flag s cap =
     (if sl_restarting s then cap\<lparr>bc_slots := bc_slots cap @ [slot_capacity (sl_model_id s) ''reloading'']\<rparr>
      else case poll_backend_status get (''http://127.0.0.1:'' @ show_nat (unat (sl_port s))) of
        Some status \<Rightarrow>
          cap\<lparr>gpu_memory_active_gb := f64_raise (gpu_memory_active_gb cap) (bs_gpu_memory_active_gb status),
              gpu_memory_peak_gb := f64_raise (gpu_memory_peak_gb cap) (bs_gpu_memory_peak_gb status),
              gpu_memory_cache_gb := f64_raise (gpu_memory_cache_gb cap) (bs_gpu_memory_cache_gb status),
              bc_slots := bc_slots cap @
                [\<lparr>slot_model = sl_model_id s, slot_state = ''running'', num_running = bs_num_running status,
                  num_waiting = bs_num_waiting status, active_tokens = bs_active_tokens status,
                  max_tokens_potential = bs_max_tokens_potential status\<rparr>]\<rparr>
      | None \<Rightarrow>
          cap\<lparr>bc_slots := bc_slots cap @
            [slot_capacity (sl_model_id s) (if flag = BackendIdleShutdown then ''idle_shutdown'' else ''crashed'')]\<rparr>)"

definition poll_capacity :: "(string \<Rightarrow> (bool \<times> json option) option) \<Rightarrow> backend_state \<Rightarrow> f64 \<Rightarrow> slot list \<Rightarrow> backend_capacity" where
  "poll_capacity get flag total_mem_gb slots =
     fold (poll_slot get flag) slots
       \<lparr>bc_slots = [], gpu_memory_active_gb = f64_zero, gpu_memory_peak_gb = f64_zero, gpu_memory_cache_gb = f64_zero,
        bc_total_memory_gb = total_mem_gb\<rparr>"

section \<open>Shutdown and the privacy gate\<close>

text \<open>The signals sent, whether each is delivered, and whether the fallback by process name runs.\<close>

definition shutdown_backends :: "(int \<Rightarrow> bool) \<Rightarrow> (string \<times> nat option) list \<Rightarrow> int list \<times> bool" where
  "shutdown_backends kill pids =
     (let targets = List.map_filter (\<lambda>(_, pid). map_option as_i32 pid) pids
      in (targets, \<not> list_ex kill targets))"

definition validate_private_text_runtime :: "bool \<Rightarrow> string option \<Rightarrow> bool \<Rightarrow> unit result \<Rightarrow> unit result" where
  "validate_private_text_runtime local backend_var python_feature approved =
     (if local then Err ''local text serving is disabled in privacy mode''
      else
        let value = (case backend_var of None \<Rightarrow> [] | Some raw \<Rightarrow> trim raw) in
        if value \<noteq> [] \<and> value \<notin> {''inprocess'', ''embedded'', ''python''}
        then Err ''text subprocess backends are disabled for privacy''
        else if python_feature
          then (case approved of Inl _ \<Rightarrow> Err ''private text runtime unavailable'' | Inr _ \<Rightarrow> Ok ())
          else Err ''this build does not include the embedded Python runtime'')"

section \<open>The monitor, slot by slot\<close>

text \<open>What a turn means for one slot and its failure count, and when it restarts the slot.\<close>

definition watch :: "(u16 \<Rightarrow> bool) \<Rightarrow> (string \<Rightarrow> u16 \<Rightarrow> nat result) \<Rightarrow> slot \<times> u32 \<Rightarrow> slot \<times> u32" where
  "watch healthy reload sf =
     (case sf of (s, f) \<Rightarrow>
        if healthy (sl_port s) then (if f > 0 then (s\<lparr>sl_healthy := True\<rparr>, 0) else (s, f))
        else if f + 1 \<ge> 5
          then (if sl_restarting s then (s, f + 1)
                else (case reload (sl_model_path s) (sl_port s) of
                        Inr pid \<Rightarrow> (s\<lparr>sl_pid := Some pid, sl_healthy := True, sl_restarting := False\<rparr>, 0)
                      | Inl _ \<Rightarrow> (s\<lparr>sl_healthy := False, sl_restarting := False\<rparr>, 0)))
          else (s, f + 1))"

definition due :: "(u16 \<Rightarrow> bool) \<Rightarrow> slot \<times> u32 \<Rightarrow> bool" where
  "due healthy sf \<longleftrightarrow> (case sf of (s, f) \<Rightarrow> \<not> healthy (sl_port s) \<and> f + 1 \<ge> 5 \<and> \<not> sl_restarting s)"

definition kill_log :: "nat option \<Rightarrow> (int \<times> pid_signal) list" where
  "kill_log pid = (case pid of Some p \<Rightarrow> if p > 0 then [(as_i32 p, Terminate), (as_i32 p, Kill)] else [] | None \<Rightarrow> [])"

lemma monitor_slot_step:
  assumes "hm_slots st = A @ s # ss" "hm_failures st = F @ f # fs" "length A = k" "length F = k"
  shows "monitor_slot healthy reload (k, s) (b, st) =
    (b \<or> due healthy (s, f),
     st\<lparr>hm_slots := A @ fst (watch healthy reload (s, f)) # ss, hm_failures := F @ snd (watch healthy reload (s, f)) # fs,
        hm_signals := hm_signals st @ (if due healthy (s, f) then kill_log (sl_pid s) else []),
        hm_reloads := hm_reloads st @ (if due healthy (s, f) then [sl_port s] else [])\<rparr>)"
  using assms
  by (auto simp: monitor_slot_def watch_def due_def restart_slot_def set_slot_def kill_slot_def kill_log_def nth_append
      list_update_append Let_def split: sum.split option.split)

lemma monitor_fold:
  assumes "length ss = length fs" "length A = k" "length F = k" "hm_slots st = A @ ss" "hm_failures st = F @ fs"
  shows "fold (monitor_slot healthy reload) (enumerate k ss) (b, st) =
    (b \<or> list_ex (due healthy) (zip ss fs),
     st\<lparr>hm_slots := A @ map fst (map (watch healthy reload) (zip ss fs)),
        hm_failures := F @ map snd (map (watch healthy reload) (zip ss fs)),
        hm_signals := hm_signals st @ concat (map (\<lambda>sf. kill_log (sl_pid (fst sf))) (filter (due healthy) (zip ss fs))),
        hm_reloads := hm_reloads st @ map (\<lambda>sf. sl_port (fst sf)) (filter (due healthy) (zip ss fs))\<rparr>)"
  using assms
proof (induction ss fs arbitrary: A F k b st rule: list_induct2)
  case (Cons s ss f fs)
  let ?w = "watch healthy reload (s, f)"
  let ?st = "st\<lparr>hm_slots := A @ fst ?w # ss, hm_failures := F @ snd ?w # fs,
        hm_signals := hm_signals st @ (if due healthy (s, f) then kill_log (sl_pid s) else []),
        hm_reloads := hm_reloads st @ (if due healthy (s, f) then [sl_port s] else [])\<rparr>"
  have "fold (monitor_slot healthy reload) (enumerate k (s # ss)) (b, st) =
      fold (monitor_slot healthy reload) (enumerate (Suc k) ss) (b \<or> due healthy (s, f), ?st)"
    using Cons.prems by (simp add: monitor_slot_step)
  with Cons.IH[of "A @ [fst ?w]" "Suc k" "F @ [snd ?w]" ?st "b \<or> due healthy (s, f)"] Cons.prems
  show ?case by simp
qed simp

lemma monitor_turn_eq:
  assumes "length (hm_failures st) = length (hm_slots st)"
  shows "monitor_turn healthy reload st =
    (let sfs = zip (hm_slots st) (hm_failures st); sfs' = map (watch healthy reload) sfs; dues = filter (due healthy) sfs
     in st\<lparr>hm_slots := map fst sfs', hm_failures := map snd sfs',
           hm_signals := hm_signals st @ concat (map (\<lambda>sf. kill_log (sl_pid (fst sf))) dues),
           hm_reloads := hm_reloads st @ map (\<lambda>sf. sl_port (fst sf)) dues,
           hm_flag := (if dues \<noteq> [] then BackendCrashed
                       else if list_all (\<lambda>sf. sl_healthy (fst sf)) sfs' then BackendRunning else hm_flag st)\<rparr>)"
proof -
  have "filter (due healthy) xs \<noteq> [] \<longleftrightarrow> list_ex (due healthy) xs" for xs
    by (auto simp: filter_empty_conv list_ex_iff)
  then show ?thesis
    using assms monitor_fold[of "hm_slots st" "hm_failures st" "[]" 0 "[]" st healthy reload False]
    by (auto simp: monitor_turn_def Let_def list_all_iff)
qed

lemma mod5_word: "word_of_nat (n mod 5) + 1 \<ge> (5 :: u32) \<longleftrightarrow> n mod 5 = 4"
proof -
  have "n mod 5 < 5" by simp
  then consider "n mod 5 = 0" | "n mod 5 = 1" | "n mod 5 = 2" | "n mod 5 = 3" | "n mod 5 = 4" by linarith
  then show ?thesis by cases (simp_all add: word_le_nat_alt)
qed

definition dead :: "u16 \<Rightarrow> bool" where "dead p = False"

text \<open>A slot whose backend never answers and never comes back: after \<open>n\<close> turns.\<close>

lemma dead_slot_turns:
  assumes "\<not> sl_restarting s" "reload (sl_model_path s) (sl_port s) = Err e"
  shows "\<exists>s'. hm_slots ((monitor_turn dead reload ^^ n) (monitor_init [s] flag)) = [s'] \<and> sl_port s' = sl_port s \<and>
      sl_model_path s' = sl_model_path s \<and> \<not> sl_restarting s' \<and>
    hm_failures ((monitor_turn dead reload ^^ n) (monitor_init [s] flag)) = [word_of_nat (n mod 5)] \<and>
    hm_reloads ((monitor_turn dead reload ^^ n) (monitor_init [s] flag)) = replicate (n div 5) (sl_port s)"
proof (induction n)
  case 0
  then show ?case using assms by (simp add: monitor_init_def)
next
  case (Suc n)
  let ?st = "(monitor_turn dead reload ^^ n) (monitor_init [s] flag)"
  from Suc obtain s' where s': "hm_slots ?st = [s']" "sl_port s' = sl_port s" "sl_model_path s' = sl_model_path s"
      "\<not> sl_restarting s'" "hm_failures ?st = [word_of_nat (n mod 5)]" "hm_reloads ?st = replicate (n div 5) (sl_port s)"
    by blast
  have t: "(monitor_turn dead reload ^^ Suc n) (monitor_init [s] flag) = monitor_turn dead reload ?st" by simp
  show ?case
  proof (cases "n mod 5 = 4")
    case True
    then have "Suc n mod 5 = 0" "Suc n div 5 = Suc (n div 5)" by presburger+
    with True s' assms(2) show ?thesis
      unfolding t
      by (simp add: monitor_turn_eq watch_def due_def dead_def Let_def replicate_append_same)
  next
    case False
    then have "Suc n mod 5 = Suc (n mod 5)" "Suc n div 5 = n div 5" by presburger+
    with False s' show ?thesis
      unfolding t by (simp add: monitor_turn_eq watch_def due_def dead_def mod5_word Let_def)
  qed
qed

section \<open>Properties\<close>

text \<open>C21: a turn of the monitor is the independent turn of each slot: slots and failure counts change as
  \<open>watch\<close> says, exactly the slots that are due are restarted, in order, with signals only to the
  positive process number of such a slot, and the flag tells a crash when one was restarted and
  running when all slots are healthy.\<close>

theorem monitor_turn_refines:
  assumes "length (hm_failures st) = length (hm_slots st)"
  shows "monitor_turn healthy reload st =
    (let sfs = zip (hm_slots st) (hm_failures st); sfs' = map (watch healthy reload) sfs; dues = filter (due healthy) sfs
     in st\<lparr>hm_slots := map fst sfs', hm_failures := map snd sfs',
           hm_signals := hm_signals st @ concat (map (\<lambda>sf. kill_log (sl_pid (fst sf))) dues),
           hm_reloads := hm_reloads st @ map (\<lambda>sf. sl_port (fst sf)) dues,
           hm_flag := (if dues \<noteq> [] then BackendCrashed
                       else if list_all (\<lambda>sf. sl_healthy (fst sf)) sfs' then BackendRunning else hm_flag st)\<rparr>)"
  using assms by (rule monitor_turn_eq)

definition watched_slot :: slot where
  "watched_slot = \<lparr>sl_model_id = ''m'', sl_model_path = ''p'', sl_port = 8100, sl_pid = Some 5, sl_healthy = True, sl_restarting = False\<rparr>"

theorem monitor_turn_refines_witness:
  "hm_reloads (monitor_turn dead (\<lambda>_ _. Ok 7)
     \<lparr>hm_slots = [watched_slot], hm_failures = [4], hm_flag = BackendRunning, hm_signals = [], hm_reloads = []\<rparr>) = [8100]"
  by (subst monitor_turn_refines) (simp_all add: due_def dead_def watched_slot_def)

text \<open>A backend that never answers and never comes back is restarted at every fifth turn, no more and
  no less, whatever the state flag says.\<close>

theorem restart_every_fifth:
  assumes "\<not> sl_restarting s" and "reload (sl_model_path s) (sl_port s) = Err e"
  shows "hm_reloads ((monitor_turn dead reload ^^ n) (monitor_init [s] flag)) = replicate (n div 5) (sl_port s)"
  using dead_slot_turns[of s reload e n flag] assms by blast

theorem restart_every_fifth_witness:
  "hm_reloads ((monitor_turn dead (\<lambda>_ _. Err ''e'') ^^ 12) (monitor_init [watched_slot] BackendIdleShutdown)) = [8100, 8100]"
proof -
  have "replicate (12 div 5) (8100 :: u16) = [8100, 8100]"
    by (simp add: numeral_2_eq_2)
  moreover have "\<not> sl_restarting watched_slot" "sl_port watched_slot = 8100"
    by (simp_all add: watched_slot_def)
  ultimately show ?thesis
    using restart_every_fifth[of watched_slot "\<lambda>_ _. Err ''e''" "''e''" 12 BackendIdleShutdown] by simp
qed

text \<open>A reload that reports success has seen its server answer, its model loaded and its warm-up
  inference succeed; and whatever happens it sleeps at most 620 seconds.\<close>

theorem reload_backend_checked:
  "(case reload_backend ob python_cmd name model port of
      (r, slept) \<Rightarrow> slept \<le> 620 \<and>
        (case r of
           Inl _ \<Rightarrow> True
         | Inr pid \<Rightarrow>
             (\<exists>i < 150. check_health (ro_up ob i) (''http://127.0.0.1:'' @ show_nat (unat port))) \<and>
             (\<exists>i < 150. check_model_loaded (ro_loaded ob i) (''http://127.0.0.1:'' @ show_nat (unat port))) \<and>
             (\<exists>i < 5. warmup_backend (ro_warm_get ob i) (ro_warm_post ob i) (''http://127.0.0.1:'' @ show_nat (unat port)))))"
proof -
  have f: "i < n \<and> P i" if "List.find P [0..<n] = Some i" for P i and n :: nat
    using that by (auto simp: find_Some_iff)
  show ?thesis
    by (auto simp: reload_backend_def Let_def split: sum.split option.split dest!: f)
qed

text \<open>A backend that comes up after its restart was given up: its count is zero again, so the turn that sees
  it healthy does not mark the slot healthy, and the state flag stays at crashed.\<close>

lemma late_recovery_unnoticed:
  assumes "\<not> sl_restarting s" "\<not> sl_healthy s"
  shows "monitor_turn (\<lambda>_. True) reload (monitor_init [s] BackendCrashed) = monitor_init [s] BackendCrashed"
  using assms by (simp add: monitor_turn_eq monitor_init_def watch_def due_def Let_def)

text \<open>Shutting down signals a recorded process number 0, that is the provider's whole process group; the
  monitor guards against it.\<close>

lemma shutdown_signals_group: "fst (shutdown_backends kill [(m, Some 0)]) = [0]"
  by (simp add: shutdown_backends_def List.map_filter_simps as_i32_def)

section \<open>Capacity\<close>

lemma poll_slot_slots:
  "bc_slots (poll_slot get flag s cap) = bc_slots cap @ [last (bc_slots (poll_slot get flag s cap))]"
  "slot_model (last (bc_slots (poll_slot get flag s cap))) = sl_model_id s"
  by (auto simp: poll_slot_def slot_capacity_def split: option.split)

lemma poll_fold_slots:
  "map slot_model (bc_slots (fold (poll_slot get flag) slots cap)) = map slot_model (bc_slots cap) @ map sl_model_id slots"
proof (induction slots arbitrary: cap)
  case (Cons s slots)
  have "map slot_model (bc_slots (poll_slot get flag s cap)) = map slot_model (bc_slots cap) @ [sl_model_id s]"
    by (subst poll_slot_slots(1)) (simp add: poll_slot_slots(2))
  with Cons show ?case by simp
qed simp

lemma poll_capacity_models: "map slot_model (bc_slots (poll_capacity get flag mem slots)) = map sl_model_id slots"
  by (simp add: poll_capacity_def poll_fold_slots)

text \<open>The privacy gate: text is served only by the embedded runtime, not locally and not by a
  subprocess backend chosen in the environment.\<close>

lemma private_runtime_gate:
  "validate_private_text_runtime local var feature approved = Ok () \<longleftrightarrow>
     \<not> local \<and> feature \<and> approved = Ok () \<and>
     (case var of None \<Rightarrow> True | Some raw \<Rightarrow> trim raw \<in> {[], ''inprocess'', ''embedded'', ''python''})"
  by (cases approved) (auto simp: validate_private_text_runtime_def Let_def split: option.split)

end
