(* ===== verification/Utf8.thy ===== *)
theory Utf8
  imports Prelude
begin

text \<open>
  UTF-8 as Rust's standard library reads bytes: \<open>str::from_utf8\<close>, which accepts the
  well-formed sequences of the Unicode standard, and \<open>String::from_utf8_lossy\<close>, which puts a
  replacement character in the place of every maximal ill-formed part. A string is its bytes.
\<close>

section \<open>Validity\<close>

text \<open>\<open>std::str::from_utf8\<close>: the well-formed byte sequences of the Unicode standard.\<close>

definition byte_in :: "nat \<Rightarrow> nat \<Rightarrow> char \<Rightarrow> bool" where
  "byte_in lo hi c \<longleftrightarrow> lo \<le> of_char c \<and> of_char c \<le> hi"

fun utf8_step :: "string \<Rightarrow> nat" where
  "utf8_step (a # rest) =
     (if byte_in 0x00 0x7F a then 1
      else (case rest of
         [] \<Rightarrow> 0
       | b # rest2 \<Rightarrow>
           if byte_in 0xC2 0xDF a then (if byte_in 0x80 0xBF b then 2 else 0)
           else (case rest2 of
              [] \<Rightarrow> 0
            | c # rest3 \<Rightarrow>
                if byte_in 0xE0 0xEF a then
                  (if (if byte_in 0xE0 0xE0 a then byte_in 0xA0 0xBF b
                       else if byte_in 0xED 0xED a then byte_in 0x80 0x9F b else byte_in 0x80 0xBF b)
                      \<and> byte_in 0x80 0xBF c then 3 else 0)
                else (case rest3 of
                   [] \<Rightarrow> 0
                 | d # _ \<Rightarrow>
                     if (if byte_in 0xF0 0xF0 a then byte_in 0x90 0xBF b
                         else if byte_in 0xF4 0xF4 a then byte_in 0x80 0x8F b
                         else byte_in 0xF1 0xF3 a \<and> byte_in 0x80 0xBF b)
                        \<and> byte_in 0x80 0xBF c \<and> byte_in 0x80 0xBF d then 4 else 0))))"
| "utf8_step [] = 0"

function utf8_valid :: "string \<Rightarrow> bool" where
  "utf8_valid s =
     (if s = [] then True else if utf8_step s = 0 then False else utf8_valid (drop (utf8_step s) s))"
  by auto
termination
  by (relation "measure length") auto

declare utf8_valid.simps [simp del]

section \<open>Lossy reading\<close>

text \<open>The length of the ill-formed part at the start of the bytes: what could still have been the
  beginning of a character, at least one byte.\<close>

definition utf8_second_ok :: "char \<Rightarrow> char \<Rightarrow> bool" where
  "utf8_second_ok a b \<longleftrightarrow>
     (if byte_in 0xE0 0xE0 a then byte_in 0xA0 0xBF b
      else if byte_in 0xED 0xED a then byte_in 0x80 0x9F b
      else if byte_in 0xF0 0xF0 a then byte_in 0x90 0xBF b
      else if byte_in 0xF4 0xF4 a then byte_in 0x80 0x8F b
      else (byte_in 0xE1 0xEF a \<or> byte_in 0xF1 0xF3 a) \<and> byte_in 0x80 0xBF b)"

fun utf8_bad :: "string \<Rightarrow> nat" where
  "utf8_bad (a # b # c # rest) =
     (if utf8_second_ok a b then (if byte_in 0xF0 0xF4 a \<and> byte_in 0x80 0xBF c then 3 else 2) else 1)"
| "utf8_bad [a, b] = (if utf8_second_ok a b then 2 else 1)"
| "utf8_bad _ = 1"

definition replacement_char :: string where
  "replacement_char = [CHR 0xEF, CHR 0xBF, CHR 0xBD]"

function utf8_lossy :: "string \<Rightarrow> string" where
  "utf8_lossy s =
     (if s = [] then []
      else if utf8_step s = 0 then replacement_char @ utf8_lossy (drop (utf8_bad s) s)
      else take (utf8_step s) s @ utf8_lossy (drop (utf8_step s) s))"
  by auto
termination
proof (relation "measure length")
  fix s :: string assume "s \<noteq> []"
  then show "(drop (utf8_bad s) s, s) \<in> measure length" if "utf8_step s = 0"
    by (cases s rule: utf8_bad.cases) auto
  from \<open>s \<noteq> []\<close> show "(drop (utf8_step s) s, s) \<in> measure length" if "utf8_step s \<noteq> 0"
    using that by (cases s) simp_all
qed simp

declare utf8_lossy.simps [simp del]

lemma utf8_lossy_valid: "utf8_valid s \<Longrightarrow> utf8_lossy s = s"
proof (induction s rule: utf8_valid.induct)
  case (1 s)
  then show ?case
    by (subst utf8_lossy.simps) (auto simp: utf8_valid.simps[of s] split: if_splits)
qed

lemma utf8_valid_ascii: "list_all (byte_in 0 0x7F) s \<Longrightarrow> utf8_valid s"
proof (induction s)
  case (Cons c s)
  then show ?case
    by (subst utf8_valid.simps) simp
qed (simp add: utf8_valid.simps)

end
