(* ===== verification/Python.thy ===== *)
theory Python
  imports Json Utf8 "HOL-Library.Monad_Syntax"
begin

text \<open>
  What the Python scripts embedded in \<open>provider/src/inference.rs\<close> use of the language. The
  values the scripts handle are the JSON documents \<open>json.loads\<close> yields, so a value is a
  \<^typ>\<open>json\<close> document: \<open>None\<close>, booleans, numbers, texts, lists and dictionaries. A
  computation that raises an exception is \<^const>\<open>None\<close>; every script either ends in one
  handler that turns any exception into the same failure or has no handler, so the kind of an
  exception does not matter.

  Texts are UTF-8 byte sequences, as in the rest of the development.
\<close>

section \<open>Values\<close>

text \<open>Truth value testing.\<close>

fun py_truthy :: "json \<Rightarrow> bool" where
  "py_truthy JNull = False"
| "py_truthy (JBool b) = b"
| "py_truthy (JNum (PosInt n)) = (n \<noteq> 0)"
| "py_truthy (JNum (NegInt i)) = (i \<noteq> 0)"
| "py_truthy (JNum (Float x)) = (f64_key x \<noteq> 0)"
| "py_truthy (JStr s) = (s \<noteq> [])"
| "py_truthy (JArr xs) = (xs \<noteq> [])"
| "py_truthy (JObj kvs) = (kvs \<noteq> [])"
| "py_truthy (JRaw _) = True"

text \<open>\<open>a or b\<close>\<close>

definition py_or :: "json \<Rightarrow> json \<Rightarrow> json" where
  "py_or a b = (if py_truthy a then a else b)"

text \<open>\<open>v.get(k, default)\<close> of a dictionary; other values have no such method.\<close>

fun py_get :: "string \<Rightarrow> json \<Rightarrow> json \<Rightarrow> json option" where
  "py_get k alt (JObj kvs) = Some (case map_of kvs k of None \<Rightarrow> alt | Some v \<Rightarrow> v)"
| "py_get k alt _ = None"

text \<open>Copying a dictionary and setting one key; a key that is present keeps its position.\<close>

fun dict_set :: "string \<Rightarrow> json \<Rightarrow> (string \<times> json) list \<Rightarrow> (string \<times> json) list" where
  "dict_set k v [] = [(k, v)]"
| "dict_set k v ((k', w) # kvs) = (if k' = k then (k, v) # kvs else (k', w) # dict_set k v kvs)"

fun py_with :: "string \<Rightarrow> json \<Rightarrow> json \<Rightarrow> json option" where
  "py_with k v (JObj kvs) = Some (JObj (dict_set k v kvs))"
| "py_with k v _ = None"

fun is_str :: "json \<Rightarrow> bool" where
  "is_str (JStr _) = True"
| "is_str _ = False"

fun is_list :: "json \<Rightarrow> bool" where
  "is_list (JArr _) = True"
| "is_list _ = False"

fun is_dict :: "json \<Rightarrow> bool" where
  "is_dict (JObj _) = True"
| "is_dict _ = False"

section \<open>Iteration\<close>

text \<open>The characters of a text.\<close>

function utf8_chars :: "string \<Rightarrow> string list" where
  "utf8_chars s =
     (if s = [] then [] else take (max 1 (utf8_step s)) s # utf8_chars (drop (max 1 (utf8_step s)) s))"
  by auto
termination
  by (relation "measure length") auto

declare utf8_chars.simps [simp del]

text \<open>\<open>list(v)\<close>, also what a \<open>for\<close> loop runs over.\<close>

fun py_list :: "json \<Rightarrow> json list option" where
  "py_list (JArr xs) = Some xs"
| "py_list (JObj kvs) = Some (map (JStr \<circ> fst) kvs)"
| "py_list (JStr s) = Some (map JStr (utf8_chars s))"
| "py_list _ = None"

text \<open>A comprehension or loop whose body may raise.\<close>

fun py_map :: "('a \<Rightarrow> 'b option) \<Rightarrow> 'a list \<Rightarrow> 'b list option" where
  "py_map f [] = Some []"
| "py_map f (x # xs) = do { y \<leftarrow> f x; ys \<leftarrow> py_map f xs; Some (y # ys) }"

text \<open>\<open>sep.join(vs)\<close>: every element must be a text.\<close>

definition py_join :: "string \<Rightarrow> json list \<Rightarrow> string option" where
  "py_join sep vs = do { ss \<leftarrow> py_map json_as_str vs; Some (str_join sep ss) }"

section \<open>Conversions\<close>

text \<open>Truncation of a finite float.\<close>

definition f64_trunc :: "f64 \<Rightarrow> int" where
  "f64_trunc x =
     (case f64_ratio (F64 (word_of_nat (unat (f64_bits x) mod 2 ^ 63))) of (a, b) \<Rightarrow>
        if unat (f64_bits x) < 2 ^ 63 then int (a div b) else - int (a div b))"

text \<open>\<open>int(v)\<close> and \<open>float(v)\<close>; the readers of numerals are parameters.\<close>

fun py_int :: "(string \<Rightarrow> int option) \<Rightarrow> json \<Rightarrow> int option" where
  "py_int rd (JBool b) = Some (if b then 1 else 0)"
| "py_int rd (JNum (PosInt n)) = Some (uint n)"
| "py_int rd (JNum (NegInt i)) = Some i"
| "py_int rd (JNum (Float x)) = (if f64_is_finite x then Some (f64_trunc x) else None)"
| "py_int rd (JStr s) = rd s"
| "py_int rd _ = None"

fun py_float :: "(string \<Rightarrow> f64 option) \<Rightarrow> json \<Rightarrow> f64 option" where
  "py_float rd (JBool b) = Some (f64_of_nat (if b then 1 else 0))"
| "py_float rd (JNum (PosInt n)) = Some (f64_of_nat (unat n))"
| "py_float rd (JNum (NegInt i)) = Some (f64_of_int i)"
| "py_float rd (JNum (Float x)) = Some x"
| "py_float rd (JStr s) = rd s"
| "py_float rd _ = None"

section \<open>Lemmas\<close>

lemma py_map_Some_iff: "py_map f xs = Some ys \<longleftrightarrow> list_all2 (\<lambda>x y. f x = Some y) xs ys"
proof (induction xs arbitrary: ys)
  case (Cons x xs)
  then show ?case
    by (cases "f x"; cases "py_map f xs") (auto simp: list_all2_Cons1)
qed auto

lemma py_map_total: "(\<And>x. x \<in> set xs \<Longrightarrow> f x = Some (g x)) \<Longrightarrow> py_map f xs = Some (map g xs)"
  by (induction xs) auto

lemma py_join_strs [simp]: "py_join sep (map JStr ss) = Some (str_join sep ss)"
proof -
  have "py_map json_as_str (map JStr ss) = Some ss" by (induction ss) auto
  then show ?thesis by (simp add: py_join_def)
qed

lemma concat_utf8_chars: "concat (utf8_chars s) = s"
  by (induction s rule: utf8_chars.induct) (subst utf8_chars.simps, auto)

end
