(* ===== verification/LinkFs.thy ===== *)
theory LinkFs
  imports Prelude
begin

text \<open>
  The file operations of \<open>std::fs\<close> that the updater uses, on files and symbolic links: a map
  from path names to entries. Reading, testing for existence and copying follow links, also the
  copy's destination; removing and renaming act on the entry itself. A chain of links longer
  than the system's limit is an error.
\<close>

datatype fs_entry = EFile bytes | ELink string

type_synonym lfs = "string \<Rightarrow> fs_entry option"

definition path_join :: "string \<Rightarrow> string \<Rightarrow> string" where
  "path_join p n = p @ ''/'' @ n"

definition max_links :: nat where "max_links = 32"

fun resolve_links :: "nat \<Rightarrow> lfs \<Rightarrow> string \<Rightarrow> string option" where
  "resolve_links 0 fs p = (case fs p of Some (ELink t) \<Rightarrow> None | _ \<Rightarrow> Some p)"
| "resolve_links (Suc n) fs p = (case fs p of Some (ELink t) \<Rightarrow> resolve_links n fs t | _ \<Rightarrow> Some p)"

definition fs_read :: "lfs \<Rightarrow> string \<Rightarrow> bytes option" where
  "fs_read fs p =
     (case resolve_links max_links fs p of
        None \<Rightarrow> None
      | Some q \<Rightarrow> (case fs q of Some (EFile c) \<Rightarrow> Some c | _ \<Rightarrow> None))"

definition fs_exists :: "lfs \<Rightarrow> string \<Rightarrow> bool" where
  "fs_exists fs p \<longleftrightarrow> fs_read fs p \<noteq> None"

definition fs_write :: "lfs \<Rightarrow> string \<Rightarrow> bytes \<Rightarrow> lfs option" where
  "fs_write fs p c = (case resolve_links max_links fs p of None \<Rightarrow> None | Some q \<Rightarrow> Some (fs(q \<mapsto> EFile c)))"

definition fs_copy :: "lfs \<Rightarrow> string \<Rightarrow> string \<Rightarrow> lfs option" where
  "fs_copy fs src dst = (case fs_read fs src of None \<Rightarrow> None | Some c \<Rightarrow> fs_write fs dst c)"

definition fs_remove :: "lfs \<Rightarrow> string \<Rightarrow> lfs option" where
  "fs_remove fs p = (case fs p of None \<Rightarrow> None | Some _ \<Rightarrow> Some (fs(p := None)))"

definition fs_rename :: "lfs \<Rightarrow> string \<Rightarrow> string \<Rightarrow> lfs option" where
  "fs_rename fs a b = (case fs a of None \<Rightarrow> None | Some e \<Rightarrow> Some ((fs(a := None))(b \<mapsto> e)))"

definition fs_symlink :: "lfs \<Rightarrow> string \<Rightarrow> string \<Rightarrow> lfs option" where
  "fs_symlink fs target link = (case fs link of None \<Rightarrow> Some (fs(link \<mapsto> ELink target)) | Some _ \<Rightarrow> None)"

text \<open>A failed operation whose error is ignored.\<close>

definition fs_try :: "(lfs \<Rightarrow> lfs option) \<Rightarrow> lfs \<Rightarrow> lfs" where
  "fs_try f fs = (case f fs of None \<Rightarrow> fs | Some fs' \<Rightarrow> fs')"

section \<open>Lemmas\<close>

text \<open>A path that is not a link itself.\<close>

definition plain_at :: "lfs \<Rightarrow> string \<Rightarrow> bool" where
  "plain_at fs p \<longleftrightarrow> (case fs p of Some (ELink _) \<Rightarrow> False | _ \<Rightarrow> True)"

lemma resolve_plain [simp]: "plain_at fs p \<Longrightarrow> resolve_links n fs p = Some p"
  by (cases n) (auto simp: plain_at_def split: option.splits fs_entry.splits)

lemma read_plain: "plain_at fs p \<Longrightarrow> fs_read fs p = (case fs p of Some (EFile c) \<Rightarrow> Some c | _ \<Rightarrow> None)"
  by (simp add: fs_read_def)

lemma read_update_file [simp]: "fs_read (fs(p \<mapsto> EFile c)) p = Some c"
  by (simp add: fs_read_def max_links_def numeral_eq_Suc)

lemma write_plain: "plain_at fs p \<Longrightarrow> fs_write fs p c = Some (fs(p \<mapsto> EFile c))"
  by (simp add: fs_write_def)

lemma read_same_plain: "plain_at fs p \<Longrightarrow> fs' p = fs p \<Longrightarrow> fs_read fs' p = fs_read fs p"
  by (simp add: read_plain plain_at_def)

end
