(* ===== verification/Engine.thy ===== *)
theory Engine
  imports Inference Python LinkFs
begin

text \<open>
  The embedded inference engine of \<open>provider/src/inference.rs\<close>: the approved Python runtimes,
  the script that locks the import path, the script that blocks escape modules, loading and
  unloading of a model, and the worker thread that owns the interpreter (\<open>SharedEngine\<close>). The
  interpreter state the scripts touch is the record \<open>py_process\<close>: the import path, the loaded
  modules, the import hook, the process functions of \<open>os\<close> and the store of engines.

  The package \<open>vllm_mlx\<close> is not part of the repository: which of its imports and loads succeed
  and what its engines answer are fields of the environment. The chat scripts are in the
  theory \<open>EngineChat\<close>; the worker takes what they compute as arguments.
\<close>

section \<open>Approved runtimes\<close>

definition engine_cache_key_for :: "(bytes \<Rightarrow> bytes) \<Rightarrow> string \<Rightarrow> string" where
  "engine_cache_key_for sha256 model_id = hex_lower (sha256 (str_bytes model_id))"

definition app_runtime_dirs :: "string list" where
  "app_runtime_dirs = [''Contents/python'', ''Contents/Frameworks/python'', ''Contents/Resources/python'']"

definition python_runtime_roots :: "(string \<Rightarrow> bool) \<Rightarrow> path \<Rightarrow> string option \<Rightarrow> string list" where
  "python_runtime_roots ex exe home_dir =
     (case find_app (rev exe) of
        None \<Rightarrow> []
      | Some app \<Rightarrow> filter ex (map (path_join (''/'' @ path_string app)) app_runtime_dirs)) @
     (case home_dir of
        None \<Rightarrow> []
      | Some home \<Rightarrow> filter ex [path_join home ''.darkbloom/python''])"

definition approved_python_runtime_roots :: "(string \<Rightarrow> bool) \<Rightarrow> path \<Rightarrow> string option \<Rightarrow> string list result" where
  "approved_python_runtime_roots ex exe home_dir =
     (let roots = python_runtime_roots ex exe home_dir
      in if roots = [] then Err ''no approved Python runtime roots found'' else Ok roots)"

definition ensure_approved_runtime_available :: "(string \<Rightarrow> bool) \<Rightarrow> path result \<Rightarrow> string option \<Rightarrow> unit result" where
  "ensure_approved_runtime_available ex current_exe home_dir =
     (case current_exe of
        Inl e \<Rightarrow> Err ''cannot find executable path''
      | Inr exe \<Rightarrow>
          (case approved_python_runtime_roots ex exe home_dir of
             Inl e \<Rightarrow> Err e
           | Inr _ \<Rightarrow> Ok ()))"

section \<open>The interpreter\<close>

datatype importer = NativeImport | BlockingImport

record py_process =
  pp_path :: "string list"
  pp_modules :: "string list"
  pp_import :: importer
  pp_original :: "importer option"
  pp_os_blocked :: "string list"
  pp_store :: "(string \<times> nat) list"

record py_files =
  pf_realpath :: "string \<Rightarrow> string"
  pf_exists :: "string \<Rightarrow> bool"

text \<open>\<open>os.path.join\<close>\<close>

definition os_join :: "string \<Rightarrow> string \<Rightarrow> string" where
  "os_join a b =
     (if starts_with b ''/'' then b else if a = [] \<or> last a = CHR ''/'' then a @ b else a @ ''/'' @ b)"

section \<open>Locking the import path\<close>

definition runtime_dirs :: "string \<Rightarrow> string list" where
  "runtime_dirs root =
     (let lib = os_join (os_join root ''lib'') ''python3.12''
      in [os_join lib ''site-packages'', os_join lib ''lib-dynload'', lib])"

definition add_new :: "string \<Rightarrow> string list \<Rightarrow> string list" where
  "add_new p locked = (if p \<in> set locked then locked else locked @ [p])"

definition below :: "string \<Rightarrow> string \<Rightarrow> bool" where
  "below real root \<longleftrightarrow> real = root \<or> starts_with real (root @ ''/'')"

definition lock_path :: "py_files \<Rightarrow> string list \<Rightarrow> string list \<Rightarrow> string list option" where
  "lock_path fs roots sys_path =
     (let allowed = map (pf_realpath fs) roots;
          locked1 = fold (\<lambda>candidate locked. if pf_exists fs candidate then add_new candidate locked else locked)
                      (concat (map runtime_dirs allowed)) [];
          locked2 = fold (\<lambda>p locked.
                      if list_ex (below (pf_realpath fs (if p = [] then ''.'' else p))) allowed
                      then add_new p locked else locked) sys_path locked1
      in if locked2 = [] then None else Some locked2)"

text \<open>The whole step: the roots are determined, passed to the script, and the script replaces
  \<open>sys.path\<close>.\<close>

definition lock_python_path ::
  "py_files \<Rightarrow> path result \<Rightarrow> string option \<Rightarrow> py_process \<Rightarrow> unit result \<times> py_process" where
  "lock_python_path fs current_exe home_dir p =
     (case current_exe of
        Inl e \<Rightarrow> (Err ''cannot find executable path'', p)
      | Inr exe \<Rightarrow>
          (case approved_python_runtime_roots (pf_exists fs) exe home_dir of
             Inl e \<Rightarrow> (Err e, p)
           | Inr roots \<Rightarrow>
               (case lock_path fs roots (pp_path p) of
                  None \<Rightarrow> (Err ''failed to lock Python import path'', p)
                | Some locked \<Rightarrow> (Ok (), p\<lparr>pp_path := locked\<rparr>))))"

section \<open>Blocking modules\<close>

definition blocked_modules :: "string list" where
  "blocked_modules = [''socket'', ''subprocess'', ''ctypes'', ''multiprocessing'',
     ''faulthandler'', ''_socket'', ''_multiprocessing'']"

definition blocked_os_functions :: "string list" where
  "blocked_os_functions = [''system'', ''fork'', ''forkpty'', ''popen'',
     ''execv'', ''execve'', ''execl'', ''execlp'', ''execle'', ''execlpe'', ''execvp'', ''execvpe'',
     ''spawnl'', ''spawnle'', ''spawnlp'', ''spawnlpe'', ''spawnv'', ''spawnve'', ''spawnvp'', ''spawnvpe'',
     ''posix_spawn'', ''posix_spawnp'']"

definition top_module :: "string \<Rightarrow> string" where
  "top_module name = hd (str_split (CHR ''.'') name)"

text \<open>What \<open>import name\<close> does; \<open>native\<close> tells whether the interpreter's own import finds the
  module. The hook passes on to the import function that was saved.\<close>

definition py_import :: "(string \<Rightarrow> bool) \<Rightarrow> py_process \<Rightarrow> string \<Rightarrow> bool" where
  "py_import native p name =
     (case pp_import p of
        NativeImport \<Rightarrow> native name
      | BlockingImport \<Rightarrow>
          if top_module name \<in> set blocked_modules then False
          else pp_original p = Some NativeImport \<and> native name)"

definition block_dangerous_modules :: "(string \<Rightarrow> bool) \<Rightarrow> py_process \<Rightarrow> py_process" where
  "block_dangerous_modules os_has p =
     p\<lparr>pp_original := Some (case pp_original p of None \<Rightarrow> pp_import p | Some f \<Rightarrow> f),
       pp_modules := filter (\<lambda>m. top_module m \<notin> set blocked_modules) (pp_modules p),
       pp_import := BlockingImport,
       pp_os_blocked := fold add_new (filter os_has blocked_os_functions) (pp_os_blocked p)\<rparr>"

section \<open>Detection\<close>

text \<open>The environment of one engine: the files and the imports at each attempt (and, at index four, when
  the model is loaded), and the outcome of the
  package's \<open>load_model\<close>: an exception, no engine, or an engine.\<close>

record py_env =
  pe_sha256 :: "bytes \<Rightarrow> bytes"
  pe_files :: "nat \<Rightarrow> py_files"
  pe_native :: "nat \<Rightarrow> string \<Rightarrow> bool"
  pe_exe :: "path result"
  pe_home :: "string option"
  pe_load_model :: "string \<Rightarrow> nat option option"

definition try_detect_engine :: "py_env \<Rightarrow> nat \<Rightarrow> py_process \<Rightarrow> unit result \<times> py_process" where
  "try_detect_engine env attempt p =
     (case lock_python_path (pe_files env attempt) (pe_exe env) (pe_home env) p of
        (Inl e, p') \<Rightarrow> (Err e, p')
      | (Inr _, p') \<Rightarrow>
          if py_import (pe_native env attempt) p' ''vllm_mlx'' then (Ok (), p')
          else (Err ''vllm-mlx is not installed'', p'))"

fun detect_attempts :: "py_env \<Rightarrow> nat list \<Rightarrow> string \<Rightarrow> py_process \<Rightarrow> unit result \<times> py_process" where
  "detect_attempts env [] last_err p = (Err last_err, p)"
| "detect_attempts env (attempt # attempts) last_err p =
     (case try_detect_engine env attempt p of
        (Inr _, p') \<Rightarrow> (Ok (), p')
      | (Inl e, p') \<Rightarrow> detect_attempts env attempts e p')"

definition max_attempts :: nat where
  "max_attempts = 3"

definition detect_engine :: "py_env \<Rightarrow> py_process \<Rightarrow> unit result \<times> py_process" where
  "detect_engine env p = detect_attempts env [1..<Suc max_attempts] [] p"

section \<open>Engines\<close>

record inprocess_engine =
  ie_model_id :: string
  ie_cache_key :: string
  ie_loaded :: bool

definition engine_new :: "(bytes \<Rightarrow> bytes) \<Rightarrow> string \<Rightarrow> inprocess_engine" where
  "engine_new sha256 model_id =
     \<lparr>ie_model_id = model_id, ie_cache_key = engine_cache_key_for sha256 model_id, ie_loaded = False\<rparr>"

definition load_vllm_mlx :: "py_env \<Rightarrow> inprocess_engine \<Rightarrow> py_process \<Rightarrow> unit result \<times> py_process" where
  "load_vllm_mlx env e p =
     (if \<not> py_import (pe_native env (Suc max_attempts)) p ''vllm_mlx.server'' then (Err ''failed to initialize vllm-mlx engine via server handler'', p)
      else case pe_load_model env (ie_model_id e) of
        Some (Some engine) \<Rightarrow> (Ok (), p\<lparr>pp_store := hash_insert (ie_cache_key e) engine (pp_store p)\<rparr>)
      | _ \<Rightarrow> (Err ''failed to initialize vllm-mlx engine via server handler'', p))"

definition engine_load ::
  "py_env \<Rightarrow> inprocess_engine \<times> py_process \<Rightarrow> unit result \<times> inprocess_engine \<times> py_process" where
  "engine_load env s =
     (case s of (e, p) \<Rightarrow>
        (case detect_engine env p of
           (Inl err, p1) \<Rightarrow> (Err err, e, p1)
         | (Inr _, p1) \<Rightarrow>
             (case load_vllm_mlx env e p1 of
                (Inl err, p2) \<Rightarrow> (Err err, e, p2)
              | (Inr _, p2) \<Rightarrow> (Ok (), e\<lparr>ie_loaded := True\<rparr>, p2))))"

definition unload_vllm_mlx :: "inprocess_engine \<Rightarrow> py_process \<Rightarrow> py_process" where
  "unload_vllm_mlx e p = p\<lparr>pp_store := hash_delete (ie_cache_key e) (pp_store p)\<rparr>"

definition engine_unload :: "inprocess_engine \<times> py_process \<Rightarrow> unit result \<times> inprocess_engine \<times> py_process" where
  "engine_unload s =
     (case s of (e, p) \<Rightarrow>
        if \<not> ie_loaded e then (Ok (), e, p)
        else (Ok (), e\<lparr>ie_loaded := False\<rparr>, unload_vllm_mlx e p))"

section \<open>Lemmas\<close>

lemma fold_add_new:
  "set (fold (\<lambda>x acc. if P x then add_new x acc else acc) xs acc) = set acc \<union> {x \<in> set xs. P x}"
  "distinct (fold (\<lambda>x acc. if P x then add_new x acc else acc) xs acc) = distinct acc"
  by (induction xs arbitrary: acc) (auto simp: add_new_def)

lemma lock_path_result:
  assumes "lock_path fs roots sys_path = Some locked"
  shows "set locked = {d. pf_exists fs d \<and> (\<exists>root \<in> set roots. d \<in> set (runtime_dirs (pf_realpath fs root)))} \<union>
      {d \<in> set sys_path. \<exists>root \<in> set roots. below (pf_realpath fs (if d = [] then ''.'' else d)) (pf_realpath fs root)}"
    and "distinct locked"
  using assms by (auto simp: lock_path_def Let_def fold_add_new list_ex_iff split: if_splits)

text \<open>An import directory that comes from an approved runtime.\<close>

definition approved_dir :: "py_files \<Rightarrow> string list \<Rightarrow> string \<Rightarrow> bool" where
  "approved_dir fs roots d \<longleftrightarrow> list_ex (\<lambda>root. d \<in> set (runtime_dirs (pf_realpath fs root)) \<or>
     below (pf_realpath fs (if d = [] then ''.'' else d)) (pf_realpath fs root)) roots"

lemma lock_python_path_ok:
  assumes "lock_python_path fs current_exe home p = (Ok (), p')"
  shows "\<exists>exe roots. current_exe = Ok exe \<and> approved_python_runtime_roots (pf_exists fs) exe home = Ok roots \<and>
    list_all (approved_dir fs roots) (pp_path p') \<and> p' = p\<lparr>pp_path := pp_path p'\<rparr>"
proof -
  from assms obtain exe roots locked where l: "current_exe = Ok exe"
      "approved_python_runtime_roots (pf_exists fs) exe home = Ok roots"
      "lock_path fs roots (pp_path p) = Some locked" "p' = p\<lparr>pp_path := locked\<rparr>"
    by (auto simp: lock_python_path_def split: sum.splits option.splits)
  from lock_path_result(1)[OF l(3)] have "list_all (approved_dir fs roots) locked"
    by (auto simp: list_all_iff approved_dir_def list_ex_iff)
  with l show ?thesis by simp
qed

lemma lock_python_path_err:
  "lock_python_path fs current_exe home p = (Err e, p') \<Longrightarrow> p' = p"
  by (auto simp: lock_python_path_def split: sum.splits option.splits)

lemma detect_attempts_ok:
  assumes "detect_attempts env attempts e0 p = (Ok (), p')"
  shows "\<exists>k \<in> set attempts. \<exists>p1. pp_store p1 = pp_store p \<and>
    lock_python_path (pe_files env k) (pe_exe env) (pe_home env) p1 = (Ok (), p') \<and>
    py_import (pe_native env k) p' ''vllm_mlx''"
  using assms
proof (induction attempts arbitrary: e0 p)
  case (Cons k ks)
  have keep: "pp_store p2 = pp_store p" if "try_detect_engine env k p = (r, p2)" for r p2
    using that
    by (auto simp: try_detect_engine_def lock_python_path_def split: prod.splits sum.splits option.splits if_splits)
  show ?case
  proof (cases "try_detect_engine env k p")
    case (Pair r p2)
    then show ?thesis
    proof (cases r)
      case (Inl e)
      with Pair Cons.prems have "detect_attempts env ks e p2 = (Ok (), p')" by simp
      from Cons.IH[OF this] keep[OF Pair] show ?thesis by auto
    next
      case (Inr u)
      with Pair Cons.prems have "p2 = p'" by simp
      with Pair Inr show ?thesis
        by (auto simp: try_detect_engine_def split: prod.splits sum.splits if_splits)
    qed
  qed
qed simp

lemma engine_load_ok:
  assumes "engine_load env (e, p) = (Ok (), e', p')"
  shows "e' = e\<lparr>ie_loaded := True\<rparr> \<and>
    (\<exists>m. pe_load_model env (ie_model_id e) = Some (Some m) \<and>
      pp_store p' = hash_insert (ie_cache_key e) m (pp_store p)) \<and>
    (\<exists>k \<in> {1..max_attempts}. \<exists>exe roots. pe_exe env = Ok exe \<and>
      approved_python_runtime_roots (pf_exists (pe_files env k)) exe (pe_home env) = Ok roots \<and>
      list_all (approved_dir (pe_files env k) roots) (pp_path p'))"
proof -
  from assms obtain p1 m where d: "detect_engine env p = (Ok (), p1)"
      and l: "pe_load_model env (ie_model_id e) = Some (Some m)" "e' = e\<lparr>ie_loaded := True\<rparr>"
        "p' = p1\<lparr>pp_store := hash_insert (ie_cache_key e) m (pp_store p1)\<rparr>"
    by (auto simp: engine_load_def load_vllm_mlx_def split: prod.splits sum.splits option.splits if_splits)
  from detect_attempts_ok[OF d[unfolded detect_engine_def]] obtain k p0 where k: "k \<in> {1..max_attempts}"
      and lk: "pp_store p0 = pp_store p" "lock_python_path (pe_files env k) (pe_exe env) (pe_home env) p0 = (Ok (), p1)"
    by (fastforce simp del: upt_Suc)
  from lock_python_path_ok[OF lk(2)] obtain exe roots where r: "pe_exe env = Ok exe"
      "approved_python_runtime_roots (pf_exists (pe_files env k)) exe (pe_home env) = Ok roots"
      "list_all (approved_dir (pe_files env k) roots) (pp_path p1)" "p1 = p0\<lparr>pp_path := pp_path p1\<rparr>"
    by blast
  from r(4) lk(1) have "pp_store p1 = pp_store p" by (metis py_process.select_convs(6) py_process.surjective py_process.update_convs(1))
  with l r k show ?thesis by auto
qed

text \<open>A load that fails does not touch the engines that are there.\<close>

lemma engine_load_err:
  assumes "engine_load env (e, p) = (Err err, e', p')"
  shows "e' = e \<and> pp_store p' = pp_store p"
proof -
  have keep: "pp_store p2 = pp_store p1" if "detect_attempts env ks e0 p1 = (r, p2)" for ks e0 p1 r p2
    using that
  proof (induction ks arbitrary: e0 p1)
    case (Cons k ks)
    have "pp_store p3 = pp_store p1" if "try_detect_engine env k p1 = (r3, p3)" for r3 p3
      using that
      by (auto simp: try_detect_engine_def lock_python_path_def split: prod.splits sum.splits option.splits if_splits)
    with Cons show ?case by (auto split: prod.splits sum.splits)
  qed simp
  from assms show ?thesis
    by (auto simp: engine_load_def load_vllm_mlx_def detect_engine_def
        split: prod.splits sum.splits option.splits if_splits dest: keep)
qed

text \<open>The approved roots: only directories of the enclosing application or of the home directory.\<close>

lemma runtime_roots_known:
  assumes "approved_python_runtime_roots ex exe home = Ok roots" and "root \<in> set roots"
  shows "ex root \<and> ((\<exists>app rel. find_app (rev exe) = Some app \<and> rel \<in> set app_runtime_dirs \<and>
      root = path_join (''/'' @ path_string app) rel) \<or>
    (\<exists>h. home = Some h \<and> root = path_join h ''.darkbloom/python''))"
  using assms
  by (auto simp: approved_python_runtime_roots_def python_runtime_roots_def Let_def split: if_splits option.splits)

text \<open>The module blocker, when it is installed: imports of the blocked packages fail, all others behave as
  before, and installing it twice is installing it once.\<close>

lemma modules_blocked:
  assumes "pp_import p = NativeImport" "pp_original p = None"
  shows "py_import native (block_dangerous_modules os_has p) name \<longleftrightarrow>
      top_module name \<notin> set blocked_modules \<and> native name"
    and "\<forall>m \<in> set (pp_modules (block_dangerous_modules os_has p)). top_module m \<notin> set blocked_modules"
    and "set (pp_os_blocked (block_dangerous_modules os_has p)) =
      set (pp_os_blocked p) \<union> {f \<in> set blocked_os_functions. os_has f}"
  using assms fold_add_new(1)[of "\<lambda>_. True" "filter os_has blocked_os_functions" "pp_os_blocked p"]
  by (auto simp: py_import_def block_dangerous_modules_def)

lemma block_twice: "block_dangerous_modules os_has (block_dangerous_modules os_has p) = block_dangerous_modules os_has p"
proof -
  have "fold add_new xs acc = acc" if "set xs \<subseteq> set acc" for xs acc
    using that by (induction xs arbitrary: acc) (auto simp: add_new_def)
  moreover have "set xs \<subseteq> set (fold add_new xs acc)" for xs acc
    using fold_add_new(1)[of "\<lambda>_. True" xs acc] by auto
  ultimately have "fold add_new xs (fold add_new xs acc) = fold add_new xs acc" for xs acc
    by blast
  then show ?thesis by (simp add: block_dangerous_modules_def)
qed

text \<open>Loading never installs it: the import hook of the process stays as it was.\<close>

lemma load_leaves_imports:
  assumes "engine_load env (e, p) = (r, e', p')"
  shows "pp_import p' = pp_import p \<and> pp_os_blocked p' = pp_os_blocked p \<and> pp_modules p' = pp_modules p"
proof -
  have kept: "pp_import p3 = pp_import p1 \<and> pp_os_blocked p3 = pp_os_blocked p1 \<and> pp_modules p3 = pp_modules p1"
    if "try_detect_engine env k p1 = (r3, p3)" for k p1 r3 p3
    using that
    by (auto simp: try_detect_engine_def lock_python_path_def split: prod.splits sum.splits option.splits if_splits)
  have "pp_import p2 = pp_import p1 \<and> pp_os_blocked p2 = pp_os_blocked p1 \<and> pp_modules p2 = pp_modules p1"
    if "detect_attempts env ks e0 p1 = (r2, p2)" for ks e0 p1 r2 p2
    using that
  proof (induction ks arbitrary: e0 p1)
    case (Cons k ks)
    then show ?case by (auto split: prod.splits sum.splits dest!: kept)
  qed simp
  with assms show ?thesis
    by (auto simp: engine_load_def load_vllm_mlx_def detect_engine_def
        split: prod.splits sum.splits option.splits if_splits)
qed

section \<open>Properties\<close>

text \<open>C12: A loaded model runs only code of an approved runtime: after a successful load every directory of
  the import path belongs to a Python runtime inside the enclosing application bundle or to the one
  under \<open>~/.darkbloom\<close>, as found at one of the three detection attempts; it is one of the runtime's
  own library directories or resolves to a place below its root.\<close>

theorem engine_imports_approved:
  assumes "engine_load env (e, p) = (Ok (), e', p')" and "d \<in> set (pp_path p')"
  shows "\<exists>k \<in> {1..3}. \<exists>exe root. pe_exe env = Ok exe \<and> pf_exists (pe_files env k) root \<and>
    ((\<exists>app rel. find_app (rev exe) = Some app \<and> rel \<in> set app_runtime_dirs \<and> root = path_join (''/'' @ path_string app) rel) \<or>
     (\<exists>h. pe_home env = Some h \<and> root = path_join h ''.darkbloom/python'')) \<and>
    (d \<in> set (runtime_dirs (pf_realpath (pe_files env k) root)) \<or>
     below (pf_realpath (pe_files env k) (if d = [] then ''.'' else d)) (pf_realpath (pe_files env k) root))"
proof -
  from engine_load_ok[OF assms(1)] obtain k exe roots where k: "k \<in> {1..3}" "pe_exe env = Ok exe"
      "approved_python_runtime_roots (pf_exists (pe_files env k)) exe (pe_home env) = Ok roots"
      "list_all (approved_dir (pe_files env k) roots) (pp_path p')"
    by (auto simp: max_attempts_def)
  then obtain root where "root \<in> set roots"
      "d \<in> set (runtime_dirs (pf_realpath (pe_files env k) root)) \<or>
       below (pf_realpath (pe_files env k) (if d = [] then ''.'' else d)) (pf_realpath (pe_files env k) root)"
    using assms(2) by (auto simp: list_all_iff approved_dir_def list_ex_iff)
  with k runtime_roots_known[OF k(3), of root] show ?thesis by blast
qed

definition sample_files :: py_files where
  "sample_files = \<lparr>pf_realpath = (\<lambda>s. s), pf_exists = (\<lambda>s. starts_with s ''/h/.darkbloom'')\<rparr>"

definition sample_py_env :: py_env where
  "sample_py_env = \<lparr>pe_sha256 = (\<lambda>b. b), pe_files = (\<lambda>_. sample_files), pe_native = (\<lambda>k _. k > 1),
     pe_exe = Ok [''usr'', ''bin'', ''darkbloom''], pe_home = Some ''/h'', pe_load_model = (\<lambda>_. Some (Some 7))\<rparr>"

definition sample_process :: py_process where
  "sample_process = \<lparr>pp_path = [''/evil'', ''/h/.darkbloom/python/extra''], pp_modules = [], pp_import = NativeImport,
     pp_original = None, pp_os_blocked = [], pp_store = []\<rparr>"

definition sample_engine :: inprocess_engine where
  "sample_engine = \<lparr>ie_model_id = ''m'', ie_cache_key = ''k'', ie_loaded = False\<rparr>"

lemma sample_load:
  "engine_load sample_py_env (sample_engine, sample_process) =
     (Ok (), sample_engine\<lparr>ie_loaded := True\<rparr>,
      sample_process\<lparr>pp_path := [''/h/.darkbloom/python/lib/python3.12/site-packages'', ''/h/.darkbloom/python/lib/python3.12/lib-dynload'',
        ''/h/.darkbloom/python/lib/python3.12'', ''/h/.darkbloom/python/extra''], pp_store := [(''k'', 7)]\<rparr>)"
  by code_simp

theorem engine_imports_approved_witness:
  "''/h/.darkbloom/python/extra'' \<in> set (pp_path (snd (snd (engine_load sample_py_env (sample_engine, sample_process))))) \<and>
   (\<exists>k \<in> {1..3}. \<exists>exe root. pe_exe sample_py_env = Ok exe \<and> pf_exists (pe_files sample_py_env k) root \<and>
    ((\<exists>app rel. find_app (rev exe) = Some app \<and> rel \<in> set app_runtime_dirs \<and> root = path_join (''/'' @ path_string app) rel) \<or>
     (\<exists>h. pe_home sample_py_env = Some h \<and> root = path_join h ''.darkbloom/python'')) \<and>
    (''/h/.darkbloom/python/extra'' \<in> set (runtime_dirs (pf_realpath (pe_files sample_py_env k) root)) \<or>
     below (pf_realpath (pe_files sample_py_env k) (if ''/h/.darkbloom/python/extra'' = [] then ''.'' else ''/h/.darkbloom/python/extra''))
       (pf_realpath (pe_files sample_py_env k) root)))"
proof
  show "''/h/.darkbloom/python/extra'' \<in> set (pp_path (snd (snd (engine_load sample_py_env (sample_engine, sample_process)))))"
    by (simp add: sample_load)
qed (rule engine_imports_approved[OF sample_load], simp)

end
