(* ===== verification/EngineChat.thy ===== *)
theory EngineChat
  imports Engine
begin

text \<open>
  The chat scripts of \<open>provider/src/inference.rs\<close>: how a request body becomes the arguments of
  the engine's \<open>chat\<close> and \<open>stream_chat\<close>, how the answer of \<open>chat\<close> becomes a response
  document, and how the outputs of \<open>stream_chat\<close> become the chunks the provider encrypts
  (\<open>SyncStreamIterator\<close> and the loop around it); then the commands of the worker thread.

  The functions of the package \<open>vllm_mlx\<close> that the scripts call are the fields of
  \<open>vllm_env\<close>; a call that raises is \<^const>\<open>None\<close>. So are the printer of JSON documents and
  the readers of numerals.
\<close>

section \<open>The package\<close>

record chat_args =
  ca_messages :: json
  ca_max_tokens :: int
  ca_temperature :: f64
  ca_top_p :: f64
  ca_tools :: "json option"
  ca_stop :: "json option"

record chat_output =
  ct_text :: string
  ct_finish_reason :: "string option"
  ct_prompt_tokens :: int
  ct_completion_tokens :: int

record chat_response =
  cr_model :: json
  cr_content :: string
  cr_tool_calls :: "json option"
  cr_reasoning :: "string option"
  cr_finish_reason :: "string option"
  cr_prompt_tokens :: int
  cr_completion_tokens :: int
  cr_total_tokens :: int

text \<open>One output of \<open>stream_chat\<close>.\<close>

record stream_out =
  so_prompt_tokens :: "int option"
  so_completion_tokens :: "int option"
  so_new_text :: "string option"
  so_finish_reason :: "string option"
  so_finished :: bool

record vllm_env =
  vx_int :: "string \<Rightarrow> int option"
  vx_float :: "string \<Rightarrow> f64 option"
  vx_dumps :: "json \<Rightarrow> string"
  vx_convert_tools :: "json \<Rightarrow> json option"
  vx_json_prompt :: "json \<Rightarrow> string option option"
  vx_chat :: "nat \<Rightarrow> chat_args \<Rightarrow> chat_output option"
  vx_stream :: "nat \<Rightarrow> chat_args \<Rightarrow> stream_out option list"
  vx_reasoning :: "string \<Rightarrow> string \<Rightarrow> (string option \<times> string option) option"
  vx_parser :: "string \<Rightarrow> bool"
  vx_stream_reasoning :: "string \<Rightarrow> nat \<Rightarrow> string \<Rightarrow> string \<Rightarrow> string \<Rightarrow> (string option \<times> string option) option"
  vx_tool_calls :: "string \<Rightarrow> json \<Rightarrow> (string option \<times> json) option"
  vx_clean :: "string \<Rightarrow> string option option"
  vx_json_output :: "string \<Rightarrow> json \<Rightarrow> json option"
  vx_response :: "chat_response \<Rightarrow> string option"
  vx_response_id :: string
  vx_created :: u64

section \<open>Messages\<close>

definition role_message :: "string \<Rightarrow> json \<Rightarrow> json" where
  "role_message role content = JObj [(''role'', JStr role), (''content'', content)]"

text \<open>The messages of a request, or its \<open>input\<close>.\<close>

definition input_messages :: "json \<Rightarrow> json option" where
  "input_messages req = do {
     messages \<leftarrow> py_get ''messages'' (JArr []) req;
     input \<leftarrow> py_get ''input'' JNull req;
     Some (if \<not> py_truthy messages \<and> py_truthy input
           then (case input of
                   JStr _ \<Rightarrow> JArr [role_message ''user'' input]
                 | JArr _ \<Rightarrow> input
                 | _ \<Rightarrow> messages)
           else messages) }"

definition prompt_messages :: "json \<Rightarrow> json \<Rightarrow> json option" where
  "prompt_messages req messages = do {
     prompt \<leftarrow> py_get ''prompt'' JNull req;
     Some (if \<not> py_truthy messages \<and> py_truthy prompt
           then (case prompt of
                   JStr _ \<Rightarrow> JArr [role_message ''user'' prompt]
                 | JArr ps \<Rightarrow> JArr (map (role_message ''user'') ps)
                 | _ \<Rightarrow> messages)
           else messages) }"

text \<open>\<open>' '.join(b.get('text', '') for b in parts)\<close>\<close>

definition part_texts :: "json list \<Rightarrow> string option" where
  "part_texts parts = do {
     texts \<leftarrow> py_map (py_get ''text'' (JStr [])) parts;
     py_join '' '' texts }"

definition system_text :: "json \<Rightarrow> string option" where
  "system_text sys =
     (case sys of
        JStr s \<Rightarrow> Some s
      | _ \<Rightarrow> do { parts \<leftarrow> py_list sys; part_texts (filter is_dict parts) })"

definition is_text_part :: "json \<Rightarrow> bool" where
  "is_text_part b \<longleftrightarrow> py_get ''type'' JNull b = Some (JStr ''text'')"

definition flatten_content :: "json \<Rightarrow> json option" where
  "flatten_content m = do {
     content \<leftarrow> py_get ''content'' JNull m;
     (case content of
        JArr parts \<Rightarrow> do {
          text \<leftarrow> part_texts (filter is_text_part parts);
          py_with ''content'' (JStr text) m }
      | _ \<Rightarrow> Some m) }"

definition anthropic_messages :: "json \<Rightarrow> json \<Rightarrow> json option" where
  "anthropic_messages req messages = do {
     endpoint \<leftarrow> py_get ''endpoint'' (JStr []) req;
     (if endpoint \<noteq> JStr ''/v1/messages'' then Some messages
      else do {
        sys \<leftarrow> py_get ''system'' JNull req;
        messages1 \<leftarrow>
          (if py_truthy sys then do {
             text \<leftarrow> system_text sys;
             rest \<leftarrow> py_list messages;
             Some (JArr (role_message ''system'' (JStr text) # rest)) }
           else Some messages);
        ms \<leftarrow> py_list messages1;
        ms' \<leftarrow> py_map flatten_content ms;
        Some (if is_list messages1 then JArr ms' else messages1) }) }"

section \<open>Arguments\<close>

text \<open>The literals 0.7 and 0.9.\<close>

definition default_temperature :: f64 where
  "default_temperature = F64 0x3FE6666666666666"

definition default_top_p :: f64 where
  "default_top_p = F64 0x3FECCCCCCCCCCCCD"

fun find_system :: "json list \<Rightarrow> nat option option" where
  "find_system [] = Some None"
| "find_system (m # ms) = do {
     role \<leftarrow> py_get ''role'' JNull m;
     (if role = JStr ''system'' then Some (Some 0)
      else map_option (map_option Suc) (find_system ms)) }"

definition add_instruction :: "string \<Rightarrow> json \<Rightarrow> json option" where
  "add_instruction instr messages = do {
     msgs \<leftarrow> py_list messages;
     idx \<leftarrow> find_system msgs;
     (case idx of
        Some i \<Rightarrow> do {
          content \<leftarrow> py_get ''content'' (JStr []) (msgs ! i);
          text \<leftarrow> json_as_str (py_or content (JStr []));
          m \<leftarrow> py_with ''content'' (JStr (text @ [newline, newline] @ instr)) (msgs ! i);
          Some (JArr (msgs[i := m])) }
      | None \<Rightarrow> Some (JArr (role_message ''system'' (JStr instr) # msgs))) }"

definition format_messages :: "vllm_env \<Rightarrow> json \<Rightarrow> json \<Rightarrow> json option" where
  "format_messages vx response_format messages =
     (if \<not> py_truthy response_format then Some messages
      else do {
        instr \<leftarrow> vx_json_prompt vx response_format;
        (case instr of
           Some (c # cs) \<Rightarrow> add_instruction (c # cs) messages
         | _ \<Rightarrow> Some messages) })"

definition chat_kwargs :: "vllm_env \<Rightarrow> json \<Rightarrow> json \<Rightarrow> chat_args option" where
  "chat_kwargs vx req messages = do {
     mt \<leftarrow> py_get ''max_tokens'' JNull req;
     mot \<leftarrow> py_get ''max_output_tokens'' JNull req;
     max_tokens \<leftarrow> py_int (vx_int vx) (py_or (py_or mt mot) (JNum (PosInt 256)));
     t \<leftarrow> py_get ''temperature'' (JNum (Float default_temperature)) req;
     temperature \<leftarrow> py_float (vx_float vx) t;
     p \<leftarrow> py_get ''top_p'' (JNum (Float default_top_p)) req;
     top_p \<leftarrow> py_float (vx_float vx) p;
     stop \<leftarrow> py_get ''stop'' JNull req;
     tools \<leftarrow> py_get ''tools'' JNull req;
     response_format \<leftarrow> py_get ''response_format'' JNull req;
     converted \<leftarrow> (if py_truthy tools then map_option Some (vx_convert_tools vx tools) else Some None);
     messages' \<leftarrow> format_messages vx response_format messages;
     Some \<lparr>ca_messages = messages', ca_max_tokens = max_tokens, ca_temperature = temperature, ca_top_p = top_p,
           ca_tools = converted, ca_stop = (if py_truthy stop then Some stop else None)\<rparr> }"

definition generate_args :: "vllm_env \<Rightarrow> json \<Rightarrow> chat_args option" where
  "generate_args vx req = do {
     m1 \<leftarrow> input_messages req;
     m2 \<leftarrow> prompt_messages req m1;
     m3 \<leftarrow> anthropic_messages req m2;
     chat_kwargs vx req m3 }"

definition stream_args :: "vllm_env \<Rightarrow> json \<Rightarrow> chat_args option" where
  "stream_args vx req = do {
     m1 \<leftarrow> input_messages req;
     chat_kwargs vx req m1 }"

section \<open>Reasoning\<close>

definition parser_for :: "string \<Rightarrow> string option" where
  "parser_for name =
     (if str_contains name ''qwen'' then Some ''qwen3''
      else if str_contains name ''gemma'' then Some ''gemma4''
      else if str_contains name ''deepseek'' \<or> str_contains name ''trinity'' \<or> str_contains name ''minimax''
        then Some ''deepseek_r1''
      else None)"

text \<open>\<open>(model or '').lower()\<close>\<close>

definition name_lower :: "json \<Rightarrow> string option" where
  "name_lower model = map_option to_lowercase (json_as_str (py_or model (JStr [])))"

definition parsed_reasoning :: "vllm_env \<Rightarrow> json \<Rightarrow> string \<Rightarrow> string option \<times> string" where
  "parsed_reasoning vx model text =
     (case Option.bind (name_lower model) parser_for of
        None \<Rightarrow> (None, text)
      | Some parser \<Rightarrow>
          (case vx_reasoning vx parser text of
             None \<Rightarrow> (None, text)
           | Some (r, c) \<Rightarrow>
               if r = None \<and> c = None then (None, text)
               else (r, case c of None \<Rightarrow> [] | Some c \<Rightarrow> c)))"

text \<open>The regular expressions on \<open><think>\<close> blocks: a block is an opening tag, in any case, up to the next
  closing tag.\<close>

definition open_tag :: string where "open_tag = ''<think>''"

definition close_tag :: string where "close_tag = ''</think>''"

definition next_block :: "string \<Rightarrow> (string \<times> string \<times> string) option" where
  "next_block s = do {
     i \<leftarrow> str_find (to_lowercase s) open_tag;
     let rest = drop (i + length open_tag) s;
     j \<leftarrow> str_find (to_lowercase rest) close_tag;
     Some (take i s, take j rest, drop (j + length close_tag) rest) }"

lemma next_block_shorter: "next_block s = Some (a, b, c) \<Longrightarrow> length c < length s"
  by (cases s) (auto simp: next_block_def Let_def close_tag_def to_lowercase_def open_tag_def split: Option.bind_splits)

function think_blocks :: "string \<Rightarrow> string list" where
  "think_blocks s = (case next_block s of None \<Rightarrow> [] | Some (_, b, rest) \<Rightarrow> b # think_blocks rest)"
  by auto
termination
  by (relation "measure length") (auto dest: next_block_shorter)

function remove_blocks :: "string \<Rightarrow> string" where
  "remove_blocks s =
     (case next_block s of
        None \<Rightarrow> s
      | Some (a, _, rest) \<Rightarrow> a @ remove_blocks (trim_start rest))"
  by auto
termination
proof (relation "measure length")
  fix s a b rest and p p' :: "_ \<times> _"
  assume "next_block s = Some p" "(a, p') = p" "(b, rest) = p'"
  then have "length rest < length s" by (auto dest: next_block_shorter)
  moreover have "length (trim_start rest) \<le> length rest"
    by (simp add: trim_start_def length_dropWhile_le)
  ultimately show "(trim_start rest, s) \<in> measure length" by simp
qed simp

declare think_blocks.simps [simp del] remove_blocks.simps [simp del]

definition think_split :: "string \<Rightarrow> string option \<times> string" where
  "think_split text =
     (case str_find (to_lowercase text) open_tag of
        None \<Rightarrow> (None, text)
      | Some i \<Rightarrow>
          let parts = filter (\<lambda>p. p \<noteq> []) (map trim (think_blocks text))
          in if parts \<noteq> [] then (Some (str_join [newline, newline] parts), trim (remove_blocks text))
             else let r = trim (drop (i + length open_tag) text)
               in (if r = [] then None else Some r, trim (take i text)))"

section \<open>Plain generation\<close>

definition split_reasoning :: "vllm_env \<Rightarrow> json \<Rightarrow> string \<Rightarrow> string option \<times> string" where
  "split_reasoning vx model text =
     (case parsed_reasoning vx model text of
        (Some r, t) \<Rightarrow> (Some r, t)
      | (None, t) \<Rightarrow> think_split t)"

definition tool_calls_of :: "vllm_env \<Rightarrow> json \<Rightarrow> string \<Rightarrow> (string option \<times> json) option" where
  "tool_calls_of vx req text = do {
     r \<leftarrow> vx_tool_calls vx text req;
     (if \<not> py_truthy (snd r) \<and> str_contains text (''{{'' @ [CHR 0x22])
      then vx_tool_calls vx (str_replace text (''{{'' @ [CHR 0x22]) (''{'' @ [CHR 0x22])) req
      else Some r) }"

definition final_content :: "vllm_env \<Rightarrow> json \<Rightarrow> string \<Rightarrow> string option \<Rightarrow> json \<Rightarrow> string option" where
  "final_content vx response_format text cleaned calls = do {
     content \<leftarrow> (case cleaned of None \<Rightarrow> Some (Some []) | Some c \<Rightarrow> vx_clean vx c);
     (if py_truthy response_format \<and> \<not> py_truthy calls then do {
        parsed \<leftarrow> vx_json_output vx (case cleaned of Some (c # cs) \<Rightarrow> c # cs | _ \<Rightarrow> text) response_format;
        Some (if parsed \<noteq> JNull then vx_dumps vx parsed else case content of None \<Rightarrow> [] | Some c \<Rightarrow> c) }
      else Some (case content of None \<Rightarrow> [] | Some c \<Rightarrow> c)) }"

definition response_of :: "vllm_env \<Rightarrow> json \<Rightarrow> chat_output \<Rightarrow> chat_response option" where
  "response_of vx req out = do {
     model \<leftarrow> py_get ''model'' (JStr ''unknown'') req;
     response_format \<leftarrow> py_get ''response_format'' JNull req;
     let (reasoning, text) = split_reasoning vx model (ct_text out);
     (cleaned, calls) \<leftarrow> tool_calls_of vx req text;
     content \<leftarrow> final_content vx response_format text cleaned calls;
     Some \<lparr>cr_model = model, cr_content = content,
           cr_tool_calls = (if py_truthy calls then Some calls else None),
           cr_reasoning = (case reasoning of Some (c # cs) \<Rightarrow> Some (c # cs) | _ \<Rightarrow> None),
           cr_finish_reason = (if py_truthy calls then Some ''tool_calls'' else ct_finish_reason out),
           cr_prompt_tokens = ct_prompt_tokens out, cr_completion_tokens = ct_completion_tokens out,
           cr_total_tokens = ct_prompt_tokens out + ct_completion_tokens out\<rparr> }"

definition extract_u64 :: "int \<Rightarrow> u64 option" where
  "extract_u64 i = (if 0 \<le> i \<and> i < 2 ^ 64 then Some (word_of_int i) else None)"

definition generate_via_server_handler ::
  "vllm_env \<Rightarrow> (string \<times> nat) list \<Rightarrow> string \<Rightarrow> json \<Rightarrow> inference_result result" where
  "generate_via_server_handler vx store key req =
     (case do {
        engine \<leftarrow> map_of store key;
        args \<leftarrow> generate_args vx req;
        out \<leftarrow> vx_chat vx engine args;
        resp \<leftarrow> response_of vx req out;
        text \<leftarrow> vx_response vx resp;
        p \<leftarrow> extract_u64 (ct_prompt_tokens out);
        c \<leftarrow> extract_u64 (ct_completion_tokens out);
        Some \<lparr>ir_text = text, ir_prompt_tokens = p, ir_completion_tokens = c\<rparr> } of
        None \<Rightarrow> Err ''vllm-mlx server handler generate failed''
      | Some r \<Rightarrow> Ok r)"

definition engine_generate :: "vllm_env \<Rightarrow> inprocess_engine \<Rightarrow> py_process \<Rightarrow> json \<Rightarrow> inference_result result" where
  "engine_generate vx e p req =
     (if \<not> ie_loaded e then Err ''Model not loaded''
      else generate_via_server_handler vx (pp_store p) (ie_cache_key e) req)"

section \<open>Streaming\<close>

definition special_tokens :: "string list" where
  "special_tokens = map (\<lambda>t. ''<|'' @ t @ ''|>'') [''im_start'', ''im_end'', ''endoftext'', ''end_of_turn'',
     ''eot_id'', ''end_header_id'', ''start_header_id'', ''finetune_right_pad_id'']"

lemma special_tokens_nonempty: "List.find P special_tokens = Some t \<Longrightarrow> t \<noteq> []"
proof -
  assume "List.find P special_tokens = Some t"
  then have "t \<in> set special_tokens" by (auto simp: find_Some_iff)
  then show ?thesis by (auto simp: special_tokens_def)
qed

function strip_special :: "string \<Rightarrow> string" where
  "strip_special s =
     (case s of
        [] \<Rightarrow> []
      | c # cs \<Rightarrow>
          (case List.find (\<lambda>t. prefix t s) special_tokens of
             Some t \<Rightarrow> strip_special (drop (length t) s)
           | None \<Rightarrow> c # strip_special cs))"
  by auto
termination
  by (relation "measure length") (auto dest!: special_tokens_nonempty simp: neq_Nil_conv)

declare strip_special.simps [simp del]

definition select_reasoning_parser :: "vllm_env \<Rightarrow> json \<Rightarrow> string option" where
  "select_reasoning_parser vx model =
     (case Option.bind (name_lower model) parser_for of
        None \<Rightarrow> None
      | Some parser \<Rightarrow> if vx_parser vx parser then Some parser else None)"

record stream_iter =
  si_pt :: int
  si_ct :: int
  si_accum :: string
  si_calls :: nat

definition stream_iter_init :: stream_iter where
  "stream_iter_init = \<lparr>si_pt = 0, si_ct = 0, si_accum = [], si_calls = 0\<rparr>"

definition count_tokens :: "int option \<Rightarrow> int \<Rightarrow> int" where
  "count_tokens n old = (case n of Some k \<Rightarrow> if k = 0 then old else k | None \<Rightarrow> old)"

text \<open>The fields of a delta; \<open>None\<close> when the parser holds the text back.\<close>

definition delta_fields ::
  "vllm_env \<Rightarrow> string option \<Rightarrow> stream_out \<Rightarrow> stream_iter
   \<Rightarrow> (string option \<times> string option) option \<times> stream_iter" where
  "delta_fields vx parser out st =
     (let delta = (case so_new_text out of None \<Rightarrow> [] | Some t \<Rightarrow> t) in
      if delta = [] then (Some (None, None), st)
      else case parser of
        Some name \<Rightarrow>
          (let accum = si_accum st @ delta;
               st' = st\<lparr>si_accum := accum, si_calls := Suc (si_calls st)\<rparr>
           in case vx_stream_reasoning vx name (si_calls st) (si_accum st) accum delta of
                Some rc \<Rightarrow> (Some rc, st')
              | None \<Rightarrow> (if so_finished out then Some (None, None) else None, st'))
      | None \<Rightarrow> (Some (None, Some (strip_special delta)), st))"

definition field_entries :: "string list \<Rightarrow> string option \<Rightarrow> (string \<times> json) list" where
  "field_entries names v =
     (case v of Some (c # cs) \<Rightarrow> map (\<lambda>n. (n, JStr (c # cs))) names | _ \<Rightarrow> [])"

definition delta_object :: "string option \<Rightarrow> string option \<Rightarrow> (string \<times> json) list" where
  "delta_object reasoning content =
     field_entries [''reasoning'', ''reasoning_content''] reasoning @ field_entries [''content''] content"

definition chunk_document :: "vllm_env \<Rightarrow> json \<Rightarrow> (string \<times> json) list \<Rightarrow> stream_out \<Rightarrow> json" where
  "chunk_document vx model delta out =
     JObj [(''id'', JStr (vx_response_id vx)), (''object'', JStr ''chat.completion.chunk''),
           (''created'', JNum (PosInt (vx_created vx))), (''model'', model),
           (''choices'', JArr [JObj [(''index'', JNum (PosInt 0)), (''delta'', JObj delta),
              (''finish_reason'',
                 if so_finished out
                 then (case so_finish_reason out of Some (c # cs) \<Rightarrow> JStr (c # cs) | _ \<Rightarrow> JStr ''stop'')
                 else JNull)]])]"

text \<open>\<open>SyncStreamIterator.__next__\<close> on one output: the document, or none for an empty text.\<close>

definition next_chunk ::
  "vllm_env \<Rightarrow> json \<Rightarrow> string option \<Rightarrow> stream_out \<Rightarrow> stream_iter \<Rightarrow> json option \<times> stream_iter" where
  "next_chunk vx model parser out st =
     (let st1 = st\<lparr>si_pt := count_tokens (so_prompt_tokens out) (si_pt st),
                   si_ct := count_tokens (so_completion_tokens out) (si_ct st)\<rparr>
      in case delta_fields vx parser out st1 of
           (None, st2) \<Rightarrow> (None, st2)
         | (Some (reasoning, content), st2) \<Rightarrow>
             (let delta = delta_object reasoning content
              in if delta = [] \<and> \<not> so_finished out then (None, st2)
                 else (Some (chunk_document vx model delta out), st2)))"

definition sentinel :: string where
  "sentinel = ''__STREAM_DONE__''"

definition u64_or_zero :: "int \<Rightarrow> u64" where
  "u64_or_zero i = (case extract_u64 i of None \<Rightarrow> 0 | Some n \<Rightarrow> n)"

text \<open>The loop that takes chunks until the iterator is exhausted: the texts handed to the channel and
  the result. \<open>accept k\<close> tells whether the receiver takes the \<open>k\<close>-th text; an output that is
  \<^const>\<open>None\<close> is an exception of the engine.\<close>

fun stream_tokens ::
  "vllm_env \<Rightarrow> json \<Rightarrow> string option \<Rightarrow> (nat \<Rightarrow> bool) \<Rightarrow> nat \<Rightarrow> stream_iter \<Rightarrow> stream_out option list
   \<Rightarrow> string list \<times> (u64 \<times> u64) result" where
  "stream_tokens vx model parser accept k st [] = ([], Ok (u64_or_zero (si_pt st), u64_or_zero (si_ct st)))"
| "stream_tokens vx model parser accept k st (None # outs) = ([], Err ''stream failed'')"
| "stream_tokens vx model parser accept k st (Some out # outs) =
     (case next_chunk vx model parser out st of
        (doc, st') \<Rightarrow>
          let val = (case doc of None \<Rightarrow> [] | Some d \<Rightarrow> vx_dumps vx d) in
          if val = sentinel then ([], Ok (u64_or_zero (si_pt st'), u64_or_zero (si_ct st')))
          else if val = [] then stream_tokens vx model parser accept k st' outs
          else if accept k
            then (case stream_tokens vx model parser accept (Suc k) st' outs of
                    (texts, r) \<Rightarrow> ((''data: '' @ val) # texts, r))
            else ([], Err ''stream receiver dropped''))"

definition engine_stream_generate ::
  "vllm_env \<Rightarrow> inprocess_engine \<Rightarrow> py_process \<Rightarrow> json \<Rightarrow> (nat \<Rightarrow> bool) \<Rightarrow> string list \<times> (u64 \<times> u64) result" where
  "engine_stream_generate vx e p req accept =
     (if \<not> ie_loaded e then ([], Err ''Model not loaded'')
      else case do {
          engine \<leftarrow> map_of (pp_store p) (ie_cache_key e);
          args \<leftarrow> stream_args vx req;
          model \<leftarrow> py_get ''model'' (JStr ''unknown'') req;
          Some (model, vx_stream vx engine args) } of
        None \<Rightarrow> ([], Err ''vllm-mlx stream setup failed'')
      | Some (model, outs) \<Rightarrow>
          stream_tokens vx model (select_reasoning_parser vx model) accept 0 stream_iter_init outs)"

text \<open>What the request handler of the main program observes of a run.\<close>

definition run_of :: "vllm_env \<Rightarrow> inprocess_engine \<Rightarrow> py_process \<Rightarrow> json \<Rightarrow> engine_run" where
  "run_of vx e p req =
     (case engine_stream_generate vx e p req (\<lambda>_. True) of
        (texts, r) \<Rightarrow>
          \<lparr>er_tokens = texts,
           er_stream_end = (case r of Inl err \<Rightarrow> StreamErr err | Inr (pt, ct) \<Rightarrow> StreamOk pt ct),
           er_generate = engine_generate vx e p req\<rparr>)"

section \<open>The worker thread\<close>

datatype engine_command =
    CmdLoad
  | CmdGenerate json
  | CmdStreamGenerate json "nat \<Rightarrow> bool"
  | CmdUnload
  | CmdIsLoaded

datatype engine_reply =
    UnitReply "unit result"
  | GenerateReply "inference_result result"
  | StreamReply "string list" "(u64 \<times> u64) result"
  | BoolReply bool

record worker =
  wk_engine :: inprocess_engine
  wk_process :: py_process
  wk_wiped :: "string list"
  wk_dropped :: "json list"

definition worker_new :: "(bytes \<Rightarrow> bytes) \<Rightarrow> string \<Rightarrow> py_process \<Rightarrow> worker" where
  "worker_new sha256 model_id p =
     \<lparr>wk_engine = engine_new sha256 model_id, wk_process = p, wk_wiped = [], wk_dropped = []\<rparr>"

text \<open>The body is wiped before the reply is sent: the overwritten texts and the value that is left.\<close>

definition wipe_body :: "json \<Rightarrow> worker \<Rightarrow> worker" where
  "wipe_body body w =
     (case secure_zero_json_value body of
        (rest, wiped) \<Rightarrow> w\<lparr>wk_wiped := wk_wiped w @ wiped, wk_dropped := wk_dropped w @ [rest]\<rparr>)"

definition worker_step :: "py_env \<Rightarrow> vllm_env \<Rightarrow> engine_command \<Rightarrow> worker \<Rightarrow> engine_reply \<times> worker" where
  "worker_step env vx cmd w =
     (case cmd of
        CmdLoad \<Rightarrow>
          (case engine_load env (wk_engine w, wk_process w) of
             (r, e, p) \<Rightarrow> (UnitReply r, w\<lparr>wk_engine := e, wk_process := p\<rparr>))
      | CmdGenerate body \<Rightarrow>
          (GenerateReply (engine_generate vx (wk_engine w) (wk_process w) body), wipe_body body w)
      | CmdStreamGenerate body accept \<Rightarrow>
          (case engine_stream_generate vx (wk_engine w) (wk_process w) body accept of
             (texts, r) \<Rightarrow> (StreamReply texts r, wipe_body body w))
      | CmdUnload \<Rightarrow>
          (case engine_unload (wk_engine w, wk_process w) of
             (r, e, p) \<Rightarrow> (UnitReply r, w\<lparr>wk_engine := e, wk_process := p\<rparr>))
      | CmdIsLoaded \<Rightarrow> (BoolReply (ie_loaded (wk_engine w)), w))"

text \<open>The thread takes commands in the order they were sent.\<close>

fun run_worker :: "py_env \<Rightarrow> vllm_env \<Rightarrow> engine_command list \<Rightarrow> worker \<Rightarrow> engine_reply list \<times> worker" where
  "run_worker env vx [] w = ([], w)"
| "run_worker env vx (cmd # cmds) w =
     (case worker_step env vx cmd w of
        (reply, w') \<Rightarrow> (case run_worker env vx cmds w' of (replies, w'') \<Rightarrow> (reply # replies, w'')))"

text \<open>The calls of \<open>SharedEngine\<close>; \<open>None\<close> stands for a thread that is gone.\<close>

definition shared_load :: "py_env \<Rightarrow> vllm_env \<Rightarrow> worker option \<Rightarrow> unit result \<times> worker option" where
  "shared_load env vx w =
     (case w of
        None \<Rightarrow> (Err ''python worker thread is gone'', None)
      | Some w \<Rightarrow>
          (case worker_step env vx CmdLoad w of
             (UnitReply r, w') \<Rightarrow> (r, Some w')
           | (_, w') \<Rightarrow> (Err ''worker dropped reply'', Some w')))"

definition shared_unload :: "py_env \<Rightarrow> vllm_env \<Rightarrow> worker option \<Rightarrow> unit result \<times> worker option" where
  "shared_unload env vx w =
     (case w of
        None \<Rightarrow> (Err ''python worker thread is gone'', None)
      | Some w \<Rightarrow>
          (case worker_step env vx CmdUnload w of
             (UnitReply r, w') \<Rightarrow> (r, Some w')
           | (_, w') \<Rightarrow> (Err ''worker dropped reply'', Some w')))"

definition shared_generate :: "py_env \<Rightarrow> vllm_env \<Rightarrow> json \<Rightarrow> worker option \<Rightarrow> inference_result result \<times> worker option" where
  "shared_generate env vx body w =
     (case w of
        None \<Rightarrow> (Err ''python worker thread is gone'', None)
      | Some w \<Rightarrow>
          (case worker_step env vx (CmdGenerate body) w of
             (GenerateReply r, w') \<Rightarrow> (r, Some w')
           | (_, w') \<Rightarrow> (Err ''worker dropped reply'', Some w')))"

definition stream_generate_channel ::
  "py_env \<Rightarrow> vllm_env \<Rightarrow> json \<Rightarrow> (nat \<Rightarrow> bool) \<Rightarrow> worker option \<Rightarrow> (string list \<times> (u64 \<times> u64) result) \<times> worker option" where
  "stream_generate_channel env vx body accept w =
     (case w of
        None \<Rightarrow> (([], Err ''python worker thread is gone''), None)
      | Some w \<Rightarrow>
          (case worker_step env vx (CmdStreamGenerate body accept) w of
             (StreamReply texts r, w') \<Rightarrow> ((texts, r), Some w')
           | (_, w') \<Rightarrow> (([], Err ''worker dropped reply''), Some w')))"

definition shared_is_loaded :: "py_env \<Rightarrow> vllm_env \<Rightarrow> worker option \<Rightarrow> bool" where
  "shared_is_loaded env vx w =
     (case w of
        None \<Rightarrow> False
      | Some w \<Rightarrow> (case worker_step env vx CmdIsLoaded w of (BoolReply b, _) \<Rightarrow> b | _ \<Rightarrow> False))"

section \<open>Lemmas on the stream\<close>

definition text_or_empty :: "string option \<Rightarrow> string" where
  "text_or_empty t = (case t of None \<Rightarrow> [] | Some s \<Rightarrow> s)"

text \<open>The reasoning and the content of every output, as the parser splits it (or, without a parser, the
  text without the special tokens).\<close>

fun out_fields :: "vllm_env \<Rightarrow> string option \<Rightarrow> stream_iter \<Rightarrow> stream_out list \<Rightarrow> (string \<times> string) list" where
  "out_fields vx parser st [] = []"
| "out_fields vx parser st (out # outs) =
     (case delta_fields vx parser out st of
        (f, st') \<Rightarrow>
          (case f of None \<Rightarrow> ([], []) | Some (r, c) \<Rightarrow> (text_or_empty r, text_or_empty c))
          # out_fields vx parser st' outs)"

text \<open>The documents the iterator yields.\<close>

fun stream_docs :: "vllm_env \<Rightarrow> json \<Rightarrow> string option \<Rightarrow> stream_iter \<Rightarrow> stream_out list \<Rightarrow> json list" where
  "stream_docs vx model parser st [] = []"
| "stream_docs vx model parser st (out # outs) =
     (case next_chunk vx model parser out st of
        (doc, st') \<Rightarrow> (case doc of None \<Rightarrow> [] | Some d \<Rightarrow> [d]) @ stream_docs vx model parser st' outs)"

text \<open>Reading a field of the delta of a chunk.\<close>

definition chunk_field :: "string \<Rightarrow> json \<Rightarrow> string" where
  "chunk_field k doc =
     text_or_empty (case json_get_as json_as_array ''choices'' doc of
        Some [choice] \<Rightarrow> Option.bind (json_get ''delta'' choice) (json_get_as json_as_str k)
      | _ \<Rightarrow> None)"

lemma chunk_field_document:
  "chunk_field k (chunk_document vx model delta out) = text_or_empty (Option.bind (map_of delta k) json_as_str)"
  by (simp add: chunk_field_def chunk_document_def json_get_as_def)

lemma delta_entries:
  "text_or_empty (Option.bind (map_of (delta_object r c) ''content'') json_as_str)
     = text_or_empty c"
  "text_or_empty (Option.bind (map_of (delta_object r c) ''reasoning_content'') json_as_str)
     = text_or_empty r"
  by (auto simp: delta_object_def field_entries_def text_or_empty_def split: option.split list.split)

lemma empty_delta:
  "delta_object r c = [] \<longleftrightarrow>
     text_or_empty r = [] \<and> text_or_empty c = []"
  by (auto simp: delta_object_def field_entries_def text_or_empty_def split: option.split list.split)

lemma delta_fields_counts:
  "delta_fields vx parser out (st\<lparr>si_pt := a, si_ct := b\<rparr>) =
     (fst (delta_fields vx parser out st), (snd (delta_fields vx parser out st))\<lparr>si_pt := a, si_ct := b\<rparr>)"
  by (auto simp: delta_fields_def Let_def split: option.split)

lemma out_fields_counts: "out_fields vx parser (st\<lparr>si_pt := a, si_ct := b\<rparr>) outs = out_fields vx parser st outs"
  by (induction outs arbitrary: st) (auto simp: delta_fields_counts split: prod.split)

lemma next_chunk_fields:
  assumes "next_chunk vx model parser out st = (doc, st')" and "delta_fields vx parser out st = (f, st1)"
  shows "st' = st1\<lparr>si_pt := count_tokens (so_prompt_tokens out) (si_pt st), si_ct := count_tokens (so_completion_tokens out) (si_ct st)\<rparr>"
    and "concat (map (chunk_field ''content'') (case doc of None \<Rightarrow> [] | Some d \<Rightarrow> [d])) =
      (case f of None \<Rightarrow> [] | Some (r, c) \<Rightarrow> text_or_empty c)"
    and "concat (map (chunk_field ''reasoning_content'') (case doc of None \<Rightarrow> [] | Some d \<Rightarrow> [d])) =
      (case f of None \<Rightarrow> [] | Some (r, c) \<Rightarrow> text_or_empty r)"
  using assms
  by (auto simp: next_chunk_def Let_def delta_fields_counts empty_delta chunk_field_document delta_entries
      split: option.splits prod.splits if_splits)

lemma stream_docs_fields:
  "concat (map (chunk_field ''content'') (stream_docs vx model parser st outs)) =
     concat (map snd (out_fields vx parser st outs)) \<and>
   concat (map (chunk_field ''reasoning_content'') (stream_docs vx model parser st outs)) =
     concat (map fst (out_fields vx parser st outs))"
proof (induction outs arbitrary: st)
  case (Cons out outs)
  obtain doc st' where n: "next_chunk vx model parser out st = (doc, st')" by fastforce
  obtain f st1 where d: "delta_fields vx parser out st = (f, st1)" by fastforce
  note nf = next_chunk_fields[OF n d]
  have "out_fields vx parser st' outs = out_fields vx parser st1 outs"
    by (simp add: nf(1) out_fields_counts)
  with Cons[of st'] nf(2,3) show ?case
    by (cases f) (auto simp: n d)
qed simp

text \<open>Without a parser every output contributes its text without special tokens.\<close>

lemma out_fields_plain:
  "out_fields vx None st outs = map (\<lambda>out. ([], strip_special (text_or_empty (so_new_text out)))) outs"
  by (induction outs arbitrary: st)
    (auto simp: delta_fields_def text_or_empty_def strip_special.simps[of "[]"] Let_def split: option.split)

text \<open>A printed document is neither empty nor the end mark.\<close>

definition printable :: "vllm_env \<Rightarrow> bool" where
  "printable vx \<longleftrightarrow> (\<forall>d. vx_dumps vx d \<noteq> [] \<and> vx_dumps vx d \<noteq> sentinel)"

fun token_counts :: "stream_out list \<Rightarrow> int \<times> int \<Rightarrow> int \<times> int" where
  "token_counts [] n = n"
| "token_counts (out # outs) (p, c) =
     token_counts outs (count_tokens (so_prompt_tokens out) p, count_tokens (so_completion_tokens out) c)"

lemma stream_tokens_docs:
  assumes "printable vx" and "\<And>k. accept k"
  shows "stream_tokens vx model parser accept k st (map Some outs) =
    (map (\<lambda>d. ''data: '' @ vx_dumps vx d) (stream_docs vx model parser st outs),
     Ok (case token_counts outs (si_pt st, si_ct st) of (p, c) \<Rightarrow> (u64_or_zero p, u64_or_zero c)))"
proof (induction outs arbitrary: k st)
  case (Cons out outs)
  obtain doc st' where n: "next_chunk vx model parser out st = (doc, st')" by fastforce
  obtain f st1 where d: "delta_fields vx parser out st = (f, st1)" by fastforce
  have e: "[] \<noteq> sentinel" by (simp add: sentinel_def)
  from next_chunk_fields(1)[OF n d]
  have "si_pt st' = count_tokens (so_prompt_tokens out) (si_pt st)" "si_ct st' = count_tokens (so_completion_tokens out) (si_ct st)"
    by simp_all
  with Cons[of _ st'] assms e show ?case
    by (cases doc) (simp_all add: n printable_def)
qed simp

lemma delta_fields_accum:
  "si_accum (snd (delta_fields vx (Some name) out st)) = si_accum st @ text_or_empty (so_new_text out)"
  by (auto simp: delta_fields_def text_or_empty_def Let_def split: option.split)

section \<open>Lemmas on the worker\<close>

lemma wiped_is_null: "fst (secure_zero_json_value v) = JNull"
  by (cases v) auto

definition command_texts :: "engine_command \<Rightarrow> string list" where
  "command_texts cmd =
     (case cmd of
        CmdGenerate body \<Rightarrow> snd (secure_zero_json_value body)
      | CmdStreamGenerate body accept \<Rightarrow> snd (secure_zero_json_value body)
      | _ \<Rightarrow> [])"

fun loaded_after :: "engine_command list \<Rightarrow> engine_reply list \<Rightarrow> bool \<Rightarrow> bool" where
  "loaded_after (CmdLoad # cmds) (UnitReply (Inr _) # rs) b = loaded_after cmds rs True"
| "loaded_after (CmdUnload # cmds) (UnitReply (Inr _) # rs) b = loaded_after cmds rs False"
| "loaded_after (_ # cmds) (_ # rs) b = loaded_after cmds rs b"
| "loaded_after _ _ b = b"

definition worker_ok :: "worker \<Rightarrow> bool" where
  "worker_ok w \<longleftrightarrow> (ie_loaded (wk_engine w) \<longrightarrow> map_of (pp_store (wk_process w)) (ie_cache_key (wk_engine w)) \<noteq> None) \<and>
     list_all (\<lambda>d. d = JNull) (wk_dropped w)"

lemma worker_step_ok:
  assumes "worker_ok w" and "worker_step env vx cmd w = (reply, w')"
  shows "worker_ok w'" and "wk_wiped w' = wk_wiped w @ command_texts cmd"
    and "loaded_after (cmd # cmds) (reply # rs) (ie_loaded (wk_engine w)) = loaded_after cmds rs (ie_loaded (wk_engine w'))"
proof -
  have load: "worker_ok (w\<lparr>wk_engine := e, wk_process := p\<rparr>) \<and>
      (case r of Inr _ \<Rightarrow> ie_loaded e | Inl _ \<Rightarrow> ie_loaded e = ie_loaded (wk_engine w))"
    if "engine_load env (wk_engine w, wk_process w) = (r, e, p)" for r e p
  proof (cases r)
    case (Inl err)
    with engine_load_err[of env "wk_engine w" "wk_process w"] that assms(1) show ?thesis
      by (auto simp: worker_ok_def)
  next
    case (Inr u)
    with engine_load_ok[of env "wk_engine w" "wk_process w" e p] that assms(1) show ?thesis
      by (auto simp: worker_ok_def hash_insert_def)
  qed
  have unload: "worker_ok (w\<lparr>wk_engine := e, wk_process := p\<rparr>) \<and> r = Ok () \<and> \<not> ie_loaded e"
    if "engine_unload (wk_engine w, wk_process w) = (r, e, p)" for r e p
    using that assms(1) by (auto simp: engine_unload_def worker_ok_def split: if_splits)
  have wipe: "worker_ok (wipe_body body w)" "wk_wiped (wipe_body body w) = wk_wiped w @ snd (secure_zero_json_value body)"
      "wk_engine (wipe_body body w) = wk_engine w" for body
    using assms(1) wiped_is_null[of body] by (auto simp: wipe_body_def worker_ok_def split: prod.splits)
  show "worker_ok w'" and "wk_wiped w' = wk_wiped w @ command_texts cmd"
    and "loaded_after (cmd # cmds) (reply # rs) (ie_loaded (wk_engine w)) = loaded_after cmds rs (ie_loaded (wk_engine w'))"
    using assms load unload wipe
    by (cases cmd; fastforce simp: worker_step_def command_texts_def split: prod.splits sum.splits)+
qed

lemma run_worker_ok:
  assumes "worker_ok w" and "run_worker env vx cmds w = (replies, w')"
  shows "worker_ok w' \<and> wk_wiped w' = wk_wiped w @ concat (map command_texts cmds) \<and>
    length replies = length cmds \<and> ie_loaded (wk_engine w') = loaded_after cmds replies (ie_loaded (wk_engine w))"
  using assms
proof (induction cmds arbitrary: w replies)
  case (Cons cmd cmds)
  obtain reply w1 where s: "worker_step env vx cmd w = (reply, w1)" by fastforce
  obtain rs where r: "run_worker env vx cmds w1 = (rs, w')" and "replies = reply # rs"
    using Cons.prems(2) s by (auto split: prod.splits)
  with Cons.IH[OF worker_step_ok(1)[OF Cons.prems(1) s] r] worker_step_ok(2,3)[OF Cons.prems(1) s] show ?case
    by simp
qed simp

lemma worker_new_ok: "worker_ok (worker_new sha256 model_id p)"
  by (simp add: worker_ok_def worker_new_def engine_new_def)

lemma shared_unload_ok:
  "\<exists>w'. shared_unload env vx (Some w) = (Ok (), Some w') \<and> \<not> shared_is_loaded env vx (Some w')"
  by (auto simp: shared_unload_def worker_step_def shared_is_loaded_def engine_unload_def split: prod.splits)

lemma shared_load_loads:
  "shared_load env vx w = (Ok (), w') \<Longrightarrow> shared_is_loaded env vx w'"
  using engine_load_ok[of env "wk_engine (the w)" "wk_process (the w)"]
  by (auto simp: shared_load_def worker_step_def shared_is_loaded_def split: option.splits prod.splits)

section \<open>Properties\<close>


text \<open>Streaming loses nothing: for any outputs of the engine the texts handed on are the printed
  documents, in order, and their contents (and reasonings), put together, are what the parser made of
  the outputs; the token counts are the last ones the engine reported.\<close>

theorem stream_complete:
  assumes "printable vx"
  shows "\<exists>docs. stream_tokens vx model parser (\<lambda>_. True) 0 stream_iter_init (map Some outs) =
      (map (\<lambda>d. ''data: '' @ vx_dumps vx d) docs,
       Ok (case token_counts outs (0, 0) of (pt, ct) \<Rightarrow> (u64_or_zero pt, u64_or_zero ct))) \<and>
    concat (map (chunk_field ''content'') docs) = concat (map snd (out_fields vx parser stream_iter_init outs)) \<and>
    concat (map (chunk_field ''reasoning_content'') docs) = concat (map fst (out_fields vx parser stream_iter_init outs))"
  using stream_tokens_docs[OF assms, of "\<lambda>_. True"] stream_docs_fields[of vx model parser stream_iter_init outs]
  by (intro exI[of _ "stream_docs vx model parser stream_iter_init outs"]) (simp add: stream_iter_init_def)

text \<open>Streaming and plain generation ask the engine the same question, for a request that uses neither the
  completion field \<open>prompt\<close> nor the Anthropic endpoint.\<close>

theorem stream_args_agree:
  assumes "py_get ''prompt'' JNull req = Some prompt" "\<not> py_truthy prompt"
    and "py_get ''endpoint'' (JStr []) req = Some endpoint" "endpoint \<noteq> JStr ''/v1/messages''"
  shows "stream_args vx req = generate_args vx req"
  using assms by (cases "input_messages req")
    (simp_all add: stream_args_def generate_args_def prompt_messages_def anthropic_messages_def)

section \<open>Witnesses and observations\<close>

definition sample_vllm :: vllm_env where
  "sample_vllm = \<lparr>vx_int = (\<lambda>_. None), vx_float = (\<lambda>_. None), vx_dumps = (\<lambda>_. ''{}''), vx_convert_tools = Some,
     vx_json_prompt = (\<lambda>_. Some None), vx_chat = (\<lambda>_ _. None),
     vx_stream = (\<lambda>_ _. [Some \<lparr>so_prompt_tokens = Some 3, so_completion_tokens = Some 1, so_new_text = Some ''hi<|im_end|>'',
        so_finish_reason = None, so_finished = False\<rparr>,
        Some \<lparr>so_prompt_tokens = None, so_completion_tokens = Some 2, so_new_text = Some '' there'',
        so_finish_reason = Some ''stop'', so_finished = True\<rparr>]),
     vx_reasoning = (\<lambda>_ _. None), vx_parser = (\<lambda>_. False), vx_stream_reasoning = (\<lambda>_ _ _ _ _. None),
     vx_tool_calls = (\<lambda>t _. Some (Some t, JNull)), vx_clean = (\<lambda>t. Some (Some t)), vx_json_output = (\<lambda>_ _. Some JNull),
     vx_response = (\<lambda>r. Some (cr_content r)), vx_response_id = ''id'', vx_created = 0\<rparr>"

definition sample_outs :: "stream_out list" where
  "sample_outs = map the (vx_stream sample_vllm 0 undefined)"

lemma sample_printable: "printable sample_vllm"
  by (simp add: printable_def sample_vllm_def sentinel_def)

theorem stream_complete_witness:
  "\<exists>docs. stream_tokens sample_vllm (JStr ''m'') None (\<lambda>_. True) 0 stream_iter_init (map Some sample_outs) =
      (map (\<lambda>d. ''data: '' @ vx_dumps sample_vllm d) docs, Ok (3, 2)) \<and>
    concat (map (chunk_field ''content'') docs) = ''hi there''"
proof -
  have outs: "concat (map snd (out_fields sample_vllm None stream_iter_init sample_outs)) = ''hi there''"
    by (simp add: out_fields_plain sample_outs_def sample_vllm_def text_or_empty_def) code_simp
  have counts: "(case token_counts sample_outs (0, 0) of (pt, ct) \<Rightarrow> (u64_or_zero pt, u64_or_zero ct)) = (3, 2)"
    by (simp add: sample_outs_def sample_vllm_def count_tokens_def u64_or_zero_def extract_u64_def)
  from stream_complete[OF sample_printable, of "JStr ''m''" None sample_outs] outs counts show ?thesis by auto
qed

definition sample_worker_run :: "engine_reply list \<times> worker" where
  "sample_worker_run = run_worker sample_py_env sample_vllm
     [CmdLoad, CmdGenerate (JObj [(''prompt'', JStr ''secret'')]), CmdIsLoaded] (worker_new (\<lambda>b. b) ''m'' sample_process)"


theorem stream_args_agree_witness:
  "stream_args sample_vllm (JObj [(''messages'', JArr [role_message ''user'' (JStr ''hi'')])]) =
   generate_args sample_vllm (JObj [(''messages'', JArr [role_message ''user'' (JStr ''hi'')])])"
  by (rule stream_args_agree[where prompt = JNull and endpoint = "JStr []"]) simp_all

text \<open>The completion field \<open>prompt\<close> is used by plain generation only: streaming asks with no message.\<close>

lemma stream_drops_prompt:
  "map_option ca_messages (generate_args sample_vllm (JObj [(''prompt'', JStr ''hi'')])) = Some (JArr [role_message ''user'' (JStr ''hi'')])"
  "map_option ca_messages (stream_args sample_vllm (JObj [(''prompt'', JStr ''hi'')])) = Some (JArr [])"
  by (simp_all add: generate_args_def stream_args_def input_messages_def prompt_messages_def anthropic_messages_def
      chat_kwargs_def py_or_def format_messages_def)

text \<open>So is the system text of the Anthropic endpoint.\<close>

lemma stream_drops_system:
  "map_option ca_messages (generate_args sample_vllm (JObj [(''endpoint'', JStr ''/v1/messages''), (''system'', JStr ''s'')])) =
     Some (JArr [role_message ''system'' (JStr ''s'')])"
  "map_option ca_messages (stream_args sample_vllm (JObj [(''endpoint'', JStr ''/v1/messages''), (''system'', JStr ''s'')])) = Some (JArr [])"
  by (simp_all add: generate_args_def stream_args_def input_messages_def prompt_messages_def anthropic_messages_def
      system_text_def flatten_content_def role_message_def chat_kwargs_def py_or_def format_messages_def)

text \<open>A block of reasoning is separated from the answer; but an answer after an empty block is taken as
  reasoning and nothing is left.\<close>

lemma think_split_block: "think_split ''<think>why</think> because'' = (Some ''why'', ''because'')"
  by code_simp

lemma think_split_empty_block: "think_split ''<think></think>42'' = (Some ''</think>42'', [])"
  by code_simp

text \<open>A special token that is cut by the outputs is not removed.\<close>

lemma split_token_kept:
  "concat (map strip_special [''a<|im_'', ''end|>'']) = ''a<|im_end|>'' \<and> strip_special ''a<|im_end|>'' = ''a''"
  by code_simp

end
