(* ===== verification/Catalog.thy ===== *)
theory Catalog
  imports Json Utf8 Hardware "HOL-Library.Multiset"
begin

text \<open>
  The model catalog and the provider trust records of \<open>main.rs\<close>: the compiled-in catalog, the filter
  for retired models, the coordinator's catalog and attestation answers read from JSON, and the
  order in which the trust records of one machine are shown. HTTP answers are arguments.
\<close>

section \<open>Catalog models\<close>

record catalog_model =
  cm_id :: string
  cm_s3_name :: string
  cm_display_name :: string
  cm_model_type :: string
  cm_size_gb :: f64
  cm_architecture :: string
  cm_description :: string
  cm_min_ram_gb :: "32 word"

definition default_model_type :: string where
  "default_model_type = ''text''"

fun dec_i32 :: "json \<Rightarrow> 32 word option" where
  "dec_i32 (JNum (PosInt n)) = (if unat n < 2 ^ 31 then Some (ucast n) else None)"
| "dec_i32 (JNum (NegInt i)) = (if - (2 ^ 31) \<le> i then Some (word_of_int i) else None)"
| "dec_i32 _ = None"

definition dec_catalog_model :: "json \<Rightarrow> catalog_model option" where
  "dec_catalog_model v =
     (case v of
        JObj kvs \<Rightarrow>
          (case (field_req json_as_str ''id'' kvs, field_req json_as_str ''s3_name'' kvs,
                 field_req json_as_str ''display_name'' kvs, field_default default_model_type json_as_str ''model_type'' kvs,
                 field_req json_as_f64 ''size_gb'' kvs, field_req json_as_str ''architecture'' kvs,
                 field_req json_as_str ''description'' kvs, field_req dec_i32 ''min_ram_gb'' kvs) of
             (Some i, Some s, Some d, Some t, Some sz, Some a, Some ds, Some r) \<Rightarrow>
               Some \<lparr>cm_id = i, cm_s3_name = s, cm_display_name = d, cm_model_type = t, cm_size_gb = sz,
                     cm_architecture = a, cm_description = ds, cm_min_ram_gb = r\<rparr>
           | _ \<Rightarrow> None)
      | _ \<Rightarrow> None)"

fun str_split_when :: "(char \<Rightarrow> bool) \<Rightarrow> string \<Rightarrow> string list" where
  "str_split_when p [] = [[]]"
| "str_split_when p (c # s) =
     (if p c then [] # str_split_when p s
      else case str_split_when p s of [] \<Rightarrow> [[c]] | t # ts \<Rightarrow> (c # t) # ts)"

definition is_ascii_alphanumeric :: "char \<Rightarrow> bool" where
  "is_ascii_alphanumeric c \<longleftrightarrow> byte_in 48 57 c \<or> byte_in 65 90 c \<or> byte_in 97 122 c"

definition contains_retired_provider_model_token :: "string \<Rightarrow> bool" where
  "contains_retired_provider_model_token value \<longleftrightarrow>
     list_ex (\<lambda>token. token = ''cohere'' \<or> token = ''coherelabs'' \<or> token = ''flux'' \<or> starts_with token ''flux'')
       (str_split_when (\<lambda>c. \<not> is_ascii_alphanumeric c) (to_lowercase value))"

definition is_retired_provider_model :: "catalog_model \<Rightarrow> bool" where
  "is_retired_provider_model model \<longleftrightarrow>
     list_ex contains_retired_provider_model_token [cm_id model, cm_s3_name model, cm_display_name model]"

definition filter_provider_catalog :: "catalog_model list \<Rightarrow> catalog_model list" where
  "filter_provider_catalog models = filter (\<lambda>m. \<not> is_retired_provider_model m) models"

definition builtin_catalog :: "catalog_model list" where
  "builtin_catalog =
     [\<lparr>cm_id = ''qwen3.5-27b-claude-opus-8bit'', cm_s3_name = ''qwen35-27b-claude-opus-8bit'',
       cm_display_name = ''Qwen3.5 27B Claude Opus'', cm_model_type = ''text'', cm_size_gb = f64_of_int 27,
       cm_architecture = ''27B dense, Claude Opus distilled'', cm_description = ''Frontier quality reasoning'',
       cm_min_ram_gb = 36\<rparr>,
      \<lparr>cm_id = ''mlx-community/Trinity-Mini-8bit'', cm_s3_name = ''Trinity-Mini-8bit'',
       cm_display_name = ''Trinity Mini'', cm_model_type = ''text'', cm_size_gb = f64_of_int 26,
       cm_architecture = ''27B Adaptive MoE'', cm_description = ''Fast agentic inference'',
       cm_min_ram_gb = 48\<rparr>,
      \<lparr>cm_id = ''mlx-community/gemma-4-26b-a4b-it-8bit'', cm_s3_name = ''gemma-4-26b-a4b-it-8bit'',
       cm_display_name = ''Gemma 4 26B'', cm_model_type = ''text'', cm_size_gb = f64_of_int 28,
       cm_architecture = ''26B MoE, 4B active'', cm_description = ''Fast multimodal MoE'',
       cm_min_ram_gb = 36\<rparr>,
      \<lparr>cm_id = ''mlx-community/Qwen3.5-122B-A10B-8bit'', cm_s3_name = ''Qwen3.5-122B-A10B-8bit'',
       cm_display_name = ''Qwen3.5 122B'', cm_model_type = ''text'', cm_size_gb = f64_of_int 122,
       cm_architecture = ''122B MoE, 10B active'', cm_description = ''Best quality'',
       cm_min_ram_gb = 128\<rparr>,
      \<lparr>cm_id = ''mlx-community/MiniMax-M2.5-8bit'', cm_s3_name = ''MiniMax-M2.5-8bit'',
       cm_display_name = ''MiniMax M2.5'', cm_model_type = ''text'', cm_size_gb = f64_of_int 243,
       cm_architecture = ''239B MoE, 11B active'', cm_description = ''SOTA coding, 100 tok/s'',
       cm_min_ram_gb = 256\<rparr>]"

definition fallback_catalog :: "catalog_model list" where
  "fallback_catalog = filter_provider_catalog builtin_catalog"

definition catalog_model_matches :: "catalog_model \<Rightarrow> string \<Rightarrow> bool" where
  "catalog_model_matches model selector \<longleftrightarrow>
     cm_id model = selector \<or> cm_s3_name model = selector \<or> cm_display_name model = selector"

definition model_cache_dir :: "string option \<Rightarrow> string \<Rightarrow> string" where
  "model_cache_dir home model_id =
     (case home of None \<Rightarrow> [] | Some h \<Rightarrow> h @ ''/'') @ ''.cache/huggingface/hub/models--''
     @ str_replace model_id ''/'' ''--'' @ ''/snapshots/main''"

section \<open>Asking the coordinator\<close>

text \<open>An HTTP answer: the status and the JSON body when it parses; \<open>None\<close> when the request failed.\<close>

type_synonym http_json = "(nat \<times> json option) option"

definition http_ok_status :: "nat \<Rightarrow> bool" where
  "http_ok_status status \<longleftrightarrow> 200 \<le> status \<and> status < 300"

definition ws_to_http :: "string \<Rightarrow> string" where
  "ws_to_http url =
     str_replace (str_replace (str_replace url ''wss://'' ''https://'') ''ws://'' ''http://'') ''/ws/provider'' []"

definition coordinator_http_base :: "string \<Rightarrow> string" where
  "coordinator_http_base url = trim_end_matches (CHR ''/'') (ws_to_http url)"

definition dec_catalog_response :: "json \<Rightarrow> catalog_model list option" where
  "dec_catalog_response v =
     (case v of JObj kvs \<Rightarrow> field_req (dec_list dec_catalog_model) ''models'' kvs | _ \<Rightarrow> None)"

definition fetch_catalog :: "(string \<Rightarrow> http_json) \<Rightarrow> string \<Rightarrow> catalog_model list" where
  "fetch_catalog get coordinator_url =
     (case get (ws_to_http coordinator_url @ ''/v1/models/catalog'') of
        Some (status, body) \<Rightarrow>
          if http_ok_status status
          then (case Option.bind body dec_catalog_response of
                  Some ms \<Rightarrow>
                    let models = filter_provider_catalog ms in
                    if models \<noteq> [] then models else fallback_catalog
                | None \<Rightarrow> fallback_catalog)
          else fallback_catalog
      | None \<Rightarrow> fallback_catalog)"

section \<open>Trust records\<close>

record coordinator_provider_trust =
  pt_provider_id :: string
  pt_serial_number :: string
  pt_trust_level :: string
  pt_status :: string
  pt_mdm_verified :: bool
  pt_acme_verified :: bool
  pt_mda_verified :: bool
  pt_secure_enclave :: bool
  pt_sip_enabled :: bool
  pt_secure_boot_enabled :: bool
  pt_authenticated_root_enabled :: bool

definition dec_provider_trust :: "json \<Rightarrow> coordinator_provider_trust option" where
  "dec_provider_trust v =
     (case v of
        JObj kvs \<Rightarrow>
          let s = (\<lambda>k. field_default [] json_as_str k kvs); b = (\<lambda>k. field_default False json_as_bool k kvs)
          in (case ((s ''provider_id'', s ''serial_number'', s ''trust_level'', s ''status''),
                    (b ''mdm_verified'', b ''acme_verified'', b ''mda_verified'', b ''secure_enclave''),
                    b ''sip_enabled'', b ''secure_boot_enabled'', b ''authenticated_root_enabled'') of
                ((Some i, Some n, Some t, Some st), (Some mdm, Some acme, Some mda, Some se), Some sip, Some sb, Some ar) \<Rightarrow>
                  Some \<lparr>pt_provider_id = i, pt_serial_number = n, pt_trust_level = t, pt_status = st,
                        pt_mdm_verified = mdm, pt_acme_verified = acme, pt_mda_verified = mda, pt_secure_enclave = se,
                        pt_sip_enabled = sip, pt_secure_boot_enabled = sb, pt_authenticated_root_enabled = ar\<rparr>
              | _ \<Rightarrow> None)
      | _ \<Rightarrow> None)"

definition is_online :: "coordinator_provider_trust \<Rightarrow> bool" where
  "is_online p \<longleftrightarrow> eq_ignore_ascii_case (pt_status p) ''online''"

definition is_hardware_verified :: "coordinator_provider_trust \<Rightarrow> bool" where
  "is_hardware_verified p \<longleftrightarrow> eq_ignore_ascii_case (pt_trust_level p) ''hardware''"

text \<open>The first eight bytes when they end at a character boundary, else the whole identifier.\<close>

definition short_provider_id :: "coordinator_provider_trust \<Rightarrow> string" where
  "short_provider_id p =
     (let s = pt_provider_id p in
      if length s = 8 \<or> 8 < length s \<and> \<not> byte_in 128 191 (s ! 8) then take 8 s else s)"

datatype ordering = OLess | OEqual | OGreater

definition ord_cmp :: "'a::linorder \<Rightarrow> 'a \<Rightarrow> ordering" where
  "ord_cmp a b = (if a < b then OLess else if a = b then OEqual else OGreater)"

definition then_with :: "ordering \<Rightarrow> ordering \<Rightarrow> ordering" where
  "then_with a b = (if a = OEqual then b else a)"

text \<open>Text compares byte by byte.\<close>

fun str_cmp :: "string \<Rightarrow> string \<Rightarrow> ordering" where
  "str_cmp [] [] = OEqual"
| "str_cmp [] (_ # _) = OLess"
| "str_cmp (_ # _) [] = OGreater"
| "str_cmp (c # s) (d # t) = then_with (ord_cmp (of_char c :: nat) (of_char d)) (str_cmp s t)"

definition prefer_provider_record :: "coordinator_provider_trust \<Rightarrow> coordinator_provider_trust \<Rightarrow> ordering" where
  "prefer_provider_record a b =
     then_with (then_with (ord_cmp (is_hardware_verified b) (is_hardware_verified a)) (ord_cmp (is_online b) (is_online a)))
       (str_cmp (pt_provider_id a) (pt_provider_id b))"

text \<open>\<open>sort_by\<close> is a stable sort.\<close>

fun insert_by :: "('a \<Rightarrow> 'a \<Rightarrow> ordering) \<Rightarrow> 'a \<Rightarrow> 'a list \<Rightarrow> 'a list" where
  "insert_by cmp x [] = [x]"
| "insert_by cmp x (y # ys) = (if cmp x y = OGreater then y # insert_by cmp x ys else x # y # ys)"

definition sort_by :: "('a \<Rightarrow> 'a \<Rightarrow> ordering) \<Rightarrow> 'a list \<Rightarrow> 'a list" where
  "sort_by cmp xs = foldr (insert_by cmp) xs []"

definition fetch_coordinator_provider_trust ::
  "(string \<Rightarrow> http_json) \<Rightarrow> string \<Rightarrow> string \<Rightarrow> coordinator_provider_trust list result" where
  "fetch_coordinator_provider_trust get coordinator_url serial_number =
     (case get (coordinator_http_base coordinator_url @ ''/v1/providers/attestation'') of
        None \<Rightarrow> Err ''failed to query''
      | Some (status, body) \<Rightarrow>
          if \<not> http_ok_status status then Err ''coordinator returned HTTP error''
          else (case Option.bind body (\<lambda>v. case v of
                       JObj kvs \<Rightarrow> field_default [] (dec_list dec_provider_trust) ''providers'' kvs | _ \<Rightarrow> None) of
                  None \<Rightarrow> Err ''failed to parse coordinator attestation response''
                | Some ps \<Rightarrow> Ok (sort_by prefer_provider_record (filter (\<lambda>p. pt_serial_number p = serial_number) ps))))"

section \<open>Lemmas\<close>

lemma builtin_names_current:
  "list_all (\<lambda>s. \<not> contains_retired_provider_model_token s)
     [''qwen3.5-27b-claude-opus-8bit'', ''qwen35-27b-claude-opus-8bit'', ''Qwen3.5 27B Claude Opus'',
      ''mlx-community/Trinity-Mini-8bit'', ''Trinity-Mini-8bit'', ''Trinity Mini'',
      ''mlx-community/gemma-4-26b-a4b-it-8bit'', ''gemma-4-26b-a4b-it-8bit'', ''Gemma 4 26B'',
      ''mlx-community/Qwen3.5-122B-A10B-8bit'', ''Qwen3.5-122B-A10B-8bit'', ''Qwen3.5 122B'',
      ''mlx-community/MiniMax-M2.5-8bit'', ''MiniMax-M2.5-8bit'', ''MiniMax M2.5'']"
  by code_simp

lemma builtin_catalog_current: "filter is_retired_provider_model builtin_catalog = []"
  using builtin_names_current by (simp add: builtin_catalog_def is_retired_provider_model_def)

lemma fallback_catalog_builtin: "fallback_catalog = builtin_catalog"
  using builtin_catalog_current
  by (simp add: fallback_catalog_def filter_provider_catalog_def filter_empty_conv)

section \<open>Comparison functions\<close>

text \<open>What \<open>sort_by\<close> asks of its comparison: a total preorder, told from both sides alike.\<close>

locale comparison =
  fixes cmp :: "'a \<Rightarrow> 'a \<Rightarrow> ordering"
  assumes swap: "cmp a b = OGreater \<longleftrightarrow> cmp b a = OLess"
    and trans: "cmp a b \<noteq> OGreater \<Longrightarrow> cmp b c \<noteq> OGreater \<Longrightarrow> cmp a c \<noteq> OGreater"
begin

lemma insert_by_mset: "mset (insert_by cmp x ys) = add_mset x (mset ys)"
  by (induction ys) auto

lemma sort_by_mset: "mset (sort_by cmp xs) = mset xs"
  by (induction xs) (simp_all add: sort_by_def insert_by_mset)

lemma insert_by_sorted:
  "sorted_wrt (\<lambda>a b. cmp a b \<noteq> OGreater) ys \<Longrightarrow> sorted_wrt (\<lambda>a b. cmp a b \<noteq> OGreater) (insert_by cmp x ys)"
proof (induction ys)
  case (Cons y ys)
  show ?case
  proof (cases "cmp x y = OGreater")
    case True
    then have "cmp y x \<noteq> OGreater"
      using swap[of x y] by auto
    moreover have "set (insert_by cmp x ys) = insert x (set ys)"
      using insert_by_mset[of x ys] by (metis set_mset_add_mset_insert set_mset_mset)
    ultimately show ?thesis
      using Cons True by auto
  next
    case False
    with Cons.prems trans[of x y] show ?thesis by auto
  qed
qed simp

lemma sort_by_sorted: "sorted_wrt (\<lambda>a b. cmp a b \<noteq> OGreater) (sort_by cmp xs)"
  by (induction xs) (simp_all add: sort_by_def insert_by_sorted)

text \<open>The first element of the result is at least as good as every other.\<close>

lemma sort_by_head:
  assumes "sort_by cmp xs = y # ys" and "x \<in> set xs"
  shows "x = y \<or> cmp y x \<noteq> OGreater"
proof -
  have "x \<in> set (y # ys)"
    using assms sort_by_mset[of xs] by (metis set_mset_mset)
  with sort_by_sorted[of xs] show ?thesis
    by (auto simp: assms(1))
qed

end

text \<open>Refining one comparison by another.\<close>

lemma ord_cmp_simps [simp]:
  "ord_cmp a b = OGreater \<longleftrightarrow> b < a" "ord_cmp a b = OLess \<longleftrightarrow> a < b" "ord_cmp a b = OEqual \<longleftrightarrow> a = b"
  by (auto simp: ord_cmp_def)

lemma comparison_then_with:
  fixes f :: "'a \<Rightarrow> 'b::linorder"
  assumes "comparison cmp"
  shows "comparison (\<lambda>a b. then_with (ord_cmp (f a) (f b)) (cmp a b))"
proof
  show "then_with (ord_cmp (f a) (f b)) (cmp a b) = OGreater \<longleftrightarrow> then_with (ord_cmp (f b) (f a)) (cmp b a) = OLess" for a b
    using comparison.swap[OF assms] by (auto simp: then_with_def)
next
  fix a b c
  assume "then_with (ord_cmp (f a) (f b)) (cmp a b) \<noteq> OGreater" "then_with (ord_cmp (f b) (f c)) (cmp b c) \<noteq> OGreater"
  then show "then_with (ord_cmp (f a) (f c)) (cmp a c) \<noteq> OGreater"
    using comparison.trans[OF assms, of a b c] by (auto simp: then_with_def split: if_splits)
qed

lemma str_cmp_swap: "str_cmp s t = OGreater \<longleftrightarrow> str_cmp t s = OLess"
  by (induction s t rule: str_cmp.induct) (auto simp: then_with_def)

lemma str_cmp_trans: "str_cmp s t \<noteq> OGreater \<Longrightarrow> str_cmp t u \<noteq> OGreater \<Longrightarrow> str_cmp s u \<noteq> OGreater"
proof (induction s t arbitrary: u rule: str_cmp.induct)
  case (4 c s d t)
  then show ?case
    by (cases u) (auto simp: then_with_def split: if_splits)
qed (use str_cmp.elims in \<open>auto elim: str_cmp.elims\<close>)

interpretation text_order: comparison str_cmp
  by unfold_locales (rule str_cmp_swap, rule str_cmp_trans)

lemma comparison_image: "comparison cmp \<Longrightarrow> comparison (\<lambda>a b. cmp (f a) (f b))"
  by (auto simp: comparison_def)

lemma prefer_provider_record_unfold:
  "prefer_provider_record = (\<lambda>a b. then_with (ord_cmp (\<not> is_hardware_verified a) (\<not> is_hardware_verified b))
     (then_with (ord_cmp (\<not> is_online a) (\<not> is_online b)) (str_cmp (pt_provider_id a) (pt_provider_id b))))"
  by (intro ext) (auto simp: prefer_provider_record_def then_with_def ord_cmp_def)

interpretation trust_order: comparison prefer_provider_record
  unfolding prefer_provider_record_unfold
  by (rule comparison_then_with, rule comparison_then_with, rule comparison_image, rule text_order.comparison_axioms)

section \<open>Properties\<close>

text \<open>Whatever the coordinator answers, the catalog the provider works with is not empty and holds
  no retired model; a successful answer with a current model is used as it is, without its retired
  models.\<close>

theorem fetch_catalog_usable:
  "fetch_catalog get url \<noteq> [] \<and> list_all (\<lambda>m. \<not> is_retired_provider_model m) (fetch_catalog get url) \<and>
   (fetch_catalog get url = fallback_catalog \<or>
      (\<exists>status v ms. get (ws_to_http url @ ''/v1/models/catalog'') = Some (status, Some v) \<and> http_ok_status status \<and>
         dec_catalog_response v = Some ms \<and> fetch_catalog get url = filter_provider_catalog ms))"
proof -
  have current: "list_all (\<lambda>m. \<not> is_retired_provider_model m) (filter_provider_catalog ms)" for ms
    by (simp add: filter_provider_catalog_def list_all_iff)
  have "fallback_catalog \<noteq> []"
    unfolding fallback_catalog_builtin by (simp add: builtin_catalog_def)
  with current show ?thesis
    by (auto simp: fetch_catalog_def Let_def fallback_catalog_def bind_eq_Some_conv split: option.split)
qed

text \<open>The trust records of a machine are exactly the coordinator's records with its serial number,
  and when any of them is hardware verified the first one is.\<close>

theorem trust_records_best_first:
  assumes "fetch_coordinator_provider_trust get url serial = Ok ps"
  shows "(\<exists>status kvs all. get (coordinator_http_base url @ ''/v1/providers/attestation'') = Some (status, Some (JObj kvs)) \<and>
      field_default [] (dec_list dec_provider_trust) ''providers'' kvs = Some all \<and>
      mset ps = mset (filter (\<lambda>p. pt_serial_number p = serial) all)) \<and>
    sorted_wrt (\<lambda>a b. prefer_provider_record a b \<noteq> OGreater) ps \<and>
    (\<forall>p \<in> set ps. is_hardware_verified p \<longrightarrow> is_hardware_verified (hd ps))"
proof -
  from assms obtain status kvs all where a:
      "get (coordinator_http_base url @ ''/v1/providers/attestation'') = Some (status, Some (JObj kvs))"
      "field_default [] (dec_list dec_provider_trust) ''providers'' kvs = Some all"
      and ps: "ps = sort_by prefer_provider_record (filter (\<lambda>p. pt_serial_number p = serial) all)"
    by (auto simp: fetch_coordinator_provider_trust_def bind_eq_Some_conv split: option.splits if_splits json.splits prod.splits)
  have "is_hardware_verified (hd ps)" if p: "p \<in> set ps" "is_hardware_verified p" for p
  proof -
    obtain q qs where q: "ps = q # qs" using p by (cases ps) auto
    have "p \<in> set (filter (\<lambda>p. pt_serial_number p = serial) all)"
      using p(1) trust_order.sort_by_mset[of "filter (\<lambda>p. pt_serial_number p = serial) all"] ps
      by (metis set_mset_mset)
    from trust_order.sort_by_head[OF _ this] q ps have "p = q \<or> prefer_provider_record q p \<noteq> OGreater" by simp
    with p(2) q show ?thesis
      by (auto simp: prefer_provider_record_unfold then_with_def split: if_splits)
  qed
  then show ?thesis
    using a ps trust_order.sort_by_mset trust_order.sort_by_sorted by auto
qed

definition demo_trust :: "string \<Rightarrow> string \<Rightarrow> json" where
  "demo_trust i level = JObj [(''provider_id'', JStr i), (''serial_number'', JStr ''S''), (''trust_level'', JStr level)]"

theorem trust_records_best_first_witness:
  "\<exists>ps. fetch_coordinator_provider_trust
       (\<lambda>_. Some (200, Some (JObj [(''providers'', JArr [demo_trust ''a'' ''none'', demo_trust ''b'' ''hardware''])]))) ''u'' ''S'' = Ok ps \<and>
     length ps = 2 \<and> is_hardware_verified (hd ps)"
proof -
  let ?get = "\<lambda>_. Some (200, Some (JObj [(''providers'', JArr [demo_trust ''a'' ''none'', demo_trust ''b'' ''hardware''])]))"
  have "map_sum id (map pt_provider_id) (fetch_coordinator_provider_trust ?get ''u'' ''S'') = Ok [''b'', ''a'']"
    by code_simp
  then obtain ps where ps: "fetch_coordinator_provider_trust ?get ''u'' ''S'' = Ok ps" "map pt_provider_id ps = [''b'', ''a'']"
    by (cases "fetch_coordinator_provider_trust ?get ''u'' ''S''") auto
  have "list_ex is_hardware_verified ps"
  proof -
    have "map_sum id (list_ex is_hardware_verified) (fetch_coordinator_provider_trust ?get ''u'' ''S'') = Ok True"
      by code_simp
    with ps show ?thesis by simp
  qed
  with trust_records_best_first[OF ps(1)] have "is_hardware_verified (hd ps)"
    by (auto simp: list_ex_iff)
  moreover have "length ps = 2" using ps(2) by auto
  ultimately show ?thesis using ps(1) by blast
qed

end
