(* ===== verification/Download.thy ===== *)
theory Download
  imports Catalog
begin

text \<open>
  Downloading model files (\<open>main.rs\<close>): the resuming download with four attempts, and the download of a
  whole model from the content delivery network, single weight file or shards. The server's answers,
  the results of \<open>curl\<close> and failing writes are observations; the progress display is left out.
\<close>

section \<open>One file\<close>

text \<open>An answer: the status and the pieces of the body; \<open>None\<close> marks the point where the stream breaks.\<close>

record http_reply =
  hr_status :: nat
  hr_body :: "bytes option list"

text \<open>How local file operations go: whether the file opens in attempt \<open>i\<close>, and, when writing piece
  \<open>k\<close> of attempt \<open>i\<close> fails, how many of its bytes were written before.\<close>

record file_obs =
  fo_open_ok :: "nat \<Rightarrow> bool"
  fo_write_fails :: "nat \<Rightarrow> nat \<Rightarrow> nat option"

datatype receive_end = Received | StreamFailed | WriteFailed

fun receive :: "(nat \<Rightarrow> nat option) \<Rightarrow> nat \<Rightarrow> bytes \<Rightarrow> bytes option list \<Rightarrow> receive_end \<times> bytes" where
  "receive fails k content [] = (Received, content)"
| "receive fails k content (None # body) = (StreamFailed, content)"
| "receive fails k content (Some chunk # body) =
     (case fails k of
        Some n \<Rightarrow> (WriteFailed, content @ take n chunk)
      | None \<Rightarrow> receive fails (Suc k) (content @ chunk) body)"

definition max_retries :: nat where "max_retries = 3"

text \<open>The \<open>Range\<close> header: from the end of what is there already.\<close>

definition resume_from :: "bytes option \<Rightarrow> nat option" where
  "resume_from dest =
     (let existing_bytes = (case dest of None \<Rightarrow> 0 | Some c \<Rightarrow> length c)
      in if existing_bytes > 0 then Some existing_bytes else None)"

text \<open>The loop over the attempts still to make. \<open>dest\<close> is the file's content, if it exists; a resumed
  answer (206) is appended and needs the file to exist.\<close>

fun download_attempts ::
  "(nat \<Rightarrow> nat option \<Rightarrow> http_reply option) \<Rightarrow> file_obs \<Rightarrow> nat list \<Rightarrow> bytes option \<Rightarrow> bool \<times> bytes option" where
  "download_attempts server ob [] dest = (False, dest)"
| "download_attempts server ob (attempt # attempts) dest =
     (case server attempt (resume_from dest) of
           None \<Rightarrow> download_attempts server ob attempts dest
         | Some resp \<Rightarrow>
             if \<not> (http_ok_status (hr_status resp) \<or> hr_status resp = 206) then download_attempts server ob attempts dest
             else
               let is_resume = (hr_status resp = 206) in
               if \<not> fo_open_ok ob attempt \<or> (is_resume \<and> dest = None) then (False, dest)
               else
                 let start = (if is_resume then (case dest of None \<Rightarrow> [] | Some c \<Rightarrow> c) else []) in
                 case receive (fo_write_fails ob attempt) 0 start (hr_body resp) of
                   (WriteFailed, c) \<Rightarrow> (False, Some c)
                 | (StreamFailed, c) \<Rightarrow>
                     if attempt < max_retries then download_attempts server ob attempts (Some c) else (False, Some c)
                 | (Received, c) \<Rightarrow> (True, Some c))"

definition download_file_async ::
  "(nat \<Rightarrow> nat option \<Rightarrow> http_reply option) \<Rightarrow> file_obs \<Rightarrow> bytes option \<Rightarrow> bool \<times> bytes option" where
  "download_file_async server ob dest = download_attempts server ob [0..<Suc max_retries] dest"

section \<open>A model\<close>

text \<open>What a run of \<open>curl\<close> gives: whether it succeeds, and what it leaves in the output file.\<close>

type_synonym curl_result = "(bool \<times> bytes option) option"

type_synonym files = "string \<Rightarrow> bytes option"

record cdn_env =
  ce_runtime :: bool
  ce_curl :: "string \<Rightarrow> curl_result"
  ce_head :: "string \<Rightarrow> bool"
  ce_server :: "string \<Rightarrow> nat \<Rightarrow> nat option \<Rightarrow> http_reply option"
  ce_obs :: "string \<Rightarrow> file_obs"
  ce_json :: "string \<Rightarrow> json option"
  ce_tarball :: "string \<Rightarrow> string \<Rightarrow> files \<Rightarrow> bool \<times> files"

definition default_r2_cdn_url :: string where
  "default_r2_cdn_url = ''https://pub-7cbee059c80c46ec9c071dbee2726f8a.r2.dev''"

text \<open>Joining an absolute path discards the directory.\<close>

definition path_push :: "string \<Rightarrow> string \<Rightarrow> string" where
  "path_push dir name = (if starts_with name ''/'' then name else dir @ ''/'' @ name)"

definition curl_to :: "cdn_env \<Rightarrow> string \<Rightarrow> string \<Rightarrow> files \<Rightarrow> bool \<times> files" where
  "curl_to env url path fs =
     (case ce_curl env url of
        None \<Rightarrow> (False, fs)
      | Some (ok, out) \<Rightarrow> (ok, case out of None \<Rightarrow> fs | Some c \<Rightarrow> fs(path \<mapsto> c)))"

definition download_file_with_progress :: "cdn_env \<Rightarrow> string \<Rightarrow> string \<Rightarrow> files \<Rightarrow> bool \<times> files" where
  "download_file_with_progress env url path fs =
     (if ce_runtime env
      then (case download_file_async (ce_server env url) (ce_obs env url) (fs path) of (ok, c) \<Rightarrow> (ok, fs(path := c)))
      else curl_to env url path fs)"

definition tokenizer_files :: "string list" where
  "tokenizer_files = [''tokenizer.json'', ''tokenizer_config.json'', ''special_tokens_map.json'']"

definition add_shard :: "string \<times> json \<Rightarrow> string list \<Rightarrow> string list" where
  "add_shard entry shards =
     (case json_as_str (snd entry) of
        Some f \<Rightarrow> if f \<in> set shards then shards else shards @ [f]
      | None \<Rightarrow> shards)"

definition index_shards :: "json \<Rightarrow> string list" where
  "index_shards index =
     (case json_get_as json_as_object ''weight_map'' index of
        None \<Rightarrow> []
      | Some entries \<Rightarrow> sort_by str_cmp (fold add_shard entries []))"

fun download_shards :: "cdn_env \<Rightarrow> string \<Rightarrow> string \<Rightarrow> string list \<Rightarrow> files \<Rightarrow> bool \<times> files" where
  "download_shards env base dir [] fs = (True, fs)"
| "download_shards env base dir (shard # shards) fs =
     (case download_file_with_progress env (base @ ''/'' @ shard) (path_push dir shard) fs of
        (False, fs') \<Rightarrow> (False, fs')
      | (True, fs') \<Rightarrow> download_shards env base dir shards fs')"

definition sharded_model :: "cdn_env \<Rightarrow> string \<Rightarrow> string \<Rightarrow> files \<Rightarrow> bool \<times> files" where
  "sharded_model env base dir fs =
     (let index_path = path_push dir ''model.safetensors.index.json'' in
      case curl_to env (base @ ''/model.safetensors.index.json'') index_path fs of
        (False, fs1) \<Rightarrow> (False, fs1)
      | (True, fs1) \<Rightarrow>
          (case fs1 index_path of
             None \<Rightarrow> (False, fs1)
           | Some data \<Rightarrow>
               if \<not> utf8_valid (bytes_str data) then (False, fs1)
               else (case ce_json env (bytes_str data) of
                  None \<Rightarrow> (False, fs1)
                | Some index_json \<Rightarrow>
                    let shards = index_shards index_json in
                    if shards = [] then (False, fs1) else download_shards env base dir shards fs1)))"

definition download_model_from_cdn :: "cdn_env \<Rightarrow> string \<Rightarrow> string \<Rightarrow> files \<Rightarrow> bool \<times> files" where
  "download_model_from_cdn env s3_name dir fs =
     (let base = default_r2_cdn_url @ ''/'' @ s3_name in
      case curl_to env (base @ ''/config.json'') (path_push dir ''config.json'') fs of
        (False, fs1) \<Rightarrow> (False, fs1)
      | (True, fs1) \<Rightarrow>
          let fs2 = fold (\<lambda>f fs. snd (curl_to env (base @ ''/'' @ f) (path_push dir f) fs)) tokenizer_files fs1 in
          if ce_head env (base @ ''/model.safetensors'')
          then (case download_file_with_progress env (base @ ''/model.safetensors'') (path_push dir ''model.safetensors'') fs2 of
                  (True, fs3) \<Rightarrow> (True, fs3)
                | (False, fs3) \<Rightarrow> sharded_model env base dir fs3)
          else sharded_model env base dir fs2)"

definition download_catalog_model :: "cdn_env \<Rightarrow> string option \<Rightarrow> bool \<Rightarrow> catalog_model \<Rightarrow> string \<Rightarrow> files \<Rightarrow> unit result \<times> files" where
  "download_catalog_model env home create_dir_ok model coordinator_base_url fs =
     (let dir = model_cache_dir home (cm_id model) in
      if \<not> create_dir_ok then (Err ''failed to create'', fs)
      else case ce_tarball env (coordinator_base_url @ ''/dl/models/'' @ cm_s3_name model @ ''.tar.gz'') dir fs of
        (True, fs1) \<Rightarrow> (Ok (), fs1)
      | (False, fs1) \<Rightarrow>
          (case download_model_from_cdn env (cm_s3_name model) dir fs1 of
             (True, fs2) \<Rightarrow> (Ok (), fs2)
           | (False, fs2) \<Rightarrow> (Err (''Failed to download '' @ cm_display_name model), fs2)))"

section \<open>Downloading from a server that serves one content\<close>

text \<open>The pieces before the first break, and whether there is a break.\<close>

fun received :: "bytes option list \<Rightarrow> bytes" where
  "received [] = []"
| "received (None # body) = []"
| "received (Some c # body) = c @ received body"

definition broken :: "bytes option list \<Rightarrow> bool" where
  "broken body \<longleftrightarrow> None \<in> set body"

text \<open>An honest answer to a request from byte \<open>n\<close> on: a 206 carries the rest of the content, any other
  success the whole content, each up to a break.\<close>

definition honest_reply :: "bytes \<Rightarrow> nat option \<Rightarrow> http_reply \<Rightarrow> bool" where
  "honest_reply content rng resp \<longleftrightarrow>
     (if hr_status resp = 206
      then (case rng of
              None \<Rightarrow> False
            | Some n \<Rightarrow> prefix (received (hr_body resp)) (drop n content) \<and>
                (broken (hr_body resp) \<or> received (hr_body resp) = drop n content))
      else \<not> http_ok_status (hr_status resp) \<or>
        (prefix (received (hr_body resp)) content \<and> (broken (hr_body resp) \<or> received (hr_body resp) = content)))"

definition honest_server :: "bytes \<Rightarrow> (nat \<Rightarrow> nat option \<Rightarrow> http_reply option) \<Rightarrow> bool" where
  "honest_server content server \<longleftrightarrow> (\<forall>i r. pred_option (honest_reply content r) (server i r))"

definition part_of :: "bytes option \<Rightarrow> bytes \<Rightarrow> bool" where
  "part_of dest content \<longleftrightarrow> pred_option (\<lambda>c. prefix c content) dest"

lemma receive_content:
  "receive fails k c body = (e, c') \<Longrightarrow>
     \<exists>p. prefix p (received body) \<and> c' = c @ p \<and> (e = Received \<longrightarrow> p = received body \<and> \<not> broken body)"
proof (induction fails k c body arbitrary: c' rule: receive.induct)
  case (3 fails k c chunk body)
  show ?case
  proof (cases "fails k")
    case None
    with 3 obtain p where "prefix p (received body)" "c' = (c @ chunk) @ p"
        "e = Received \<longrightarrow> p = received body \<and> \<not> broken body"
      by fastforce
    then show ?thesis
      by (intro exI[of _ "chunk @ p"]) (auto simp: broken_def)
  next
    case (Some n)
    with 3 show ?thesis
      by (intro exI[of _ "take n chunk"]) (auto intro: prefix_prefix[OF take_is_prefix])
  qed
qed (auto simp: broken_def)

lemma prefix_append_drop:
  assumes "prefix c content" "prefix p (drop (length c) content)"
  shows "prefix (c @ p) content"
proof -
  from assms(1) obtain r where "content = c @ r" by (auto elim: prefixE)
  with assms(2) show ?thesis by simp
qed

lemma attempt_content:
  assumes "honest_reply content (resume_from dest) resp" "part_of dest content"
    and "http_ok_status (hr_status resp) \<or> hr_status resp = 206" "\<not> (hr_status resp = 206 \<and> dest = None)"
    and "receive fails 0 (if hr_status resp = 206 then (case dest of None \<Rightarrow> [] | Some c \<Rightarrow> c) else []) (hr_body resp) = (e, c')"
  shows "prefix c' content \<and> (e = Received \<longrightarrow> c' = content)"
proof (cases "hr_status resp = 206")
  case True
  with assms(4) obtain c where c: "dest = Some c" by auto
  with True assms(1) have n: "resume_from dest = Some (length c)"
    by (auto simp: honest_reply_def resume_from_def Let_def split: if_splits)
  from receive_content[OF assms(5)] True c obtain p where p: "prefix p (received (hr_body resp))" "c' = c @ p"
      "e = Received \<longrightarrow> p = received (hr_body resp) \<and> \<not> broken (hr_body resp)"
    by auto
  have pc: "prefix c content" using assms(2) c by (simp add: part_of_def)
  then obtain r where r: "content = c @ r" by (auto elim: prefixE)
  with assms(1) True n have h: "prefix (received (hr_body resp)) r"
      "broken (hr_body resp) \<or> received (hr_body resp) = r"
    by (simp_all add: honest_reply_def)
  have "prefix p r" using p(1) h(1) by (rule prefix_order.trans)
  with p r h(2) show ?thesis by auto
next
  case False
  from receive_content[OF assms(5)] False obtain p where p: "prefix p (received (hr_body resp))" "c' = p"
      "e = Received \<longrightarrow> p = received (hr_body resp) \<and> \<not> broken (hr_body resp)"
    by auto
  from assms(1,3) False have "prefix (received (hr_body resp)) content"
      "broken (hr_body resp) \<or> received (hr_body resp) = content"
    by (simp_all add: honest_reply_def)
  with p show ?thesis by (auto intro: prefix_order.trans)
qed

text \<open>One attempt, by how it ends.\<close>

lemma download_attempts_step:
  assumes "download_attempts server ob (attempt # attempts) dest = (ok, dest')"
  obtains (retry) "download_attempts server ob attempts dest = (ok, dest')"
  | (no_file) "\<not> ok" "dest' = dest"
  | (got) resp e c where "server attempt (resume_from dest) = Some resp" "http_ok_status (hr_status resp) \<or> hr_status resp = 206"
      "\<not> (hr_status resp = 206 \<and> dest = None)"
      "receive (fo_write_fails ob attempt) 0
         (if hr_status resp = 206 then (case dest of None \<Rightarrow> [] | Some c \<Rightarrow> c) else []) (hr_body resp) = (e, c)"
      "e = Received \<and> ok \<and> dest' = Some c \<or> e \<noteq> Received \<and> \<not> ok \<and> dest' = Some c \<or>
       download_attempts server ob attempts (Some c) = (ok, dest')"
proof (cases "server attempt (resume_from dest)")
  case None
  with assms show thesis by (intro retry) (simp add: Let_def)
next
  case (Some resp)
  obtain e c where rc: "receive (fo_write_fails ob attempt) 0
      (if hr_status resp = 206 then (case dest of None \<Rightarrow> [] | Some c \<Rightarrow> c) else []) (hr_body resp) = (e, c)"
    by fastforce
  show thesis
  proof (cases "(http_ok_status (hr_status resp) \<or> hr_status resp = 206) \<and> fo_open_ok ob attempt \<and>
      \<not> (hr_status resp = 206 \<and> dest = None)")
    case True
    have "e = Received \<and> ok \<and> dest' = Some c \<or> e \<noteq> Received \<and> \<not> ok \<and> dest' = Some c \<or>
       download_attempts server ob attempts (Some c) = (ok, dest')"
      using assms Some True rc by (cases e) (auto simp: Let_def split: if_splits)
    with Some True rc show thesis by (intro got) auto
  next
    case False
    with assms Some retry no_file show thesis by (auto simp: Let_def split: if_splits)
  qed
qed

text \<open>The content on disk is always a beginning of the served content, and all of it on success.\<close>

lemma download_attempts_content:
  assumes "honest_server content server"
  shows "part_of dest content \<Longrightarrow> download_attempts server ob attempts dest = (ok, dest') \<Longrightarrow>
     part_of dest' content \<and> (ok \<longrightarrow> dest' = Some content)"
proof (induction attempts arbitrary: dest)
  case (Cons attempt attempts)
  from Cons.prems(2) show ?case
  proof (cases rule: download_attempts_step)
    case (got resp e c)
    with assms have "honest_reply content (resume_from dest) resp"
      by (auto simp: honest_server_def pred_option_def)
    from attempt_content[OF this Cons.prems(1) got(2-4)] got(5) Cons.IH[of "Some c"] show ?thesis
      by (auto simp: part_of_def)
  qed (use Cons in auto)
qed simp

section \<open>A download finishes\<close>

text \<open>A file system without failures, an answer that completes the content, and an answer that
  breaks off before the last byte.\<close>

definition writable :: "file_obs \<Rightarrow> bool" where
  "writable ob \<longleftrightarrow> (\<forall>i. fo_open_ok ob i) \<and> (\<forall>i k. fo_write_fails ob i k = None)"

definition completes :: "bytes \<Rightarrow> (nat option \<Rightarrow> http_reply option) \<Rightarrow> bool" where
  "completes content answer \<longleftrightarrow>
     (\<forall>r. (case r of None \<Rightarrow> True | Some n \<Rightarrow> n < length content) \<longrightarrow>
        (\<exists>resp. answer r = Some resp \<and> http_ok_status (hr_status resp) \<and> \<not> broken (hr_body resp)))"

definition wanted :: "bytes \<Rightarrow> nat option \<Rightarrow> http_reply \<Rightarrow> bytes" where
  "wanted content r resp = (case r of None \<Rightarrow> content | Some n \<Rightarrow> if hr_status resp = 206 then drop n content else content)"

definition breaks_early :: "bytes \<Rightarrow> (nat option \<Rightarrow> http_reply option) \<Rightarrow> bool" where
  "breaks_early content answer \<longleftrightarrow>
     (\<forall>r. pred_option (\<lambda>resp. broken (hr_body resp) \<longrightarrow> received (hr_body resp) \<noteq> wanted content r resp) (answer r))"

lemma receive_writable:
  "\<forall>k. fails k = None \<Longrightarrow> receive fails k c body = (if broken body then StreamFailed else Received, c @ received body)"
  by (induction fails k c body rule: receive.induct) (auto simp: broken_def)

definition after_attempt :: "bytes option \<Rightarrow> http_reply \<Rightarrow> bytes" where
  "after_attempt dest resp =
     (if hr_status resp = 206 then (case dest of None \<Rightarrow> [] | Some c \<Rightarrow> c) else []) @ received (hr_body resp)"

lemma attempt_writable:
  assumes "writable ob" "server j (resume_from dest) = Some resp" "http_ok_status (hr_status resp)"
    and "honest_reply content (resume_from dest) resp"
  shows "download_attempts server ob (j # attempts) dest =
     (if \<not> broken (hr_body resp) then (True, Some (after_attempt dest resp))
      else if j < max_retries then download_attempts server ob attempts (Some (after_attempt dest resp))
      else (False, Some (after_attempt dest resp)))"
proof -
  have "\<not> (hr_status resp = 206 \<and> dest = None)"
    using assms(4) by (cases dest) (auto simp: honest_reply_def resume_from_def)
  with assms show ?thesis
    by (cases dest) (simp_all add: receive_writable writable_def after_attempt_def Let_def)
qed

lemma after_attempt_partial:
  assumes "honest_reply content (resume_from dest) resp" "part_of dest content" "http_ok_status (hr_status resp)"
    and "received (hr_body resp) \<noteq> wanted content (resume_from dest) resp"
  shows "prefix (after_attempt dest resp) content \<and> after_attempt dest resp \<noteq> content"
  using assms
  by (auto simp: honest_reply_def after_attempt_def wanted_def part_of_def resume_from_def Let_def prefix_def
      split: if_splits option.splits)

lemma completes_partial:
  assumes "completes content answer" "part_of dest content" "dest \<noteq> Some content"
  obtains resp where "answer (resume_from dest) = Some resp" "http_ok_status (hr_status resp)" "\<not> broken (hr_body resp)"
proof -
  have "case resume_from dest of None \<Rightarrow> True | Some n \<Rightarrow> n < length content"
    using assms(2,3) by (auto simp: resume_from_def part_of_def prefix_def Let_def split: option.split)
  with assms(1) that show thesis by (auto simp: completes_def)
qed

lemma download_attempts_finish:
  assumes h: "honest_server content server" and w: "writable ob"
    and early: "\<forall>j. breaks_early content (server j)" and full: "completes content (server i)" and i: "i \<le> max_retries"
  shows "part_of dest content \<Longrightarrow> dest \<noteq> Some content \<Longrightarrow> i \<in> set attempts \<Longrightarrow> sorted_wrt (<) attempts \<Longrightarrow>
     fst (download_attempts server ob attempts dest)"
proof (induction attempts arbitrary: dest)
  case (Cons j attempts)
  have hr: "honest_reply content (resume_from dest) resp" if "server j (resume_from dest) = Some resp" for resp
    using h that by (auto simp: honest_server_def pred_option_def)
  from full Cons.prems(1,2) obtain good where g: "server i (resume_from dest) = Some good"
      "http_ok_status (hr_status good)" "\<not> broken (hr_body good)"
    by (rule completes_partial)
  show ?case
  proof (cases "\<exists>resp. server j (resume_from dest) = Some resp \<and> http_ok_status (hr_status resp)")
    case True
    then obtain resp where r: "server j (resume_from dest) = Some resp" "http_ok_status (hr_status resp)" by blast
    note step = attempt_writable[of ob server j dest resp content attempts, OF w r hr[OF r(1)]]
    show ?thesis
    proof (cases "broken (hr_body resp)")
      case br: True
      with g r have "j \<noteq> i" by auto
      then have later: "i \<in> set attempts" "j < max_retries" using Cons.prems(3,4) i by auto
      have "received (hr_body resp) \<noteq> wanted content (resume_from dest) resp"
        using early r(1) br by (auto simp: breaks_early_def pred_option_def)
      from after_attempt_partial[OF hr[OF r(1)] Cons.prems(1) r(2) this] step
        Cons.IH[of "Some (after_attempt dest resp)"] later br Cons.prems(4)
      show ?thesis by (simp add: part_of_def del: download_attempts.simps)
    qed (simp add: step del: download_attempts.simps)
  next
    case False
    with g have "j \<noteq> i" by auto
    moreover have "download_attempts server ob (j # attempts) dest = download_attempts server ob attempts dest"
      using False by (cases "server j (resume_from dest)") (auto simp: http_ok_status_def)
    ultimately show ?thesis using Cons by simp
  qed
qed simp

section \<open>Shards\<close>

definition index_files :: "(string \<times> json) list \<Rightarrow> string list" where
  "index_files entries = List.map_filter (\<lambda>e. json_as_str (snd e)) entries"

lemma collect_shards:
  "distinct acc \<Longrightarrow> distinct (fold add_shard entries acc) \<and> set (fold add_shard entries acc) = set acc \<union> set (index_files entries)"
proof (induction entries arbitrary: acc)
  case (Cons e es)
  have "distinct (add_shard e acc)" "set (add_shard e acc) = set acc \<union> set (case json_as_str (snd e) of None \<Rightarrow> [] | Some f \<Rightarrow> [f])"
    using Cons.prems by (auto simp: add_shard_def split: option.split)
  with Cons.IH[of "add_shard e acc"] show ?case
    by (auto simp: index_files_def List.map_filter_simps split: option.splits)
qed (simp add: index_files_def List.map_filter_simps)

lemma sort_by_text_set: "set (sort_by str_cmp xs) = set xs"
  using text_order.sort_by_mset[of xs] by (metis set_mset_mset)

lemma index_shards_spec:
  "distinct (index_shards index) \<and>
   set (index_shards index) = (case json_get_as json_as_object ''weight_map'' index of None \<Rightarrow> {} | Some es \<Rightarrow> set (index_files es))"
proof (cases "json_get_as json_as_object ''weight_map'' index")
  case (Some es)
  have "distinct (sort_by str_cmp (fold add_shard es []))"
    using collect_shards[of "[]" es] mset_eq_imp_distinct_iff[OF text_order.sort_by_mset] by simp
  with Some collect_shards[of "[]" es] show ?thesis
    by (simp add: index_shards_def sort_by_text_set)
qed (simp add: index_shards_def)

lemma download_file_content:
  assumes "ce_runtime env" "honest_server content (ce_server env url)" "part_of (fs path) content"
    and "download_file_with_progress env url path fs = (ok, fs')"
  shows "(ok \<longrightarrow> fs' path = Some content) \<and> (\<forall>p. p \<noteq> path \<longrightarrow> fs' p = fs p)"
  using assms download_attempts_content[OF assms(2,3)]
  by (auto simp: download_file_with_progress_def download_file_async_def split: prod.splits)

lemma download_shards_content:
  assumes "ce_runtime env" and "\<And>url. honest_server (cdn url) (ce_server env url)"
  shows "distinct (map (path_push dir) shards) \<Longrightarrow>
    list_all (\<lambda>s. part_of (fs (path_push dir s)) (cdn (base @ ''/'' @ s))) shards \<Longrightarrow>
    download_shards env base dir shards fs = (True, fs') \<Longrightarrow>
    list_all (\<lambda>s. fs' (path_push dir s) = Some (cdn (base @ ''/'' @ s))) shards \<and>
    (\<forall>p. p \<notin> path_push dir ` set shards \<longrightarrow> fs' p = fs p)"
proof (induction shards arbitrary: fs)
  case (Cons s shards)
  from Cons.prems(3) obtain fs1 where d: "download_file_with_progress env (base @ ''/'' @ s) (path_push dir s) fs = (True, fs1)"
      "download_shards env base dir shards fs1 = (True, fs')"
    by (auto split: prod.splits bool.splits)
  have f: "fs1 (path_push dir s) = Some (cdn (base @ ''/'' @ s))" "\<And>p. p \<noteq> path_push dir s \<Longrightarrow> fs1 p = fs p"
    using download_file_content[OF assms(1,2) _ d(1)] Cons.prems(2) by auto
  have "list_all (\<lambda>s. part_of (fs1 (path_push dir s)) (cdn (base @ ''/'' @ s))) shards"
    using Cons.prems(1,2) f(2) by (auto simp: list_all_iff) (metis imageI)
  with Cons.IH[of fs1] Cons.prems(1) d(2) have r: "list_all (\<lambda>s. fs' (path_push dir s) = Some (cdn (base @ ''/'' @ s))) shards"
      "\<And>p. p \<notin> path_push dir ` set shards \<Longrightarrow> fs' p = fs1 p"
    by auto
  moreover have "fs' (path_push dir s) = fs1 (path_push dir s)"
    using Cons.prems(1) by (intro r(2)) simp
  ultimately show ?case using f by auto
qed simp

lemma path_push_inj: "list_all (\<lambda>s. \<not> starts_with s ''/'') shards \<Longrightarrow> distinct shards \<Longrightarrow> distinct (map (path_push dir) shards)"
  by (auto simp: distinct_map inj_on_def list_all_iff path_push_def)

section \<open>Properties\<close>

text \<open>C24: Resuming is sound: with a server that serves one content, a download that starts from nothing or
  from a beginning of that content leaves a beginning of it, whatever breaks, and all of it when it
  reports success.\<close>

theorem download_resumes:
  assumes "honest_server content server" and "part_of dest content"
    and "download_file_async server ob dest = (ok, dest')"
  shows "part_of dest' content \<and> (ok \<longrightarrow> dest' = Some content)"
  using download_attempts_content[OF assms(1,2)] assms(3) by (simp add: download_file_async_def)

text \<open>And it finishes: when local writes work, broken answers are short of the last byte, and one of
  the four answers is complete, the file ends up whole and success is reported.\<close>

theorem download_finishes:
  assumes "honest_server content server" and "writable ob" and "\<forall>j. breaks_early content (server j)"
    and "i \<le> max_retries" and "completes content (server i)" and "part_of dest content" and "dest \<noteq> Some content"
  shows "download_file_async server ob dest = (True, Some content)"
proof -
  obtain ok dest' where d: "download_file_async server ob dest = (ok, dest')" by fastforce
  have "i \<in> set [0..<Suc max_retries]" "sorted_wrt (<) [0..<Suc max_retries]"
    using assms(4) by (simp_all del: upt_Suc)
  from download_attempts_finish[OF assms(1-3,5,4,6,7) this] d have "ok"
    by (simp add: download_file_async_def)
  with download_attempts_content[OF assms(1,6)] d show ?thesis
    by (simp add: download_file_async_def)
qed


text \<open>A server for the content 1, 2, 3 whose first answer breaks after one byte and which resumes.\<close>

definition demo_content :: bytes where "demo_content = [1, 2, 3]"

definition demo_server :: "nat \<Rightarrow> nat option \<Rightarrow> http_reply option" where
  "demo_server i r =
     Some (case r of
             None \<Rightarrow> \<lparr>hr_status = 200, hr_body = (if i = 0 then [Some [1], None] else [Some demo_content])\<rparr>
           | Some n \<Rightarrow> if n < 3 then \<lparr>hr_status = 206, hr_body = [Some (drop n demo_content)]\<rparr> else \<lparr>hr_status = 416, hr_body = []\<rparr>)"

definition demo_files :: file_obs where
  "demo_files = \<lparr>fo_open_ok = (\<lambda>_. True), fo_write_fails = (\<lambda>_ _. None)\<rparr>"

lemma demo_server_honest: "honest_server demo_content demo_server"
  by (auto simp: honest_server_def honest_reply_def demo_server_def demo_content_def broken_def http_ok_status_def split: option.split)

theorem download_resumes_witness:
  "part_of (snd (download_file_async demo_server demo_files (Some [1, 2]))) demo_content"
  using download_resumes[OF demo_server_honest, of "Some [1, 2]" demo_files]
  by (cases "download_file_async demo_server demo_files (Some [1, 2])") (simp add: part_of_def demo_content_def)

theorem download_finishes_witness:
  "download_file_async demo_server demo_files None = (True, Some demo_content)"
proof (rule download_finishes[OF demo_server_honest, where i = 1])
  show "\<forall>j. breaks_early demo_content (demo_server j)"
    by (auto simp: breaks_early_def demo_server_def demo_content_def broken_def wanted_def split: option.split)
  show "completes demo_content (demo_server 1)"
    by (auto simp: completes_def demo_server_def demo_content_def broken_def http_ok_status_def split: option.split)
qed (simp_all add: writable_def demo_files_def part_of_def max_retries_def)

text \<open>A file that is already whole: the request starts past its end, the server refuses it (416) four times,
  and the download is reported as failed.\<close>

lemma complete_file_fails:
  assumes "content \<noteq> []" "\<And>i n. length content \<le> n \<Longrightarrow> server i (Some n) = Some \<lparr>hr_status = 416, hr_body = []\<rparr>"
  shows "download_file_async server ob (Some content) = (False, Some content)"
proof -
  have "download_attempts server ob attempts (Some content) = (False, Some content)" for attempts
    using assms by (induction attempts) (simp_all add: resume_from_def http_ok_status_def)
  then show ?thesis by (simp add: download_file_async_def)
qed

text \<open>A file left by another version is completed with the new version's end.\<close>

lemma stale_file_mixed: "download_file_async demo_server demo_files (Some [9]) = (True, Some [9, 2, 3])"
  by (simp add: download_file_async_def max_retries_def upt_rec demo_server_def resume_from_def demo_content_def
      demo_files_def http_ok_status_def)

definition demo_cdn :: cdn_env where
  "demo_cdn = \<lparr>ce_runtime = True, ce_curl = (\<lambda>_. Some (True, Some [])), ce_head = (\<lambda>_. False),
     ce_server = (\<lambda>_ _ _. Some \<lparr>hr_status = 200, hr_body = [Some [1]]\<rparr>), ce_obs = (\<lambda>_. demo_files),
     ce_json = (\<lambda>_. Some (JObj [(''weight_map'', JObj [(''w'', JStr ''a''), (''x'', JStr ''a'')])])),
     ce_tarball = (\<lambda>_ _ fs. (False, fs))\<rparr>"


end
