(* ===== verification/Templates.thy ===== *)
theory Templates
  imports Download Security
begin

text \<open>
  Chat templates (\<open>main.rs\<close>): keeping the cache of known templates in step with the hashes of the
  runtime manifest, and giving a model without a template the right one. Files are a map from paths
  to contents; downloads, failing removals and failing copies are observations, and a failed copy or
  write leaves its destination as it is.
\<close>

section \<open>The template cache\<close>

record template_env =
  te_sha256 :: "bytes \<Rightarrow> bytes"
  te_cdn :: cdn_env
  te_remove_ok :: "string \<Rightarrow> bool"
  te_copy_ok :: "string \<Rightarrow> bool"
  te_home :: string

type_synonym manifest_hashes = "string \<Rightarrow> string option"

definition file_hash :: "template_env \<Rightarrow> files \<Rightarrow> string \<Rightarrow> string option" where
  "file_hash env fs path = map_option (sha256_bytes (te_sha256 env)) (fs path)"

definition remove_file :: "template_env \<Rightarrow> string \<Rightarrow> files \<Rightarrow> files" where
  "remove_file env path fs = (if te_remove_ok env path then fs(path := None) else fs)"

definition copy_file :: "template_env \<Rightarrow> string \<Rightarrow> string \<Rightarrow> files \<Rightarrow> files" where
  "copy_file env src dst fs = (if te_copy_ok env dst \<and> fs src \<noteq> None then fs(dst := fs src) else fs)"

definition templates_dir :: "template_env \<Rightarrow> string" where
  "templates_dir env = te_home env @ ''/.darkbloom/templates''"

definition cached_template :: "template_env \<Rightarrow> string \<Rightarrow> string" where
  "cached_template env name = templates_dir env @ ''/'' @ name @ ''.jinja''"

definition template_names :: "string list" where
  "template_names = [''qwen3.5'', ''trinity'', ''gemma4'', ''minimax'']"

definition template_url :: "string \<Rightarrow> string" where
  "template_url name = default_r2_cdn_url @ ''/templates/'' @ name @ ''.jinja''"

text \<open>The part of a turn after a download: a file with the wrong hash is removed.\<close>

definition check_download :: "template_env \<Rightarrow> manifest_hashes \<Rightarrow> string \<Rightarrow> files \<Rightarrow> files" where
  "check_download env hashes name fs =
     (let cached = cached_template env name in
      case (hashes name, file_hash env fs cached) of
        (Some expected, Some actual) \<Rightarrow> if actual \<noteq> expected then remove_file env cached fs else fs
      | _ \<Rightarrow> fs)"

definition fetch_template :: "template_env \<Rightarrow> manifest_hashes \<Rightarrow> string \<Rightarrow> files \<Rightarrow> files" where
  "fetch_template env hashes name fs =
     (case curl_to (te_cdn env) (template_url name) (cached_template env name) fs of
        (True, fs1) \<Rightarrow> check_download env hashes name fs1
      | (False, fs1) \<Rightarrow> fs1)"

definition cache_template :: "template_env \<Rightarrow> manifest_hashes \<Rightarrow> string \<Rightarrow> files \<Rightarrow> files" where
  "cache_template env hashes name fs =
     (let cached = cached_template env name in
      if fs cached \<noteq> None
      then (case hashes name of
              None \<Rightarrow> fs
            | Some expected \<Rightarrow>
                (case file_hash env fs cached of
                   Some actual \<Rightarrow>
                     if actual = expected then fs
                     else fetch_template env hashes name (remove_file env cached fs)
                 | None \<Rightarrow> fetch_template env hashes name fs))
      else fetch_template env hashes name fs)"

definition ensure_templates_cached :: "template_env \<Rightarrow> manifest_hashes \<Rightarrow> files \<Rightarrow> files" where
  "ensure_templates_cached env hashes fs = fold (cache_template env hashes) template_names fs"

section \<open>The template of a model\<close>

definition has_inline_template :: "template_env \<Rightarrow> string \<Rightarrow> files \<Rightarrow> bool" where
  "has_inline_template env model_dir fs \<longleftrightarrow>
     (case fs (path_push model_dir ''tokenizer_config.json'') of
        None \<Rightarrow> False
      | Some content \<Rightarrow>
          utf8_valid (bytes_str content) \<and>
          (case ce_json (te_cdn env) (bytes_str content) of
             None \<Rightarrow> False
           | Some config \<Rightarrow> json_get ''chat_template'' config \<noteq> None))"

definition template_for :: "string \<Rightarrow> string" where
  "template_for model_path =
     (let model_lower = to_lowercase model_path in
      if str_contains model_lower ''gemma'' then ''gemma4''
      else if str_contains model_lower ''trinity'' \<or> str_contains model_lower ''deepseek'' then ''trinity''
      else if str_contains model_lower ''minimax'' then ''minimax''
      else ''qwen3.5'')"

definition verify_template :: "template_env \<Rightarrow> string \<Rightarrow> string \<Rightarrow> manifest_hashes \<Rightarrow> files \<Rightarrow> bool \<times> files" where
  "verify_template env path name hashes fs =
     (case (hashes name, file_hash env fs path) of
        (Some expected, Some actual) \<Rightarrow>
          if actual \<noteq> expected then (False, remove_file env path fs) else (True, fs)
      | _ \<Rightarrow> (True, fs))"

definition hf_url :: "string \<Rightarrow> string option" where
  "hf_url name =
     (if name = ''gemma4'' then Some ''https://huggingface.co/mlx-community/gemma-4-26b-a4b-it-8bit/raw/main/chat_template.jinja''
      else if name = ''trinity'' then Some ''https://huggingface.co/arcee-ai/Trinity-Mini/raw/main/chat_template.jinja''
      else if name = ''minimax'' then Some ''https://huggingface.co/mlx-community/MiniMax-M2.5-8bit/raw/main/chat_template.jinja''
      else None)"

definition qwen_config_url :: string where
  "qwen_config_url = ''https://huggingface.co/Qwen/Qwen3.5-27B/raw/main/tokenizer_config.json''"

text \<open>A download to the model directory that is kept when it verifies, and then also put in the cache.\<close>

definition install_template :: "template_env \<Rightarrow> manifest_hashes \<Rightarrow> string \<Rightarrow> string \<Rightarrow> string \<Rightarrow> files \<Rightarrow> bool \<times> files" where
  "install_template env hashes name url jinja fs =
     (case curl_to (te_cdn env) url jinja fs of
        (False, fs1) \<Rightarrow> (False, fs1)
      | (True, fs1) \<Rightarrow>
          (case verify_template env jinja name hashes fs1 of
             (False, fs2) \<Rightarrow> (False, fs2)
           | (True, fs2) \<Rightarrow> (True, copy_file env jinja (cached_template env name) fs2)))"

text \<open>The Qwen fallback takes the template out of a downloaded tokenizer configuration; here \<open>curl\<close>
  writes to its standard output.\<close>

definition install_qwen_template :: "template_env \<Rightarrow> manifest_hashes \<Rightarrow> string \<Rightarrow> files \<Rightarrow> files" where
  "install_qwen_template env hashes jinja fs =
     (case ce_curl (te_cdn env) qwen_config_url of
        Some (True, Some output) \<Rightarrow>
          (case Option.bind (ce_json (te_cdn env) (bytes_str output)) (json_get_as json_as_str ''chat_template'') of
             None \<Rightarrow> fs
           | Some t \<Rightarrow>
               if \<not> te_copy_ok env jinja then fs
               else (case verify_template env jinja ''qwen3.5'' hashes (fs(jinja \<mapsto> str_bytes t)) of
                  (False, fs1) \<Rightarrow> fs1
                | (True, fs1) \<Rightarrow> copy_file env jinja (cached_template env ''qwen3.5'') fs1))
      | _ \<Rightarrow> fs)"

definition download_template :: "template_env \<Rightarrow> manifest_hashes \<Rightarrow> string \<Rightarrow> string \<Rightarrow> files \<Rightarrow> files" where
  "download_template env hashes name jinja fs =
     (case install_template env hashes name (template_url name) jinja fs of
        (True, fs1) \<Rightarrow> fs1
      | (False, fs1) \<Rightarrow>
          (case hf_url name of
             Some url \<Rightarrow> snd (install_template env hashes name url jinja fs1)
           | None \<Rightarrow> install_qwen_template env hashes jinja fs1))"

definition ensure_chat_template :: "template_env \<Rightarrow> string \<Rightarrow> manifest_hashes \<Rightarrow> files \<Rightarrow> files" where
  "ensure_chat_template env model_path hashes fs =
     (let jinja = path_push model_path ''chat_template.jinja'' in
      if fs jinja \<noteq> None then fs
      else if has_inline_template env model_path fs then fs
      else
        let name = template_for model_path; cached = cached_template env name in
        if fs cached \<noteq> None
        then (case hashes name of
                None \<Rightarrow> copy_file env cached jinja fs
              | Some expected \<Rightarrow>
                  (case file_hash env fs cached of
                     Some actual \<Rightarrow>
                       if actual \<noteq> expected
                       then download_template env hashes name jinja (remove_file env cached fs)
                       else copy_file env cached jinja fs
                   | None \<Rightarrow> download_template env hashes name jinja fs))
        else download_template env hashes name jinja fs)"

section \<open>Lemmas\<close>

text \<open>A template file agrees with the manifest: it is absent, or has the hash the manifest gives.\<close>

definition verified :: "template_env \<Rightarrow> manifest_hashes \<Rightarrow> string \<Rightarrow> string \<Rightarrow> files \<Rightarrow> bool" where
  "verified env hashes name path fs \<longleftrightarrow>
     (case (hashes name, file_hash env fs path) of (Some expected, Some actual) \<Rightarrow> actual = expected | _ \<Rightarrow> True)"

text \<open>Removals work, and a failed \<open>curl\<close> leaves no output.\<close>

definition orderly :: "template_env \<Rightarrow> bool" where
  "orderly env \<longleftrightarrow> (\<forall>p. te_remove_ok env p) \<and> (\<forall>url out. ce_curl (te_cdn env) url = Some (False, out) \<longrightarrow> out = None)"

lemma curl_to_cases:
  assumes "orderly env" "curl_to (te_cdn env) url path fs = (ok, fs')"
  shows "(\<not> ok \<longrightarrow> fs' = fs) \<and> (\<forall>p. p \<noteq> path \<longrightarrow> fs' p = fs p)"
proof (cases "ce_curl (te_cdn env) url")
  case (Some r)
  obtain k out where r: "r = (k, out)" by (cases r)
  have "\<not> k \<Longrightarrow> out = None" using assms(1) Some r by (auto simp: orderly_def)
  with assms(2) Some r show ?thesis by (auto simp: curl_to_def split: option.splits)
qed (use assms in \<open>simp add: curl_to_def\<close>)

lemma verified_absent: "fs path = None \<Longrightarrow> verified env hashes name path fs"
  by (simp add: verified_def file_hash_def split: option.split)

lemma verified_same: "fs' p = fs p \<Longrightarrow> verified env hashes name p fs' = verified env hashes name p fs"
  by (simp add: verified_def file_hash_def)

lemma check_download_verified:
  assumes "orderly env"
  shows "verified env hashes name (cached_template env name) (check_download env hashes name fs)"
    and "p \<noteq> cached_template env name \<Longrightarrow> check_download env hashes name fs p = fs p"
  using assms
  by (auto simp: check_download_def verified_def file_hash_def remove_file_def orderly_def Let_def split: option.split)

lemma fetch_template_verified:
  assumes "orderly env" "verified env hashes name (cached_template env name) fs"
  shows "verified env hashes name (cached_template env name) (fetch_template env hashes name fs)"
    and "p \<noteq> cached_template env name \<Longrightarrow> fetch_template env hashes name fs p = fs p"
proof -
  obtain ok fs1 where c: "curl_to (te_cdn env) (template_url name) (cached_template env name) fs = (ok, fs1)" by fastforce
  note cc = curl_to_cases[OF assms(1) c]
  show "verified env hashes name (cached_template env name) (fetch_template env hashes name fs)"
    using cc assms check_download_verified(1)[OF assms(1)] by (cases ok) (auto simp: fetch_template_def c)
  show "fetch_template env hashes name fs p = fs p" if "p \<noteq> cached_template env name"
    using cc that check_download_verified(2)[OF assms(1)] by (cases ok) (auto simp: fetch_template_def c)
qed

lemma cache_template_verified:
  assumes "orderly env"
  shows "verified env hashes name (cached_template env name) (cache_template env hashes name fs)"
    and "p \<noteq> cached_template env name \<Longrightarrow> cache_template env hashes name fs p = fs p"
proof -
  let ?p = "cached_template env name"
  have rm: "verified env hashes name ?p (remove_file env ?p fs)" "p \<noteq> ?p \<Longrightarrow> remove_file env ?p fs p = fs p" for p
    using assms by (auto simp: orderly_def remove_file_def intro: verified_absent)
  note f = fetch_template_verified[OF assms]
  show "verified env hashes name ?p (cache_template env hashes name fs)"
    using f(1)[OF rm(1)] f(1)[OF verified_absent]
    by (auto simp: cache_template_def Let_def verified_def file_hash_def split: option.splits)
  show "cache_template env hashes name fs p = fs p" if "p \<noteq> ?p"
    using that f(2)[OF rm(1)] f(2)[OF verified_absent] rm(2)[of p]
    by (auto simp: cache_template_def Let_def file_hash_def split: option.splits)
qed

lemma cached_template_inject [simp]: "cached_template env a = cached_template env b \<longleftrightarrow> a = b"
  by (simp add: cached_template_def)

lemma cache_all_verified:
  "orderly env \<Longrightarrow> n \<in> set names \<or> verified env hashes n (cached_template env n) fs \<Longrightarrow>
     verified env hashes n (cached_template env n) (fold (cache_template env hashes) names fs)"
proof (induction names arbitrary: fs)
  case (Cons m names)
  have "n \<in> set names \<or> verified env hashes n (cached_template env n) (cache_template env hashes m fs)"
  proof (cases "m = n")
    case True
    then show ?thesis using cache_template_verified(1)[OF Cons.prems(1)] by simp
  next
    case False
    then have "cache_template env hashes m fs (cached_template env n) = fs (cached_template env n)"
      by (intro cache_template_verified(2)[OF Cons.prems(1)]) auto
    from verified_same[of "cache_template env hashes m fs" "cached_template env n" fs, OF this] Cons.prems(2) False show ?thesis by auto
  qed
  with Cons show ?case by simp
qed simp

section \<open>Properties\<close>

text \<open>After the template cache was refreshed, every cached template the manifest has a hash for is
  absent or has that hash, whatever was in the cache and whatever the network delivered.\<close>

theorem templates_cached_verified:
  assumes "orderly env" and "name \<in> set template_names"
  shows "verified env hashes name (cached_template env name) (ensure_templates_cached env hashes fs)"
  using cache_all_verified[OF assms(1)] assms(2) by (simp add: ensure_templates_cached_def)

text \<open>The same for the template installed in a model directory.\<close>

lemma verify_template_result:
  assumes "orderly env" "verify_template env path name hashes fs = (ok, fs')"
  shows "verified env hashes name path fs'" and "p \<noteq> path \<Longrightarrow> fs' p = fs p" and "ok \<Longrightarrow> fs' = fs"
  using assms
  by (auto simp: verify_template_def verified_def file_hash_def remove_file_def orderly_def split: option.splits if_splits)

lemma install_template_verified:
  assumes "orderly env" "verified env hashes name jinja fs" "jinja \<noteq> cached_template env name"
    and "install_template env hashes name url jinja fs = (ok, fs')"
  shows "verified env hashes name jinja fs'"
proof -
  obtain k fs1 where c: "curl_to (te_cdn env) url jinja fs = (k, fs1)" by fastforce
  obtain v fs2 where v: "verify_template env jinja name hashes fs1 = (v, fs2)" by fastforce
  have "verified env hashes name jinja fs2" by (rule verify_template_result(1)[OF assms(1) v])
  moreover have "\<not> k \<Longrightarrow> fs1 = fs" using curl_to_cases[OF assms(1) c] by simp
  moreover have "fs' = (if \<not> k then fs1 else if \<not> v then fs2 else copy_file env jinja (cached_template env name) fs2)"
    using assms(4) c v by (auto simp: install_template_def)
  moreover have "copy_file env jinja (cached_template env name) fs2 jinja = fs2 jinja"
    using assms(3) by (simp add: copy_file_def)
  ultimately show ?thesis
    using assms(2) verified_same[of "copy_file env jinja (cached_template env name) fs2" jinja fs2]
    by (auto split: if_splits)
qed

lemma install_qwen_template_verified:
  assumes "orderly env" "verified env hashes ''qwen3.5'' jinja fs" "jinja \<noteq> cached_template env ''qwen3.5''"
  shows "verified env hashes ''qwen3.5'' jinja (install_qwen_template env hashes jinja fs)"
proof -
  have "verified env hashes ''qwen3.5'' jinja
      (case verify_template env jinja ''qwen3.5'' hashes (fs(jinja \<mapsto> str_bytes t)) of
         (False, fs1) \<Rightarrow> fs1
       | (True, fs1) \<Rightarrow> copy_file env jinja (cached_template env ''qwen3.5'') fs1)" for t
  proof -
    obtain v fs1 where v: "verify_template env jinja ''qwen3.5'' hashes (fs(jinja \<mapsto> str_bytes t)) = (v, fs1)" by fastforce
    have "copy_file env jinja (cached_template env ''qwen3.5'') fs1 jinja = fs1 jinja"
      using assms(3) by (simp add: copy_file_def)
    with verify_template_result(1)[OF assms(1) v] show ?thesis
      using verified_same[of "copy_file env jinja (cached_template env ''qwen3.5'') fs1" jinja fs1]
      by (cases v) (simp_all add: v)
  qed
  with assms(2) show ?thesis
    by (auto simp: install_qwen_template_def split: option.split bool.split)
qed

lemma download_template_verified:
  assumes "orderly env" "verified env hashes name jinja fs" "jinja \<noteq> cached_template env name" "name \<in> set template_names"
  shows "verified env hashes name jinja (download_template env hashes name jinja fs)"
proof -
  obtain ok fs1 where i: "install_template env hashes name (template_url name) jinja fs = (ok, fs1)" by fastforce
  have v: "verified env hashes name jinja fs1" by (rule install_template_verified[OF assms(1-3) i])
  show ?thesis
  proof (cases "hf_url name")
    case None
    with assms(4) have "name = ''qwen3.5''" by (auto simp: hf_url_def template_names_def)
    with install_qwen_template_verified[OF assms(1), of hashes jinja fs1] v assms(3) i None show ?thesis
      by (cases ok) (simp_all add: download_template_def)
  next
    case (Some url)
    obtain ok2 fs2 where j: "install_template env hashes name url jinja fs1 = (ok2, fs2)" by fastforce
    from install_template_verified[OF assms(1) v assms(3) j] v Some show ?thesis
      by (cases ok) (simp_all add: download_template_def i j)
  qed
qed

lemma template_for_known: "template_for m \<in> set template_names"
  by (simp add: template_for_def template_names_def Let_def)

lemma jinja_not_cached: "name \<in> set template_names \<Longrightarrow> path_push m ''chat_template.jinja'' \<noteq> cached_template env name"
proof
  assume n: "name \<in> set template_names" and "path_push m ''chat_template.jinja'' = cached_template env name"
  then have "(m @ ''/chat_template'') @ ''.jinja'' = (templates_dir env @ ''/'' @ name) @ ''.jinja''"
    by (simp add: path_push_def starts_with_def cached_template_def)
  then have "m @ ''/chat_template'' = templates_dir env @ ''/'' @ name"
    by (simp only: append_same_eq)
  then have "last (m @ ''/chat_template'') = last (templates_dir env @ ''/'' @ name)" by simp
  then have "last name = CHR ''e''" "name \<noteq> []" using n by (auto simp: template_names_def)
  with n show False by (auto simp: template_names_def)
qed


text \<open>A machine whose cached Qwen template is stale: the removed file is fetched again.\<close>

definition demo_template_env :: "curl_result \<Rightarrow> template_env" where
  "demo_template_env r = \<lparr>te_sha256 = (\<lambda>b. b), te_cdn = demo_cdn\<lparr>ce_curl := (\<lambda>_. r)\<rparr>, te_remove_ok = (\<lambda>_. True),
     te_copy_ok = (\<lambda>_. True), te_home = ''h''\<rparr>"

lemma demo_orderly: "orderly (demo_template_env (Some (True, Some [1])))"
  by (simp add: orderly_def demo_template_env_def)

theorem templates_cached_verified_witness:
  "verified (demo_template_env (Some (True, Some [1]))) [''qwen3.5'' \<mapsto> ''01''] ''qwen3.5''
     (cached_template (demo_template_env (Some (True, Some [1]))) ''qwen3.5'')
     (ensure_templates_cached (demo_template_env (Some (True, Some [1]))) [''qwen3.5'' \<mapsto> ''01'']
       [''h/.darkbloom/templates/qwen3.5.jinja'' \<mapsto> [9]])"
  by (rule templates_cached_verified[OF demo_orderly]) (simp add: template_names_def)


text \<open>When \<open>curl\<close> breaks off, what it wrote stays in the model directory, and the next call takes it for
  the model's own template without looking at its hash.\<close>

lemma partial_template_kept:
  defines "env \<equiv> demo_template_env (Some (False, Some [9]))" and "hashes \<equiv> [''gemma4'' \<mapsto> ''01'']"
  shows "ensure_chat_template env ''gemma'' hashes (ensure_chat_template env ''gemma'' hashes (\<lambda>_. None)) ''gemma/chat_template.jinja'' = Some [9]"
proof -
  have n: "template_for ''gemma'' = ''gemma4''" by code_simp
  have u: "hf_url ''gemma4'' \<noteq> None" by (simp add: hf_url_def)
  have "ensure_chat_template env ''gemma'' hashes (\<lambda>_. None) ''gemma/chat_template.jinja'' = Some [9]"
    using u by (auto simp: ensure_chat_template_def n has_inline_template_def download_template_def install_template_def
        path_push_def starts_with_def env_def demo_template_env_def curl_to_def Let_def)
  then show ?thesis
    by (subst ensure_chat_template_def) (simp add: path_push_def starts_with_def)
qed

end
