(* ===== verification/Runtime.thy ===== *)
theory Runtime
  imports Download Security
begin

text \<open>
  The Python runtime's self-repair (\<open>main.rs\<close>): the runtime manifest, verifying or replacing the
  interpreter, and verifying or replacing the installed packages with a staged swap and a rollback.
  Commands (\<open>curl\<close>, \<open>tar\<close>, \<open>pip\<close>, the interpreter itself) are observations on the directory's state,
  whose type is a parameter.
\<close>

section \<open>The manifest\<close>

definition parse_hash_set :: "json \<Rightarrow> string list" where
  "parse_hash_set v =
     (case json_as_array v of
        Some arr \<Rightarrow> List.map_filter json_as_str arr
      | None \<Rightarrow> (case json_as_object v of Some obj \<Rightarrow> map fst obj | None \<Rightarrow> []))"

record manifest =
  mf_python_hashes :: "string list"
  mf_runtime_hashes :: "string list"
  mf_template_hashes :: "(string \<times> string) list"

definition curl_json :: "cmd_env \<Rightarrow> json_parser \<Rightarrow> string \<Rightarrow> json option" where
  "curl_json run from_slice url =
     (case run ''curl'' [''-fsSL'', ''--connect-timeout'', ''5'', url] of
        None \<Rightarrow> None
      | Some output \<Rightarrow> if co_success output then from_slice (co_stdout output) else None)"

definition fetch_runtime_manifest :: "cmd_env \<Rightarrow> json_parser \<Rightarrow> string \<Rightarrow> manifest option" where
  "fetch_runtime_manifest run from_slice coordinator_base =
     map_option (\<lambda>m.
       \<lparr>mf_python_hashes = (case json_get ''python_hashes'' m of None \<Rightarrow> [] | Some v \<Rightarrow> parse_hash_set v),
        mf_runtime_hashes = (case json_get ''runtime_hashes'' m of None \<Rightarrow> [] | Some v \<Rightarrow> parse_hash_set v),
        mf_template_hashes =
          (case json_get_as json_as_object ''template_hashes'' m of
             None \<Rightarrow> []
           | Some obj \<Rightarrow> List.map_filter (\<lambda>(k, v). map_option (\<lambda>s. (k, s)) (json_as_str v)) obj)\<rparr>)
     (curl_json run from_slice (coordinator_base @ ''/v1/runtime/manifest''))"

definition fetch_latest_release_version :: "cmd_env \<Rightarrow> json_parser \<Rightarrow> string \<Rightarrow> string" where
  "fetch_latest_release_version run from_slice coordinator_base =
     (case curl_json run from_slice (coordinator_base @ ''/v1/releases/latest'') of
        None \<Rightarrow> []
      | Some release \<Rightarrow> (case json_get_as json_as_str ''version'' release of Some s \<Rightarrow> s | None \<Rightarrow> []))"

section \<open>The interpreter\<close>

text \<open>Observations on the state \<open>'d\<close> of the runtime's directory: hash and test run of the command in use
  and of the directory's own interpreter, and what the three ways of replacing it do.\<close>

record 'd python_env =
  pe_cmd_hash :: "'d \<Rightarrow> string option"
  pe_cmd_runs :: "'d \<Rightarrow> bool"
  pe_bin_hash :: "'d \<Rightarrow> string option"
  pe_bin_runs :: "'d \<Rightarrow> bool"
  pe_download_ok :: "string \<Rightarrow> bool"
  pe_extract :: "'d \<Rightarrow> bool \<times> 'd"
  pe_remove_all :: "'d \<Rightarrow> 'd"
  pe_extract_pbs :: "'d \<Rightarrow> bool \<times> 'd"
  pe_remove_managed :: "'d \<Rightarrow> 'd"
  pe_brew_exists :: bool
  pe_brew_runs :: bool
  pe_venv :: "'d \<Rightarrow> bool \<times> 'd"

definition pbs_python_url :: string where
  "pbs_python_url = ''https://github.com/astral-sh/python-build-standalone/releases/download/20260408/cpython-3.12.13+20260408-aarch64-apple-darwin-install_only.tar.gz''"

definition hash_or_empty :: "string option \<Rightarrow> string" where
  "hash_or_empty h = (case h of None \<Rightarrow> [] | Some s \<Rightarrow> s)"

definition python_download_url :: "cmd_env \<Rightarrow> json_parser \<Rightarrow> string \<Rightarrow> string option" where
  "python_download_url run from_slice coordinator_base =
     Option.bind (curl_json run from_slice (coordinator_base @ ''/v1/releases/latest'')) (\<lambda>release.
       map_option (\<lambda>url. str_replace url ''eigeninference-bundle-macos-arm64.tar.gz'' ''eigeninference-python-macos-arm64.tar.gz'')
         (json_get_as json_as_str ''url'' release))"

text \<open>The canonical runtime of the release; \<open>True\<close> when it is installed and verified.\<close>

definition install_canonical :: "'d python_env \<Rightarrow> string list \<Rightarrow> string option \<Rightarrow> 'd \<Rightarrow> bool \<times> 'd" where
  "install_canonical env expected url d =
     (case url of
        None \<Rightarrow> (False, d)
      | Some u \<Rightarrow>
          if \<not> pe_download_ok env u then (False, d)
          else (case pe_extract env d of
             (False, d1) \<Rightarrow> (False, d1)
           | (True, d1) \<Rightarrow>
               (hash_or_empty (pe_bin_hash env d1) \<in> set expected \<and> pe_cmd_runs env d1, d1)))"

definition install_portable :: "'d python_env \<Rightarrow> 'd \<Rightarrow> bool \<times> 'd" where
  "install_portable env d =
     (if \<not> pe_download_ok env pbs_python_url then (False, d)
      else (case pe_extract_pbs env (pe_remove_all env d) of
         (False, d1) \<Rightarrow> (False, d1)
       | (True, d1) \<Rightarrow> if pe_bin_runs env d1 then (True, pe_remove_managed env d1) else (False, d1)))"

definition install_brew :: "'d python_env \<Rightarrow> 'd \<Rightarrow> bool \<times> 'd" where
  "install_brew env d =
     (if pe_brew_exists env \<and> pe_brew_runs env
      then (case pe_venv env (pe_remove_all env d) of
              (True, d1) \<Rightarrow> (True, pe_remove_managed env d1)
            | (False, d1) \<Rightarrow> (False, d1))
      else (False, d))"

definition ensure_python_verified :: "cmd_env \<Rightarrow> json_parser \<Rightarrow> 'd python_env \<Rightarrow> string \<Rightarrow> 'd \<Rightarrow> bool \<times> 'd" where
  "ensure_python_verified run from_slice env coordinator_base d =
     (let expected = (case fetch_runtime_manifest run from_slice coordinator_base of None \<Rightarrow> [] | Some m \<Rightarrow> mf_python_hashes m) in
      if expected = [] then (True, d)
      else if hash_or_empty (pe_cmd_hash env d) \<in> set expected \<and> pe_cmd_runs env d then (True, d)
      else (case install_canonical env expected (python_download_url run from_slice coordinator_base) d of
         (True, d1) \<Rightarrow> (True, d1)
       | (False, d1) \<Rightarrow>
           (case install_portable env d1 of
              (True, d2) \<Rightarrow> (True, d2)
            | (False, d2) \<Rightarrow> install_brew env d2)))"

section \<open>The packages\<close>

definition runtime_smoke_test :: "cmd_output option \<Rightarrow> string result" where
  "runtime_smoke_test output =
     (case output of
        None \<Rightarrow> Err ''cannot run''
      | Some o' \<Rightarrow>
          if co_success o'
          then (let summary = trim (co_stdout o') in if summary = [] then Ok ''runtime smoke test passed'' else Ok summary)
          else Err (if trim (co_stderr o') \<noteq> [] then trim (co_stderr o')
                    else if trim (co_stdout o') \<noteq> [] then trim (co_stdout o') else ''process exited''))"

text \<open>The three directories, each with its content if it exists, and the observations.\<close>

datatype pkg_dir = SitePackages | Staging | Backup

type_synonym 'p pkg_dirs = "pkg_dir \<Rightarrow> 'p option"

record 'p runtime_env =
  re_smoke :: "'p option \<Rightarrow> cmd_output option"
  re_runtime_hash :: "'p option \<Rightarrow> string option"
  re_download :: "string \<Rightarrow> bool"
  re_remove_ok :: "pkg_dir \<Rightarrow> bool"
  re_rename_ok :: "pkg_dir \<Rightarrow> pkg_dir \<Rightarrow> bool"
  re_empty :: 'p
  re_extract :: "'p option \<Rightarrow> bool \<times> 'p option"
  re_has_vllm :: "'p \<Rightarrow> bool"
  re_drop_vllm :: "'p option \<Rightarrow> 'p option"
  re_pip :: "'p option \<Rightarrow> bool \<times> 'p option"
  re_pip_upgrade :: "'p option \<Rightarrow> bool \<times> 'p option"

definition dir_remove :: "'p runtime_env \<Rightarrow> pkg_dir \<Rightarrow> 'p pkg_dirs \<Rightarrow> 'p pkg_dirs" where
  "dir_remove env a ds = (if re_remove_ok env a then ds(a := None) else ds)"

definition dir_create :: "'p runtime_env \<Rightarrow> pkg_dir \<Rightarrow> 'p pkg_dirs \<Rightarrow> 'p pkg_dirs" where
  "dir_create env a ds = (case ds a of None \<Rightarrow> ds(a \<mapsto> re_empty env) | Some _ \<Rightarrow> ds)"

text \<open>A directory cannot be renamed over another one with content.\<close>

definition dir_rename :: "'p runtime_env \<Rightarrow> pkg_dir \<Rightarrow> pkg_dir \<Rightarrow> 'p pkg_dirs \<Rightarrow> 'p pkg_dirs option" where
  "dir_rename env a b ds =
     (if re_rename_ok env a b \<and> ds a \<noteq> None \<and> ds b = None then Some (ds(b := ds a, a := None)) else None)"

definition try_rename :: "'p runtime_env \<Rightarrow> pkg_dir \<Rightarrow> pkg_dir \<Rightarrow> 'p pkg_dirs \<Rightarrow> 'p pkg_dirs" where
  "try_rename env a b ds = (case dir_rename env a b ds of None \<Rightarrow> ds | Some ds' \<Rightarrow> ds')"

definition smoke_ok :: "'p runtime_env \<Rightarrow> 'p pkg_dirs \<Rightarrow> bool" where
  "smoke_ok env ds \<longleftrightarrow> (case runtime_smoke_test (re_smoke env (ds SitePackages)) of Inl _ \<Rightarrow> False | Inr _ \<Rightarrow> True)"

text \<open>The staged swap: \<open>Some r\<close> when the function returns \<open>r\<close> there, \<open>None\<close> when it goes on with the
  fallback. The hash of the new packages is looked at only for the log.\<close>

definition swap_packages :: "'p runtime_env \<Rightarrow> 'p pkg_dirs \<Rightarrow> bool option \<times> 'p pkg_dirs" where
  "swap_packages env ds =
     (let ds1 = dir_create env Staging (dir_remove env Backup (dir_remove env Staging ds)) in
      case re_extract env (ds1 Staging) of
        (False, st) \<Rightarrow> (None, dir_remove env Staging (ds1(Staging := st)))
      | (True, st) \<Rightarrow>
          let ds2 = ds1(Staging := st) in
          if \<not> pred_option (re_has_vllm env) st \<or> st = None then (None, dir_remove env Staging ds2)
          else (case (if ds2 SitePackages \<noteq> None then dir_rename env SitePackages Backup ds2 else Some ds2) of
             None \<Rightarrow> (Some True, dir_remove env Staging ds2)
           | Some ds3 \<Rightarrow>
               (case dir_rename env Staging SitePackages ds3 of
                  None \<Rightarrow> (Some True, try_rename env Backup SitePackages ds3)
                | Some ds4 \<Rightarrow>
                    if smoke_ok env ds4 then (Some True, dir_remove env Backup ds4)
                    else (None, try_rename env Backup SitePackages (dir_remove env SitePackages ds4)))))"

definition pip_packages :: "'p runtime_env \<Rightarrow> 'p pkg_dirs \<Rightarrow> bool \<times> 'p pkg_dirs" where
  "pip_packages env ds =
     (let ds1 = ds(SitePackages := re_drop_vllm env (ds SitePackages)) in
      case re_pip env (ds1 SitePackages) of
        (False, p) \<Rightarrow> (False, ds1(SitePackages := p))
      | (True, p) \<Rightarrow>
          (case re_pip_upgrade env p of
             (False, p') \<Rightarrow> (False, ds1(SitePackages := p'))
           | (True, p') \<Rightarrow> (smoke_ok env (ds1(SitePackages := p')), ds1(SitePackages := p'))))"

definition site_packages_url :: "string \<Rightarrow> string" where
  "site_packages_url v = ''https://pub-3d1cb668259340eeb2276e1d375c846d.r2.dev/releases/v'' @ v @ ''/eigeninference-site-packages.tar.gz''"

definition source_zip_url :: "string \<Rightarrow> string" where
  "source_zip_url v = ''https://pub-3d1cb668259340eeb2276e1d375c846d.r2.dev/releases/v'' @ v @ ''/vllm-mlx-source.zip''"

definition github_fallback :: string where
  "github_fallback = ''https://github.com/Gajesh2007/vllm-mlx/archive/refs/heads/main.zip''"

definition zip_downloaded :: "'p runtime_env \<Rightarrow> string \<Rightarrow> bool" where
  "zip_downloaded env v \<longleftrightarrow> (v \<noteq> [] \<and> re_download env (source_zip_url v)) \<or> re_download env github_fallback"

definition runtime_current :: "'p runtime_env \<Rightarrow> string list \<Rightarrow> 'p pkg_dirs \<Rightarrow> bool" where
  "runtime_current env expected ds \<longleftrightarrow>
     (case re_runtime_hash env (ds SitePackages) of
        None \<Rightarrow> False
      | Some h \<Rightarrow> (expected = [] \<or> h \<in> set expected) \<and> smoke_ok env ds)"

definition ensure_runtime_updated ::
  "cmd_env \<Rightarrow> json_parser \<Rightarrow> 'p runtime_env \<Rightarrow> string \<Rightarrow> 'p pkg_dirs \<Rightarrow> bool \<times> 'p pkg_dirs" where
  "ensure_runtime_updated run from_slice env coordinator_base ds =
     (let expected = (case fetch_runtime_manifest run from_slice coordinator_base of None \<Rightarrow> [] | Some m \<Rightarrow> mf_runtime_hashes m) in
      if runtime_current env expected ds then (True, ds)
      else
        let v = fetch_latest_release_version run from_slice coordinator_base in
        case (if v \<noteq> [] \<and> re_download env (site_packages_url v) then swap_packages env ds else (None, ds)) of
          (Some r, ds1) \<Rightarrow> (r, ds1)
        | (None, ds1) \<Rightarrow> if zip_downloaded env v then pip_packages env ds1 else (False, ds1))"

section \<open>Lemmas\<close>

definition dirs_orderly :: "'p runtime_env \<Rightarrow> bool" where
  "dirs_orderly env \<longleftrightarrow> (\<forall>a. re_remove_ok env a) \<and> (\<forall>a b. re_rename_ok env a b)"

lemma swap_packages_safe:
  assumes "dirs_orderly env" and "swap_packages env ds = (r, ds')"
  shows "(r = None \<longrightarrow> ds' SitePackages = ds SitePackages) \<and> (r \<noteq> None \<longrightarrow> r = Some True \<and> smoke_ok env ds')"
proof -
  let ?ds1 = "dir_create env Staging (dir_remove env Backup (dir_remove env Staging ds))"
  have ds1: "?ds1 SitePackages = ds SitePackages" "?ds1 Backup = None"
    using assms(1) by (simp_all add: dirs_orderly_def dir_create_def dir_remove_def)
  from assms ds1 show ?thesis
    unfolding swap_packages_def Let_def
    by (auto simp: dirs_orderly_def dir_remove_def dir_rename_def try_rename_def smoke_ok_def pred_option_def
        split: prod.splits bool.splits option.splits if_splits)
qed

section \<open>Properties\<close>


text \<open>Packages as a version text; the interpreter accepts every version but \<open>broken\<close>, and the hash of the
  packages is the version.\<close>

definition demo_runtime :: "string \<Rightarrow> string runtime_env" where
  "demo_runtime staged = \<lparr>re_smoke = (\<lambda>p. Some \<lparr>co_success = p \<noteq> Some ''broken'', co_stdout = ''ok'', co_stderr = []\<rparr>),
     re_runtime_hash = (\<lambda>p. p), re_download = (\<lambda>url. url = site_packages_url ''1''), re_remove_ok = (\<lambda>_. True),
     re_rename_ok = (\<lambda>_ _. True), re_empty = [], re_extract = (\<lambda>_. (True, Some staged)), re_has_vllm = (\<lambda>_. True),
     re_drop_vllm = (\<lambda>p. p), re_pip = (\<lambda>p. (False, p)), re_pip_upgrade = (\<lambda>p. (False, p))\<rparr>"

text \<open>The coordinator of the example: the latest release is 1 and the manifest names the hash \<open>good\<close>.\<close>

definition demo_answers :: cmd_env where
  "demo_answers = (\<lambda>_ _. Some \<lparr>co_success = True, co_stdout = [], co_stderr = []\<rparr>)"

definition demo_json :: json_parser where
  "demo_json = (\<lambda>_. Some (JObj [(''version'', JStr ''1''), (''runtime_hashes'', JArr [JStr ''good''])]))"

definition demo_dirs :: "string pkg_dirs" where
  "demo_dirs = (\<lambda>_. None)(SitePackages \<mapsto> ''old'')"

lemma demo_manifest:
  "fetch_runtime_manifest demo_answers demo_json b = Some \<lparr>mf_python_hashes = [], mf_runtime_hashes = [''good''], mf_template_hashes = []\<rparr>"
  "fetch_latest_release_version demo_answers demo_json b = ''1''"
  by (simp_all add: fetch_runtime_manifest_def fetch_latest_release_version_def curl_json_def demo_answers_def demo_json_def
      json_get_as_def parse_hash_set_def List.map_filter_simps)

lemma demo_update:
  "ensure_runtime_updated demo_answers demo_json (demo_runtime staged) b demo_dirs =
     (case swap_packages (demo_runtime staged) demo_dirs of
        (Some r, ds1) \<Rightarrow> (r, ds1)
      | (None, ds1) \<Rightarrow> if zip_downloaded (demo_runtime staged) ''1'' then pip_packages (demo_runtime staged) ds1 else (False, ds1))"
proof -
  have "re_runtime_hash (demo_runtime staged) p = p" "re_download (demo_runtime staged) (site_packages_url ''1'')" for p
    by (simp_all add: demo_runtime_def)
  then show ?thesis
    by (simp add: ensure_runtime_updated_def demo_manifest runtime_current_def Let_def) (simp add: demo_dirs_def)
qed

lemma demo_no_zip: "\<not> zip_downloaded (demo_runtime staged) ''1''"
  by (simp add: zip_downloaded_def demo_runtime_def source_zip_url_def site_packages_url_def github_fallback_def)

lemma demo_swap:
  "fst (swap_packages (demo_runtime staged) demo_dirs) = (if staged = ''broken'' then None else Some True)"
  "snd (swap_packages (demo_runtime staged) demo_dirs) SitePackages = (if staged = ''broken'' then Some ''old'' else Some staged)"
  by (simp_all add: swap_packages_def demo_runtime_def demo_dirs_def dir_create_def dir_remove_def dir_rename_def
      try_rename_def smoke_ok_def runtime_smoke_test_def Let_def)


text \<open>The hash of the manifest does not decide: packages with another hash are installed and kept, and the
  update reports success.\<close>

lemma runtime_hash_ignored:
  "\<exists>ds'. ensure_runtime_updated demo_answers demo_json (demo_runtime ''evil'') [] demo_dirs = (True, ds') \<and>
     re_runtime_hash (demo_runtime ''evil'') (ds' SitePackages) = Some ''evil'' \<and>
     mf_runtime_hashes (the (fetch_runtime_manifest demo_answers demo_json [])) = [''good'']"
proof -
  obtain ds1 where "swap_packages (demo_runtime ''evil'') demo_dirs = (Some True, ds1)" "ds1 SitePackages = Some ''evil''"
    using demo_swap[of "''evil''"] by (cases "swap_packages (demo_runtime ''evil'') demo_dirs") auto
  then show ?thesis
    by (simp add: demo_update demo_manifest) (simp add: demo_runtime_def)
qed

text \<open>With a manifest that names interpreter hashes and no fallback interpreter to be had, a successful
  verification means that the interpreter in use has one of these hashes, or that the one just
  installed has, and that the interpreter runs.\<close>

theorem python_verified:
  assumes "ensure_python_verified run from_slice env base d = (True, d')"
    and "fetch_runtime_manifest run from_slice base = Some m" and "mf_python_hashes m \<noteq> []"
    and "\<not> pe_download_ok env pbs_python_url" and "\<not> (pe_brew_exists env \<and> pe_brew_runs env)"
  shows "pe_cmd_runs env d' \<and>
    (hash_or_empty (pe_cmd_hash env d') \<in> set (mf_python_hashes m) \<or> hash_or_empty (pe_bin_hash env d') \<in> set (mf_python_hashes m))"
  using assms
  by (auto simp: ensure_python_verified_def install_portable_def install_brew_def install_canonical_def Let_def
      split: if_splits prod.splits bool.splits option.splits)

definition demo_python :: "string python_env" where
  "demo_python = \<lparr>pe_cmd_hash = (\<lambda>d. Some d), pe_cmd_runs = (\<lambda>_. True), pe_bin_hash = (\<lambda>d. Some d), pe_bin_runs = (\<lambda>_. True),
     pe_download_ok = (\<lambda>u. u = ''p''), pe_extract = (\<lambda>_. (True, ''h'')), pe_remove_all = (\<lambda>d. d), pe_extract_pbs = (\<lambda>d. (False, d)),
     pe_remove_managed = (\<lambda>d. d), pe_brew_exists = False, pe_brew_runs = False, pe_venv = (\<lambda>d. (False, d))\<rparr>"

definition python_json :: json_parser where
  "python_json = (\<lambda>_. Some (JObj [(''url'', JStr ''p''), (''python_hashes'', JArr [JStr ''h''])]))"

lemma python_manifest: "fetch_runtime_manifest demo_answers python_json [] =
    Some \<lparr>mf_python_hashes = [''h''], mf_runtime_hashes = [], mf_template_hashes = []\<rparr>"
  by (simp add: fetch_runtime_manifest_def curl_json_def demo_answers_def python_json_def json_get_as_def parse_hash_set_def
      List.map_filter_simps)

theorem python_verified_witness:
  "\<exists>d'. ensure_python_verified demo_answers python_json demo_python [] ''stale'' = (True, d') \<and> hash_or_empty (pe_bin_hash demo_python d') = ''h''"
proof -
  have "str_replace ''p'' ''eigeninference-bundle-macos-arm64.tar.gz'' ''eigeninference-python-macos-arm64.tar.gz'' = ''p''"
    by code_simp
  then have "python_download_url demo_answers python_json [] = Some ''p''"
    by (simp add: python_download_url_def curl_json_def demo_answers_def python_json_def json_get_as_def)
  then have r: "ensure_python_verified demo_answers python_json demo_python [] ''stale'' = (True, ''h'')"
    by (simp add: ensure_python_verified_def python_manifest install_canonical_def demo_python_def hash_or_empty_def)
  from python_verified[OF r python_manifest] r show ?thesis
    by (simp add: demo_python_def pbs_python_url_def hash_or_empty_def)
qed

end
