(* ===== verification/SecureEnclave.thy ===== *)
theory SecureEnclave
  imports Utf8 Json Maps
begin

text \<open>
  \<open>secure_enclave_key.rs\<close>: the handle of the ephemeral signing key with the strings the foreign
  interface hands out, the legacy key files, and the encryption secret sealed under a keychain key. The
  Swift enclave functions, the keychain and its encryption are parameters.
\<close>

section \<open>The signing handle\<close>

text \<open>The foreign functions return an identity or a C string, or null.\<close>

record 'i enclave_ffi =
  ffi_create :: "'i option"
  ffi_public_key :: "'i \<Rightarrow> string option"
  ffi_sign :: "'i \<Rightarrow> bytes \<Rightarrow> string option"
  ffi_attestation :: "'i \<Rightarrow> string \<Rightarrow> string option \<Rightarrow> string option"
  raw_json_ok :: "string \<Rightarrow> bool"

record 'i enclave_handle =
  eh_ptr :: 'i
  eh_public_key_b64 :: string

text \<open>The calls that matter for ownership: identities and strings handed out and given back.\<close>

datatype 'i ffi_event = Created 'i | Freed 'i | Returned string | StringFreed string

definition handle_create :: "'i enclave_ffi \<Rightarrow> 'i enclave_handle result \<times> 'i ffi_event list" where
  "handle_create ffi =
     (case ffi_create ffi of
        None \<Rightarrow> (Err ''Secure Enclave unavailable or key creation failed'', [])
      | Some ptr \<Rightarrow>
          (case ffi_public_key ffi ptr of
             None \<Rightarrow> (Err ''failed to retrieve Secure Enclave public key'', [Created ptr, Freed ptr])
           | Some pk \<Rightarrow>
               (Ok \<lparr>eh_ptr = ptr, eh_public_key_b64 = utf8_lossy pk\<rparr>, [Created ptr, Returned pk, StringFreed pk])))"

definition handle_sign :: "'i enclave_ffi \<Rightarrow> 'i enclave_handle \<Rightarrow> bytes \<Rightarrow> string result \<times> 'i ffi_event list" where
  "handle_sign ffi h data =
     (if length data > 2 ^ 31 - 1 then (Err ''data too large for FFI'', [])
      else (case ffi_sign ffi (eh_ptr h) data of
         None \<Rightarrow> (Err ''Secure Enclave signing failed'', [])
       | Some sig \<Rightarrow> (Ok (utf8_lossy sig), [Returned sig, StringFreed sig])))"

definition nul_free :: "string \<Rightarrow> bool" where
  "nul_free s \<longleftrightarrow> CHR 0x00 \<notin> set s"

definition create_attestation ::
  "'i enclave_ffi \<Rightarrow> 'i enclave_handle \<Rightarrow> string \<Rightarrow> string option \<Rightarrow> string result \<times> 'i ffi_event list" where
  "create_attestation ffi h encryption_key_b64 binary_hash =
     (if \<not> nul_free encryption_key_b64 then (Err ''encryption key contains null byte'', [])
      else if \<not> pred_option nul_free binary_hash then (Err ''binary hash contains null byte'', [])
      else (case ffi_attestation ffi (eh_ptr h) encryption_key_b64 binary_hash of
         None \<Rightarrow> (Err ''attestation generation failed'', [])
       | Some json \<Rightarrow>
           (if raw_json_ok ffi (utf8_lossy json) then Ok (utf8_lossy json) else Err ''attestation JSON is not valid'',
            [Returned json, StringFreed json])))"

definition handle_drop :: "'i enclave_handle \<Rightarrow> 'i ffi_event list" where
  "handle_drop h = [Freed (eh_ptr h)]"

section \<open>Legacy key files\<close>

type_synonym key_files = "string \<Rightarrow> bytes option"

definition legacy_key_files :: "string list" where
  "legacy_key_files = [''.darkbloom/enclave_key.data'', ''.darkbloom/e2e_key.data'', ''.darkbloom/e2e_key.provisioned'',
     ''.darkbloom/e2e_key.sealed'', ''.darkbloom/node_key'', ''.darkbloom/enclave_e2e_ka.data'', ''.dginf/enclave_e2e_ka.data'',
     ''.dginf/node_key'', ''.eigeninference/enclave_e2e_ka.data'', ''.eigeninference/node_key'']"

definition in_home :: "string \<Rightarrow> string \<Rightarrow> string" where
  "in_home home name = home @ ''/'' @ name"

definition legacy_key_files_present :: "string option \<Rightarrow> key_files \<Rightarrow> string list" where
  "legacy_key_files_present home fs =
     (case home of
        None \<Rightarrow> []
      | Some h \<Rightarrow> filter (\<lambda>p. fs p \<noteq> None) (map (in_home h) legacy_key_files))"

definition remove_legacy :: "(string \<Rightarrow> bool) \<Rightarrow> string \<Rightarrow> string \<Rightarrow> key_files \<Rightarrow> key_files" where
  "remove_legacy remove_ok home name fs =
     (let path = in_home home name in if fs path \<noteq> None \<and> remove_ok path then fs(path := None) else fs)"

definition cleanup_legacy_key_files :: "(string \<Rightarrow> bool) \<Rightarrow> string option \<Rightarrow> key_files \<Rightarrow> key_files" where
  "cleanup_legacy_key_files remove_ok home fs =
     (case home of
        None \<Rightarrow> fs
      | Some h \<Rightarrow> fold (remove_legacy remove_ok h) legacy_key_files fs)"

section \<open>The sealed encryption secret\<close>

text \<open>The answer of a keychain search, and the operations of the platform; \<open>'k\<close> is a private key.\<close>

datatype 'k search_result = KeyRef 'k | OtherRef
datatype 'k search_answer = Results "'k search_result list" | ItemNotFound | SearchFailed

record 'k keychain_env =
  ke_search :: "'k option \<Rightarrow> 'k search_answer"
  ke_create :: "'k result"
  ke_delete_ok :: bool
  ke_encrypt :: "'k \<Rightarrow> bytes \<Rightarrow> bytes result"
  ke_decrypt :: "'k \<Rightarrow> bytes \<Rightarrow> bytes result"
  ke_generate :: bytes
  ke_home :: "string option"
  ke_read_ok :: bool
  ke_mkdir_ok :: bool
  ke_write_ok :: bool
  ke_chmod_ok :: bool
  ke_remove_ok :: bool

record 'k key_store =
  ks_key :: "'k option"
  ks_files :: key_files

definition wrapped_secret_path :: "'k keychain_env \<Rightarrow> string result" where
  "wrapped_secret_path env =
     (case ke_home env of
        None \<Rightarrow> Err ''could not determine home directory for wrapped E2E key''
      | Some h \<Rightarrow> Ok (in_home h ''.darkbloom/e2e_key.sealed''))"

definition read_wrapped_secret_file :: "'k keychain_env \<Rightarrow> key_files \<Rightarrow> bytes option result" where
  "read_wrapped_secret_file env fs =
     (case wrapped_secret_path env of
        Inl e \<Rightarrow> Err e
      | Inr path \<Rightarrow>
          (case fs path of
             None \<Rightarrow> Ok None
           | Some data \<Rightarrow> if ke_read_ok env then Ok (Some data) else Err ''failed to read wrapped E2E secret''))"

definition write_wrapped_secret_file :: "'k keychain_env \<Rightarrow> bytes \<Rightarrow> key_files \<Rightarrow> unit result \<times> key_files" where
  "write_wrapped_secret_file env sealed fs =
     (case wrapped_secret_path env of
        Inl e \<Rightarrow> (Err e, fs)
      | Inr path \<Rightarrow>
          if \<not> ke_mkdir_ok env then (Err ''failed to create'', fs)
          else if \<not> ke_write_ok env then (Err ''failed to write wrapped E2E secret'', fs)
          else if \<not> ke_chmod_ok env then (Err ''failed to chmod'', fs(path \<mapsto> sealed))
          else (Ok (), fs(path \<mapsto> sealed)))"

definition delete_wrapped_secret_file :: "'k keychain_env \<Rightarrow> key_files \<Rightarrow> unit result \<times> key_files" where
  "delete_wrapped_secret_file env fs =
     (case wrapped_secret_path env of
        Inl e \<Rightarrow> (Err e, fs)
      | Inr path \<Rightarrow>
          if fs path = None then (Ok (), fs)
          else if ke_remove_ok env then (Ok (), fs(path := None))
          else (Err ''failed to remove wrapped E2E secret'', fs))"

fun first_key :: "'k search_result list \<Rightarrow> 'k option" where
  "first_key [] = None"
| "first_key (KeyRef k # rs) = Some k"
| "first_key (OtherRef # rs) = first_key rs"

definition find_secure_enclave_key :: "'k keychain_env \<Rightarrow> 'k key_store \<Rightarrow> 'k option result" where
  "find_secure_enclave_key env st =
     (case ke_search env (ks_key st) of
        Results rs \<Rightarrow> Ok (first_key rs)
      | ItemNotFound \<Rightarrow> Ok None
      | SearchFailed \<Rightarrow> Err ''failed to query Secure Enclave E2E key from keychain'')"

definition load_or_create_secure_enclave_key :: "'k keychain_env \<Rightarrow> 'k key_store \<Rightarrow> 'k result \<times> 'k key_store" where
  "load_or_create_secure_enclave_key env st =
     (case find_secure_enclave_key env st of
        Inl e \<Rightarrow> (Err e, st)
      | Inr (Some k) \<Rightarrow> (Ok k, st)
      | Inr None \<Rightarrow> (case ke_create env of Inl e \<Rightarrow> (Err e, st) | Inr k \<Rightarrow> (Ok k, st\<lparr>ks_key := Some k\<rparr>)))"

definition unwrap_secret_with_private_key :: "'k keychain_env \<Rightarrow> 'k \<Rightarrow> bytes \<Rightarrow> bytes result" where
  "unwrap_secret_with_private_key env k sealed =
     (case ke_decrypt env k sealed of
        Inl e \<Rightarrow> Err ''failed to unseal X25519 secret with Secure Enclave key''
      | Inr secret \<Rightarrow> if length secret \<noteq> 32 then Err ''unsealed X25519 secret has a wrong length'' else Ok secret)"

definition load_existing_x25519_secret :: "'k keychain_env \<Rightarrow> 'k key_store \<Rightarrow> bytes option result" where
  "load_existing_x25519_secret env st =
     (case read_wrapped_secret_file env (ks_files st) of
        Inl e \<Rightarrow> Err e
      | Inr None \<Rightarrow> Ok None
      | Inr (Some sealed) \<Rightarrow>
          (case find_secure_enclave_key env st of
             Inl e \<Rightarrow> Err e
           | Inr None \<Rightarrow> Err ''wrapped text E2E secret exists but the Secure Enclave key is missing''
           | Inr (Some k) \<Rightarrow>
               (case unwrap_secret_with_private_key env k sealed of
                  Inl e \<Rightarrow> Err ''wrapped text E2E secret is unreadable; refusing silent key rotation''
                | Inr secret \<Rightarrow> Ok (Some secret))))"

definition load_or_create_x25519_secret :: "'k keychain_env \<Rightarrow> 'k key_store \<Rightarrow> bytes result \<times> 'k key_store" where
  "load_or_create_x25519_secret env st =
     (case load_existing_x25519_secret env st of
        Inl e \<Rightarrow> (Err e, st)
      | Inr (Some secret) \<Rightarrow> (Ok secret, st)
      | Inr None \<Rightarrow>
          (case load_or_create_secure_enclave_key env st of
             (Inl e, st1) \<Rightarrow> (Err e, st1)
           | (Inr k, st1) \<Rightarrow>
               let secret = ke_generate env in
               (case ke_encrypt env k secret of
                  Inl e \<Rightarrow> (Err e, st1)
                | Inr sealed \<Rightarrow>
                    (case write_wrapped_secret_file env sealed (ks_files st1) of
                       (Inl e, fs) \<Rightarrow> (Err e, st1\<lparr>ks_files := fs\<rparr>)
                     | (Inr _, fs) \<Rightarrow> (Ok secret, st1\<lparr>ks_files := fs\<rparr>)))))"

definition delete_persistent_key :: "'k keychain_env \<Rightarrow> 'k key_store \<Rightarrow> unit result \<times> 'k key_store" where
  "delete_persistent_key env st =
     (let remove_file = (\<lambda>st. case delete_wrapped_secret_file env (ks_files st) of (r, fs) \<Rightarrow> (r, st\<lparr>ks_files := fs\<rparr>)) in
      case find_secure_enclave_key env st of
        Inl e \<Rightarrow> (Err e, st)
      | Inr None \<Rightarrow> remove_file st
      | Inr (Some k) \<Rightarrow>
          if ke_delete_ok env then remove_file (st\<lparr>ks_key := None\<rparr>)
          else (Err ''failed to delete Secure Enclave E2E key'', st))"

definition keychain_access_group :: "string option \<Rightarrow> string" where
  "keychain_access_group var =
     (case var of
        Some v \<Rightarrow> if trim v \<noteq> [] then v else ''SLDQ2GJ6TL.io.darkbloom.provider''
      | None \<Rightarrow> ''SLDQ2GJ6TL.io.darkbloom.provider'')"

section \<open>Lemmas\<close>

text \<open>A keychain that finds what it holds, and whose encryption is undone by its decryption; a readable file
  and a generator of 32-byte secrets.\<close>

definition keychain_ok :: "'k keychain_env \<Rightarrow> bool" where
  "keychain_ok env \<longleftrightarrow> (\<forall>k. ke_search env (Some k) = Results [KeyRef k]) \<and> ke_search env None = ItemNotFound \<and>
     (\<forall>k secret c. ke_encrypt env k secret = Ok c \<longrightarrow> ke_decrypt env k c = Ok secret) \<and>
     ke_read_ok env \<and> length (ke_generate env) = 32"

lemma find_key: "keychain_ok env \<Longrightarrow> find_secure_enclave_key env st = Ok (ks_key st)"
  by (cases "ks_key st") (simp_all add: find_secure_enclave_key_def keychain_ok_def)

lemma new_secret_kept:
  assumes "keychain_ok env" "load_or_create_x25519_secret env st = (Ok secret, st')"
  shows "load_existing_x25519_secret env st' = Ok (Some secret)"
  using assms(2) find_key[OF assms(1)] assms(1)
  by (auto simp: load_or_create_x25519_secret_def load_existing_x25519_secret_def load_or_create_secure_enclave_key_def
      write_wrapped_secret_file_def read_wrapped_secret_file_def unwrap_secret_with_private_key_def Let_def keychain_ok_def
      split: sum.splits option.splits if_splits prod.splits)

lemma sealed_file_not_replaced:
  assumes "read_wrapped_secret_file env (ks_files st) \<noteq> Ok None" "load_or_create_x25519_secret env st = (r, st')"
  shows "st' = st"
  using assms
  by (auto simp: load_or_create_x25519_secret_def load_existing_x25519_secret_def split: sum.splits option.splits)

lemma deleted_secret_gone:
  assumes "keychain_ok env" "delete_persistent_key env st = (Ok (), st')"
  shows "ks_key st' = None \<and> load_existing_x25519_secret env st' = Ok None"
  using assms(2) find_key[OF assms(1)]
  by (auto simp: delete_persistent_key_def delete_wrapped_secret_file_def load_existing_x25519_secret_def
      read_wrapped_secret_file_def Let_def split: sum.splits option.splits if_splits)

lemma remove_legacy_keeps_absent: "fs p = None \<Longrightarrow> fold (remove_legacy remove_ok h) names fs p = None"
  by (induction names arbitrary: fs) (simp_all add: remove_legacy_def Let_def)

lemma cleanup_removes:
  "(\<And>p. remove_ok p) \<Longrightarrow> name \<in> set names \<Longrightarrow> fold (remove_legacy remove_ok h) names fs (in_home h name) = None"
proof (induction names arbitrary: fs)
  case (Cons n names)
  show ?case
  proof (cases "n = name")
    case True
    with Cons.prems(1) have "remove_legacy remove_ok h n fs (in_home h name) = None"
      by (simp add: remove_legacy_def Let_def)
    then show ?thesis by (simp add: remove_legacy_keeps_absent)
  qed (use Cons in auto)
qed simp

section \<open>Properties\<close>


definition demo_keychain :: "nat keychain_env" where
  "demo_keychain = \<lparr>ke_search = (\<lambda>k. case k of None \<Rightarrow> ItemNotFound | Some k \<Rightarrow> Results [KeyRef k]), ke_create = Ok 1, ke_delete_ok = True,
     ke_encrypt = (\<lambda>k s. Ok (1 # s)), ke_decrypt = (\<lambda>k c. Ok (tl c)), ke_generate = replicate 32 7, ke_home = Some ''h'',
     ke_read_ok = True, ke_mkdir_ok = True, ke_write_ok = True, ke_chmod_ok = True, ke_remove_ok = True\<rparr>"

lemma demo_keychain_ok: "keychain_ok demo_keychain"
  by (auto simp: keychain_ok_def demo_keychain_def)


text \<open>The startup cleanup of legacy files also removes the sealed secret: its name is in the list.\<close>

lemma cleanup_removes_current_secret:
  assumes "ke_home env = Some h"
  shows "load_existing_x25519_secret env (st\<lparr>ks_files := cleanup_legacy_key_files (\<lambda>_. True) (Some h) (ks_files st)\<rparr>) = Ok None"
proof -
  have "cleanup_legacy_key_files (\<lambda>_. True) (Some h) (ks_files st) (in_home h ''.darkbloom/e2e_key.sealed'') = None"
    unfolding cleanup_legacy_key_files_def option.case
    by (rule cleanup_removes) (simp_all add: legacy_key_files_def)
  with assms show ?thesis
    by (simp add: load_existing_x25519_secret_def read_wrapped_secret_file_def wrapped_secret_path_def)
qed

lemma cleanup_complete: "legacy_key_files_present home (cleanup_legacy_key_files (\<lambda>_. True) home fs) = []"
  using cleanup_removes[of "\<lambda>_. True"]
  by (auto simp: legacy_key_files_present_def cleanup_legacy_key_files_def filter_empty_conv split: option.split)

text \<open>Ownership at the foreign interface: every string handed out is freed, and an identity is freed
  exactly when its handle was not made or is dropped.\<close>

fun balanced :: "'i ffi_event list \<Rightarrow> bool" where
  "balanced [] = True"
| "balanced (Returned s # StringFreed t # es) = (s = t \<and> balanced es)"
| "balanced (Created i # es) = balanced es"
| "balanced (Freed i # es) = balanced es"
| "balanced _ = False"

lemma strings_freed:
  "balanced (snd (handle_create ffi))" "balanced (snd (handle_sign ffi h data))" "balanced (snd (create_attestation ffi h k b))"
  by (auto simp: handle_create_def handle_sign_def create_attestation_def split: option.split)

lemma identity_freed:
  "case handle_create ffi of
     (Inl _, es) \<Rightarrow> (\<forall>i. Created i \<in> set es \<longleftrightarrow> Freed i \<in> set es)
   | (Inr h, es) \<Rightarrow> Created (eh_ptr h) \<in> set es \<and> (\<forall>i. Freed i \<notin> set es) \<and> handle_drop h = [Freed (eh_ptr h)]"
  by (auto simp: handle_create_def handle_drop_def split: option.split)

end
