(* ===== verification/Account.thy ===== *)
theory Account
  imports Json FileTree
begin

text \<open>
  The machine's identity towards its operator: the account token with login and logout (\<open>main.rs\<close>) and the
  wallet (\<open>wallet.rs\<close>). The coordinator's answers, the clock, \<open>shasum\<close> and file operations are observations.
\<close>

section \<open>The account token\<close>

record token_env =
  tk_mkdir_ok :: bool
  tk_write_ok :: bool
  tk_chmod_ok :: bool
  tk_remove_ok :: bool

definition auth_token_path :: "string option \<Rightarrow> string" where
  "auth_token_path config_dir = (case config_dir of None \<Rightarrow> ''.'' | Some d \<Rightarrow> d) @ ''/eigeninference/auth_token''"

definition load_auth_token :: "string option \<Rightarrow> string option" where
  "load_auth_token token_file =
     (case token_file of None \<Rightarrow> None | Some s \<Rightarrow> if trim s = [] then None else Some (trim s))"

definition save_auth_token :: "token_env \<Rightarrow> string \<Rightarrow> string option \<Rightarrow> unit result \<times> string option" where
  "save_auth_token env token token_file =
     (if \<not> tk_mkdir_ok env then (Err ''mkdir'', token_file)
      else if \<not> tk_write_ok env then (Err ''write'', token_file)
      else if \<not> tk_chmod_ok env then (Err ''chmod'', Some token)
      else (Ok (), Some token))"

definition delete_auth_token :: "token_env \<Rightarrow> string option \<Rightarrow> unit result \<times> string option" where
  "delete_auth_token env token_file =
     (if token_file = None then (Ok (), None)
      else if tk_remove_ok env then (Ok (), None) else (Err ''remove'', token_file))"

section \<open>Login\<close>

record device_code =
  dc_device_code :: string
  dc_user_code :: string
  dc_verification_uri :: string
  dc_expires_in :: u64
  dc_interval :: u64

definition dec_device_code :: "json \<Rightarrow> device_code option" where
  "dec_device_code v =
     (case v of
        JObj kvs \<Rightarrow>
          (case (field_req json_as_str ''device_code'' kvs, field_req json_as_str ''user_code'' kvs,
                 field_req json_as_str ''verification_uri'' kvs, field_req json_as_u64 ''expires_in'' kvs,
                 field_req json_as_u64 ''interval'' kvs) of
             (Some d, Some u, Some uri, Some e, Some i) \<Rightarrow>
               Some \<lparr>dc_device_code = d, dc_user_code = u, dc_verification_uri = uri, dc_expires_in = e, dc_interval = i\<rparr>
           | _ \<Rightarrow> None)
      | _ \<Rightarrow> None)"

text \<open>A turn of the polling loop: the clock at its start, and the answer to its request, \<open>None\<close> when the
  request fails or its body is not JSON.\<close>

type_synonym poll = "nat \<times> json option"

text \<open>The loop over the turns observed; \<open>None\<close> when it is still waiting after them.\<close>

fun login_loop :: "token_env \<Rightarrow> nat \<Rightarrow> poll list \<Rightarrow> string option \<Rightarrow> (unit result \<times> string option) option" where
  "login_loop env deadline [] token_file = None"
| "login_loop env deadline ((now, answer) # polls) token_file =
     (if now > deadline then Some (Err ''Device code expired. Run 'darkbloom login' again.'', token_file)
      else case answer of
        None \<Rightarrow> login_loop env deadline polls token_file
      | Some body \<Rightarrow>
          let status = (case json_get_as json_as_str ''status'' body of Some s \<Rightarrow> s | None \<Rightarrow> []) in
          if status = ''authorization_pending'' then login_loop env deadline polls token_file
          else if status = ''authorized''
            then (case json_get_as json_as_str ''token'' body of
                    None \<Rightarrow> Some (Err ''Missing token in response'', token_file)
                  | Some token \<Rightarrow> Some (save_auth_token env token token_file))
          else Some (Err (case Option.bind (json_get ''error'' body) (json_get_as json_as_str ''message'') of
                            Some m \<Rightarrow> m | None \<Rightarrow> ''Device code expired or invalid''), token_file))"

definition cmd_login ::
  "token_env \<Rightarrow> (nat \<times> json option) option \<Rightarrow> nat \<Rightarrow> poll list \<Rightarrow> string option \<Rightarrow> (unit result \<times> string option) option" where
  "cmd_login env code_answer now polls token_file =
     (if load_auth_token token_file \<noteq> None then Some (Ok (), token_file)
      else case code_answer of
        None \<Rightarrow> Some (Err ''Failed to reach coordinator'', token_file)
      | Some (status, body) \<Rightarrow>
          if \<not> (200 \<le> status \<and> status < 300) then Some (Err ''Failed to get device code'', token_file)
          else (case Option.bind body dec_device_code of
             None \<Rightarrow> Some (Err ''invalid JSON'', token_file)
           | Some dc \<Rightarrow> login_loop env (now + unat (dc_expires_in dc)) polls token_file))"

definition cmd_logout :: "token_env \<Rightarrow> string option \<Rightarrow> unit result \<times> string option" where
  "cmd_logout env token_file =
     (if load_auth_token token_file = None then (Ok (), token_file) else delete_auth_token env token_file)"

section \<open>The wallet\<close>

text \<open>Bytes from the system's generator; when it opens but cannot be read in full, the rest stays zero.
  Without it the bytes are cut out of the clock's nanoseconds.\<close>

definition time_key :: "nat \<Rightarrow> bytes" where
  "time_key t = map (\<lambda>i. word_of_nat (t div 2 ^ (i mod 16) mod 256)) [0..<32]"

definition generate_private_key :: "bytes option \<Rightarrow> nat \<Rightarrow> string" where
  "generate_private_key urandom t =
     hex_lower (case urandom of
       Some bs \<Rightarrow> take 32 bs @ replicate (32 - length bs) 0
     | None \<Rightarrow> time_key t)"

definition first_word :: "string \<Rightarrow> string" where
  "first_word s = takeWhile (\<lambda>c. \<not> is_ascii_space c) (trim s)"

definition address_from_private_key :: "(string \<Rightarrow> string option) \<Rightarrow> string \<Rightarrow> string result" where
  "address_from_private_key shasum key_hex =
     (if length key_hex \<noteq> 64 then Err ''invalid private key length''
      else case shasum key_hex of
        None \<Rightarrow> Err ''failed to hash key for address derivation''
      | Some out \<Rightarrow>
          let hash_hex = first_word out
          in Ok (''0x'' @ (if length hash_hex \<ge> 40 then drop (length hash_hex - 40) hash_hex else hash_hex)))"

definition wallet_load_or_create ::
  "(string \<Rightarrow> string option) \<Rightarrow> token_env \<Rightarrow> bool \<Rightarrow> bytes option \<Rightarrow> nat \<Rightarrow> string option \<Rightarrow> string result \<times> string option" where
  "wallet_load_or_create shasum env read_ok urandom t wallet_file =
     (case wallet_file of
        Some content \<Rightarrow>
          (if read_ok then address_from_private_key shasum (trim content) else Err ''failed to read wallet file'', wallet_file)
      | None \<Rightarrow>
          let key_hex = generate_private_key urandom t in
          (case address_from_private_key shasum key_hex of
             Inl e \<Rightarrow> (Err e, None)
           | Inr address \<Rightarrow>
               if \<not> tk_mkdir_ok env then (Err ''mkdir'', None)
               else if \<not> tk_write_ok env then (Err ''write'', None)
               else if \<not> tk_chmod_ok env then (Err ''chmod'', Some key_hex)
               else (Ok address, Some key_hex)))"

definition wallet_delete :: "token_env \<Rightarrow> string option \<Rightarrow> unit result \<times> string option" where
  "wallet_delete env wallet_file = delete_auth_token env wallet_file"

section \<open>Lemmas\<close>

lemma login_loop_ends: "\<exists>p \<in> set polls. fst p > deadline \<Longrightarrow> login_loop env deadline polls f \<noteq> None"
proof (induction polls)
  case (Cons p polls)
  obtain now answer where p: "p = (now, answer)" by (cases p)
  show ?case
  proof (cases "now > deadline")
    case False
    with Cons p have "login_loop env deadline polls f \<noteq> None" by auto
    with False show ?thesis by (simp add: p Let_def split: option.split)
  qed (simp add: p)
qed simp

definition grants :: "string \<Rightarrow> poll \<Rightarrow> bool" where
  "grants token p \<longleftrightarrow> (case snd p of
     None \<Rightarrow> False
   | Some body \<Rightarrow> json_get_as json_as_str ''status'' body = Some ''authorized'' \<and> json_get_as json_as_str ''token'' body = Some token)"

lemma login_loop_result:
  "login_loop env deadline polls f = Some (r, f') \<Longrightarrow>
     (\<exists>token p. p \<in> set polls \<and> fst p \<le> deadline \<and> grants token p \<and> (r, f') = save_auth_token env token f) \<or>
     ((\<exists>e. r = Err e) \<and> f' = f)"
proof (induction env deadline polls f rule: login_loop.induct)
  case (2 env deadline now answer polls f)
  show ?case
  proof (cases "\<exists>body token. answer = Some body \<and> now \<le> deadline \<and> grants token (now, Some body)")
    case True
    then obtain body token where t: "answer = Some body" "now \<le> deadline" "grants token (now, Some body)" by blast
    then have "(r, f') = save_auth_token env token f"
      using 2(3) by (auto simp: grants_def Let_def)
    with t show ?thesis by (intro disjI1 exI[of _ token] exI[of _ "(now, answer)"]) auto
  next
    case False
    with 2(3) consider "login_loop env deadline polls f = Some (r, f')" "now \<le> deadline"
        "answer = None \<or> (\<exists>body. answer = Some body \<and>
           (case json_get_as json_as_str ''status'' body of Some s \<Rightarrow> s | None \<Rightarrow> []) = ''authorization_pending'')"
      | "\<exists>e. r = Err e" "f' = f"
      by (auto simp: grants_def Let_def split: if_splits option.splits)
    then show ?thesis
    proof cases
      case 1
      then have "(\<exists>token p. p \<in> set polls \<and> fst p \<le> deadline \<and> grants token p \<and> (r, f') = save_auth_token env token f) \<or>
          ((\<exists>e. r = Err e) \<and> f' = f)"
        using 2(1,2) by (auto simp: not_less)
      then show ?thesis by auto
    qed blast
  qed
qed simp

lemma hex_lower_length: "length (hex_lower bs) = 2 * length bs"
  by (induction bs) (simp_all add: hex_lower_def)

lemma hex_digit_not_space: "d < 16 \<Longrightarrow> \<not> is_ascii_space (hex_digit d)"
  by (auto simp: is_ascii_space_def hex_digit_def)

lemma trim_no_space:
  assumes "\<forall>c \<in> set s. \<not> is_ascii_space c"
  shows "trim s = s"
proof -
  have "dropWhile is_ascii_space t = t" if "\<forall>c \<in> set t. \<not> is_ascii_space c" for t
    using that by (cases t) auto
  from this[OF assms] this[of "rev s"] assms show ?thesis by (simp add: trim_def)
qed

lemma trim_hex: "trim (hex_lower bs) = hex_lower bs"
proof (rule trim_no_space, rule ballI)
  fix c assume "c \<in> set (hex_lower bs)"
  then obtain b where "c = hex_digit (unat (b :: u8) div 16) \<or> c = hex_digit (unat b mod 16)"
    by (auto simp: hex_lower_def)
  moreover have "unat b div 16 < 16" for b :: u8
    using unsigned_less[of b, where 'a = nat] by (simp add: less_mult_imp_div_less)
  ultimately show "\<not> is_ascii_space c" using hex_digit_not_space by auto
qed

lemma private_key_length: "length (generate_private_key urandom t) = 64"
  by (auto simp: generate_private_key_def hex_lower_length time_key_def split: option.split)

lemma private_key_trim: "trim (generate_private_key urandom t) = generate_private_key urandom t"
  by (simp add: generate_private_key_def trim_hex)

section \<open>Properties\<close>



text \<open>A wallet, once created, always has the same address: loading the stored key gives the address
  that was returned at its creation, and a failed creation without a permission error stores nothing.\<close>

theorem wallet_address_stable:
  assumes "wallet_load_or_create shasum env read_ok urandom t None = (Ok address, wallet_file)"
  shows "wallet_load_or_create shasum env True urandom' t' wallet_file = (Ok address, wallet_file) \<and> take 2 address = ''0x''"
  using assms
  by (auto simp: wallet_load_or_create_def private_key_trim address_from_private_key_def private_key_length Let_def
      split: sum.splits if_splits option.splits)

theorem wallet_address_stable_witness:
  "\<exists>a f. wallet_load_or_create (\<lambda>_. Some ''ab'') \<lparr>tk_mkdir_ok = True, tk_write_ok = True, tk_chmod_ok = True, tk_remove_ok = True\<rparr> True (Some []) 0 None = (Ok a, f) \<and>
     fst (wallet_load_or_create (\<lambda>_. Some ''ab'') \<lparr>tk_mkdir_ok = True, tk_write_ok = True, tk_chmod_ok = True, tk_remove_ok = True\<rparr> True None 5 f) = Ok a"
proof -
  let ?env = "\<lparr>tk_mkdir_ok = True, tk_write_ok = True, tk_chmod_ok = True, tk_remove_ok = True\<rparr>"
  obtain a f where r: "wallet_load_or_create (\<lambda>_. Some ''ab'') ?env True (Some []) 0 None = (Ok a, f)"
    by (auto simp: wallet_load_or_create_def address_from_private_key_def private_key_length Let_def)
  from wallet_address_stable[OF r, of None 5] r show ?thesis by auto
qed

text \<open>The fallback without the system's generator: the key repeats its first half and depends on the low 23 bits
  of the clock only.\<close>

lemma time_key_repeats: "drop 16 (time_key t) = take 16 (time_key t)"
  by (rule nth_equalityI) (simp_all add: time_key_def)

lemma shift_low_bits:
  assumes "t mod 2 ^ 23 = t' mod (2 ^ 23 :: nat)" "i < 16"
  shows "t div 2 ^ i mod 256 = t' div 2 ^ i mod 256"
proof -
  have "i + (15 - i) + 8 = 23" using assms(2) by simp
  then have p: "(2 :: nat) ^ 23 = 2 ^ i * (2 ^ (15 - i) * 2 ^ 8)"
    by (metis mult.assoc power_add)
  have "s mod (2 ^ i * k) div 2 ^ i mod c = s div 2 ^ i mod c" if "c dvd k" for s k c :: nat
    using that by (simp add: mod_mult2_eq mod_mod_cancel)
  from this[of "2 ^ 8" "2 ^ (15 - i) * 2 ^ 8"] have "s mod 2 ^ 23 div 2 ^ i mod 2 ^ 8 = s div 2 ^ i mod 2 ^ 8" for s :: nat
    unfolding p by simp
  from this[of t] this[of t'] assms(1) show ?thesis by simp
qed

lemma time_key_weak: "t mod 2 ^ 23 = t' mod 2 ^ 23 \<Longrightarrow> time_key t = time_key t'"
  by (simp add: time_key_def shift_low_bits[of t t'])

end
