(* ===== verification/TelemetryEvent.thy ===== *)
theory TelemetryEvent
  imports Maps Json
begin

text \<open>
  The telemetry record of \<open>telemetry/event.rs\<close> with its JSON form, the classifier of backend
  stderr lines (\<open>telemetry/stderr_scraper.rs\<close>) and the field allowlist of
  \<open>telemetry/layer.rs\<close>. Identifiers and time stamps (\<open>Uuid::new_v4\<close>, the clock) are
  arguments. The \<open>fields\<close> map of an event is a \<open>serde_json::Map\<close>, a \<open>BTreeMap\<close>.
\<close>

section \<open>Data\<close>

datatype telemetry_source = SrcCoordinator | SrcProvider | SrcApp | SrcConsole | SrcBridge

datatype severity = SevDebug | SevInfo | SevWarn | SevError | SevFatal

datatype telemetry_kind = KPanic | KHttpError | KProtocolError | KBackendCrash
  | KAttestationFailure | KInferenceError | KRuntimeMismatch | KConnectivity | KLog | KCustom

record telemetry_event =
  te_id :: string
  te_timestamp :: string
  te_source :: telemetry_source
  te_severity :: severity
  te_kind :: telemetry_kind
  te_version :: string
  te_machine_id :: string
  te_account_id :: string
  te_request_id :: string
  te_session_id :: string
  te_message :: string
  te_fields :: "(string \<times> json) list"
  te_stack :: string

text \<open>What \<open>TelemetryEvent::new\<close> takes from its surroundings: a fresh identifier, the current
  time, the session identifier of the process.\<close>

record event_env =
  ev_uuid :: string
  ev_now :: string
  ev_session :: string

definition event_new :: "event_env \<Rightarrow> telemetry_source \<Rightarrow> severity \<Rightarrow> telemetry_kind \<Rightarrow> string \<Rightarrow> telemetry_event" where
  "event_new env src sev knd msg =
     \<lparr>te_id = ev_uuid env, te_timestamp = ev_now env, te_source = src, te_severity = sev,
      te_kind = knd, te_version = [], te_machine_id = [], te_account_id = [], te_request_id = [],
      te_session_id = ev_session env, te_message = msg, te_fields = [], te_stack = []\<rparr>"

definition with_fields :: "(string \<times> json) list \<Rightarrow> telemetry_event \<Rightarrow> telemetry_event" where
  "with_fields m ev = ev\<lparr>te_fields := m\<rparr>"

definition with_field :: "string \<Rightarrow> json \<Rightarrow> telemetry_event \<Rightarrow> telemetry_event" where
  "with_field k v ev = ev\<lparr>te_fields := btree_insert k v (te_fields ev)\<rparr>"

definition with_stack :: "string \<Rightarrow> telemetry_event \<Rightarrow> telemetry_event" where
  "with_stack s ev = ev\<lparr>te_stack := s\<rparr>"

definition with_request_id :: "string \<Rightarrow> telemetry_event \<Rightarrow> telemetry_event" where
  "with_request_id r ev = ev\<lparr>te_request_id := r\<rparr>"

section \<open>JSON form\<close>

fun enc_source :: "telemetry_source \<Rightarrow> json" where
  "enc_source SrcCoordinator = JStr ''coordinator''"
| "enc_source SrcProvider = JStr ''provider''"
| "enc_source SrcApp = JStr ''app''"
| "enc_source SrcConsole = JStr ''console''"
| "enc_source SrcBridge = JStr ''bridge''"

fun enc_severity :: "severity \<Rightarrow> json" where
  "enc_severity SevDebug = JStr ''debug''"
| "enc_severity SevInfo = JStr ''info''"
| "enc_severity SevWarn = JStr ''warn''"
| "enc_severity SevError = JStr ''error''"
| "enc_severity SevFatal = JStr ''fatal''"

fun enc_kind :: "telemetry_kind \<Rightarrow> json" where
  "enc_kind KPanic = JStr ''panic''"
| "enc_kind KHttpError = JStr ''http_error''"
| "enc_kind KProtocolError = JStr ''protocol_error''"
| "enc_kind KBackendCrash = JStr ''backend_crash''"
| "enc_kind KAttestationFailure = JStr ''attestation_failure''"
| "enc_kind KInferenceError = JStr ''inference_error''"
| "enc_kind KRuntimeMismatch = JStr ''runtime_mismatch''"
| "enc_kind KConnectivity = JStr ''connectivity''"
| "enc_kind KLog = JStr ''log''"
| "enc_kind KCustom = JStr ''custom''"

text \<open>A unit variant is read from the string that names it.\<close>

definition dec_variant :: "('a \<Rightarrow> json) \<Rightarrow> 'a list \<Rightarrow> json \<Rightarrow> 'a option" where
  "dec_variant enc xs v = find (\<lambda>x. enc x = v) xs"

definition dec_source :: "json \<Rightarrow> telemetry_source option" where
  "dec_source = dec_variant enc_source [SrcCoordinator, SrcProvider, SrcApp, SrcConsole, SrcBridge]"

definition dec_severity :: "json \<Rightarrow> severity option" where
  "dec_severity = dec_variant enc_severity [SevDebug, SevInfo, SevWarn, SevError, SevFatal]"

definition dec_kind :: "json \<Rightarrow> telemetry_kind option" where
  "dec_kind = dec_variant enc_kind [KPanic, KHttpError, KProtocolError, KBackendCrash,
     KAttestationFailure, KInferenceError, KRuntimeMismatch, KConnectivity, KLog, KCustom]"

fun enc_value_map :: "(string \<times> json) list \<Rightarrow> json" where
  "enc_value_map m = JObj m"

fun dec_value_map :: "json \<Rightarrow> (string \<times> json) list option" where
  "dec_value_map (JObj kvs) = Some (btree_collect kvs)"
| "dec_value_map _ = None"

definition enc_telemetry_event :: "telemetry_event \<Rightarrow> json" where
  "enc_telemetry_event ev =
     JObj ([(''id'', enc_string (te_id ev)), (''timestamp'', enc_string (te_timestamp ev)),
            (''source'', enc_source (te_source ev)), (''severity'', enc_severity (te_severity ev)),
            (''kind'', enc_kind (te_kind ev))]
           @ skip_if is_empty enc_string ''version'' (te_version ev)
           @ skip_if is_empty enc_string ''machine_id'' (te_machine_id ev)
           @ skip_if is_empty enc_string ''account_id'' (te_account_id ev)
           @ skip_if is_empty enc_string ''request_id'' (te_request_id ev)
           @ skip_if is_empty enc_string ''session_id'' (te_session_id ev)
           @ [(''message'', enc_string (te_message ev))]
           @ skip_if is_empty enc_value_map ''fields'' (te_fields ev)
           @ skip_if is_empty enc_string ''stack'' (te_stack ev))"

definition dec_telemetry_event :: "json \<Rightarrow> telemetry_event option" where
  "dec_telemetry_event v =
     (case v of
        JObj kvs \<Rightarrow>
          Option.bind (field_req json_as_str ''id'' kvs) (\<lambda>i.
          Option.bind (field_req json_as_str ''timestamp'' kvs) (\<lambda>t.
          Option.bind (field_req dec_source ''source'' kvs) (\<lambda>src.
          Option.bind (field_req dec_severity ''severity'' kvs) (\<lambda>sev.
          Option.bind (field_req dec_kind ''kind'' kvs) (\<lambda>knd.
          Option.bind (field_default [] json_as_str ''version'' kvs) (\<lambda>ver.
          Option.bind (field_default [] json_as_str ''machine_id'' kvs) (\<lambda>mid.
          Option.bind (field_default [] json_as_str ''account_id'' kvs) (\<lambda>acc.
          Option.bind (field_default [] json_as_str ''request_id'' kvs) (\<lambda>rid.
          Option.bind (field_default [] json_as_str ''session_id'' kvs) (\<lambda>sid.
          Option.bind (field_req json_as_str ''message'' kvs) (\<lambda>msg.
          Option.bind (field_default [] dec_value_map ''fields'' kvs) (\<lambda>fs.
          Option.bind (field_default [] json_as_str ''stack'' kvs) (\<lambda>stk.
            Some \<lparr>te_id = i, te_timestamp = t, te_source = src, te_severity = sev, te_kind = knd,
              te_version = ver, te_machine_id = mid, te_account_id = acc, te_request_id = rid,
              te_session_id = sid, te_message = msg, te_fields = fs, te_stack = stk\<rparr>)))))))))))))
      | _ \<Rightarrow> None)"

definition enc_telemetry_batch :: "telemetry_event list \<Rightarrow> json" where
  "enc_telemetry_batch events = JObj [(''events'', enc_list enc_telemetry_event events)]"

text \<open>The invariant of an event: its \<open>fields\<close> are a map.\<close>

definition event_wf :: "telemetry_event \<Rightarrow> bool" where
  "event_wf ev \<longleftrightarrow> btree_wf (te_fields ev)"

section \<open>Stderr lines\<close>

datatype classification = CIgnore | CWarn string | CError string

definition classify :: "string \<Rightarrow> classification" where
  "classify line =
     (let lower = to_lowercase line in
      if starts_with line ''Traceback (most recent call last)'' then CError ''python_traceback''
      else if str_contains line ''CRITICAL'' \<or> str_contains line ''FATAL'' then CError ''critical_log''
      else if str_contains lower ''runtimeerror'' \<or> str_contains lower ''segmentation fault''
        then CError ''runtime_error''
      else if str_contains lower ''out of memory'' \<or> str_contains lower ''oom'' then CError ''oom''
      else if str_contains line ''WARNING'' \<or> str_contains line ''warn:'' then CWarn ''warning_log''
      else CIgnore)"

text \<open>\<open>str::is_char_boundary\<close> on UTF-8 bytes; slicing elsewhere panics, here \<open>None\<close>.\<close>

definition is_char_boundary :: "string \<Rightarrow> nat \<Rightarrow> bool" where
  "is_char_boundary s i \<longleftrightarrow>
     i = 0 \<or> i = length s \<or>
     (i < length s \<and> \<not> (0x80 \<le> (of_char (s ! i) :: nat) \<and> (of_char (s ! i) :: nat) < 0xC0))"

definition truncate_line :: "string \<Rightarrow> nat \<Rightarrow> string option" where
  "truncate_line s mx =
     (if length s \<le> mx then Some s
      else if is_char_boundary s mx then Some (take mx s @ ''... [truncated]'')
      else None)"

text \<open>The outer option is a panic, the inner one the function's own.\<close>

definition event_for ::
  "event_env \<Rightarrow> telemetry_source \<Rightarrow> string \<Rightarrow> string option \<Rightarrow> string \<Rightarrow> classification
     \<Rightarrow> telemetry_event option option" where
  "event_for env src component model line c =
     (let build = (\<lambda>sev reason.
        case truncate_line line 2048 of
          None \<Rightarrow> None
        | Some truncated \<Rightarrow>
            let ev = with_field ''reason'' (JStr reason)
                       (with_field ''component'' (JStr component) (event_new env src sev KLog truncated))
            in Some (Some (case model of None \<Rightarrow> ev | Some m \<Rightarrow> with_field ''model'' (JStr m) ev)))
      in case c of CIgnore \<Rightarrow> Some None | CWarn r \<Rightarrow> build SevWarn r | CError r \<Rightarrow> build SevError r)"

section \<open>Properties\<close>

lemma btree_collect_id: "btree_wf m \<Longrightarrow> btree_collect m = m"
  using map_of_btree_collect[of m] btree_wf_collect[of m] by (intro btree_ext) (simp_all add: btree_wf_def)

interpretation source_codec: codec enc_source dec_source "\<lambda>_. True"
proof unfold_locales
  fix x :: telemetry_source
  show "dec_source (enc_source x) = Some x"
    by (cases x) (simp_all add: dec_source_def dec_variant_def)
qed

interpretation severity_codec: codec enc_severity dec_severity "\<lambda>_. True"
proof unfold_locales
  fix x :: severity
  show "dec_severity (enc_severity x) = Some x"
    by (cases x) (simp_all add: dec_severity_def dec_variant_def)
qed

interpretation kind_codec: codec enc_kind dec_kind "\<lambda>_. True"
proof unfold_locales
  fix x :: telemetry_kind
  show "dec_kind (enc_kind x) = Some x"
    by (cases x) (simp_all add: dec_kind_def dec_variant_def)
qed

interpretation value_map_codec: codec enc_value_map dec_value_map btree_wf
  by unfold_locales (simp add: btree_collect_id)

lemmas event_field_codecs =
  string_codec.field_req_enc source_codec.field_req_enc severity_codec.field_req_enc
  kind_codec.field_req_enc field_default_def string_codec.default_case value_map_codec.default_case

interpretation telemetry_event_codec: codec enc_telemetry_event dec_telemetry_event event_wf
  by unfold_locales
    (simp add: enc_telemetry_event_def dec_telemetry_event_def event_wf_def event_field_codecs is_empty_def)

lemma event_wf_new [simp]: "event_wf (event_new env src sev knd msg)"
  by (simp add: event_wf_def event_new_def)

lemma event_wf_with_field [simp]: "event_wf ev \<Longrightarrow> event_wf (with_field k v ev)"
  by (simp add: event_wf_def with_field_def btree.invar_insert)

lemma event_wf_with_stack [simp]: "event_wf (with_stack s ev) = event_wf ev"
  by (simp add: event_wf_def with_stack_def)

lemma event_for_wf: "event_for env src component model line c = Some (Some ev) \<Longrightarrow> event_wf ev"
  by (auto simp: event_for_def Let_def split: classification.splits option.splits)

end
