(* ===== verification/TelemetryQueue.thy ===== *)
theory TelemetryQueue
  imports TelemetryEvent Utf8
begin

text \<open>
  The disk queue of \<open>telemetry/queue.rs\<close>: a JSONL file, one event a line. The file is its
  bytes, \<open>None\<close> while it does not exist; which file operations succeed is the record
  \<open>queue_io\<close>. \<open>serde_json\<close>'s printer and reader are the parameters \<open>to_string\<close> and
  \<open>from_str\<close>.

  What a client may rely on is the locale \<open>lossy_fifo\<close>: a queue that returns events in the
  order they were stored and can forget only its oldest ones. The file is an instance.
\<close>

section \<open>The interface\<close>

locale lossy_fifo =
  fixes push :: "'e \<Rightarrow> 'q \<Rightarrow> 'q"
    and drain :: "nat \<Rightarrow> 'q \<Rightarrow> 'e list \<times> 'q"
    and contents :: "'q \<Rightarrow> 'e list"
    and invar :: "'q \<Rightarrow> bool"
    and storable :: "'e \<Rightarrow> bool"
  assumes invar_push: "invar q \<Longrightarrow> storable e \<Longrightarrow> invar (push e q)"
    and contents_push: "invar q \<Longrightarrow> storable e \<Longrightarrow> \<exists>k \<le> length (contents q). contents (push e q) = drop k (contents q) @ [e]"
    and invar_drain: "invar q \<Longrightarrow> invar (snd (drain n q))"
    and drained: "invar q \<Longrightarrow> fst (drain n q) = take n (contents q)"
    and contents_drain: "invar q \<Longrightarrow> contents (snd (drain n q)) = drop n (contents q)"
    and storable_contents: "invar q \<Longrightarrow> list_all storable (contents q)"
begin

lemma push_all:
  assumes "invar q" and "list_all storable es"
  shows "invar (fold push es q) \<and>
    (\<exists>k. k \<le> length (contents q @ es) \<and> contents (fold push es q) = drop k (contents q @ es))"
  using assms
proof (induction es arbitrary: q)
  case Nil
  then show ?case by (auto intro: exI[of _ 0])
next
  case (Cons e es)
  from Cons.prems obtain k where k: "k \<le> length (contents q)"
      and c: "contents (push e q) = drop k (contents q) @ [e]"
    using contents_push[of q e] by auto
  have "invar (push e q)" and "list_all storable es"
    using Cons.prems invar_push by auto
  from Cons.IH[OF this] obtain j where j: "j \<le> length (drop k (contents q) @ [e] @ es)"
      and i: "invar (fold push es (push e q))"
      and cj: "contents (fold push es (push e q)) = drop j ((drop k (contents q) @ [e]) @ es)"
    unfolding c by auto
  have "contents (fold push es (push e q)) = drop (k + j) (contents q @ e # es)"
    using cj k by (simp add: add.commute flip: drop_drop)
  moreover have "k + j \<le> length (contents q @ e # es)"
    using j k by simp
  ultimately show ?case
    using i by auto
qed

lemma drain_shorter: "invar q \<Longrightarrow> length (fst (drain n q)) \<le> n"
  by (simp add: drained)

lemma contents_split: "invar q \<Longrightarrow> fst (drain n q) @ contents (snd (drain n q)) = contents q"
  by (simp add: drained contents_drain)

lemma drained_storable: "invar q \<Longrightarrow> list_all storable (fst (drain n q))"
  using storable_contents[of q] by (auto simp: drained list_all_iff dest: in_set_takeD)

end

section \<open>The file\<close>

text \<open>\<open>BufRead::lines().map_while(Result::ok)\<close>: reading stops at a line that is not UTF-8.\<close>

definition reader_lines :: "string \<Rightarrow> string list" where
  "reader_lines content = takeWhile utf8_valid (str_lines content)"

text \<open>\<open>read_line\<close> consumes up to and including the next line feed, also when what it read is
  not UTF-8.\<close>

definition after_line :: "string \<Rightarrow> string" where
  "after_line content = tl (dropWhile (\<lambda>c. c \<noteq> newline) content)"

definition write_lines :: "string list \<Rightarrow> string" where
  "write_lines ls = concat (map (\<lambda>l. l @ [newline]) ls)"

record queue_io =
  io_create_dir :: bool
  io_open_read :: bool
  io_open_append :: bool
  io_open_tmp :: bool
  io_write :: bool
  io_rename :: bool

type_synonym queue_file = "string option"

definition max_bytes :: nat where "max_bytes = 5 * 1024 * 1024"

definition rotate_if_needed :: "queue_io \<Rightarrow> queue_file \<Rightarrow> queue_file result" where
  "rotate_if_needed io file =
     (case file of
        None \<Rightarrow> Ok None
      | Some content \<Rightarrow>
          let size = length content in
          if size \<le> max_bytes then Ok file
          else if \<not> io_open_read io then Err ''open''
          else
            (let midpoint = size div 2;
                 ls = reader_lines (after_line (drop midpoint content))
             in if \<not> io_open_tmp io then Err ''open tmp''
                else if ls \<noteq> [] \<and> \<not> io_write io then Err ''write tmp''
                else if \<not> io_rename io then Err ''rename''
                else Ok (Some (write_lines ls))))"

text \<open>The second component is the file afterwards; a caller ignores the first.\<close>

definition queue_push :: "queue_io \<Rightarrow> (json \<Rightarrow> string option) \<Rightarrow> telemetry_event \<Rightarrow> queue_file \<Rightarrow> unit result \<times> queue_file" where
  "queue_push io to_string ev file =
     (case to_string (enc_telemetry_event ev) of
        None \<Rightarrow> (Ok (), file)
      | Some line \<Rightarrow>
          (case rotate_if_needed io file of
             Inl e \<Rightarrow> (Err e, file)
           | Inr file' \<Rightarrow>
               if \<not> io_open_append io then (Err ''open append'', file')
               else (let content = (case file' of None \<Rightarrow> [] | Some c \<Rightarrow> c)
                     in if \<not> io_write io then (Err ''write'', Some content)
                        else (Ok (), Some (content @ line @ [newline])))))"

text \<open>The loop of \<open>drain\<close>: a line that does not parse is dropped and does not count.\<close>

fun drain_lines :: "(string \<Rightarrow> json option) \<Rightarrow> nat \<Rightarrow> telemetry_event list \<Rightarrow> string list \<Rightarrow> string list
    \<Rightarrow> telemetry_event list \<times> string list" where
  "drain_lines from_str limit drained remaining [] = (drained, remaining)"
| "drain_lines from_str limit drained remaining (line # ls) =
     (if length drained < limit then
        (case Option.bind (from_str line) dec_telemetry_event of
           Some ev \<Rightarrow> drain_lines from_str limit (drained @ [ev]) remaining ls
         | None \<Rightarrow> drain_lines from_str limit drained remaining ls)
      else drain_lines from_str limit drained (remaining @ [line]) ls)"

definition queue_drain :: "queue_io \<Rightarrow> (string \<Rightarrow> json option) \<Rightarrow> nat \<Rightarrow> queue_file
    \<Rightarrow> telemetry_event list \<times> queue_file" where
  "queue_drain io from_str limit file =
     (case file of
        None \<Rightarrow> ([], None)
      | Some content \<Rightarrow>
          if \<not> io_open_read io then ([], file)
          else
            (let (drained, remaining) = drain_lines from_str limit [] [] (reader_lines content)
             in (drained,
                 if io_open_tmp io \<and> io_rename io
                 then Some (if io_write io then write_lines remaining else [])
                 else file)))"

definition io_working :: queue_io where
  "io_working = \<lparr>io_create_dir = True, io_open_read = True, io_open_append = True,
     io_open_tmp = True, io_write = True, io_rename = True\<rparr>"

section \<open>The file is a lossy FIFO\<close>

text \<open>What the queue relies on from \<open>serde_json\<close> for an event: the printed document is UTF-8
  on one line and reads back.\<close>

definition clean_line :: "string \<Rightarrow> bool" where
  "clean_line l \<longleftrightarrow> newline \<notin> set l \<and> utf8_valid l \<and> (l = [] \<or> last l \<noteq> carriage_return)"

definition storable :: "(json \<Rightarrow> string option) \<Rightarrow> (string \<Rightarrow> json option) \<Rightarrow> telemetry_event \<Rightarrow> bool" where
  "storable to_string from_str ev \<longleftrightarrow>
     event_wf ev \<and>
     (case to_string (enc_telemetry_event ev) of
        None \<Rightarrow> False
      | Some l \<Rightarrow> clean_line l \<and> from_str l = Some (enc_telemetry_event ev))"

definition event_line :: "(json \<Rightarrow> string option) \<Rightarrow> telemetry_event \<Rightarrow> string" where
  "event_line to_string ev = (case to_string (enc_telemetry_event ev) of None \<Rightarrow> [] | Some l \<Rightarrow> l)"

definition queue_contents :: "(string \<Rightarrow> json option) \<Rightarrow> queue_file \<Rightarrow> telemetry_event list" where
  "queue_contents from_str file =
     (case file of
        None \<Rightarrow> []
      | Some content \<Rightarrow>
          List.map_filter (\<lambda>l. Option.bind (from_str l) dec_telemetry_event) (reader_lines content))"

definition queue_wf :: "(json \<Rightarrow> string option) \<Rightarrow> (string \<Rightarrow> json option) \<Rightarrow> queue_file \<Rightarrow> bool" where
  "queue_wf to_string from_str file \<longleftrightarrow>
     file = None \<or>
     (\<exists>es. list_all (storable to_string from_str) es \<and> file = Some (write_lines (map (event_line to_string) es)))"

lemma write_lines_simps [simp]:
  "write_lines [] = []" "write_lines (l # ls) = l @ newline # write_lines ls"
  "write_lines (ls @ ls') = write_lines ls @ write_lines ls'"
  by (simp_all add: write_lines_def)

lemma str_split_line:
  "newline \<notin> set l \<Longrightarrow> str_split newline (l @ newline # rest) = l # str_split newline rest"
  by (induction l) auto

lemma str_split_write_lines:
  "list_all clean_line ls \<Longrightarrow> str_split newline (write_lines ls) = ls @ [[]]"
  by (induction ls) (simp_all add: str_split_line clean_line_def)

lemma chomp_clean: "clean_line l \<Longrightarrow> chomp_cr l = l"
  by (cases l rule: rev_cases) (auto simp: clean_line_def chomp_cr_def strip_suffix_def ends_with_def)

lemma reader_lines_write_lines:
  assumes "list_all clean_line ls"
  shows "reader_lines (write_lines ls) = ls"
proof -
  have "map chomp_cr ls = ls"
    using assms by (induction ls) (simp_all add: chomp_clean)
  moreover have "takeWhile utf8_valid ls = ls"
    using assms by (auto simp: takeWhile_eq_all_conv list_all_iff clean_line_def)
  ultimately show ?thesis
    by (simp add: reader_lines_def str_lines_def str_split_write_lines[OF assms])
qed

lemma after_line_write_lines:
  assumes "list_all clean_line ls"
  shows "\<exists>k \<le> length ls. after_line (drop m (write_lines ls)) = write_lines (drop k ls)"
  using assms
proof (induction ls arbitrary: m)
  case Nil
  then show ?case by (simp add: after_line_def)
next
  case (Cons l ls)
  have nl: "newline \<notin> set l" using Cons.prems by (simp add: clean_line_def)
  show ?case
  proof (cases "m \<le> length l")
    case True
    have "dropWhile (\<lambda>c. c \<noteq> newline) (drop m l @ newline # write_lines ls) = newline # write_lines ls"
      using nl in_set_dropD[of _ m l] by (subst dropWhile_append2) auto
    with True show ?thesis
      by (intro exI[of _ 1]) (simp add: after_line_def)
  next
    case False
    with Cons obtain k where "k \<le> length ls"
        and "after_line (drop (m - Suc (length l)) (write_lines ls)) = write_lines (drop k ls)"
      by auto
    moreover have "drop m (write_lines (l # ls)) = drop (m - Suc (length l)) (write_lines ls)"
      using False drop_append[of m "l @ [newline]" "write_lines ls"] by simp
    ultimately show ?thesis
      by (intro exI[of _ "Suc k"]) simp
  qed
qed

lemma clean_event_line: "storable to_string from_str ev \<Longrightarrow> clean_line (event_line to_string ev)"
  by (auto simp: storable_def event_line_def split: option.splits)

lemma clean_event_lines:
  "list_all (storable to_string from_str) es \<Longrightarrow> list_all clean_line (map (event_line to_string) es)"
  by (auto simp: list_all_iff clean_event_line)

lemma parse_event_line:
  "storable to_string from_str ev \<Longrightarrow>
   Option.bind (from_str (event_line to_string ev)) dec_telemetry_event = Some ev"
  by (auto simp: storable_def event_line_def telemetry_event_codec.dec_enc split: option.splits)

lemma contents_write_lines:
  assumes "list_all (storable to_string from_str) es"
  shows "queue_contents from_str (Some (write_lines (map (event_line to_string) es))) = es"
  using assms unfolding queue_contents_def
  by (simp add: reader_lines_write_lines clean_event_lines)
    (induction es, simp_all add: map_filter_simps parse_event_line)

lemma drain_lines_spec:
  assumes "list_all (storable to_string from_str) es"
  shows "drain_lines from_str limit dr rm (map (event_line to_string) es) =
    (dr @ take (limit - length dr) es, rm @ map (event_line to_string) (drop (limit - length dr) es))"
  using assms
proof (induction es arbitrary: dr rm)
  case (Cons e es)
  then show ?case
    using parse_event_line[of to_string from_str e]
    by (cases "length dr < limit") (auto simp: take_Cons' drop_Cons')
qed simp

text \<open>Rotation keeps whole lines, a suffix of them, of at most half the size.\<close>

definition rotated_size :: "nat \<Rightarrow> nat" where
  "rotated_size n = (if n \<le> max_bytes then n else n - n div 2)"

lemma after_line_length: "length (after_line s) \<le> length s"
  using length_dropWhile_le[of "\<lambda>c. c \<noteq> newline" s] by (simp add: after_line_def)

lemma rotate_spec:
  assumes "list_all clean_line ls"
  shows "\<exists>k \<le> length ls. rotate_if_needed io_working (Some (write_lines ls)) = Ok (Some (write_lines (drop k ls)))
    \<and> (length (write_lines ls) \<le> max_bytes \<longrightarrow> k = 0)
    \<and> length (write_lines (drop k ls)) \<le> rotated_size (length (write_lines ls))"
proof (cases "length (write_lines ls) \<le> max_bytes")
  case True
  then show ?thesis
    by (auto simp: rotate_if_needed_def rotated_size_def intro: exI[of _ 0])
next
  case False
  obtain k where k: "k \<le> length ls"
      and a: "after_line (drop (length (write_lines ls) div 2) (write_lines ls)) = write_lines (drop k ls)"
    using after_line_write_lines[OF assms] by blast
  have "list_all clean_line (drop k ls)"
    using assms by (auto simp: list_all_iff dest: in_set_dropD)
  moreover have "length (write_lines (drop k ls)) \<le> length (write_lines ls) - length (write_lines ls) div 2"
    using after_line_length[of "drop (length (write_lines ls) div 2) (write_lines ls)"] a by simp
  ultimately show ?thesis
    using False k a
    by (auto simp: rotate_if_needed_def Let_def io_working_def reader_lines_write_lines rotated_size_def)
qed

lemma push_spec:
  assumes "list_all (storable to_string from_str) es" and "storable to_string from_str ev"
  shows "\<exists>k \<le> length es. queue_push io_working to_string ev (Some (write_lines (map (event_line to_string) es)))
    = (Ok (), Some (write_lines (map (event_line to_string) (drop k es @ [ev]))))
    \<and> (length (write_lines (map (event_line to_string) es)) \<le> max_bytes \<longrightarrow> k = 0)
    \<and> length (write_lines (map (event_line to_string) (drop k es)))
        \<le> rotated_size (length (write_lines (map (event_line to_string) es)))"
proof -
  from assms(2) obtain l where l: "to_string (enc_telemetry_event ev) = Some l" "event_line to_string ev = l"
    by (auto simp: storable_def event_line_def split: option.splits)
  show ?thesis
    using rotate_spec[OF clean_event_lines[OF assms(1)]] l
    by (auto simp: queue_push_def io_working_def drop_map)
qed

abbreviation push_file :: "(json \<Rightarrow> string option) \<Rightarrow> telemetry_event \<Rightarrow> queue_file \<Rightarrow> queue_file" where
  "push_file to_string ev file \<equiv> snd (queue_push io_working to_string ev file)"

definition file_size :: "queue_file \<Rightarrow> nat" where
  "file_size file = (case file of None \<Rightarrow> 0 | Some content \<Rightarrow> length content)"

lemma push_missing: "queue_push io_working to_string ev None = queue_push io_working to_string ev (Some [])"
  if "to_string (enc_telemetry_event ev) \<noteq> None"
  using that by (auto simp: queue_push_def rotate_if_needed_def io_working_def)

lemma queue_wf_cases:
  assumes "queue_wf to_string from_str file"
  obtains es where "list_all (storable to_string from_str) es"
    and "queue_contents from_str file = es"
    and "file_size file = length (write_lines (map (event_line to_string) es))"
    and "\<And>ev. storable to_string from_str ev \<Longrightarrow>
          queue_push io_working to_string ev file =
          queue_push io_working to_string ev (Some (write_lines (map (event_line to_string) es)))"
    and "\<And>n. queue_drain io_working from_str n file =
          (take n es, if file = None then None else Some (write_lines (map (event_line to_string) (drop n es))))"
proof (cases "file")
  case None
  show thesis
    by (rule that[of "[]"])
      (auto simp: None queue_contents_def file_size_def queue_drain_def storable_def push_missing
        split: option.splits)
next
  case (Some content)
  with assms obtain es where es: "list_all (storable to_string from_str) es"
      and c: "content = write_lines (map (event_line to_string) es)"
    by (auto simp: queue_wf_def)
  show thesis
    by (rule that[OF es])
      (simp_all add: Some c contents_write_lines[OF es] file_size_def queue_drain_def io_working_def
        reader_lines_write_lines clean_event_lines[OF es] drain_lines_spec[OF es])
qed

lemma push_file_spec:
  assumes wf: "queue_wf to_string from_str q" and ev: "storable to_string from_str ev"
  shows "queue_wf to_string from_str (push_file to_string ev q) \<and>
    (\<exists>k \<le> length (queue_contents from_str q).
      queue_contents from_str (push_file to_string ev q) = drop k (queue_contents from_str q) @ [ev] \<and>
      (file_size q \<le> max_bytes \<longrightarrow> k = 0)) \<and>
    file_size (push_file to_string ev q) \<le> rotated_size (file_size q) + length (event_line to_string ev) + 1"
proof -
  obtain es where es: "list_all (storable to_string from_str) es"
      and c: "queue_contents from_str q = es"
      and sz: "file_size q = length (write_lines (map (event_line to_string) es))"
      and push: "queue_push io_working to_string ev q =
        queue_push io_working to_string ev (Some (write_lines (map (event_line to_string) es)))"
    using queue_wf_cases[OF wf] ev by metis
  obtain k where k: "k \<le> length es"
      and p: "push_file to_string ev q = Some (write_lines (map (event_line to_string) (drop k es @ [ev])))"
      and s: "file_size q \<le> max_bytes \<longrightarrow> k = 0"
      and r: "length (write_lines (map (event_line to_string) (drop k es))) \<le> rotated_size (file_size q)"
    using push_spec[OF es ev] unfolding push sz by fastforce
  have all: "list_all (storable to_string from_str) (drop k es @ [ev])"
    using es ev by (auto simp: list_all_iff dest: in_set_dropD)
  then have "queue_wf to_string from_str (push_file to_string ev q)"
    unfolding p queue_wf_def by blast
  moreover have "file_size (push_file to_string ev q) \<le> rotated_size (file_size q) + length (event_line to_string ev) + 1"
    using r unfolding p by (simp add: file_size_def)
  ultimately show ?thesis
    using k s contents_write_lines[OF all] unfolding p c by blast
qed

interpretation disk_queue: lossy_fifo "push_file to_string" "queue_drain io_working from_str"
    "queue_contents from_str" "queue_wf to_string from_str" "storable to_string from_str"
  for to_string from_str
proof (unfold_locales, goal_cases)
  case (1 q e) then show ?case using push_file_spec by blast
next
  case (2 q e) then show ?case using push_file_spec by blast
next
  case (3 q n)
  then show ?case
    by (rule queue_wf_cases) (auto simp: queue_wf_def list_all_iff dest: in_set_dropD)
next
  case (4 q n)
  then show ?case by (rule queue_wf_cases) simp
next
  case (5 q n)
  then show ?case
  proof (rule queue_wf_cases)
    fix es assume es: "list_all (storable to_string from_str) es"
      and c: "queue_contents from_str q = es"
      and d: "\<And>n. queue_drain io_working from_str n q =
        (take n es, if q = None then None else Some (write_lines (map (event_line to_string) (drop n es))))"
    have "list_all (storable to_string from_str) (drop n es)"
      using es by (auto simp: list_all_iff dest: in_set_dropD)
    from contents_write_lines[OF this] show ?thesis
      unfolding d c using c by (auto simp: queue_contents_def)
  qed
next
  case (6 q)
  then show ?case by (rule queue_wf_cases) simp
qed

text \<open>Pushing without rotation: as long as everything fits in the size cap.\<close>

lemma push_all_fits:
  assumes "queue_wf to_string from_str q" and "list_all (storable to_string from_str) es"
    and "file_size q + length (write_lines (map (event_line to_string) es)) \<le> max_bytes"
  shows "queue_wf to_string from_str (fold (push_file to_string) es q) \<and>
    queue_contents from_str (fold (push_file to_string) es q) = queue_contents from_str q @ es \<and>
    file_size (fold (push_file to_string) es q) \<le> file_size q + length (write_lines (map (event_line to_string) es))"
  using assms
proof (induction es arbitrary: q)
  case (Cons e es)
  have e: "storable to_string from_str e" and es: "list_all (storable to_string from_str) es"
    and small: "file_size q \<le> max_bytes"
    using Cons.prems by auto
  have wf: "queue_wf to_string from_str (push_file to_string e q)"
    and c: "queue_contents from_str (push_file to_string e q) = queue_contents from_str q @ [e]"
    and sz: "file_size (push_file to_string e q) \<le> file_size q + length (event_line to_string e) + 1"
    using push_file_spec[OF Cons.prems(1) e] small by (auto simp: rotated_size_def)
  have "file_size (push_file to_string e q) + length (write_lines (map (event_line to_string) es)) \<le> max_bytes"
    using sz Cons.prems(3) by simp
  from Cons.IH[OF wf es this] show ?case
    using c sz by simp
qed simp

lemma queue_wf_None [simp]: "queue_wf to_string from_str None"
  by (simp add: queue_wf_def)

text \<open>Events pushed to an empty disk queue come back in order: a first drain returns the
  first \<open>n\<close>, the next one the rest, and then the queue is empty, as long as the printed events
  fit in the size cap and print to a line that reads back.\<close>

theorem disk_queue_fifo:
  assumes "list_all (storable to_string from_str) es"
    and "length (write_lines (map (event_line to_string) es)) \<le> max_bytes"
    and "q = fold (push_file to_string) es None"
    and "queue_drain io_working from_str n q = (first, q1)"
    and "queue_drain io_working from_str (length es) q1 = (second, q2)"
  shows "first = take n es \<and> second = drop n es \<and> queue_contents from_str q2 = []"
proof -
  have wf: "queue_wf to_string from_str q" and c: "queue_contents from_str q = es"
    using push_all_fits[OF queue_wf_None assms(1)] assms(2,3)
    by (auto simp: file_size_def queue_contents_def)
  note d1 = disk_queue.drained[OF wf, of n] disk_queue.contents_drain[OF wf, of n] disk_queue.invar_drain[OF wf, of n]
  then have wf1: "queue_wf to_string from_str q1"
    using assms(4) by simp
  note d2 = disk_queue.drained[OF wf1, of "length es"] disk_queue.contents_drain[OF wf1, of "length es"]
  show ?thesis
    using d1 d2 c assms(4,5) by simp
qed

text \<open>One push forgets nothing while the file is within the cap, and otherwise only a prefix
  of the oldest events; the new event is always last. If every printed event takes at most
  \<open>L\<close> bytes with its line feed, less than the cap, the file never exceeds the cap by more than
  \<open>L\<close>.\<close>

theorem disk_queue_rotation:
  assumes "queue_wf to_string from_str q" and "storable to_string from_str ev"
    and "length (event_line to_string ev) < L" and "L < max_bytes" and "file_size q \<le> max_bytes + L"
  shows "(\<exists>k. queue_contents from_str (push_file to_string ev q) = drop k (queue_contents from_str q) @ [ev] \<and>
      (file_size q \<le> max_bytes \<longrightarrow> k = 0)) \<and>
    queue_wf to_string from_str (push_file to_string ev q) \<and>
    file_size (push_file to_string ev q) \<le> max_bytes + L"
proof -
  have "rotated_size (file_size q) \<le> max_bytes"
    using assms(4,5) by (auto simp: rotated_size_def)
  then show ?thesis
    using push_file_spec[OF assms(1,2)] assms(3) by auto
qed

section \<open>A concrete printer\<close>

text \<open>A printer and reader for three documents, the ones of a small example queue.\<close>

definition demo_event :: "string \<Rightarrow> telemetry_event" where
  "demo_event msg = with_field ''component'' (JStr ''provider'')
     (event_new \<lparr>ev_uuid = ''u1'', ev_now = ''2026-01-01T00:00:00Z'', ev_session = ''s1''\<rparr>
        SrcProvider SevWarn KLog msg)"

definition demo_docs :: "(json \<times> string) list" where
  "demo_docs = [(enc_telemetry_event (demo_event ''a''), ''{a}''),
     (enc_telemetry_event (demo_event ''b''), ''{b}''), (enc_telemetry_event (demo_event ''c''), ''{c}'')]"

definition demo_to_string :: "json \<Rightarrow> string option" where
  "demo_to_string v = map_of demo_docs v"

definition demo_from_str :: "string \<Rightarrow> json option" where
  "demo_from_str s = map_of (map (\<lambda>(v, t). (t, v)) demo_docs) s"

lemma demo_storable:
  "list_all (storable demo_to_string demo_from_str) [demo_event ''a'', demo_event ''b'', demo_event ''c'']"
  by code_simp

theorem disk_queue_fifo_witness:
  "fst (queue_drain io_working demo_from_str 2
      (fold (push_file demo_to_string) [demo_event ''a'', demo_event ''b'', demo_event ''c''] None))
   = [demo_event ''a'', demo_event ''b'']"
proof -
  let ?es = "[demo_event ''a'', demo_event ''b'', demo_event ''c'']"
  have "length (write_lines (map (event_line demo_to_string) ?es)) = 12"
    by code_simp
  then have "length (write_lines (map (event_line demo_to_string) ?es)) \<le> max_bytes"
    by (simp add: max_bytes_def)
  from disk_queue_fifo[OF demo_storable this refl prod.collapse[symmetric] prod.collapse[symmetric], of 2]
  show ?thesis by simp
qed

theorem disk_queue_rotation_witness:
  "file_size (push_file demo_to_string (demo_event ''c'')
     (fold (push_file demo_to_string) [demo_event ''a'', demo_event ''b''] None)) \<le> max_bytes + 100"
proof -
  let ?es = "[demo_event ''a'', demo_event ''b'']" and ?c = "demo_event ''c''"
  have es: "list_all (storable demo_to_string demo_from_str) ?es"
    and c: "storable demo_to_string demo_from_str ?c"
    using demo_storable by simp_all
  have "length (write_lines (map (event_line demo_to_string) ?es)) = 8"
    by code_simp
  then have "queue_wf demo_to_string demo_from_str (fold (push_file demo_to_string) ?es None)"
    and "file_size (fold (push_file demo_to_string) ?es None) \<le> max_bytes + 100"
    using push_all_fits[OF queue_wf_None es] by (auto simp: file_size_def max_bytes_def)
  moreover have "length (event_line demo_to_string ?c) < 100"
    by code_simp
  moreover have "100 < max_bytes"
    by (simp add: max_bytes_def)
  ultimately show ?thesis
    using disk_queue_rotation[OF _ c] by blast
qed

end
