(* ===== verification/Telemetry.thy ===== *)
theory Telemetry
  imports TelemetryQueue "HOL-Library.Multiset"
begin

text \<open>
  The telemetry pipeline: the client with its bounded channel and the background batcher
  (\<open>telemetry/client.rs\<close>), the tracing layer (\<open>telemetry/layer.rs\<close>), the panic hook
  (\<open>telemetry/panic_hook.rs\<close>) and the process-wide client (\<open>telemetry/mod.rs\<close>). The state
  is the channel, the batcher's buffer, the disk queue and the log of HTTP posts with their
  outcome; the HTTP endpoint is a function from requests to an optional status code.
\<close>

section \<open>Configuration\<close>

record telemetry_config =
  tc_coordinator_url :: string
  tc_auth_token :: "string option"
  tc_version :: string
  tc_machine_id :: string
  tc_account_id :: "string option"
  tc_source :: telemetry_source
  tc_disk_queue_path :: string
  tc_max_batch :: nat
  tc_flush_interval :: nat
  tc_mem_queue_cap :: nat

definition telemetry_config_new :: "string \<Rightarrow> string option \<Rightarrow> string \<Rightarrow> telemetry_source \<Rightarrow> telemetry_config" where
  "telemetry_config_new pkg_version home_dir coordinator_url src =
     (let home = (case home_dir of None \<Rightarrow> ''/tmp'' | Some h \<Rightarrow> h)
      in \<lparr>tc_coordinator_url = coordinator_url, tc_auth_token = None, tc_version = pkg_version,
          tc_machine_id = [], tc_account_id = None, tc_source = src,
          tc_disk_queue_path = home @ ''/.darkbloom/telemetry-queue.jsonl'',
          tc_max_batch = 50, tc_flush_interval = 5, tc_mem_queue_cap = 1000\<rparr>)"

definition telemetry_ingest_endpoint :: "string \<Rightarrow> string" where
  "telemetry_ingest_endpoint coordinator_url =
     (let base = trim_end_matches (CHR ''/'') coordinator_url;
          base = (case strip_prefix base ''wss://'' of
                    Some rest \<Rightarrow> ''https://'' @ rest
                  | None \<Rightarrow> (case strip_prefix base ''ws://'' of
                               Some rest \<Rightarrow> ''http://'' @ rest
                             | None \<Rightarrow> base));
          base = trim_end_matches (CHR ''/'')
                   (case strip_suffix base ''/ws/provider'' of Some b \<Rightarrow> b | None \<Rightarrow> base)
      in base @ ''/v1/telemetry/events'')"

section \<open>Client and batcher\<close>

text \<open>A post: its events and whether the endpoint acknowledged it.\<close>

record telemetry_state =
  ts_chan :: "telemetry_event list"
  ts_rx :: bool
  ts_buffer :: "telemetry_event list"
  ts_file :: queue_file
  ts_posts :: "(telemetry_event list \<times> bool) list"

record telemetry_post =
  tp_url :: string
  tp_bearer :: "string option"
  tp_body :: json

text \<open>The parts a pipeline is built over: the printer and reader of \<open>serde_json\<close> and the
  outcome of file operations.\<close>

record telemetry_env =
  tv_to_string :: "json \<Rightarrow> string option"
  tv_from_str :: "string \<Rightarrow> json option"
  tv_io :: queue_io

definition stamp :: "telemetry_config \<Rightarrow> telemetry_event \<Rightarrow> telemetry_event" where
  "stamp cfg ev =
     (let ev = (if te_version ev = [] then ev\<lparr>te_version := tc_version cfg\<rparr> else ev);
          ev = (if te_machine_id ev = [] then ev\<lparr>te_machine_id := tc_machine_id cfg\<rparr> else ev);
          ev = (if te_account_id ev = []
                then (case tc_account_id cfg of Some a \<Rightarrow> ev\<lparr>te_account_id := a\<rparr> | None \<Rightarrow> ev)
                else ev)
      in ev\<lparr>te_source := tc_source cfg\<rparr>)"

text \<open>\<open>DiskQueue::open\<close> then \<open>push\<close>, both best effort.\<close>

definition spill :: "telemetry_env \<Rightarrow> telemetry_event list \<Rightarrow> queue_file \<Rightarrow> queue_file" where
  "spill env evs q =
     (if io_create_dir (tv_io env)
      then fold (\<lambda>ev f. snd (queue_push (tv_io env) (tv_to_string env) ev f)) evs q
      else q)"

text \<open>\<open>mpsc::Sender::try_send\<close>: a closed channel is reported before a full one.\<close>

datatype try_send = Sent telemetry_state | SendFull | SendClosed

definition try_send :: "telemetry_config \<Rightarrow> telemetry_event \<Rightarrow> telemetry_state \<Rightarrow> try_send" where
  "try_send cfg ev st =
     (if \<not> ts_rx st then SendClosed
      else if length (ts_chan st) < tc_mem_queue_cap cfg then Sent (st\<lparr>ts_chan := ts_chan st @ [ev]\<rparr>)
      else SendFull)"

definition emit :: "telemetry_env \<Rightarrow> telemetry_config \<Rightarrow> telemetry_event \<Rightarrow> telemetry_state \<Rightarrow> telemetry_state" where
  "emit env cfg event st =
     (let ev = stamp cfg event in
      case try_send cfg ev st of
        Sent st' \<Rightarrow> st'
      | SendFull \<Rightarrow> st\<lparr>ts_file := spill env [ev] (ts_file st)\<rparr>
      | SendClosed \<Rightarrow> st)"

definition emit_blocking :: "telemetry_env \<Rightarrow> telemetry_config \<Rightarrow> telemetry_event \<Rightarrow> telemetry_state \<Rightarrow> telemetry_state" where
  "emit_blocking env cfg event st =
     (let ev = stamp cfg event in
      case try_send cfg ev st of
        Sent st' \<Rightarrow> st'
      | _ \<Rightarrow> st\<lparr>ts_file := spill env [ev] (ts_file st)\<rparr>)"

definition send_batch :: "(telemetry_post \<Rightarrow> nat option) \<Rightarrow> string \<Rightarrow> telemetry_config \<Rightarrow> telemetry_event list \<Rightarrow> unit result" where
  "send_batch http endpoint cfg batch =
     (let req = \<lparr>tp_url = endpoint, tp_bearer = tc_auth_token cfg, tp_body = enc_telemetry_batch batch\<rparr>
      in case http req of
           None \<Rightarrow> Err ''request failed''
         | Some status \<Rightarrow>
             if \<not> (200 \<le> status \<and> status < 300) then Err ''telemetry ingest failed'' else Ok ())"

definition record_post :: "telemetry_event list \<Rightarrow> unit result \<Rightarrow> telemetry_state \<Rightarrow> telemetry_state" where
  "record_post batch r st = st\<lparr>ts_posts := ts_posts st @ [(batch, r = Ok ())]\<rparr>"

definition flush :: "(telemetry_post \<Rightarrow> nat option) \<Rightarrow> telemetry_env \<Rightarrow> telemetry_config \<Rightarrow> telemetry_state \<Rightarrow> telemetry_state" where
  "flush http env cfg st =
     (if ts_buffer st = [] then st
      else
        let batch = ts_buffer st;
            r = send_batch http (telemetry_ingest_endpoint (tc_coordinator_url cfg)) cfg batch;
            st1 = record_post batch r (st\<lparr>ts_buffer := []\<rparr>)
        in case r of
             Inr _ \<Rightarrow> st1
           | Inl _ \<Rightarrow> st1\<lparr>ts_file := spill env batch (ts_file st1)\<rparr>)"

definition drain_disk :: "(telemetry_post \<Rightarrow> nat option) \<Rightarrow> telemetry_env \<Rightarrow> telemetry_config \<Rightarrow> telemetry_state \<Rightarrow> telemetry_state" where
  "drain_disk http env cfg st =
     (if \<not> io_create_dir (tv_io env) then st
      else
        let (events, q) = queue_drain (tv_io env) (tv_from_str env) (tc_max_batch cfg) (ts_file st);
            st1 = st\<lparr>ts_file := q\<rparr>
        in if events = [] then st1
           else
             let r = send_batch http (telemetry_ingest_endpoint (tc_coordinator_url cfg)) cfg events;
                 st2 = record_post events r st1
             in case r of
                  Inr _ \<Rightarrow> st2
                | Inl _ \<Rightarrow> st2\<lparr>ts_file := spill env events (ts_file st2)\<rparr>)"

text \<open>The two branches of the batcher's \<open>select!\<close>, and the end of its loop once all senders are
  gone and the channel is empty.\<close>

definition worker_recv :: "(telemetry_post \<Rightarrow> nat option) \<Rightarrow> telemetry_env \<Rightarrow> telemetry_config \<Rightarrow> telemetry_state \<Rightarrow> telemetry_state" where
  "worker_recv http env cfg st =
     (case ts_chan st of
        [] \<Rightarrow> st
      | ev # rest \<Rightarrow>
          let st1 = st\<lparr>ts_chan := rest, ts_buffer := ts_buffer st @ [ev]\<rparr>
          in if tc_max_batch cfg \<le> length (ts_buffer st1) then flush http env cfg st1 else st1)"

definition worker_tick :: "(telemetry_post \<Rightarrow> nat option) \<Rightarrow> telemetry_env \<Rightarrow> telemetry_config \<Rightarrow> telemetry_state \<Rightarrow> telemetry_state" where
  "worker_tick http env cfg st =
     (if ts_buffer st \<noteq> [] then flush http env cfg st else drain_disk http env cfg st)"

definition worker_closed :: "(telemetry_post \<Rightarrow> nat option) \<Rightarrow> telemetry_env \<Rightarrow> telemetry_config \<Rightarrow> telemetry_state \<Rightarrow> telemetry_state" where
  "worker_closed http env cfg st = (flush http env cfg st)\<lparr>ts_rx := False\<rparr>"

definition spawn :: "queue_file \<Rightarrow> telemetry_state" where
  "spawn q = \<lparr>ts_chan = [], ts_rx = True, ts_buffer = [], ts_file = q, ts_posts = []\<rparr>"

text \<open>The loop of the batcher: what the select finds ready in each turn. A receive on an empty channel is
  ready only when all senders are gone; it ends the loop.\<close>

datatype worker_turn = RecvReady "telemetry_post \<Rightarrow> nat option" | TickReady "telemetry_post \<Rightarrow> nat option"

fun telemetry_worker :: "telemetry_env \<Rightarrow> telemetry_config \<Rightarrow> worker_turn list \<Rightarrow> telemetry_state \<Rightarrow> telemetry_state" where
  "telemetry_worker env cfg [] st = st"
| "telemetry_worker env cfg (TickReady http # turns) st = telemetry_worker env cfg turns (worker_tick http env cfg st)"
| "telemetry_worker env cfg (RecvReady http # turns) st =
     (if ts_chan st = [] then worker_closed http env cfg st
      else telemetry_worker env cfg turns (worker_recv http env cfg st))"

text \<open>Runs of the pipeline over a working disk, with the events handed to it so far: those found
  on disk at the start and every stamped event.\<close>

inductive telemetry_reach :: "telemetry_env \<Rightarrow> telemetry_config \<Rightarrow> telemetry_event list \<Rightarrow> telemetry_state \<Rightarrow> bool"
  for env cfg where
  reach_spawn: "queue_wf (tv_to_string env) (tv_from_str env) q \<Longrightarrow>
     telemetry_reach env cfg (queue_contents (tv_from_str env) q) (spawn q)"
| reach_emit: "telemetry_reach env cfg es st \<Longrightarrow> ts_rx st \<Longrightarrow>
     storable (tv_to_string env) (tv_from_str env) (stamp cfg ev) \<Longrightarrow>
     telemetry_reach env cfg (es @ [stamp cfg ev]) (emit env cfg ev st)"
| reach_emit_blocking: "telemetry_reach env cfg es st \<Longrightarrow>
     storable (tv_to_string env) (tv_from_str env) (stamp cfg ev) \<Longrightarrow>
     telemetry_reach env cfg (es @ [stamp cfg ev]) (emit_blocking env cfg ev st)"
| reach_recv: "telemetry_reach env cfg es st \<Longrightarrow> ts_rx st \<Longrightarrow>
     telemetry_reach env cfg es (worker_recv http env cfg st)"
| reach_tick: "telemetry_reach env cfg es st \<Longrightarrow> ts_rx st \<Longrightarrow>
     telemetry_reach env cfg es (worker_tick http env cfg st)"
| reach_closed: "telemetry_reach env cfg es st \<Longrightarrow> ts_rx st \<Longrightarrow> ts_chan st = [] \<Longrightarrow>
     telemetry_reach env cfg es (worker_closed http env cfg st)"

section \<open>No event is lost or made up\<close>

definition delivered :: "telemetry_state \<Rightarrow> telemetry_event list" where
  "delivered st = concat (map fst (filter snd (ts_posts st)))"

definition held :: "telemetry_env \<Rightarrow> telemetry_state \<Rightarrow> telemetry_event list" where
  "held env st = delivered st @ ts_buffer st @ ts_chan st @ queue_contents (tv_from_str env) (ts_file st)"

definition line_bytes :: "telemetry_env \<Rightarrow> telemetry_event list \<Rightarrow> nat" where
  "line_bytes env es = length (write_lines (map (event_line (tv_to_string env)) es))"

definition telemetry_inv :: "telemetry_env \<Rightarrow> telemetry_config \<Rightarrow> telemetry_event list \<Rightarrow> telemetry_state \<Rightarrow> bool" where
  "telemetry_inv env cfg es st \<longleftrightarrow>
     queue_wf (tv_to_string env) (tv_from_str env) (ts_file st) \<and>
     list_all (storable (tv_to_string env) (tv_from_str env)) (ts_buffer st @ ts_chan st) \<and>
     mset (held env st) \<subseteq># mset es \<and>
     (line_bytes env es \<le> max_bytes \<longrightarrow> mset (held env st) = mset es)"

definition batches_ok :: "telemetry_config \<Rightarrow> telemetry_state \<Rightarrow> bool" where
  "batches_ok cfg st \<longleftrightarrow>
     length (ts_buffer st) < tc_max_batch cfg \<and>
     list_all (\<lambda>(batch, _). batch \<noteq> [] \<and> length batch \<le> tc_max_batch cfg) (ts_posts st)"

lemma line_bytes_sum: "line_bytes env es = (\<Sum>e \<in># mset es. length (event_line (tv_to_string env) e) + 1)"
  unfolding line_bytes_def by (induction es) simp_all

lemma line_bytes_mono: "mset xs \<subseteq># mset ys \<Longrightarrow> line_bytes env xs \<le> line_bytes env ys"
  by (auto simp: line_bytes_sum subset_mset.le_iff_add)

lemma file_size_contents:
  assumes "queue_wf (tv_to_string env) (tv_from_str env) q"
  shows "file_size q = line_bytes env (queue_contents (tv_from_str env) q)"
  using assms by (rule queue_wf_cases) (simp add: line_bytes_def)

text \<open>Saving events to a working disk loses only what rotation drops.\<close>

lemma spill_spec:
  assumes io: "tv_io env = io_working"
    and wf: "queue_wf (tv_to_string env) (tv_from_str env) q"
    and evs: "list_all (storable (tv_to_string env) (tv_from_str env)) evs"
  shows "queue_wf (tv_to_string env) (tv_from_str env) (spill env evs q)"
    and "mset (queue_contents (tv_from_str env) (spill env evs q))
      \<subseteq># mset (queue_contents (tv_from_str env) q) + mset evs"
    and "line_bytes env (queue_contents (tv_from_str env) q @ evs) \<le> max_bytes \<Longrightarrow>
      queue_contents (tv_from_str env) (spill env evs q) = queue_contents (tv_from_str env) q @ evs"
proof -
  have s: "spill env evs q = fold (push_file (tv_to_string env)) evs q"
    by (simp add: spill_def io) (simp add: io_working_def)
  note p = disk_queue.push_all[OF wf evs]
  then show "queue_wf (tv_to_string env) (tv_from_str env) (spill env evs q)"
    by (simp add: s)
  from p obtain k where "queue_contents (tv_from_str env) (spill env evs q) =
      drop k (queue_contents (tv_from_str env) q @ evs)"
    by (auto simp: s)
  then show "mset (queue_contents (tv_from_str env) (spill env evs q))
      \<subseteq># mset (queue_contents (tv_from_str env) q) + mset evs"
    by (metis mset_append mset_subset_eq_add_right append_take_drop_id)
  assume "line_bytes env (queue_contents (tv_from_str env) q @ evs) \<le> max_bytes"
  then have "file_size q + length (write_lines (map (event_line (tv_to_string env)) evs)) \<le> max_bytes"
    by (simp add: file_size_contents[OF wf] line_bytes_def)
  from push_all_fits[OF wf evs this]
  show "queue_contents (tv_from_str env) (spill env evs q) = queue_contents (tv_from_str env) q @ evs"
    by (simp add: s)
qed

text \<open>One lemma carries every operation: a state that holds \<open>evs\<close> plus what another held, with
  \<open>evs\<close> then spilled, keeps the invariant.\<close>

lemma inv_spill:
  assumes io: "tv_io env = io_working"
    and wf: "queue_wf (tv_to_string env) (tv_from_str env) (ts_file st)"
    and evs: "list_all (storable (tv_to_string env) (tv_from_str env)) (evs @ ts_buffer st @ ts_chan st)"
    and sub: "mset evs + mset (held env st) \<subseteq># mset es"
    and eq: "line_bytes env es \<le> max_bytes \<Longrightarrow> mset evs + mset (held env st) = mset es"
  shows "telemetry_inv env cfg es (st\<lparr>ts_file := spill env evs (ts_file st)\<rparr>)"
proof -
  let ?c = "queue_contents (tv_from_str env)"
  have "list_all (storable (tv_to_string env) (tv_from_str env)) evs"
    using evs by simp
  note s = spill_spec[OF io wf this]
  have "mset (held env (st\<lparr>ts_file := spill env evs (ts_file st)\<rparr>)) \<subseteq># mset evs + mset (held env st)"
    using s(2) by (simp add: held_def delivered_def union_ac)
  then have sub': "mset (held env (st\<lparr>ts_file := spill env evs (ts_file st)\<rparr>)) \<subseteq># mset es"
    using sub by (rule subset_mset.order_trans)
  have "mset (held env (st\<lparr>ts_file := spill env evs (ts_file st)\<rparr>)) = mset es"
    if small: "line_bytes env es \<le> max_bytes"
  proof -
    have "mset (?c (ts_file st) @ evs) \<subseteq># mset evs + mset (held env st)"
      by (simp add: held_def union_ac)
    then have "line_bytes env (?c (ts_file st) @ evs) \<le> max_bytes"
      using line_bytes_mono[of "?c (ts_file st) @ evs" es env] eq[OF small] small by simp
    from s(3)[OF this] eq[OF small] show ?thesis
      by (simp add: held_def delivered_def union_ac)
  qed
  with s(1) sub' evs show ?thesis
    by (simp add: telemetry_inv_def)
qed

lemma delivered_record_post:
  "delivered (record_post batch r st) = delivered st @ (if r = Ok () then batch else [])"
  by (simp add: delivered_def record_post_def)

lemma record_post_simps [simp]:
  "ts_buffer (record_post batch r st) = ts_buffer st" "ts_chan (record_post batch r st) = ts_chan st"
  "ts_file (record_post batch r st) = ts_file st" "ts_rx (record_post batch r st) = ts_rx st"
  by (simp_all add: record_post_def)

lemma delivered_updates [simp]:
  "delivered (st\<lparr>ts_buffer := b\<rparr>) = delivered st" "delivered (st\<lparr>ts_chan := c\<rparr>) = delivered st"
  "delivered (st\<lparr>ts_file := q\<rparr>) = delivered st" "delivered (st\<lparr>ts_rx := x\<rparr>) = delivered st"
  by (simp_all add: delivered_def)

text \<open>Posting events taken out of the buffer or the file, with the spill on failure.\<close>

lemma inv_post:
  assumes io: "tv_io env = io_working"
    and wf: "queue_wf (tv_to_string env) (tv_from_str env) (ts_file st)"
    and evs: "list_all (storable (tv_to_string env) (tv_from_str env)) (evs @ ts_buffer st @ ts_chan st)"
    and sub: "mset evs + mset (held env st) \<subseteq># mset es"
    and eq: "line_bytes env es \<le> max_bytes \<Longrightarrow> mset evs + mset (held env st) = mset es"
  shows "telemetry_inv env cfg es
    (case r of Inr _ \<Rightarrow> record_post evs r st
     | Inl _ \<Rightarrow> (record_post evs r st)\<lparr>ts_file := spill env evs (ts_file (record_post evs r st))\<rparr>)"
proof (cases r)
  case (Inl e)
  have "held env (record_post evs r st) = held env st"
    by (simp add: held_def delivered_record_post Inl)
  then show ?thesis
    using inv_spill[OF io, of "record_post evs r st" evs es cfg] assms(2-) by (simp add: Inl)
next
  case (Inr u)
  then have "mset (held env (record_post evs r st)) = mset evs + mset (held env st)"
    by (simp add: held_def delivered_record_post union_ac)
  then show ?thesis
    using assms(2-) by (simp add: Inr telemetry_inv_def)
qed

lemma inv_flush:
  assumes "tv_io env = io_working" and "telemetry_inv env cfg es st"
  shows "telemetry_inv env cfg es (flush http env cfg st)"
proof (cases "ts_buffer st = []")
  case False
  have "mset (ts_buffer st) + mset (held env (st\<lparr>ts_buffer := []\<rparr>)) = mset (held env st)"
    by (simp add: held_def union_ac)
  with False assms(2) show ?thesis
    using inv_post[OF assms(1), of "st\<lparr>ts_buffer := []\<rparr>" "ts_buffer st" es cfg]
    by (simp add: flush_def Let_def telemetry_inv_def)
qed (use assms in \<open>simp add: flush_def\<close>)

lemma inv_drain_disk:
  assumes io: "tv_io env = io_working" and inv: "telemetry_inv env cfg es st"
  shows "telemetry_inv env cfg es (drain_disk http env cfg st)"
proof -
  obtain events q where d: "queue_drain io_working (tv_from_str env) (tc_max_batch cfg) (ts_file st) = (events, q)"
    by fastforce
  have wf: "queue_wf (tv_to_string env) (tv_from_str env) (ts_file st)"
    using inv by (simp add: telemetry_inv_def)
  have c: "events @ queue_contents (tv_from_str env) q = queue_contents (tv_from_str env) (ts_file st)"
    using disk_queue.contents_split[OF wf, of "tc_max_batch cfg"] d by simp
  have wf': "queue_wf (tv_to_string env) (tv_from_str env) q"
    using disk_queue.invar_drain[OF wf, of "tc_max_batch cfg"] d by simp
  have ev: "list_all (storable (tv_to_string env) (tv_from_str env)) events"
    using disk_queue.drained_storable[OF wf, of "tc_max_batch cfg"] d by simp
  have h: "mset events + mset (held env (st\<lparr>ts_file := q\<rparr>)) = mset (held env st)"
    by (simp add: held_def union_ac flip: c)
  have post: "telemetry_inv env cfg es (case r of Inr _ \<Rightarrow> record_post events r (st\<lparr>ts_file := q\<rparr>)
     | Inl _ \<Rightarrow> (record_post events r (st\<lparr>ts_file := q\<rparr>))\<lparr>ts_file := spill env events
          (ts_file (record_post events r (st\<lparr>ts_file := q\<rparr>)))\<rparr>)" for r
    by (rule inv_post[OF io]) (use inv wf' ev h in \<open>auto simp: telemetry_inv_def\<close>)
  have "io_create_dir (tv_io env)"
    using io by (simp add: io_working_def)
  moreover have "telemetry_inv env cfg es (st\<lparr>ts_file := q\<rparr>)" if "events = []"
    using inv wf' h that by (simp add: telemetry_inv_def)
  ultimately show ?thesis
    using post d io by (auto simp: drain_disk_def Let_def)
qed

lemma inv_enqueue:
  assumes "telemetry_inv env cfg es st" and "storable (tv_to_string env) (tv_from_str env) ev"
  shows "telemetry_inv env cfg (es @ [ev]) (st\<lparr>ts_chan := ts_chan st @ [ev]\<rparr>)"
proof -
  have "line_bytes env es \<le> line_bytes env (es @ [ev])"
    by (rule line_bytes_mono) simp
  with assms show ?thesis
    by (auto simp: telemetry_inv_def held_def)
qed

lemma inv_emit_spill:
  assumes io: "tv_io env = io_working" and inv: "telemetry_inv env cfg es st"
    and ev: "storable (tv_to_string env) (tv_from_str env) ev"
  shows "telemetry_inv env cfg (es @ [ev]) (st\<lparr>ts_file := spill env [ev] (ts_file st)\<rparr>)"
proof (rule inv_spill[OF io])
  have "line_bytes env es \<le> line_bytes env (es @ [ev])"
    by (rule line_bytes_mono) simp
  then show "line_bytes env (es @ [ev]) \<le> max_bytes \<Longrightarrow> mset [ev] + mset (held env st) = mset (es @ [ev])"
    using inv by (simp add: telemetry_inv_def)
qed (use inv ev in \<open>auto simp: telemetry_inv_def\<close>)

lemma inv_take:
  assumes "telemetry_inv env cfg es st" and "ts_chan st = ev # rest"
  shows "telemetry_inv env cfg es (st\<lparr>ts_chan := rest, ts_buffer := ts_buffer st @ [ev]\<rparr>)"
  using assms by (simp add: telemetry_inv_def held_def)

lemma telemetry_reach_inv:
  assumes "telemetry_reach env cfg es st" and io: "tv_io env = io_working"
  shows "telemetry_inv env cfg es st"
  using assms(1)
proof induction
  case (reach_spawn q)
  then show ?case by (simp add: telemetry_inv_def spawn_def held_def delivered_def)
next
  case (reach_emit es st ev)
  then show ?case
    by (auto simp: emit_def Let_def try_send_def inv_enqueue inv_emit_spill[OF io])
next
  case (reach_emit_blocking es st ev)
  then show ?case
    by (auto simp: emit_blocking_def Let_def try_send_def inv_enqueue inv_emit_spill[OF io])
next
  case (reach_recv es st http)
  then show ?case
    by (auto simp: worker_recv_def Let_def inv_take inv_flush[OF io] split: list.split)
next
  case (reach_tick es st http)
  then show ?case
    by (simp add: worker_tick_def inv_flush[OF io] inv_drain_disk[OF io])
next
  case (reach_closed es st http)
  then show ?case
    using inv_flush[OF io reach_closed.IH, of http]
    by (simp add: worker_closed_def telemetry_inv_def held_def)
qed

lemma batches_flush:
  assumes "0 < tc_max_batch cfg" and "length (ts_buffer st) \<le> tc_max_batch cfg"
    and "list_all (\<lambda>(batch, _). batch \<noteq> [] \<and> length batch \<le> tc_max_batch cfg) (ts_posts st)"
  shows "batches_ok cfg (flush http env cfg st)"
  using assms by (auto simp: batches_ok_def flush_def Let_def record_post_def split: sum.split)

lemma batches_drain_disk:
  assumes "batches_ok cfg st" and "tv_io env = io_working"
    and "queue_wf (tv_to_string env) (tv_from_str env) (ts_file st)"
  shows "batches_ok cfg (drain_disk http env cfg st)"
  using assms(1,2) disk_queue.drain_shorter[OF assms(3), of "tc_max_batch cfg"]
  by (auto simp: batches_ok_def drain_disk_def Let_def record_post_def split: sum.split prod.split)

lemma telemetry_reach_batches:
  assumes "telemetry_reach env cfg es st" and io: "tv_io env = io_working" and pos: "0 < tc_max_batch cfg"
  shows "batches_ok cfg st"
  using assms(1)
proof induction
  case (reach_spawn q)
  then show ?case using pos by (simp add: batches_ok_def spawn_def)
next
  case (reach_recv es st http)
  then show ?case
    using pos batches_flush[OF pos]
    by (auto simp: worker_recv_def Let_def batches_ok_def split: list.split)
next
  case (reach_tick es st http)
  have "queue_wf (tv_to_string env) (tv_from_str env) (ts_file st)"
    using telemetry_reach_inv[OF reach_tick.hyps(1) io] by (simp add: telemetry_inv_def)
  with reach_tick show ?case
    using batches_flush[OF pos, of st] batches_drain_disk[OF _ io]
    by (auto simp: worker_tick_def batches_ok_def)
next
  case (reach_closed es st http)
  then show ?case
    using batches_flush[OF pos, of st http env] by (auto simp: worker_closed_def batches_ok_def)
qed (auto simp: emit_def emit_blocking_def Let_def try_send_def batches_ok_def)

section \<open>The pipeline's properties\<close>

text \<open>C36: Over a working disk the pipeline neither loses nor duplicates nor makes up events. In
  every state it can reach, whatever the endpoint answers, the events it has delivered, buffers,
  holds in the channel or keeps on disk are among those handed to it, with multiplicity; and they
  are exactly those as long as all of them together would fit in the size cap of the disk queue,
  which is all that rotation can take away.\<close>

theorem telemetry_conserved:
  assumes "telemetry_reach env cfg es st" and "tv_io env = io_working"
  shows "mset (delivered st) + mset (ts_buffer st) + mset (ts_chan st)
      + mset (queue_contents (tv_from_str env) (ts_file st)) \<subseteq># mset es \<and>
    (line_bytes env es \<le> max_bytes \<longrightarrow>
      mset (delivered st) + mset (ts_buffer st) + mset (ts_chan st)
      + mset (queue_contents (tv_from_str env) (ts_file st)) = mset es)"
  using telemetry_reach_inv[OF assms] by (simp add: telemetry_inv_def held_def add.assoc)

text \<open>When all senders are gone the batcher ends with nothing left in memory: after one more turn of
  receiving than there are events in the channel, however ticks come between and whatever the endpoint
  answers, the loop has ended, channel and buffer are empty, and every event handed to the pipeline has
  been delivered or is on disk, as long as they fit in the size cap.\<close>

lemma worker_keeps_rx [simp]:
  "ts_rx (worker_tick http env cfg st) = ts_rx st" "ts_chan (worker_tick http env cfg st) = ts_chan st"
  "ts_rx (worker_recv http env cfg st) = ts_rx st" "ts_chan (worker_recv http env cfg st) = tl (ts_chan st)"
  by (auto simp: worker_tick_def worker_recv_def flush_def drain_disk_def record_post_def Let_def
      split: sum.split prod.split list.split)

lemma worker_closed_empty [simp]:
  "ts_rx (worker_closed http env cfg st) = False" "ts_chan (worker_closed http env cfg st) = ts_chan st"
  "ts_buffer (worker_closed http env cfg st) = []"
  by (auto simp: worker_closed_def flush_def record_post_def Let_def split: sum.split)

definition is_recv :: "worker_turn \<Rightarrow> bool" where
  "is_recv t = (case t of RecvReady _ \<Rightarrow> True | TickReady _ \<Rightarrow> False)"

lemma telemetry_worker_ends:
  assumes "telemetry_reach env cfg es st" and "ts_rx st" and "length (ts_chan st) < length (filter is_recv turns)"
  shows "telemetry_reach env cfg es (telemetry_worker env cfg turns st) \<and> \<not> ts_rx (telemetry_worker env cfg turns st) \<and>
    ts_chan (telemetry_worker env cfg turns st) = [] \<and> ts_buffer (telemetry_worker env cfg turns st) = []"
  using assms
proof (induction turns arbitrary: st)
  case (Cons t turns)
  show ?case
  proof (cases t)
    case (TickReady http)
    with Cons show ?thesis by (simp add: is_recv_def reach_tick)
  next
    case (RecvReady http)
    show ?thesis
    proof (cases "ts_chan st")
      case Nil
      with Cons.prems RecvReady show ?thesis by (simp add: reach_closed)
    next
      case (Cons ev rest)
      with Cons.prems RecvReady Cons.IH[OF reach_recv] show ?thesis by (simp add: is_recv_def)
    qed
  qed
qed simp

theorem telemetry_worker_drains:
  assumes "telemetry_reach env cfg es st" and "tv_io env = io_working" and "ts_rx st"
    and "length (ts_chan st) < length (filter is_recv turns)" and "line_bytes env es \<le> max_bytes"
  shows "let st' = telemetry_worker env cfg turns st in
    \<not> ts_rx st' \<and> ts_chan st' = [] \<and> ts_buffer st' = [] \<and>
    mset (delivered st') + mset (queue_contents (tv_from_str env) (ts_file st')) = mset es"
proof -
  note e = telemetry_worker_ends[OF assms(1,3,4)]
  from telemetry_reach_inv[OF conjunct1[OF e] assms(2)] e assms(5) show ?thesis
    by (simp add: Let_def telemetry_inv_def held_def)
qed

text \<open>Every post of a batcher whose batch size is positive carries at least one and at most
  \<open>max_batch\<close> events, and between two steps its buffer is never full; with the default
  configuration no post exceeds the hundred events that the coordinator accepts.\<close>

theorem batches_bounded:
  assumes "telemetry_reach env cfg es st" and "tv_io env = io_working" and "0 < tc_max_batch cfg"
    and "(batch, outcome) \<in> set (ts_posts st)"
  shows "1 \<le> length batch \<and> length batch \<le> tc_max_batch cfg \<and> length (ts_buffer st) < tc_max_batch cfg \<and>
    tc_max_batch (telemetry_config_new v h u src) \<le> 100"
  using telemetry_reach_batches[OF assms(1-3)] assms(4)
  by (auto simp: batches_ok_def list_all_iff telemetry_config_new_def Let_def Suc_le_eq)

section \<open>The tracing layer\<close>

datatype level = LError | LWarn | LInfo | LDebug | LTrace

text \<open>\<open>tracing\<close> orders levels by verbosity.\<close>

fun level_num :: "level \<Rightarrow> nat" where
  "level_num LError = 1" | "level_num LWarn = 2" | "level_num LInfo = 3"
| "level_num LDebug = 4" | "level_num LTrace = 5"

text \<open>What a tracing event records for a field; the last two carry the formatted text.\<close>

datatype recorded = RStr string | RI64 u64 | RU64 u64 | RBool bool | RF64 f64
  | RDebug string | RError string

record trace_event =
  tr_level :: level
  tr_name :: string
  tr_target :: string
  tr_recorded :: "(string \<times> recorded) list"

fun visit :: "string \<times> recorded \<Rightarrow> (string \<times> json) list \<Rightarrow> (string \<times> json) list" where
  "visit (k, RStr s) m = btree_insert k (JStr s) m"
| "visit (k, RI64 n) m = btree_insert k (enc_i64 n) m"
| "visit (k, RU64 n) m = btree_insert k (enc_u64 n) m"
| "visit (k, RBool b) m = btree_insert k (JBool b) m"
| "visit (k, RF64 x) m = (if f64_is_finite x then btree_insert k (JNum (Float x)) m else m)"
| "visit (k, RDebug s) m = btree_insert k (JStr s) m"
| "visit (k, RError s) m = btree_insert ''error'' (JStr s) m"

definition allow_list :: "string list" where
  "allow_list =
     [''component'', ''operation'', ''duration_ms'', ''attempt'', ''endpoint'', ''status_code'',
      ''error_class'', ''error'', ''model'', ''backend'', ''exit_code'', ''signal'',
      ''hardware_chip'', ''memory_gb'', ''macos_version'', ''handler'', ''provider_id'',
      ''trust_level'', ''queue_depth'', ''reason'', ''runtime_component'', ''reconnect_count'',
      ''last_error'', ''ws_state'', ''billing_method'', ''payment_failed'', ''target'']"

definition filter_fields :: "(string \<times> json) list \<Rightarrow> (string \<times> json) list" where
  "filter_fields input =
     fold (\<lambda>(k, v) out. if list_ex (\<lambda>a. a = k) allow_list then btree_insert k v out else out) input []"

definition layer_event :: "event_env \<Rightarrow> telemetry_source \<Rightarrow> trace_event \<Rightarrow> telemetry_event option" where
  "layer_event env src event =
     (if level_num (tr_level event) > level_num LWarn then None
      else
        let sev = (case tr_level event of LError \<Rightarrow> SevError | LWarn \<Rightarrow> SevWarn | _ \<Rightarrow> SevInfo);
            visited = fold visit (tr_recorded event) [];
            message = (case Option.bind (map_of visited ''message'') json_as_str of
                         Some s \<Rightarrow> s | None \<Rightarrow> tr_name event);
            ev = (event_new env src sev KLog message)
                   \<lparr>te_fields := filter_fields (btree_delete ''message'' visited)\<rparr>
        in Some (ev\<lparr>te_fields := btree_insert ''target'' (JStr (tr_target event)) (te_fields ev)\<rparr>))"

definition on_event :: "telemetry_env \<Rightarrow> telemetry_config \<Rightarrow> event_env \<Rightarrow> telemetry_source \<Rightarrow> trace_event
    \<Rightarrow> telemetry_state \<Rightarrow> telemetry_state" where
  "on_event env cfg eenv src event st =
     (case layer_event eenv src event of None \<Rightarrow> st | Some ev \<Rightarrow> emit env cfg ev st)"

section \<open>Panics and the process-wide client\<close>

record panic_info =
  pi_payload_str :: "string option"
  pi_payload_string :: "string option"
  pi_location :: "(string \<times> nat \<times> nat) option"
  pi_backtrace :: string

definition panic_message :: "panic_info \<Rightarrow> string" where
  "panic_message info =
     (case pi_payload_str info of
        Some s \<Rightarrow> s
      | None \<Rightarrow> (case pi_payload_string info of
                   Some s \<Rightarrow> s
                 | None \<Rightarrow> ''<non-string panic payload>''))"

text \<open>The installed hook, with its re-entrancy flag; the hook it replaced runs afterwards in
  either case.\<close>

definition panic_hook :: "telemetry_env \<Rightarrow> telemetry_config \<Rightarrow> event_env \<Rightarrow> panic_info \<Rightarrow> bool \<times> telemetry_state
    \<Rightarrow> bool \<times> telemetry_state" where
  "panic_hook env cfg eenv info hst =
     (let (in_hook, st) = hst in
      if in_hook then (True, st)
      else
        let location = (case pi_location info of
                          Some (f, l, c) \<Rightarrow> f @ '':'' @ show_nat l @ '':'' @ show_nat c
                        | None \<Rightarrow> ''unknown'');
            stack = ''at '' @ location @ [newline] @ pi_backtrace info;
            ev = with_field ''component'' (JStr ''provider'')
                   (with_stack stack
                     (event_new eenv SrcProvider SevFatal KPanic (''panic: '' @ panic_message info)))
        in (False, emit_blocking env cfg ev st))"

text \<open>\<open>OnceCell\<close>: the first client stays.\<close>

definition telemetry_init :: "telemetry_config \<Rightarrow> queue_file \<Rightarrow> (telemetry_config \<times> telemetry_state) option
    \<Rightarrow> (telemetry_config \<times> telemetry_state) option" where
  "telemetry_init cfg q global = (case global of Some g \<Rightarrow> Some g | None \<Rightarrow> Some (cfg, spawn q))"

definition telemetry_emit :: "telemetry_env \<Rightarrow> telemetry_event \<Rightarrow> (telemetry_config \<times> telemetry_state) option
    \<Rightarrow> (telemetry_config \<times> telemetry_state) option" where
  "telemetry_emit env ev global = map_option (\<lambda>(cfg, st). (cfg, emit env cfg ev st)) global"

section \<open>Properties of the layer\<close>

lemma filter_fields_collect:
  "filter_fields m = btree_collect (filter (\<lambda>kv. fst kv \<in> set allow_list) m)"
proof -
  have "fold (\<lambda>(k, v) out. if list_ex (\<lambda>a. a = k) allow_list then btree_insert k v out else out) m acc =
      fold (\<lambda>(k, v) m. btree_insert k v m) (filter (\<lambda>kv. fst kv \<in> set allow_list) m) acc" for acc
    by (induction m arbitrary: acc) (auto simp: list_ex_iff)
  then show ?thesis
    by (simp add: filter_fields_def btree_collect_def)
qed

lemma map_of_filter_keys: "map_of (filter (\<lambda>kv. fst kv \<in> A) m) k = (if k \<in> A then map_of m k else None)"
  by (induction m) auto

lemma filter_fields_lookup:
  assumes "btree_wf m"
  shows "map_of (filter_fields m) k = (if k \<in> set allow_list then map_of m k else None)"
proof -
  have "distinct (map fst (filter (\<lambda>kv. fst kv \<in> set allow_list) m))"
    using assms by (simp add: btree_wf_def distinct_map_filter)
  then show ?thesis
    by (simp add: filter_fields_collect map_of_btree_collect map_of_filter_keys)
qed

lemma btree_wf_visit: "btree_wf m \<Longrightarrow> btree_wf (visit r m)"
  by (induction r m rule: visit.induct) (simp_all add: btree.invar_insert)

lemma btree_wf_visited: "btree_wf m \<Longrightarrow> btree_wf (fold visit rs m)"
  by (induction rs arbitrary: m) (simp_all add: btree_wf_visit)

text \<open>The tracing layer forwards errors and warnings and nothing else. A forwarded event is
  well formed and its fields are exactly the recorded fields whose key is on the allowlist, with
  the value recorded last, and the target of the tracing event: no other recorded value leaves
  the process through it.\<close>

theorem layer_allowlist:
  "case layer_event env src event of
     None \<Rightarrow> tr_level event \<noteq> LError \<and> tr_level event \<noteq> LWarn
   | Some ev \<Rightarrow>
       (tr_level event = LError \<and> te_severity ev = SevError \<or> tr_level event = LWarn \<and> te_severity ev = SevWarn) \<and>
       te_kind ev = KLog \<and> event_wf ev \<and> fst ` set (te_fields ev) \<subseteq> set allow_list \<and>
       map_of (te_fields ev) =
         (\<lambda>k. if k = ''target'' then Some (JStr (tr_target event))
              else if k \<in> set allow_list then map_of (fold visit (tr_recorded event) []) k else None)"
proof -
  let ?v = "fold visit (tr_recorded event) []"
  let ?f = "btree_insert ''target'' (JStr (tr_target event)) (filter_fields (btree_delete ''message'' ?v))"
  have v: "btree_wf ?v"
    by (simp add: btree_wf_visited)
  have ff: "btree_wf (filter_fields (btree_delete ''message'' ?v))"
    by (simp add: filter_fields_collect btree_wf_collect)
  have "''message'' \<notin> set allow_list" and t: "''target'' \<in> set allow_list"
    by (simp_all add: allow_list_def)
  then have look: "map_of ?f = (\<lambda>k. if k = ''target'' then Some (JStr (tr_target event))
      else if k \<in> set allow_list then map_of ?v k else None)"
    by (auto simp: fun_eq_iff btree.lookup_insert[OF ff] filter_fields_lookup[OF btree.invar_delete[OF v]]
        btree.lookup_delete[OF v])
  have wf: "btree_wf ?f"
    by (rule btree.invar_insert[OF ff])
  have "fst ` set ?f = dom (map_of ?f)"
    by (simp add: dom_map_of_conv_image_fst)
  also have "\<dots> \<subseteq> set allow_list"
    using t unfolding look by (auto simp: dom_def split: if_splits)
  finally show ?thesis
    using look wf by (cases "tr_level event")
      (simp_all add: layer_event_def Let_def event_new_def event_wf_def)
qed

section \<open>A concrete run\<close>

definition tel_env :: telemetry_env where
  "tel_env = \<lparr>tv_to_string = demo_to_string, tv_from_str = demo_from_str, tv_io = io_working\<rparr>"

definition tel_cfg :: telemetry_config where
  "tel_cfg = telemetry_config_new [] None ''wss://api.example/ws/provider'' SrcProvider"

text \<open>Two events, one received by the batcher, then a tick while the endpoint answers 500.\<close>

definition tel_run :: telemetry_state where
  "tel_run = worker_tick (\<lambda>_. Some 500) tel_env tel_cfg
     (worker_recv (\<lambda>_. Some 200) tel_env tel_cfg
       (emit tel_env tel_cfg (demo_event ''b'') (emit tel_env tel_cfg (demo_event ''a'') (spawn None))))"

lemma demo_stamp: "stamp tel_cfg (demo_event m) = demo_event m"
  by (simp add: stamp_def tel_cfg_def telemetry_config_new_def demo_event_def event_new_def with_field_def Let_def)

lemma demo_limits: "tc_max_batch tel_cfg = 50" "tc_mem_queue_cap tel_cfg = 1000"
  by (simp_all add: tel_cfg_def telemetry_config_new_def Let_def)

lemmas demo_simps = demo_stamp demo_limits Let_def try_send_def spawn_def

lemma demo_reach: "telemetry_reach tel_env tel_cfg [demo_event ''a'', demo_event ''b''] tel_run"
proof -
  have s: "storable (tv_to_string tel_env) (tv_from_str tel_env) (stamp tel_cfg (demo_event ''a''))"
    "storable (tv_to_string tel_env) (tv_from_str tel_env) (stamp tel_cfg (demo_event ''b''))"
    using demo_storable unfolding demo_stamp by (simp_all add: tel_env_def)
  have r0: "telemetry_reach tel_env tel_cfg [] (spawn None)"
    using reach_spawn[of tel_env None tel_cfg] by (simp add: queue_contents_def)
  have r1: "telemetry_reach tel_env tel_cfg ([] @ [stamp tel_cfg (demo_event ''a'')])
      (emit tel_env tel_cfg (demo_event ''a'') (spawn None))"
    by (rule reach_emit[OF r0 _ s(1)]) (simp add: spawn_def)
  have r2: "telemetry_reach tel_env tel_cfg (([] @ [stamp tel_cfg (demo_event ''a'')]) @ [stamp tel_cfg (demo_event ''b'')])
      (emit tel_env tel_cfg (demo_event ''b'') (emit tel_env tel_cfg (demo_event ''a'') (spawn None)))"
    by (rule reach_emit[OF r1 _ s(2)]) (simp add: emit_def demo_simps)
  have r3: "telemetry_reach tel_env tel_cfg (([] @ [stamp tel_cfg (demo_event ''a'')]) @ [stamp tel_cfg (demo_event ''b'')]) tel_run"
    unfolding tel_run_def
    by (rule reach_tick, rule reach_recv[OF r2]) (simp_all add: worker_recv_def emit_def demo_simps)
  then show ?thesis
    by (simp add: demo_stamp)
qed

theorem telemetry_conserved_witness:
  "mset (delivered tel_run) + mset (ts_buffer tel_run) + mset (ts_chan tel_run)
     + mset (queue_contents demo_from_str (ts_file tel_run)) = {#demo_event ''a'', demo_event ''b''#}"
proof -
  have "line_bytes tel_env [demo_event ''a'', demo_event ''b''] = 8"
    by code_simp
  then have "line_bytes tel_env [demo_event ''a'', demo_event ''b''] \<le> max_bytes"
    by (simp add: max_bytes_def)
  then show ?thesis
    using telemetry_conserved[OF demo_reach] by (simp add: tel_env_def)
qed

theorem telemetry_worker_drains_witness:
  "let st' = telemetry_worker tel_env tel_cfg [RecvReady (\<lambda>_. None), TickReady (\<lambda>_. Some 200), RecvReady (\<lambda>_. Some 200)] tel_run in
     \<not> ts_rx st' \<and> ts_buffer st' = [] \<and>
     mset (delivered st') + mset (queue_contents demo_from_str (ts_file st')) = {#demo_event ''a'', demo_event ''b''#}"
proof -
  have "line_bytes tel_env [demo_event ''a'', demo_event ''b''] = 8" by code_simp
  then have l: "line_bytes tel_env [demo_event ''a'', demo_event ''b''] \<le> max_bytes" by (simp add: max_bytes_def)
  have "ts_rx tel_run" "length (ts_chan tel_run) \<le> 1"
    by (simp_all add: tel_run_def worker_tick_def worker_recv_def emit_def demo_simps flush_def record_post_def send_batch_def)
  then show ?thesis
    using telemetry_worker_drains[OF demo_reach _ _ _ l,
        of "[RecvReady (\<lambda>_. None), TickReady (\<lambda>_. Some 200), RecvReady (\<lambda>_. Some 200)]"]
    by (simp add: tel_env_def is_recv_def Let_def)
qed

theorem batches_bounded_witness:
  "ts_posts tel_run = [([demo_event ''a''], False)] \<and> length [demo_event ''a''] \<le> tc_max_batch tel_cfg"
proof -
  have p: "ts_posts tel_run = [([demo_event ''a''], False)]"
    by (simp add: tel_run_def worker_tick_def worker_recv_def emit_def demo_simps flush_def
        record_post_def send_batch_def)
  then have "(([demo_event ''a''], False)) \<in> set (ts_posts tel_run)" and "0 < tc_max_batch tel_cfg"
    by (simp_all add: demo_limits)
  from batches_bounded[OF demo_reach _ this(2,1)] p show ?thesis
    by (simp add: tel_env_def)
qed

end
