(* ===== verification/Hypervisor.thy ===== *)
theory Hypervisor
  imports Prelude
begin

text \<open>
  The memory pool of \<open>hypervisor.rs\<close>: one virtual machine per process, a region of anonymous
  memory mapped into it in 16 MB chunks, and a bump allocator over the mapped chunks. The
  two statics \<open>ACTIVE\<close> and \<open>POOL\<close> are the state, together with the list of chunks that
  Hypervisor.framework holds mapped (guest and host address). \<open>usize\<close> and pointers are
  64-bit words: the additions of the source wrap, as they do in its release build. The
  system calls are the record \<open>hv_env\<close>.
\<close>

section \<open>Data\<close>

definition chunk_size :: u64 where "chunk_size = 16 * 1024 * 1024"

definition gpa_base :: u64 where "gpa_base = 0x100000000"

record pool_state =
  pool_base :: u64
  pool_mmap_size :: u64
  aligned_base :: u64
  usable_size :: u64
  mapped_chunks :: u64
  alloc_offset :: u64

record hv_state =
  hv_active :: bool
  hv_pool :: "pool_state option"
  hv_maps :: "(u64 \<times> u64) list"

record hv_env =
  he_macos :: bool
  he_vm_create :: u32
  he_mmap :: "u64 \<Rightarrow> u64 option"
  he_vm_map :: "u64 \<Rightarrow> u64 \<Rightarrow> u32"

definition hv_init :: hv_state where
  "hv_init = \<lparr>hv_active = False, hv_pool = None, hv_maps = []\<rparr>"

section \<open>Operations\<close>

unbundle bit_operations_syntax

text \<open>\<open>(x + a - 1) & !(a - 1)\<close> for a power of two, \<open>m\<close> being \<open>a - 1\<close>.\<close>

definition align_up :: "u64 \<Rightarrow> u64 \<Rightarrow> u64" where
  "align_up m x = (x + m) AND NOT m"

definition create_vm :: "hv_env \<Rightarrow> hv_state \<Rightarrow> unit result \<times> hv_state" where
  "create_vm env st =
     (if hv_active st then (Ok (), st)
      else if he_macos env then
        (if he_vm_create env \<noteq> 0 then (Err ''hv_vm_create failed'', st)
         else (Ok (), st\<lparr>hv_active := True\<rparr>))
      else (Err ''Hypervisor.framework is only available on macOS'', st))"

text \<open>The mapping loop: \<open>n\<close> chunks left, the next one being chunk \<open>i\<close>; it stops at the first
  chunk that cannot be mapped.\<close>

fun map_pool_chunks :: "hv_env \<Rightarrow> u64 \<Rightarrow> nat \<Rightarrow> u64 \<Rightarrow> u64 \<Rightarrow> u64 \<Rightarrow> (u64 \<times> u64) list \<Rightarrow> u64 \<times> (u64 \<times> u64) list" where
  "map_pool_chunks env base 0 i gpa mapped maps = (mapped, maps)"
| "map_pool_chunks env base (Suc n) i gpa mapped maps =
     (let chunk_ptr = base + i * chunk_size in
      if he_vm_map env chunk_ptr gpa = 0
      then map_pool_chunks env base n (i + 1) (gpa + chunk_size) (mapped + 1) (maps @ [(gpa, chunk_ptr)])
      else (mapped, maps))"

definition allocate_pool :: "hv_env \<Rightarrow> u64 \<Rightarrow> hv_state \<Rightarrow> unit result \<times> hv_state" where
  "allocate_pool env pool_bytes st =
     (if \<not> hv_active st then (Err ''hypervisor VM not active'', st)
      else if hv_pool st \<noteq> None then (Ok (), st)
      else if \<not> he_macos env then (Ok (), st)
      else
        let mmap_size = pool_bytes + chunk_size in
        case he_mmap env mmap_size of
          None \<Rightarrow> (Err ''mmap failed for hypervisor memory pool'', st)
        | Some pool_addr \<Rightarrow>
            let aligned_addr = align_up (chunk_size - 1) pool_addr;
                usable = mmap_size - (aligned_addr - pool_addr);
                num_chunks = usable div chunk_size;
                (mapped, maps) = map_pool_chunks env aligned_addr (unat num_chunks) 0 gpa_base 0 (hv_maps st)
            in (Ok (), st\<lparr>hv_maps := maps,
                  hv_pool := Some \<lparr>pool_base = pool_addr, pool_mmap_size = mmap_size,
                    aligned_base = aligned_addr, usable_size = usable, mapped_chunks = mapped,
                    alloc_offset = 0\<rparr>\<rparr>))"

definition mapped_size :: "pool_state \<Rightarrow> u64" where
  "mapped_size p = mapped_chunks p * chunk_size"

definition alloc_buffer :: "u64 \<Rightarrow> hv_state \<Rightarrow> u64 result \<times> hv_state" where
  "alloc_buffer sz st =
     (if \<not> hv_active st then (Err ''hypervisor VM not active'', st)
      else case hv_pool st of
        None \<Rightarrow> (Err ''hypervisor pool not initialized'', st)
      | Some p \<Rightarrow>
          let aligned_offset = align_up 4095 (alloc_offset p) in
          if aligned_offset + sz > mapped_size p then (Err ''hypervisor pool exhausted'', st)
          else (Ok (aligned_base p + aligned_offset),
                st\<lparr>hv_pool := Some (p\<lparr>alloc_offset := aligned_offset + sz\<rparr>)\<rparr>))"

definition pool_has_capacity :: "u64 \<Rightarrow> hv_state \<Rightarrow> bool" where
  "pool_has_capacity sz st =
     (case hv_pool st of
        None \<Rightarrow> False
      | Some p \<Rightarrow> align_up 4095 (alloc_offset p) + sz \<le> mapped_size p)"

definition allocated_bytes :: "hv_state \<Rightarrow> u64" where
  "allocated_bytes st = (case hv_pool st of None \<Rightarrow> 0 | Some p \<Rightarrow> alloc_offset p)"

definition pool_capacity :: "hv_state \<Rightarrow> u64" where
  "pool_capacity st = (case hv_pool st of None \<Rightarrow> 0 | Some p \<Rightarrow> mapped_size p)"

fun unmap_chunks :: "nat \<Rightarrow> u64 \<Rightarrow> (u64 \<times> u64) list \<Rightarrow> (u64 \<times> u64) list" where
  "unmap_chunks 0 gpa maps = maps"
| "unmap_chunks (Suc n) gpa maps = unmap_chunks n (gpa + chunk_size) (filter (\<lambda>m. fst m \<noteq> gpa) maps)"

definition destroy_vm :: "hv_env \<Rightarrow> hv_state \<Rightarrow> hv_state" where
  "destroy_vm env st =
     (if \<not> hv_active st then st
      else
        let st1 = (if he_macos env then
                     (case hv_pool st of
                        None \<Rightarrow> st
                      | Some p \<Rightarrow> st\<lparr>hv_pool := None,
                          hv_maps := unmap_chunks (unat (mapped_chunks p)) gpa_base (hv_maps st)\<rparr>)
                   else st)
        in st1\<lparr>hv_active := False\<rparr>)"

section \<open>Alignment\<close>

lemma and_not_mask_unat: "unat ((x :: u64) AND NOT (mask n)) = (unat x div 2 ^ n) * 2 ^ n"
proof -
  have "x AND NOT (mask n) = push_bit n (drop_bit n x)"
    by (rule bit_eqI) (auto simp: bit_simps)
  moreover have "unat (push_bit n (drop_bit n x)) = (unat x div 2 ^ n) * 2 ^ n"
  proof -
    have x: "unat x < 2 ^ 64" using unsigned_less[of x] by simp
    moreover have "(unat x div 2 ^ n) * 2 ^ n \<le> unat x" by simp
    ultimately have "(unat x div 2 ^ n) * 2 ^ n < 2 ^ 64" by (rule order_le_less_trans[rotated])
    with x show ?thesis
      by (subst unsigned_push_bit_eq, subst unsigned_drop_bit_eq)
        (simp add: push_bit_eq_mult drop_bit_eq_div take_bit_eq_mod)
  qed
  ultimately show ?thesis by simp
qed

lemma align_up_unat:
  assumes "m = mask n" and "unat x + unat m < 2 ^ 64"
  shows "unat (align_up m x) = ((unat x + unat m) div 2 ^ n) * 2 ^ n"
  using assms by (simp add: align_up_def and_not_mask_unat unat_add_u64)

lemma page_mask: "(4095 :: u64) = mask 12"
  by (simp add: mask_eq_exp_minus_1)

lemma chunk_mask: "chunk_size - 1 = mask 24"
  by (simp add: chunk_size_def mask_eq_exp_minus_1)

lemma align_up_bounds:
  assumes "m = mask n" and m: "unat m = 2 ^ n - 1" and "unat x + unat m < 2 ^ 64"
  shows "unat x \<le> unat (align_up m x)" and "unat (align_up m x) < unat x + 2 ^ n"
    and "unat (align_up m x) mod 2 ^ n = 0"
proof -
  have p: "(0::nat) < 2 ^ n" by simp
  note u = align_up_unat[OF assms(1,3)]
  have "unat x + (2 ^ n - 1) = ((unat x + (2 ^ n - 1)) div 2 ^ n) * 2 ^ n + (unat x + (2 ^ n - 1)) mod 2 ^ n"
    by (rule div_mult_mod_eq[symmetric])
  moreover have "(unat x + (2 ^ n - 1)) mod 2 ^ n < 2 ^ n"
    by (rule mod_less_divisor[OF p])
  ultimately show "unat x \<le> unat (align_up m x)" and "unat (align_up m x) < unat x + 2 ^ n"
    using p unfolding u m by linarith+
  show "unat (align_up m x) mod 2 ^ n = 0"
    unfolding u by simp
qed

lemma unat_chunk [simp]: "unat chunk_size = 16777216"
  by (simp add: chunk_size_def)

lemma page_align:
  assumes "unat x + 4095 < 2 ^ 64"
  shows "unat x \<le> unat (align_up 4095 x)" and "unat (align_up 4095 x) mod 4096 = 0"
  using align_up_bounds[OF page_mask, of x] assms by simp_all

lemma chunk_align:
  assumes "unat x + 16777215 < 2 ^ 64"
  shows "unat x \<le> unat (align_up (chunk_size - 1) x)"
    and "unat (align_up (chunk_size - 1) x) < unat x + 16777216"
    and "unat (align_up (chunk_size - 1) x) mod 16777216 = 0"
proof -
  have "unat (chunk_size - 1) = 16777215" by (simp add: chunk_size_def)
  then show "unat x \<le> unat (align_up (chunk_size - 1) x)"
    and "unat (align_up (chunk_size - 1) x) < unat x + 16777216"
    and "unat (align_up (chunk_size - 1) x) mod 16777216 = 0"
    using align_up_bounds[OF chunk_mask, of x] assms by simp_all
qed

section \<open>The pool\<close>

text \<open>The chunk table of a pool: chunk \<open>i\<close> of the host region at guest address \<open>i\<close> chunks
  above the base.\<close>

definition chunk_table :: "u64 \<Rightarrow> nat \<Rightarrow> (u64 \<times> u64) list" where
  "chunk_table base n = map (\<lambda>i. (gpa_base + of_nat i * chunk_size, base + of_nat i * chunk_size)) [0..<n]"

lemma map_pool_chunks_table:
  "map_pool_chunks env base n (of_nat k) (gpa_base + of_nat k * chunk_size) (of_nat k) (chunk_table base k)
     = (mapped, maps) \<Longrightarrow> \<exists>j. k \<le> j \<and> j \<le> k + n \<and> mapped = of_nat j \<and> maps = chunk_table base j"
proof (induction n arbitrary: k)
  case (Suc n)
  show ?case
  proof (cases "he_vm_map env (base + of_nat k * chunk_size) (gpa_base + of_nat k * chunk_size) = 0")
    case True
    have "chunk_table base (Suc k) =
        chunk_table base k @ [(gpa_base + of_nat k * chunk_size, base + of_nat k * chunk_size)]"
      by (simp add: chunk_table_def)
    with True Suc.prems have "map_pool_chunks env base n (of_nat (Suc k))
        (gpa_base + of_nat (Suc k) * chunk_size) (of_nat (Suc k)) (chunk_table base (Suc k)) = (mapped, maps)"
      by (simp add: Let_def add.commute add.left_commute distrib_right)
    from Suc.IH[OF this] show ?thesis
      by (elim exE conjE) (intro exI conjI; auto)
  next
    case False
    with Suc.prems show ?thesis
      by (auto intro: exI[of _ k])
  qed
qed auto

definition pool_wf :: "pool_state \<Rightarrow> (u64 \<times> u64) list \<Rightarrow> bool" where
  "pool_wf p maps \<longleftrightarrow>
     unat (aligned_base p) mod 16777216 = 0 \<and>
     unat (pool_base p) \<le> unat (aligned_base p) \<and>
     unat (aligned_base p) + unat (mapped_chunks p) * 16777216 \<le> unat (pool_base p) + unat (pool_mmap_size p) \<and>
     unat (pool_base p) + unat (pool_mmap_size p) < 2 ^ 64 \<and>
     unat (alloc_offset p) \<le> unat (mapped_chunks p) * 16777216 \<and>
     maps = chunk_table (aligned_base p) (unat (mapped_chunks p))"

definition hv_wf :: "hv_state \<Rightarrow> bool" where
  "hv_wf st \<longleftrightarrow> (case hv_pool st of None \<Rightarrow> hv_maps st = [] | Some p \<Rightarrow> pool_wf p (hv_maps st))"

text \<open>What \<open>mmap\<close> promises: a region inside the address space.\<close>

definition mmap_ok :: "hv_env \<Rightarrow> bool" where
  "mmap_ok env \<longleftrightarrow> (\<forall>size addr. he_mmap env size = Some addr \<longrightarrow> unat addr + unat size < 2 ^ 64)"

lemma allocate_pool_wf:
  assumes wf: "hv_wf st" and mm: "mmap_ok env" and bytes: "unat bytes + 16777216 < 2 ^ 64"
  shows "hv_wf (snd (allocate_pool env bytes st))"
proof (cases "hv_active st \<and> hv_pool st = None \<and> he_macos env \<and> he_mmap env (bytes + chunk_size) \<noteq> None")
  case False
  with wf show ?thesis
    by (auto simp: allocate_pool_def Let_def split: option.split)
next
  case True
  then obtain addr where addr: "he_mmap env (bytes + chunk_size) = Some addr" by blast
  let ?m = "bytes + chunk_size" and ?a = "align_up (chunk_size - 1) addr"
  have sz: "unat ?m = unat bytes + 16777216"
    using bytes by (subst unat_add_u64) simp_all
  have room: "unat addr + unat ?m < 2 ^ 64"
    using mm addr by (auto simp: mmap_ok_def)
  then have al: "unat addr \<le> unat ?a" "unat ?a < unat addr + 16777216" "unat ?a mod 16777216 = 0"
    using chunk_align[of addr] sz by simp_all
  have d: "unat (?a - addr) = unat ?a - unat addr"
    using al(1) by (rule unat_sub_u64)
  have us: "unat (?m - (?a - addr)) = unat ?m - (unat ?a - unat addr)"
    using al sz by (subst unat_sub_u64) (simp_all add: d)
  obtain mapped maps where mp:
    "map_pool_chunks env ?a (unat ((?m - (?a - addr)) div chunk_size)) 0 gpa_base 0 [] = (mapped, maps)"
    by fastforce
  with map_pool_chunks_table[of env ?a "unat ((?m - (?a - addr)) div chunk_size)" 0 mapped maps]
  obtain j where j: "j \<le> unat ((?m - (?a - addr)) div chunk_size)" "mapped = of_nat j" "maps = chunk_table ?a j"
    by (auto simp: chunk_table_def)
  have "j \<le> (unat ?m - (unat ?a - unat addr)) div 16777216"
    using j(1) us by (simp add: unat_div_distrib)
  then have j2: "j * 16777216 \<le> unat ?m - (unat ?a - unat addr)"
    by (simp add: less_eq_div_iff_mult_less_eq)
  then have "unat mapped = j"
    using room j(2) by (simp add: unat_of_nat_u64)
  moreover have "unat ?a + j * 16777216 \<le> unat addr + unat ?m"
    using j2 al sz by linarith
  ultimately show ?thesis
    using al room True addr mp j(3) wf
    by (simp add: allocate_pool_def Let_def hv_wf_def pool_wf_def)
qed

definition alloc_fits_word :: "u64 \<Rightarrow> hv_state \<Rightarrow> bool" where
  "alloc_fits_word sz st \<longleftrightarrow>
     (case hv_pool st of
        None \<Rightarrow> True
      | Some p \<Rightarrow> unat (align_up 4095 (alloc_offset p)) + unat sz < 2 ^ 64)"

text \<open>Runs of the pool, with the buffers handed out since the last \<open>destroy_vm\<close>.\<close>

inductive hv_reach :: "hv_env \<Rightarrow> hv_state \<Rightarrow> (u64 \<times> u64) list \<Rightarrow> bool" for env where
  reach_init: "hv_reach env hv_init []"
| reach_create: "hv_reach env st bufs \<Longrightarrow> hv_reach env (snd (create_vm env st)) bufs"
| reach_pool: "hv_reach env st bufs \<Longrightarrow> unat bytes + 16777216 < 2 ^ 64 \<Longrightarrow>
     hv_reach env (snd (allocate_pool env bytes st)) bufs"
| reach_alloc: "hv_reach env st bufs \<Longrightarrow> alloc_fits_word sz st \<Longrightarrow> alloc_buffer sz st = (Ok a, st') \<Longrightarrow>
     hv_reach env st' (bufs @ [(a, sz)])"
| reach_refused: "hv_reach env st bufs \<Longrightarrow> alloc_buffer sz st = (Err e, st') \<Longrightarrow> hv_reach env st' bufs"
| reach_destroy: "hv_reach env st bufs \<Longrightarrow> hv_reach env (destroy_vm env st) []"

definition bufs_ok :: "hv_state \<Rightarrow> (u64 \<times> u64) list \<Rightarrow> bool" where
  "bufs_ok st bufs \<longleftrightarrow>
     (case hv_pool st of
        None \<Rightarrow> bufs = []
      | Some p \<Rightarrow>
          list_all (\<lambda>(a, s). unat (aligned_base p) \<le> unat a \<and> unat a mod 4096 = 0 \<and>
            unat a + unat s \<le> unat (aligned_base p) + unat (alloc_offset p)) bufs \<and>
          sorted_wrt (\<lambda>(a, s) (b, t). unat a + unat s \<le> unat b) bufs)"

lemma pool_wf_sizes:
  assumes "pool_wf p maps"
  shows "unat (mapped_size p) = unat (mapped_chunks p) * 16777216"
    and "unat (alloc_offset p) + 4095 < 2 ^ 64"
proof -
  have "unat (mapped_chunks p) * 16777216 < 2 ^ 64"
    using assms by (simp add: pool_wf_def)
  then show "unat (mapped_size p) = unat (mapped_chunks p) * 16777216"
    by (simp add: mapped_size_def unat_mult_lem[THEN iffD1])
  have "unat (mapped_chunks p) < 2 ^ 40"
    using \<open>unat (mapped_chunks p) * 16777216 < 2 ^ 64\<close> by simp
  moreover have "unat (alloc_offset p) \<le> unat (mapped_chunks p) * 16777216"
    using assms by (simp add: pool_wf_def)
  ultimately show "unat (alloc_offset p) + 4095 < 2 ^ 64"
    by simp
qed

lemma alloc_buffer_spec:
  assumes wf: "hv_wf st" and ok: "bufs_ok st bufs" and fit: "alloc_fits_word sz st"
    and res: "alloc_buffer sz st = (Ok a, st')"
  shows "hv_wf st' \<and> bufs_ok st' (bufs @ [(a, sz)]) \<and> hv_maps st' = hv_maps st"
proof -
  obtain p where p: "hv_pool st = Some p"
    using res by (auto simp: alloc_buffer_def split: if_splits option.splits)
  let ?o = "align_up 4095 (alloc_offset p)"
  have pw: "pool_wf p (hv_maps st)"
    using wf p by (simp add: hv_wf_def)
  note ms = pool_wf_sizes[OF pw]
  have o: "unat (alloc_offset p) \<le> unat ?o" "unat ?o mod 4096 = 0"
    using page_align[OF ms(2)] .
  have s: "unat (?o + sz) = unat ?o + unat sz"
    using fit p by (intro unat_add_u64) (simp add: alloc_fits_word_def)
  have le: "unat ?o + unat sz \<le> unat (mapped_chunks p) * 16777216"
    and a: "a = aligned_base p + ?o"
    and st': "st' = st\<lparr>hv_pool := Some (p\<lparr>alloc_offset := ?o + sz\<rparr>)\<rparr>"
    using res p by (auto simp: alloc_buffer_def Let_def not_less word_le_nat_alt s ms(1) split: if_splits)
  have ua: "unat a = unat (aligned_base p) + unat ?o"
    unfolding a using pw le by (intro unat_add_u64) (simp add: pool_wf_def)
  have "unat (aligned_base p) mod 16777216 mod 4096 = unat (aligned_base p) mod 4096"
    by (rule mod_mod_cancel) simp
  then have "unat (aligned_base p) mod 4096 = 0"
    using pw by (simp add: pool_wf_def)
  then have am: "unat a mod 4096 = 0"
    using o(2) unfolding ua by (metis add_0 mod_add_eq mod_0)
  have old: "unat (aligned_base p) \<le> unat b \<and> unat b mod 4096 = 0 \<and>
      unat b + unat t \<le> unat (aligned_base p) + unat (alloc_offset p)" if "(b, t) \<in> set bufs" for b t
    using ok p that by (auto simp: bufs_ok_def list_all_iff)
  have "bufs_ok st' (bufs @ [(a, sz)])"
  proof -
    have "list_all (\<lambda>(b, t). unat (aligned_base p) \<le> unat b \<and> unat b mod 4096 = 0 \<and>
        unat b + unat t \<le> unat (aligned_base p) + (unat ?o + unat sz)) (bufs @ [(a, sz)])"
      using old o(1) am ua by (fastforce simp: list_all_iff)
    moreover have "sorted_wrt (\<lambda>(a, s) (b, t). unat a + unat s \<le> unat b) (bufs @ [(a, sz)])"
      using ok p old o(1) ua by (fastforce simp: bufs_ok_def sorted_wrt_append)
    ultimately show ?thesis
      by (simp add: bufs_ok_def st' s)
  qed
  moreover have "hv_wf st'"
    using pw le s by (simp add: hv_wf_def st' pool_wf_def)
  ultimately show ?thesis
    by (simp add: st')
qed

lemma unmap_chunks_filter:
  "unmap_chunks n gpa maps = filter (\<lambda>m. \<forall>i<n. fst m \<noteq> gpa + of_nat i * chunk_size) maps"
proof (induction n arbitrary: gpa maps)
  case (Suc n)
  have "(\<forall>i<Suc n. g \<noteq> gpa + of_nat i * chunk_size) \<longleftrightarrow>
      g \<noteq> gpa \<and> (\<forall>i<n. g \<noteq> gpa + chunk_size + of_nat i * chunk_size)" for g
    by (simp add: All_less_Suc2 algebra_simps)
  then show ?case
    by (auto simp: Suc.IH intro!: filter_cong)
qed simp

lemma unmap_chunk_table: "unmap_chunks n gpa_base (chunk_table base n) = []"
  by (auto simp: unmap_chunks_filter chunk_table_def filter_empty_conv)

lemma destroy_vm_wf: "hv_wf st \<Longrightarrow> hv_wf (destroy_vm env st) \<and> bufs_ok (destroy_vm env st) []"
  by (auto simp: destroy_vm_def Let_def hv_wf_def bufs_ok_def pool_wf_def unmap_chunk_table split: option.splits)

lemma allocate_pool_bufs:
  "bufs_ok st bufs \<Longrightarrow> bufs_ok (snd (allocate_pool env bytes st)) bufs"
  by (auto simp: allocate_pool_def Let_def bufs_ok_def split: option.splits prod.splits)

lemma create_vm_same [simp]:
  "hv_pool (snd (create_vm env st)) = hv_pool st" "hv_maps (snd (create_vm env st)) = hv_maps st"
  by (simp_all add: create_vm_def)

lemma hv_reach_wf:
  assumes "hv_reach env st bufs" and "mmap_ok env"
  shows "hv_wf st \<and> bufs_ok st bufs"
  using assms(1)
proof induction
  case reach_init
  then show ?case by (simp add: hv_init_def hv_wf_def bufs_ok_def)
next
  case (reach_create st bufs)
  then show ?case by (cases "hv_pool st") (simp_all add: hv_wf_def bufs_ok_def)
next
  case (reach_pool st bufs bytes)
  then show ?case using allocate_pool_wf[OF _ assms(2)] allocate_pool_bufs by blast
next
  case (reach_alloc st bufs sz a st')
  then show ?case using alloc_buffer_spec by blast
next
  case (reach_refused st bufs sz e st')
  then have "st' = st"
    by (auto simp: alloc_buffer_def Let_def split: if_splits option.splits)
  with reach_refused show ?case by simp
next
  case (reach_destroy st bufs)
  then show ?case using destroy_vm_wf by blast
qed

text \<open>A byte of the mapped part of the pool lies in a mapped chunk.\<close>

lemma chunk_covers:
  assumes pw: "pool_wf p maps" and lo: "unat (aligned_base p) \<le> x"
    and hi: "x < unat (aligned_base p) + unat (mapped_chunks p) * 16777216"
  shows "\<exists>(g, h) \<in> set maps. unat h \<le> x \<and> x < unat h + 16777216"
proof -
  let ?i = "(x - unat (aligned_base p)) div 16777216" and ?b = "aligned_base p"
  have i: "?i < unat (mapped_chunks p)"
    using lo hi by (simp add: div_less_iff_less_mult)
  have "?i * 16777216 \<le> x - unat ?b"
    by simp
  then have le: "unat ?b + ?i * 16777216 \<le> x"
    using lo by linarith
  have lt: "x < unat ?b + ?i * 16777216 + 16777216"
    using lo div_mult_mod_eq[of "x - unat ?b" 16777216] mod_less_divisor[of 16777216 "x - unat ?b"] by linarith
  have small: "unat ?b + ?i * 16777216 < 2 ^ 64"
    using pw le hi by (auto simp: pool_wf_def)
  then have "unat (of_nat ?i * chunk_size) = ?i * 16777216"
    by (subst unat_mult_lem[THEN iffD1]) (simp_all add: unat_of_nat_u64)
  then have h: "unat (?b + of_nat ?i * chunk_size) = unat ?b + ?i * 16777216"
    using small by (subst unat_add_u64) simp_all
  have "(gpa_base + of_nat ?i * chunk_size, ?b + of_nat ?i * chunk_size) \<in> set maps"
    using pw i by (auto simp: pool_wf_def chunk_table_def)
  with h le lt show ?thesis by (intro bexI) auto
qed

section \<open>Properties\<close>

text \<open>C35: Every buffer handed out since the pool was set up is page aligned and lies byte for byte
  in chunks that are mapped into the virtual machine, and buffers handed out one after the other
  do not overlap, in every state reached by any sequence of the pool's operations whose sizes do
  not wrap around; a request is granted exactly when \<open>pool_has_capacity\<close> says so.\<close>

theorem pool_buffers_isolated:
  assumes "hv_reach env st bufs" and "mmap_ok env"
    and "i < length bufs" and "bufs ! i = (a, s)"
  shows "unat a mod 4096 = 0 \<and>
    (\<forall>x. unat a \<le> x \<longrightarrow> x < unat a + unat s \<longrightarrow>
       (\<exists>(g, h) \<in> set (hv_maps st). unat h \<le> x \<and> x < unat h + unat chunk_size)) \<and>
    (\<forall>j b t. i < j \<longrightarrow> j < length bufs \<longrightarrow> bufs ! j = (b, t) \<longrightarrow> unat a + unat s \<le> unat b) \<and>
    (\<forall>sz. hv_active st \<longrightarrow> isl (fst (alloc_buffer sz st)) = (\<not> pool_has_capacity sz st))"
proof -
  have wf: "hv_wf st" and ok: "bufs_ok st bufs"
    using hv_reach_wf[OF assms(1,2)] by auto
  then obtain p where p: "hv_pool st = Some p"
    using assms(3) by (cases "hv_pool st") (auto simp: bufs_ok_def)
  have pw: "pool_wf p (hv_maps st)"
    using wf p by (simp add: hv_wf_def)
  have "(a, s) \<in> set bufs"
    using assms(3,4) nth_mem by metis
  then have b: "unat (aligned_base p) \<le> unat a" "unat a mod 4096 = 0"
      "unat a + unat s \<le> unat (aligned_base p) + unat (alloc_offset p)"
    using ok p by (auto simp: bufs_ok_def list_all_iff)
  have "unat (alloc_offset p) \<le> unat (mapped_chunks p) * 16777216"
    using pw by (simp add: pool_wf_def)
  then have cov: "\<exists>(g, h) \<in> set (hv_maps st). unat h \<le> x \<and> x < unat h + unat chunk_size"
    if "unat a \<le> x" and "x < unat a + unat s" for x
    using chunk_covers[OF pw, of x] b that by simp
  have dis: "unat a + unat s \<le> unat b'" if "i < j" and "j < length bufs" and "bufs ! j = (b', t)" for j b' t
    using ok p that assms(4) by (fastforce simp: bufs_ok_def sorted_wrt_iff_nth_less)
  have "isl (fst (alloc_buffer sz st)) = (\<not> pool_has_capacity sz st)" if "hv_active st" for sz
    using that p by (simp add: alloc_buffer_def pool_has_capacity_def Let_def not_le)
  with b(2) cov dis show ?thesis
    by blast
qed

text \<open>A pool of one chunk and a page.\<close>

definition small_env :: hv_env where
  "small_env = \<lparr>he_macos = True, he_vm_create = 0,
     he_mmap = (\<lambda>size. if size \<le> 0x4000000 then Some 0x100001000 else None), he_vm_map = (\<lambda>_ _. 0)\<rparr>"

definition small_pool :: hv_state where
  "small_pool = snd (allocate_pool small_env 0x1001000 (snd (create_vm small_env hv_init)))"

lemma small_pool_value:
  "small_pool = \<lparr>hv_active = True,
     hv_pool = Some \<lparr>pool_base = 0x100001000, pool_mmap_size = 0x2001000, aligned_base = 0x101000000,
       usable_size = 0x1002000, mapped_chunks = 1, alloc_offset = 0\<rparr>,
     hv_maps = [(0x100000000, 0x101000000)]\<rparr>"
  by code_simp

theorem pool_buffers_isolated_witness:
  "alloc_buffer 5000 small_pool = (Ok 0x101000000, small_pool\<lparr>hv_pool := Some ((the (hv_pool small_pool))\<lparr>alloc_offset := 5000\<rparr>)\<rparr>) \<and>
   unat (0x101000000 :: u64) mod 4096 = 0"
proof -
  have alloc: "alloc_buffer 5000 small_pool = (Ok 0x101000000, small_pool\<lparr>hv_pool := Some ((the (hv_pool small_pool))\<lparr>alloc_offset := 5000\<rparr>)\<rparr>)"
    by code_simp
  have "hv_reach small_env small_pool []"
    unfolding small_pool_def by (intro reach_pool reach_create reach_init) simp
  moreover have "alloc_fits_word 5000 small_pool"
    unfolding small_pool_value by (simp add: alloc_fits_word_def align_up_def)
  ultimately have "hv_reach small_env
      (small_pool\<lparr>hv_pool := Some ((the (hv_pool small_pool))\<lparr>alloc_offset := 5000\<rparr>)\<rparr>) ([] @ [(0x101000000, 5000)])"
    using alloc by (rule reach_alloc)
  moreover have "mmap_ok small_env"
    by (auto simp: mmap_ok_def small_env_def word_le_nat_alt)
  ultimately show ?thesis
    using pool_buffers_isolated[of small_env _ _ 0] alloc by fastforce
qed

text \<open>A size close to the word size wraps around in \<open>alloc_buffer\<close>: in a pool of one chunk of
  which a buffer of 5000 bytes is handed out, a request of \<open>2^64 - 8192\<close> bytes is granted and
  rewinds the allocator, so that the next buffer is at the address of the first, which is still in
  use; \<open>pool_has_capacity\<close> accepts the size as well.\<close>

theorem alloc_buffer_wraps:
  "let (r1, st1) = alloc_buffer 5000 small_pool;
       (r2, st2) = alloc_buffer (- 8192) st1;
       (r3, st3) = alloc_buffer 5000 st2
   in pool_capacity small_pool = 0x1000000 \<and> r1 = Ok 0x101000000 \<and>
      pool_has_capacity (- 8192) st1 \<and> r2 = Ok 0x101002000 \<and> r3 = r1"
  by code_simp

end
