(* ===== verification/LocalServer.thy ===== *)
theory LocalServer
  imports Json
begin

text \<open>
  \<open>server.rs\<close>: the quarantined local HTTP proxy for debugging, its gate and its three handlers. The backend
  is an observation; a streamed body is the list of its pieces.
\<close>

section \<open>The gate\<close>

definition legacy_text_proxy_enabled :: "string option \<Rightarrow> bool" where
  "legacy_text_proxy_enabled var =
     (case var of
        None \<Rightarrow> False
      | Some value \<Rightarrow> to_lowercase (trim value) \<in> {''1'', ''true'', ''yes'', ''on''})"

definition ensure_legacy_text_proxy_allowed :: "bool \<Rightarrow> string option \<Rightarrow> unit result" where
  "ensure_legacy_text_proxy_allowed debug_build var =
     (if \<not> debug_build then Err ''legacy local HTTP text proxy is disabled in release builds; use the coordinator/private-text path instead''
      else if \<not> legacy_text_proxy_enabled var then Err ''legacy local HTTP text proxy is quarantined''
      else Ok ())"

section \<open>The handlers\<close>

text \<open>The backend's answer: status, content type and the pieces of the body, a break being \<open>None\<close>.\<close>

record backend_response =
  br_status :: nat
  br_content_type :: "string option"
  br_body :: "bytes option list"

datatype server_body = TextBody string | JsonBody json | BytesBody bytes | StreamBody "bytes option list"

record server_response =
  sr_status :: nat
  sr_headers :: "(string \<times> string) list"
  sr_body :: server_body

definition plain_response :: "nat \<Rightarrow> server_body \<Rightarrow> server_response" where
  "plain_response status body = \<lparr>sr_status = status, sr_headers = [], sr_body = body\<rparr>"

text \<open>Status codes from 100 to 999 are representable.\<close>

definition status_from_u16 :: "nat \<Rightarrow> nat" where
  "status_from_u16 s = (if 100 \<le> s \<and> s < 1000 then s else 500)"

definition health_handler :: "(string \<Rightarrow> backend_response option) \<Rightarrow> string \<Rightarrow> server_response" where
  "health_handler get backend_url =
     (case get (backend_url @ ''/health'') of
        Some resp \<Rightarrow>
          if 200 \<le> br_status resp \<and> br_status resp < 300 then plain_response 200 (TextBody ''ok'')
          else plain_response 503 (TextBody (''backend unhealthy: '' @ show_nat (br_status resp)))
      | None \<Rightarrow> plain_response 503 (TextBody ''backend unreachable''))"

definition proxy_response :: "backend_response \<Rightarrow> server_response" where
  "proxy_response resp =
     (case those (br_body resp) of
        Some pieces \<Rightarrow>
          \<lparr>sr_status = status_from_u16 (br_status resp),
           sr_headers = (case br_content_type resp of None \<Rightarrow> [] | Some ct \<Rightarrow> [(''content-type'', ct)]),
           sr_body = BytesBody (concat pieces)\<rparr>
      | None \<Rightarrow> plain_response 502 (TextBody ''error reading backend response''))"

definition proxy_streaming_response :: "backend_response \<Rightarrow> server_response" where
  "proxy_streaming_response resp =
     \<lparr>sr_status = status_from_u16 (br_status resp),
      sr_headers = [(''content-type'', ''text/event-stream''), (''cache-control'', ''no-cache''), (''connection'', ''keep-alive'')],
      sr_body = StreamBody (br_body resp)\<rparr>"

definition bad_gateway :: server_response where
  "bad_gateway = plain_response 502 (JsonBody (JObj [(''error'', JStr ''backend error'')]))"

definition models_handler :: "(string \<Rightarrow> backend_response option) \<Rightarrow> string \<Rightarrow> server_response" where
  "models_handler get backend_url =
     (case get (backend_url @ ''/v1/models'') of Some resp \<Rightarrow> proxy_response resp | None \<Rightarrow> bad_gateway)"

definition is_event_stream :: "backend_response \<Rightarrow> bool" where
  "is_event_stream resp \<longleftrightarrow> (case br_content_type resp of None \<Rightarrow> False | Some ct \<Rightarrow> str_contains ct ''text/event-stream'')"

definition chat_completions_handler :: "(string \<Rightarrow> string \<Rightarrow> backend_response option) \<Rightarrow> string \<Rightarrow> string \<Rightarrow> server_response" where
  "chat_completions_handler post backend_url body =
     (case post (backend_url @ ''/v1/chat/completions'') body of
        Some resp \<Rightarrow> if is_event_stream resp then proxy_streaming_response resp else proxy_response resp
      | None \<Rightarrow> bad_gateway)"

text \<open>The three routes.\<close>

definition create_router ::
  "(string \<Rightarrow> backend_response option) \<Rightarrow> (string \<Rightarrow> string \<Rightarrow> backend_response option) \<Rightarrow> string \<Rightarrow>
     string \<Rightarrow> string \<Rightarrow> string \<Rightarrow> server_response option" where
  "create_router get post backend_url verb path body =
     (if verb = ''GET'' \<and> path = ''/health'' then Some (health_handler get backend_url)
      else if verb = ''GET'' \<and> path = ''/v1/models'' then Some (models_handler get backend_url)
      else if verb = ''POST'' \<and> path = ''/v1/chat/completions'' then Some (chat_completions_handler post backend_url body)
      else None)"

text \<open>Starting: the address that is bound, on the loopback interface only.\<close>

definition start_server :: "bool \<Rightarrow> string option \<Rightarrow> bool \<Rightarrow> u16 \<Rightarrow> string result" where
  "start_server debug_build var bind_ok port =
     (case ensure_legacy_text_proxy_allowed debug_build var of
        Inl e \<Rightarrow> Err e
      | Inr _ \<Rightarrow> if bind_ok then Ok (''127.0.0.1:'' @ show_nat (unat port)) else Err ''bind'')"

section \<open>Properties\<close>

text \<open>The plaintext proxy listens only in a debug build with the explicit switch, and only on the loopback
  interface.\<close>

theorem local_proxy_quarantined:
  "start_server debug_build var bind_ok port = Ok addr \<longleftrightarrow>
     debug_build \<and> bind_ok \<and> addr = ''127.0.0.1:'' @ show_nat (unat port) \<and>
     (case var of None \<Rightarrow> False | Some v \<Rightarrow> to_lowercase (trim v) \<in> {''1'', ''true'', ''yes'', ''on''})"
  by (auto simp: start_server_def ensure_legacy_text_proxy_allowed_def legacy_text_proxy_enabled_def split: option.split)

text \<open>A complete answer is passed on unchanged; a broken one becomes a gateway error, except when it is a stream.\<close>

lemma those_map_Some [simp]: "those (map Some xs) = Some xs"
  by (induction xs) simp_all

lemma chat_passes_through:
  assumes "post (url @ ''/v1/chat/completions'') body = Some \<lparr>br_status = s, br_content_type = ct, br_body = map Some pieces\<rparr>"
    and "100 \<le> s" "s < 1000"
  shows "sr_status (chat_completions_handler post url body) = s \<and>
    (case sr_body (chat_completions_handler post url body) of
       BytesBody b \<Rightarrow> b = concat pieces | StreamBody ps \<Rightarrow> ps = map Some pieces | _ \<Rightarrow> False)"
  using assms
  by (simp add: chat_completions_handler_def proxy_response_def proxy_streaming_response_def status_from_u16_def)

end
