(* ===== verification/Startup.thy ===== *)
theory Startup
  imports Config Supervisor EngineChat Templates Runtime SecureEnclave Account Telemetry Hypervisor LocalServer
begin

text \<open>
  The life of \<open>darkbloom serve\<close> around its event loop (\<open>cmd_serve\<close> in
  \<open>provider/src/main.rs\<close>): taking over from an older instance, hardening of the process,
  configuration and keys, the runtime checks, the client of the coordinator, the engines, the
  connection; then the schedule loop, the update loop and the clean-up. Each phase calls the
  operations of the component theories; what it observes is a field of \<open>boot_obs\<close>. The phases
  that decide whether the provider may serve leave an entry in \<open>bt_trace\<close>, so that their order
  can be stated.

  The text backend is always the in-process engine (\<open>preferred_text_backend_mode\<close>); the
  branches of the source for subprocess backends at this stage (freeing their ports, waiting for
  them) cannot be reached and are left out. Log lines are left out.
\<close>

section \<open>One instance\<close>

datatype proc_action = SendTerm u32 | SendKill u32 | KillMatching string | Spawned string "string list"

definition take_over :: "(u32 \<Rightarrow> bool) \<Rightarrow> (u32 \<Rightarrow> bool) \<Rightarrow> u32 \<Rightarrow> string option \<Rightarrow> proc_action list" where
  "take_over alive still_alive my_pid pid_file =
     (case Option.bind pid_file (parse_u32 \<circ> trim) of
        None \<Rightarrow> []
      | Some old_pid \<Rightarrow>
          if old_pid \<noteq> my_pid \<and> alive old_pid
          then SendTerm old_pid # (if still_alive old_pid then [SendKill old_pid] else [])
          else []) @
     map KillMatching [''mlx_lm.server'', ''vllm_mlx'', ''DGInf'', ''dginf-provider'']"

definition write_pid :: "bool \<Rightarrow> u32 \<Rightarrow> string option \<Rightarrow> string option" where
  "write_pid write_ok my_pid pid_file = (if write_ok then Some (show_nat (unat my_pid)) else pid_file)"

section \<open>Settings\<close>

datatype text_backend_mode = InProcess

definition preferred_text_backend_mode :: "bool \<Rightarrow> text_backend_mode" where
  "preferred_text_backend_mode local = InProcess"

fun backend_name_for_mode :: "text_backend_mode \<Rightarrow> string" where
  "backend_name_for_mode InProcess = ''inprocess-mlx''"

definition load_or_create_config ::
  "config_env \<Rightarrow> hardware_info \<Rightarrow> string option \<Rightarrow> provider_config result \<times> string option" where
  "load_or_create_config env hw config_file =
     (case default_config_path env of
        Inl e \<Rightarrow> (Err e, config_file)
      | Inr _ \<Rightarrow>
          if config_file \<noteq> None then (config_load env config_file, config_file)
          else (case config_save env (default_for_hardware hw) config_file of
             (Inl e, f) \<Rightarrow> (Err e, f)
           | (Inr _, f) \<Rightarrow> (Ok (default_for_hardware hw), f)))"

text \<open>Seconds, at the width of the source: a huge number of minutes wraps around.\<close>

definition idle_timeout :: "u64 option \<Rightarrow> provider_config \<Rightarrow> u64 option" where
  "idle_timeout override cfg =
     (let mins = (case override of Some m \<Rightarrow> m | None \<Rightarrow> bs_idle_timeout_mins (pc_backend cfg))
      in if mins = 0 then None else Some (mins * 60))"

definition selected_models :: "string list \<Rightarrow> provider_config \<Rightarrow> string list" where
  "selected_models model_overrides cfg =
     (if model_overrides \<noteq> [] then model_overrides
      else case bs_model (pc_backend cfg) of Some m \<Rightarrow> [m] | None \<Rightarrow> [])"

record boot_slot =
  bk_model_id :: string
  bk_model_path :: string
  bk_port :: u16
  bk_pid :: "nat option"
  bk_backend_url :: string
  bk_healthy :: bool

definition backend_slot :: "u16 \<Rightarrow> bool \<Rightarrow> nat \<times> string \<Rightarrow> boot_slot" where
  "backend_slot be_port using_inprocess im =
     (case im of (i, model_id) \<Rightarrow>
        let port = be_port + word_of_nat i in
        \<lparr>bk_model_id = model_id, bk_model_path = [], bk_port = port, bk_pid = None,
         bk_backend_url = (if using_inprocess then ''inprocess://'' @ model_id else ''http://127.0.0.1:'' @ show_nat (unat port)),
         bk_healthy = using_inprocess\<rparr>)"

definition backend_slots :: "u16 \<Rightarrow> bool \<Rightarrow> string list \<Rightarrow> boot_slot list" where
  "backend_slots be_port using_inprocess models = map (backend_slot be_port using_inprocess) (enumerate 0 models)"

definition total_model_bytes :: "string list \<Rightarrow> model_info list \<Rightarrow> u64" where
  "total_model_bytes selected available =
     sum_list (map mi_size_bytes (List.map_filter (\<lambda>mid. List.find (\<lambda>m. mi_id m = mid) available) selected))"

definition reserve_pool :: "hv_env \<Rightarrow> string list \<Rightarrow> model_info list \<Rightarrow> hv_state \<Rightarrow> hv_state" where
  "reserve_pool env selected available st =
     (if hv_active st \<and> total_model_bytes selected available > 0
      then snd (allocate_pool env (total_model_bytes selected available * 2) st) else st)"

text \<open>The Python of the installation, when there is one; its home is set only for a standalone one.\<close>

definition choose_python :: "(string \<Rightarrow> bool) \<Rightarrow> (string \<Rightarrow> bool) \<Rightarrow> string \<Rightarrow> env \<Rightarrow> string \<times> env" where
  "choose_python ex is_symlink home vars =
     (let dir = home @ ''/.darkbloom''; bundled = dir @ ''/python/bin/python3.12'' in
      if ex bundled
      then (bundled,
            if \<not> is_symlink bundled \<and> ex (dir @ ''/python/lib/python3.12/os.py'')
            then hash_insert ''PYTHONHOME'' (dir @ ''/python'') vars else vars)
      else (''python3'', vars))"

definition advertised_models :: "string list \<Rightarrow> model_info list \<Rightarrow> model_info list" where
  "advertised_models selected scanned = filter (\<lambda>m. mi_id m \<in> set selected) scanned"

section \<open>Observations and state\<close>

record serve_args =
  sa_local :: bool
  sa_coordinator_url :: string
  sa_port :: u16
  sa_models :: "string list"
  sa_backend_port :: "u16 option"
  sa_idle_timeout :: "u64 option"
  sa_auto_update :: bool

record ('i, 'd, 'p) boot_obs =
  bo_pid :: u32
  bo_alive :: "u32 \<Rightarrow> bool"
  bo_still_alive :: "u32 \<Rightarrow> bool"
  bo_pid_write_ok :: bool
  bo_caffeinate_ok :: bool
  bo_hv :: hv_env
  bo_run :: cmd_env
  bo_exe :: "path result"
  bo_setrlimit :: int
  bo_ptrace :: int
  bo_python_feature :: bool
  bo_backend_var :: "string option"
  bo_exists :: "string \<Rightarrow> bool"
  bo_symlink :: "string \<Rightarrow> bool"
  bo_home :: "string option"
  bo_hardware :: "hardware_info result"
  bo_config :: config_env
  bo_parse_time :: time_parser
  bo_box :: crypto_box
  bo_random :: bytes
  bo_b64 :: "bytes \<Rightarrow> string"
  bo_sha256 :: "bytes \<Rightarrow> bytes"
  bo_ffi :: "'i enclave_ffi"
  bo_remove_ok :: "string \<Rightarrow> bool"
  bo_from_str :: json_parser
  bo_models :: model_fs
  bo_from_slice :: json_parser
  bo_python :: "'d python_env"
  bo_packages :: "'p runtime_env"
  bo_read :: "path \<Rightarrow> bytes option"
  bo_token_file :: "string option"
  bo_version :: string
  bo_telemetry :: telemetry_env
  bo_event :: event_env
  bo_queue :: queue_file
  bo_wallet :: "string result"
  bo_runtime_hashes :: runtime_hashes
  bo_templates :: template_env
  bo_load :: "string \<Rightarrow> unit result"
  bo_now :: nat

datatype boot_event =
    BootHardened
  | BootKeys
  | BootPrivateRuntime
  | BootPython
  | BootEngine string bool
  | BootNoDebugger
  | BootConnected

record ('d, 'p) boot_state =
  bt_actions :: "proc_action list"
  bt_pid_file :: "string option"
  bt_hv :: hv_state
  bt_env :: env
  bt_config_file :: "string option"
  bt_key_files :: key_files
  bt_files :: files
  bt_python :: 'd
  bt_packages :: "'p pkg_dirs"
  bt_engines :: engines
  bt_telemetry :: "(telemetry_config \<times> telemetry_state) option"
  bt_trace :: "boot_event list"

definition mark :: "boot_event \<Rightarrow> ('d, 'p) boot_state \<Rightarrow> ('d, 'p) boot_state" where
  "mark e st = st\<lparr>bt_trace := bt_trace st @ [e]\<rparr>"

section \<open>Hardening\<close>

definition boot_instance :: "('i, 'd, 'p) boot_obs \<Rightarrow> ('d, 'p) boot_state \<Rightarrow> ('d, 'p) boot_state" where
  "boot_instance ob st =
     st\<lparr>bt_actions := bt_actions st @ take_over (bo_alive ob) (bo_still_alive ob) (bo_pid ob) (bt_pid_file st),
        bt_pid_file := write_pid (bo_pid_write_ok ob) (bo_pid ob) (bt_pid_file st)\<rparr>"

definition harden :: "('i, 'd, 'p) boot_obs \<Rightarrow> ('d, 'p) boot_state \<Rightarrow> unit result \<times> ('d, 'p) boot_state" where
  "harden ob st =
     (let st1 = st\<lparr>bt_hv := snd (create_vm (bo_hv ob) (bt_hv st))\<rparr> in
      case verify_security_posture (bo_run ob) (bo_exe ob) (hv_active (bt_hv st1)) [] [] of
        Inl e \<Rightarrow> (Err (''Security check failed: '' @ e), st1)
      | Inr _ \<Rightarrow>
          (case disable_core_dumps (bo_setrlimit ob) [] of
             Inl e \<Rightarrow> (Err (''Failed to disable core dumps: '' @ e), st1)
           | Inr _ \<Rightarrow>
               (let vars = scrub_private_env (bt_env st1);
                    vars' = (if bo_python_feature ob then isolate_python_preinit vars else vars)
                in (Ok (), mark BootHardened (st1\<lparr>bt_env := vars'\<rparr>)))))"

text \<open>A process that keeps the machine awake as long as the provider runs.\<close>

definition prevent_sleep :: "('i, 'd, 'p) boot_obs \<Rightarrow> ('d, 'p) boot_state \<Rightarrow> ('d, 'p) boot_state" where
  "prevent_sleep ob st =
     (if bo_caffeinate_ok ob
      then st\<lparr>bt_actions := bt_actions st @ [Spawned ''/usr/bin/caffeinate'' [''-s'', ''-i'', ''-w'', show_nat (unat (bo_pid ob))]]\<rparr>
      else st)"

section \<open>The client\<close>

definition startup_telemetry_config :: "('i, 'd, 'p) boot_obs \<Rightarrow> string \<Rightarrow> string option \<Rightarrow> string \<Rightarrow> telemetry_config" where
  "startup_telemetry_config ob url auth_token public_key =
     \<lparr>tc_coordinator_url = url, tc_auth_token = auth_token, tc_version = bo_version ob, tc_machine_id = public_key,
      tc_account_id = None, tc_source = SrcProvider,
      tc_disk_queue_path = (case bo_home ob of None \<Rightarrow> ''/tmp'' | Some h \<Rightarrow> h) @ ''/.darkbloom/telemetry-queue.jsonl'',
      tc_max_batch = 50, tc_flush_interval = 5, tc_mem_queue_cap = 1024\<rparr>"

definition provider_start_event :: "event_env \<Rightarrow> hardware_info \<Rightarrow> telemetry_event" where
  "provider_start_event env hw =
     with_field ''memory_gb'' (enc_i64 (memory_gb hw))
       (with_field ''hardware_chip'' (JStr (chip_name hw))
         (with_field ''component'' (JStr ''provider'')
           (event_new env SrcProvider SevInfo KLog ''provider_start'')))"

definition start_telemetry :: "('i, 'd, 'p) boot_obs \<Rightarrow> telemetry_config \<Rightarrow> hardware_info \<Rightarrow> ('d, 'p) boot_state \<Rightarrow> ('d, 'p) boot_state" where
  "start_telemetry ob tcfg hw st =
     st\<lparr>bt_telemetry := telemetry_emit (bo_telemetry ob) (provider_start_event (bo_event ob) hw)
          (telemetry_init tcfg (bo_queue ob) (bt_telemetry st))\<rparr>"

definition ok_option :: "'a result \<Rightarrow> 'a option" where
  "ok_option r = (case r of Inl _ \<Rightarrow> None | Inr x \<Rightarrow> Some x)"

text \<open>The client that will register, and the state it shares with the event loop.\<close>

definition startup_client ::
  "('i, 'd, 'p) boot_obs \<Rightarrow> string \<Rightarrow> provider_config \<Rightarrow> hardware_info \<Rightarrow> node_key_pair \<Rightarrow> 'i enclave_handle option
   \<Rightarrow> string list \<Rightarrow> model_info list \<Rightarrow> string \<Rightarrow> string \<Rightarrow> coordinator_client \<times> shared_state" where
  "startup_client ob url cfg hw kp se selected advertised backend_name python_cmd =
     (let public_key = public_key_base64 (bo_b64 ob) kp;
          attestation = Option.bind se (\<lambda>h. ok_option (fst (create_attestation (bo_ffi ob) h public_key (self_binary_hash (bo_sha256 ob) (bo_read ob) (bo_exe ob)))));
          model = (case selected of [] \<Rightarrow> [] | m # _ \<Rightarrow> m);
          model_hash = compute_weight_hash (bo_sha256 ob) (bo_models ob) model;
          hashes = (case model_hash of None \<Rightarrow> [] | Some h \<Rightarrow> [(model, h)]);
          sign = map_option (\<lambda>h data. ok_option (fst (handle_sign (bo_ffi ob) h data))) se;
          (client, shared) = client_new url hw advertised backend_name
            (unat (cs_heartbeat_interval_secs (pc_coordinator cfg))) (Some public_key) kp
      in (with_se_handle (with_model_hashes (with_runtime_hash_command (with_runtime_hashes (with_auth_token
            (with_wallet_address (with_attestation client attestation) (ok_option (bo_wallet ob)))
            (load_auth_token (bo_token_file ob))) (Some (bo_runtime_hashes ob))) (Some python_cmd)) hashes) sign,
          shared\<lparr>sh_current_model := Some model, sh_warm_models := selected, sh_current_model_hash := model_hash\<rparr>))"

section \<open>Engines\<close>

definition slot_path :: "('i, 'd, 'p) boot_obs \<Rightarrow> string \<Rightarrow> string" where
  "slot_path ob model_id =
     (case resolve_local_path (bo_models ob) model_id of Some p \<Rightarrow> ''/'' @ path_string p | None \<Rightarrow> model_id)"

text \<open>The hashes of the chat templates, as the coordinator publishes them.\<close>

definition template_manifest :: "cmd_env \<Rightarrow> json_parser \<Rightarrow> string \<Rightarrow> manifest_hashes" where
  "template_manifest run from_slice coordinator_base =
     (case fetch_runtime_manifest run from_slice coordinator_base of
        None \<Rightarrow> (\<lambda>_. None)
      | Some m \<Rightarrow> map_of (rev (mf_template_hashes m)))"

definition start_slot :: "('i, 'd, 'p) boot_obs \<Rightarrow> manifest_hashes \<Rightarrow> boot_slot \<Rightarrow> ('d, 'p) boot_state \<Rightarrow> boot_slot \<times> ('d, 'p) boot_state" where
  "start_slot ob manifest s st =
     (let path = slot_path ob (bk_model_id s);
          st1 = st\<lparr>bt_files := ensure_chat_template (bo_templates ob) path manifest (bt_files st)\<rparr>
      in if \<not> bo_python_feature ob then (s\<lparr>bk_model_path := path, bk_healthy := False\<rparr>, mark (BootEngine (bk_model_id s) False) st1)
         else case get_or_load_inprocess_engine (bo_load ob path) (bk_model_id s) (bt_engines st1) of
           (eg, Inr _) \<Rightarrow> (s\<lparr>bk_model_path := path, bk_healthy := True\<rparr>, mark (BootEngine (bk_model_id s) True) (st1\<lparr>bt_engines := eg\<rparr>))
         | (eg, Inl _) \<Rightarrow> (s\<lparr>bk_model_path := path, bk_healthy := False\<rparr>, mark (BootEngine (bk_model_id s) False) (st1\<lparr>bt_engines := eg\<rparr>)))"

fun start_slots :: "('i, 'd, 'p) boot_obs \<Rightarrow> manifest_hashes \<Rightarrow> boot_slot list \<Rightarrow> ('d, 'p) boot_state \<Rightarrow> boot_slot list \<times> ('d, 'p) boot_state" where
  "start_slots ob manifest [] st = ([], st)"
| "start_slots ob manifest (s # ss) st =
     (case start_slot ob manifest s st of
        (s', st') \<Rightarrow> (case start_slots ob manifest ss st' of (ss', st'') \<Rightarrow> (s' # ss', st'')))"

definition shared_slot :: "boot_slot \<Rightarrow> slot" where
  "shared_slot s =
     \<lparr>sl_model_id = bk_model_id s, sl_model_path = bk_model_path s, sl_port = bk_port s, sl_pid = bk_pid s,
      sl_healthy = bk_healthy s, sl_restarting = False\<rparr>"

section \<open>The whole start\<close>

text \<open>What the event loop is started with.\<close>

record started =
  sd_client :: "(coordinator_client \<times> shared_state) option"
  sd_serve :: serve_state
  sd_config :: serve_config
  sd_schedule :: "schedule option"
  sd_auto_update :: bool
  sd_backend_url :: string

text \<open>From the configuration to the runtime checks.\<close>

definition boot_keys ::
  "('i, 'd, 'p) boot_obs \<Rightarrow> ('d, 'p) boot_state \<Rightarrow> (node_key_pair \<times> 'i enclave_handle option) \<times> ('d, 'p) boot_state" where
  "boot_keys ob st =
     ((kp_generate (bo_box ob) (bo_random ob), ok_option (fst (handle_create (bo_ffi ob)))),
      mark BootKeys (st\<lparr>bt_key_files := cleanup_legacy_key_files (bo_remove_ok ob) (bo_home ob) (bt_key_files st)\<rparr>))"

definition check_private_runtime :: "serve_args \<Rightarrow> ('i, 'd, 'p) boot_obs \<Rightarrow> string list \<Rightarrow> ('d, 'p) boot_state \<Rightarrow> unit result \<times> ('d, 'p) boot_state" where
  "check_private_runtime args ob selected st =
     (if selected = [] then (Ok (), st)
      else case validate_private_text_runtime (sa_local args) (bo_backend_var ob) (bo_python_feature ob)
          (ensure_approved_runtime_available (bo_exists ob) (bo_exe ob) (bo_home ob)) of
        Inl e \<Rightarrow> (Err e, st)
      | Inr _ \<Rightarrow> (Ok (), mark BootPrivateRuntime st))"

text \<open>The Python installation is verified or replaced, then its packages are brought up to date; whether
  that worked is not looked at.\<close>

definition boot_python :: "serve_args \<Rightarrow> ('i, 'd, 'p) boot_obs \<Rightarrow> ('d, 'p) boot_state \<Rightarrow> unit result \<times> ('d, 'p) boot_state" where
  "boot_python args ob st =
     (let coordinator_base = ws_to_http (sa_coordinator_url args) in
      case ensure_python_verified (bo_run ob) (bo_from_slice ob) (bo_python ob) coordinator_base (bt_python st) of
        (False, d) \<Rightarrow> (Err ''Python runtime is broken and could not be recovered'', st\<lparr>bt_python := d\<rparr>)
      | (True, d) \<Rightarrow>
          (Ok (), mark BootPython (st\<lparr>bt_python := d,
             bt_packages := snd (ensure_runtime_updated (bo_run ob) (bo_from_slice ob) (bo_packages ob) coordinator_base (bt_packages st))\<rparr>)))"

text \<open>From the engines to the connection.\<close>

definition boot_connect ::
  "serve_args \<Rightarrow> ('i, 'd, 'p) boot_obs \<Rightarrow> provider_config \<Rightarrow> u16 \<Rightarrow> (coordinator_client \<times> shared_state) option
   \<Rightarrow> boot_slot list \<Rightarrow> ('d, 'p) boot_state \<Rightarrow> started result \<times> ('d, 'p) boot_state" where
  "boot_connect args ob cfg be_port client slots st =
     (let manifest = template_manifest (bo_run ob) (bo_from_slice ob) (ws_to_http (sa_coordinator_url args)) in
      case start_slots ob manifest slots (st\<lparr>bt_files := ensure_templates_cached (bo_templates ob) manifest (bt_files st)\<rparr>) of
        (slots', st1) \<Rightarrow>
          (case deny_debugger_attachment (bo_ptrace ob) [] of
             Inl e \<Rightarrow> (Err (''security hardening failed: '' @ e), st1)
           | Inr _ \<Rightarrow>
               (let st2 = mark BootNoDebugger st1;
                    st3 = (if client = None then st2 else mark BootConnected st2)
                in (Ok \<lparr>sd_client = client,
                        sd_serve = (serve_init (bo_now ob) (map shared_slot slots') (bt_engines st3))
                          \<lparr>sv_model_hash := Option.bind client (\<lambda>c. sh_current_model_hash (snd c))\<rparr>,
                        sd_config = \<lparr>sc_inprocess = True, sc_engines_available = bo_python_feature ob,
                          sc_idle_timeout = map_option unat (idle_timeout (sa_idle_timeout args) cfg),
                          sc_rehash = client \<noteq> None\<rparr>,
                        sd_schedule = Option.bind (pc_schedule cfg) (from_config (bo_parse_time ob)),
                        sd_auto_update = sa_auto_update args \<and> ps_auto_update (pc_provider cfg) \<and> \<not> sa_local args,
                        sd_backend_url = (case slots' of [] \<Rightarrow> ''http://127.0.0.1:'' @ show_nat (unat be_port) | s # _ \<Rightarrow> bk_backend_url s)\<rparr>,
                    st3))))"

definition cmd_serve_start :: "serve_args \<Rightarrow> ('i, 'd, 'p) boot_obs \<Rightarrow> ('d, 'p) boot_state \<Rightarrow> started result \<times> ('d, 'p) boot_state" where
  "cmd_serve_start args ob st0 =
     (case harden ob (boot_instance ob st0) of
        (Inl e, st) \<Rightarrow> (Err e, st)
      | (Inr _, st00) \<Rightarrow>
     (let st = prevent_sleep ob st00 in
      case bo_hardware ob of
        Inl e \<Rightarrow> (Err e, st)
      | Inr hw \<Rightarrow>
     (case load_or_create_config (bo_config ob) hw (bt_config_file st) of
        (Inl e, f) \<Rightarrow> (Err e, st\<lparr>bt_config_file := f\<rparr>)
      | (Inr cfg, f) \<Rightarrow>
     (case boot_keys ob (st\<lparr>bt_config_file := f\<rparr>) of
        ((kp, se), st1) \<Rightarrow>
     (let be_port = (case sa_backend_port args of Some p \<Rightarrow> p | None \<Rightarrow> bs_port (pc_backend cfg));
          mode = preferred_text_backend_mode (sa_local args);
          scanned = scan_models (bo_sha256 ob) (bo_from_str ob) (bo_models ob) hw;
          selected = selected_models (sa_models args) cfg
      in
     (case check_private_runtime args ob selected st1 of
        (Inl e, st2) \<Rightarrow> (Err e, st2)
      | (Inr _, st2) \<Rightarrow>
     (let slots = backend_slots be_port (mode = InProcess) selected;
          st3 = st2\<lparr>bt_hv := reserve_pool (bo_hv ob) selected scanned (bt_hv st2)\<rparr>;
          (python_cmd, vars) = choose_python (bo_exists ob) (bo_symlink ob) (case bo_home ob of None \<Rightarrow> [] | Some h \<Rightarrow> h) (bt_env st3);
          st4 = st3\<lparr>bt_env := vars\<rparr>
      in
      case boot_python args ob st4 of
        (Inl e, st5) \<Rightarrow> (Err e, st5)
      | (Inr _, st5) \<Rightarrow>
        if sa_local args then boot_connect args ob cfg be_port None slots st5
        else
          let tcfg = startup_telemetry_config ob (sa_coordinator_url args) (load_auth_token (bo_token_file ob))
                (public_key_base64 (bo_b64 ob) kp);
              client = startup_client ob (sa_coordinator_url args) cfg hw kp se selected
                (advertised_models selected scanned) (backend_name_for_mode mode) python_cmd
          in boot_connect args ob cfg be_port (Some client) slots (start_telemetry ob tcfg hw st5))))))))"

section \<open>While serving\<close>

text \<open>A debug build may serve its plaintext proxy instead of connecting.\<close>

definition serve_local :: "bool \<Rightarrow> string option \<Rightarrow> bool \<Rightarrow> serve_args \<Rightarrow> string result" where
  "serve_local debug_build var bind_ok args =
     (case ensure_legacy_text_proxy_allowed debug_build var of
        Inl e \<Rightarrow> Err e
      | Inr _ \<Rightarrow> start_server debug_build var bind_ok (sa_port args))"

text \<open>One turn of the schedule loop sees the clock when it looks for a window, when it computes the
  wait, and when it computes the remaining window, and whether the user interrupts either sleep.\<close>

record sched_obs =
  so_now :: clock
  so_wait_now :: clock
  so_wait_interrupted :: bool
  so_open_now :: clock
  so_serve_interrupted :: bool

datatype sched_sleep = Waited u64 | Served u64

definition window_remaining :: "schedule \<Rightarrow> clock \<Rightarrow> u64" where
  "window_remaining sched now = (case duration_until_inactive sched now of Some d \<Rightarrow> d | None \<Rightarrow> 86400)"

text \<open>The loop over the turns: the sleeps, the engines, and whether the user ended it.\<close>

fun schedule_loop :: "schedule \<Rightarrow> (nat \<Rightarrow> bool) \<Rightarrow> sched_obs list \<Rightarrow> engines \<Rightarrow> sched_sleep list \<times> engines \<times> bool" where
  "schedule_loop sched unload_ok [] eg = ([], eg, False)"
| "schedule_loop sched unload_ok (o1 # turns) eg =
     (let active = is_active_now sched (so_now o1);
          wait = (if active then [] else [Waited (duration_until_next_active sched (so_now o1) (so_wait_now o1))]) in
      if \<not> active \<and> so_wait_interrupted o1 then (wait, eg, True)
      else
        let served = [Served (window_remaining sched (so_open_now o1))] in
        if so_serve_interrupted o1 then (wait @ served, eg, True)
        else (case schedule_loop sched unload_ok turns (unload_inprocess_engines unload_ok eg) of
                (sleeps, eg', ended) \<Rightarrow> (wait @ served @ sleeps, eg', ended)))"

text \<open>The update loop: one check per half hour until an update was installed; then the process restarts
  and exits.\<close>

fun update_loop :: "bool result list \<Rightarrow> nat \<times> bool" where
  "update_loop [] = (0, False)"
| "update_loop (Inr True # checks) = (1, True)"
| "update_loop (_ # checks) = (case update_loop checks of (n, exited) \<Rightarrow> (Suc n, exited))"

text \<open>The end of the process.\<close>

definition serve_cleanup :: "bool \<Rightarrow> string option \<Rightarrow> proc_action list \<times> string option" where
  "serve_cleanup remove_ok pid_file =
     (map KillMatching [''mlx_lm.server'', ''vllm_mlx''], if remove_ok then None else pid_file)"

section \<open>Lemmas\<close>

text \<open>The Python installation and the packages.\<close>

abbreviation boot_disk :: "('d, 'p) boot_state \<Rightarrow> 'd \<times> 'p pkg_dirs" where
  "boot_disk st \<equiv> (bt_python st, bt_packages st)"

lemma mark_simps [simp]:
  "bt_trace (mark e st) = bt_trace st @ [e]" "bt_env (mark e st) = bt_env st" "bt_hv (mark e st) = bt_hv st"
  "bt_engines (mark e st) = bt_engines st" "bt_files (mark e st) = bt_files st"
  "bt_config_file (mark e st) = bt_config_file st" "bt_actions (mark e st) = bt_actions st"
  "bt_python (mark e st) = bt_python st" "bt_packages (mark e st) = bt_packages st"
  by (simp_all add: mark_def)

lemma harden_ok:
  assumes "harden ob st = (Ok (), st')"
  shows "verify_security_posture (bo_run ob) (bo_exe ob) (hv_active (snd (create_vm (bo_hv ob) (bt_hv st)))) [] [] = Ok ()"
    and "bo_setrlimit ob = 0" and "bt_trace st' = bt_trace st @ [BootHardened]"
    and "bt_env st' = (if bo_python_feature ob then isolate_python_preinit (scrub_private_env (bt_env st)) else scrub_private_env (bt_env st))"
    and "bt_engines st' = bt_engines st" and "boot_disk st' = boot_disk st"
  using assms by (auto simp: harden_def disable_core_dumps_def Let_def split: sum.splits if_splits)

lemma harden_trace: "harden ob st = (r, st') \<Longrightarrow> BootConnected \<notin> set (bt_trace st) \<Longrightarrow> BootConnected \<notin> set (bt_trace st')"
  by (auto simp: harden_def Let_def split: sum.splits)

definition engine_events :: "boot_slot list \<Rightarrow> boot_event list" where
  "engine_events slots = map (\<lambda>s. BootEngine (bk_model_id s) (bk_healthy s)) slots"

lemma start_slot_result:
  assumes "start_slot ob manifest s st = (s', st')" and "engines_wf (bt_engines st)"
  shows "bt_trace st' = bt_trace st @ [BootEngine (bk_model_id s') (bk_healthy s')] \<and>
    bk_model_id s' = bk_model_id s \<and> bk_port s' = bk_port s \<and> bk_pid s' = bk_pid s \<and> bk_backend_url s' = bk_backend_url s \<and>
    bk_model_path s' = slot_path ob (bk_model_id s) \<and> engines_wf (bt_engines st') \<and> bt_env st' = bt_env st \<and> boot_disk st' = boot_disk st"
proof -
  let ?path = "slot_path ob (bk_model_id s)"
  have wf: "engines_wf (fst (get_or_load_inprocess_engine (bo_load ob ?path) (bk_model_id s) (bt_engines st)))"
    by (rule get_or_load_wf(1)[OF assms(2)])
  show ?thesis
    using assms wf by (auto simp: start_slot_def Let_def split: if_splits prod.splits sum.splits)
qed

lemma start_slots_result:
  assumes "start_slots ob manifest ss st = (ss', st')" and "engines_wf (bt_engines st)"
  shows "bt_trace st' = bt_trace st @ engine_events ss' \<and> map bk_model_id ss' = map bk_model_id ss \<and>
    map bk_port ss' = map bk_port ss \<and> engines_wf (bt_engines st') \<and> bt_env st' = bt_env st \<and> boot_disk st' = boot_disk st"
  using assms
proof (induction ss arbitrary: ss' st)
  case (Cons s ss)
  obtain s1 st1 where s: "start_slot ob manifest s st = (s1, st1)" by fastforce
  obtain ss1 where r: "start_slots ob manifest ss st1 = (ss1, st')" "ss' = s1 # ss1"
    using Cons.prems(1) s by (auto split: prod.splits)
  note s1 = start_slot_result[OF s Cons.prems(2)]
  from Cons.IH[OF r(1)] s1 r(2) show ?case by (simp add: engine_events_def)
qed (simp add: engine_events_def)

lemma backend_slots_ids [simp]: "map bk_model_id (backend_slots p u ms) = ms"
  by (auto simp: backend_slots_def backend_slot_def Let_def comp_def case_prod_beta map_snd_enumerate)

lemma backend_slots_ports: "map bk_port (backend_slots p u ms) = map (\<lambda>i. p + word_of_nat i) [0..<length ms]"
proof -
  have "map bk_port (backend_slots p u ms) = map ((\<lambda>i. p + word_of_nat i) \<circ> fst) (enumerate 0 ms)"
    by (simp add: backend_slots_def backend_slot_def Let_def comp_def case_prod_beta)
  also have "\<dots> = map (\<lambda>i. p + word_of_nat i) [0..<length ms]"
    by (simp flip: map_map)
  finally show ?thesis .
qed

lemma boot_connect_result:
  assumes "boot_connect args ob cfg be_port client slots st = (r, st')" and "engines_wf (bt_engines st)"
  shows "\<exists>slots'. map bk_model_id slots' = map bk_model_id slots \<and> map bk_port slots' = map bk_port slots \<and>
    bt_env st' = bt_env st \<and> boot_disk st' = boot_disk st \<and> engines_wf (bt_engines st') \<and>
    bt_trace st' = bt_trace st @ engine_events slots' @
      (if bo_ptrace ob = 0 then [BootNoDebugger] @ (if client = None then [] else [BootConnected]) else []) \<and>
    (case r of
       Inl _ \<Rightarrow> bo_ptrace ob \<noteq> 0
     | Inr d \<Rightarrow> bo_ptrace ob = 0 \<and> sd_client d = client \<and> sv_slots (sd_serve d) = map shared_slot slots' \<and>
         sv_engines (sd_serve d) = bt_engines st' \<and> serve_inv (sd_serve d) \<and> sc_inprocess (sd_config d) \<and>
         sc_engines_available (sd_config d) = bo_python_feature ob)"
proof -
  let ?m = "template_manifest (bo_run ob) (bo_from_slice ob) (ws_to_http (sa_coordinator_url args))"
  let ?st0 = "st\<lparr>bt_files := ensure_templates_cached (bo_templates ob) ?m (bt_files st)\<rparr>"
  obtain slots' st1 where s: "start_slots ob ?m slots ?st0 = (slots', st1)" by fastforce
  have wf: "engines_wf (bt_engines ?st0)" using assms(2) by simp
  note s1 = start_slots_result[OF s wf]
  have inv: "serve_inv ((serve_init n sl (bt_engines st1))\<lparr>sv_model_hash := h\<rparr>)" for n sl h
    using serve_inv_init[of "bt_engines st1" n sl] s1 by (simp add: serve_inv_def)
  show ?thesis
    using assms(1) s1 inv
    by (intro exI[of _ slots'])
      (auto simp: boot_connect_def s deny_debugger_attachment_def serve_init_def Let_def split: sum.splits if_splits)
qed

text \<open>The environment variables that stay out of the process: all of the list but the two switches that
  isolate Python, and the Python home, which only ever names the installation's own.\<close>

definition env_clean :: "('i, 'd, 'p) boot_obs \<Rightarrow> env \<Rightarrow> bool" where
  "env_clean ob vars \<longleftrightarrow>
     list_all (\<lambda>v. v \<in> {''PYTHONDONTWRITEBYTECODE'', ''PYTHONNOUSERSITE'', ''PYTHONHOME''} \<or> map_of vars v = None) dangerous_vars \<and>
     (case map_of vars ''PYTHONHOME'' of None \<Rightarrow> True | Some h \<Rightarrow> \<exists>home. h = home @ ''/.darkbloom/python'')"

lemma hardened_env_clean:
  assumes "harden ob st = (Ok (), st')"
  shows "env_clean ob (snd (choose_python ex sl home (bt_env st')))"
proof -
  have "''PYTHONHOME'' \<in> set dangerous_vars"
    by (simp add: dangerous_vars_def)
  then show ?thesis
    using harden_ok(4)[OF assms]
    by (auto simp: env_clean_def choose_python_def Let_def list_all_iff hash_insert_def map_of_hash_delete
        scrub_then_isolate_env map_of_scrub)
qed

text \<open>A start either fails without a connection or reaches the last phase with everything checked.\<close>

definition boot_checked :: "serve_args \<Rightarrow> ('i, 'd, 'p) boot_obs \<Rightarrow> ('d, 'p) boot_state \<Rightarrow> string list \<Rightarrow> ('d, 'p) boot_state \<Rightarrow> bool" where
  "boot_checked args ob st0 selected st \<longleftrightarrow>
     verify_security_posture (bo_run ob) (bo_exe ob) (hv_active (snd (create_vm (bo_hv ob) (bt_hv st0)))) [] [] = Ok () \<and>
     bo_setrlimit ob = 0 \<and> env_clean ob (bt_env st) \<and>
     ensure_python_verified (bo_run ob) (bo_from_slice ob) (bo_python ob) (ws_to_http (sa_coordinator_url args)) (bt_python st0) =
       (True, bt_python st) \<and>
     bt_packages st = snd (ensure_runtime_updated (bo_run ob) (bo_from_slice ob) (bo_packages ob)
       (ws_to_http (sa_coordinator_url args)) (bt_packages st0)) \<and>
     (selected \<noteq> [] \<longrightarrow> validate_private_text_runtime (sa_local args) (bo_backend_var ob) (bo_python_feature ob)
        (ensure_approved_runtime_available (bo_exists ob) (bo_exe ob) (bo_home ob)) = Ok ())"

definition boot_prefix :: "string list \<Rightarrow> boot_event list" where
  "boot_prefix selected =
     [BootHardened, BootKeys] @ (if selected = [] then [] else [BootPrivateRuntime]) @ [BootPython]"

lemma check_private_runtime_ok:
  assumes "check_private_runtime args ob selected st = (Ok (), st')"
  shows "selected \<noteq> [] \<Longrightarrow> validate_private_text_runtime (sa_local args) (bo_backend_var ob) (bo_python_feature ob)
        (ensure_approved_runtime_available (bo_exists ob) (bo_exe ob) (bo_home ob)) = Ok ()"
    and "bt_trace st' = bt_trace st @ (if selected = [] then [] else [BootPrivateRuntime])"
    and "bt_env st' = bt_env st" "bt_engines st' = bt_engines st" "bt_hv st' = bt_hv st"
      "boot_disk st' = boot_disk st"
  using assms by (auto simp: check_private_runtime_def split: if_splits sum.splits)

lemma check_private_runtime_err:
  "check_private_runtime args ob selected st = (Err e, st') \<Longrightarrow> st' = st"
  by (auto simp: check_private_runtime_def split: if_splits sum.splits)

lemma boot_instance_simps [simp]:
  "bt_trace (boot_instance ob st) = bt_trace st" "bt_engines (boot_instance ob st) = bt_engines st"
  "bt_hv (boot_instance ob st) = bt_hv st" "bt_config_file (boot_instance ob st) = bt_config_file st"
  "bt_python (boot_instance ob st) = bt_python st" "bt_packages (boot_instance ob st) = bt_packages st"
  by (simp_all add: boot_instance_def)

lemma prevent_sleep_simps [simp]:
  "bt_trace (prevent_sleep ob st) = bt_trace st" "bt_engines (prevent_sleep ob st) = bt_engines st" "bt_env (prevent_sleep ob st) = bt_env st"
  "bt_hv (prevent_sleep ob st) = bt_hv st" "bt_config_file (prevent_sleep ob st) = bt_config_file st"
  "bt_python (prevent_sleep ob st) = bt_python st" "bt_packages (prevent_sleep ob st) = bt_packages st"
  by (simp_all add: prevent_sleep_def)

lemma startup_client_models [simp]:
  "cc_models (fst (startup_client ob url cfg hw kp se selected adv name cmd)) = adv"
  by (simp add: startup_client_def Let_def client_new_def with_se_handle_def with_model_hashes_def
      with_runtime_hash_command_def with_runtime_hashes_def with_auth_token_def with_wallet_address_def with_attestation_def)

lemma serve_start_reaches:
  assumes start: "cmd_serve_start args ob st0 = (r, st)" and "bt_trace st0 = []" and "engines_wf (bt_engines st0)"
  shows "((\<exists>e. r = Err e) \<and> BootConnected \<notin> set (bt_trace st)) \<or>
    (\<exists>hw cfg be_port client st5. bo_hardware ob = Ok hw \<and>
      boot_checked args ob st0 (selected_models (sa_models args) cfg) st5 \<and>
      bt_trace st5 = boot_prefix (selected_models (sa_models args) cfg) \<and> engines_wf (bt_engines st5) \<and>
      (case client of None \<Rightarrow> sa_local args
        | Some c \<Rightarrow> \<not> sa_local args \<and> cc_models (fst c) = advertised_models (selected_models (sa_models args) cfg)
              (scan_models (bo_sha256 ob) (bo_from_str ob) (bo_models ob) hw)) \<and>
      boot_connect args ob cfg be_port client (backend_slots be_port True (selected_models (sa_models args) cfg)) st5 = (r, st))"
proof -
  obtain h st1 where h: "harden ob (boot_instance ob st0) = (h, st1)" by fastforce
  have fresh: "BootConnected \<notin> set (bt_trace st1)"
    using harden_trace[OF h] assms(2) by simp
  show ?thesis
  proof (cases h)
    case (Inl e)
    with start h fresh show ?thesis by (auto simp: cmd_serve_start_def Let_def)
  next
    case (Inr u)
    with h have ok: "harden ob (boot_instance ob st0) = (Ok (), st1)" by simp
    note hd = harden_ok[OF ok]
    show ?thesis
    proof (cases "bo_hardware ob")
      case (Inl e)
      with start ok fresh show ?thesis by (auto simp: cmd_serve_start_def Let_def)
    next
      case hw: (Inr hw)
      obtain c f where c: "load_or_create_config (bo_config ob) hw (bt_config_file st1) = (c, f)" by fastforce
      show ?thesis
      proof (cases c)
        case (Inl e)
        with start ok hw c fresh show ?thesis by (auto simp: cmd_serve_start_def Let_def)
      next
        case cfg: (Inr cfg)
        let ?sel = "selected_models (sa_models args) cfg"
        obtain kp se st2 where k: "boot_keys ob ((prevent_sleep ob st1)\<lparr>bt_config_file := f\<rparr>) = ((kp, se), st2)"
          by (metis surj_pair)
        have k2: "bt_trace st2 = bt_trace st1 @ [BootKeys]" "bt_env st2 = bt_env st1" "bt_engines st2 = bt_engines st1"
            "boot_disk st2 = boot_disk st1"
          using k by (auto simp: boot_keys_def)
        obtain v st3 where v: "check_private_runtime args ob ?sel st2 = (v, st3)" by fastforce
        show ?thesis
        proof (cases v)
          case (Inl e)
          with start ok hw c cfg k v check_private_runtime_err[of args ob ?sel st2 e st3] fresh k2 show ?thesis
            by (auto simp: cmd_serve_start_def Let_def)
        next
          case (Inr u)
          with v have vo: "check_private_runtime args ob ?sel st2 = (Ok (), st3)" by simp
          note v3 = check_private_runtime_ok[OF vo]
          have tr: "bt_trace st3 @ [BootPython] = boot_prefix ?sel"
            using v3(2) k2(1) hd(3) assms(2) by (simp add: boot_prefix_def)
          let ?base = "ws_to_http (sa_coordinator_url args)"
          obtain pv pd where pv: "ensure_python_verified (bo_run ob) (bo_from_slice ob) (bo_python ob) ?base (bt_python st3) = (pv, pd)"
            by fastforce
          have disk: "bt_python st3 = bt_python st0" "bt_packages st3 = bt_packages st0"
            using v3(6) k2(4) hd(6) by simp_all
          show ?thesis
          proof (cases pv)
            case False
            with start ok hw c cfg k vo v3(2) k2 fresh pv show ?thesis
              by (auto simp: cmd_serve_start_def boot_python_def Let_def split: prod.splits if_splits)
          next
            case True
            let ?port = "case sa_backend_port args of Some p \<Rightarrow> p | None \<Rightarrow> bs_port (pc_backend cfg)"
            let ?scan = "scan_models (bo_sha256 ob) (bo_from_str ob) (bo_models ob) hw"
            obtain py vars where cp: "choose_python (bo_exists ob) (bo_symlink ob) (case bo_home ob of None \<Rightarrow> [] | Some h \<Rightarrow> h) (bt_env st3) = (py, vars)"
              by fastforce
            let ?st4 = "mark BootPython (st3\<lparr>bt_hv := reserve_pool (bo_hv ob) ?sel ?scan (bt_hv st3), bt_env := vars, bt_python := pd,
              bt_packages := snd (ensure_runtime_updated (bo_run ob) (bo_from_slice ob) (bo_packages ob) ?base (bt_packages st3))\<rparr>)"
            let ?st5 = "if sa_local args then ?st4 else start_telemetry ob (startup_telemetry_config ob (sa_coordinator_url args)
              (load_auth_token (bo_token_file ob)) (public_key_base64 (bo_b64 ob) kp)) hw ?st4"
            let ?client = "if sa_local args then None else Some (startup_client ob (sa_coordinator_url args) cfg hw kp se ?sel
              (advertised_models ?sel ?scan) (backend_name_for_mode InProcess) py)"
            have conn: "boot_connect args ob cfg ?port ?client (backend_slots ?port True ?sel) ?st5 = (r, st)"
              using start ok hw c cfg k vo True cp pv
              by (cases "sa_local args") (simp_all add: cmd_serve_start_def boot_python_def Let_def preferred_text_backend_mode_def)
            have clean: "env_clean ob vars"
              using hardened_env_clean[OF ok, of "bo_exists ob" "bo_symlink ob" "case bo_home ob of None \<Rightarrow> [] | Some h \<Rightarrow> h"]
                cp v3(3) k2(2) by simp
            have "boot_checked args ob st0 ?sel ?st5" "bt_trace ?st5 = boot_prefix ?sel" "engines_wf (bt_engines ?st5)"
              using hd(1,2,5) True v3(1,3,4) k2(2,3) tr assms(3) clean pv disk
              by (auto simp: boot_checked_def start_telemetry_def)
            moreover have "case ?client of None \<Rightarrow> sa_local args
              | Some c \<Rightarrow> \<not> sa_local args \<and> cc_models (fst c) = advertised_models ?sel ?scan"
              by simp
            ultimately show ?thesis using hw conn by blast
          qed
        qed
      qed
    qed
  qed
qed

text \<open>Conversely, when every check passes the start succeeds and connects.\<close>

lemma serve_start_succeeds:
  assumes "harden ob (boot_instance ob st0) = (Ok (), st1)" and "bo_hardware ob = Ok hw"
    and "load_or_create_config (bo_config ob) hw (bt_config_file st1) = (Ok cfg, f)"
    and "\<And>st. \<exists>st'. check_private_runtime args ob (selected_models (sa_models args) cfg) st = (Ok (), st')"
    and "\<And>d. fst (ensure_python_verified (bo_run ob) (bo_from_slice ob) (bo_python ob) (ws_to_http (sa_coordinator_url args)) d)"
    and "bo_ptrace ob = 0" and "\<not> sa_local args"
  shows "\<exists>d st. cmd_serve_start args ob st0 = (Ok d, st) \<and> BootConnected \<in> set (bt_trace st)"
proof -
  let ?sel = "selected_models (sa_models args) cfg"
  obtain kp se st2 where k: "boot_keys ob ((prevent_sleep ob st1)\<lparr>bt_config_file := f\<rparr>) = ((kp, se), st2)"
    by (metis surj_pair)
  obtain st3 where v: "check_private_runtime args ob ?sel st2 = (Ok (), st3)"
    using assms(4) by blast
  obtain py vars where cp: "choose_python (bo_exists ob) (bo_symlink ob) (case bo_home ob of None \<Rightarrow> [] | Some h \<Rightarrow> h) (bt_env st3) = (py, vars)"
    by fastforce
  let ?port = "case sa_backend_port args of Some p \<Rightarrow> p | None \<Rightarrow> bs_port (pc_backend cfg)"
  let ?scan = "scan_models (bo_sha256 ob) (bo_from_str ob) (bo_models ob) hw"
  let ?base = "ws_to_http (sa_coordinator_url args)"
  obtain pd where pv: "ensure_python_verified (bo_run ob) (bo_from_slice ob) (bo_python ob) ?base (bt_python st3) = (True, pd)"
    using assms(5) by (metis (full_types) prod.collapse)
  let ?st4 = "mark BootPython (st3\<lparr>bt_hv := reserve_pool (bo_hv ob) ?sel ?scan (bt_hv st3), bt_env := vars, bt_python := pd,
    bt_packages := snd (ensure_runtime_updated (bo_run ob) (bo_from_slice ob) (bo_packages ob) ?base (bt_packages st3))\<rparr>)"
  let ?st5 = "start_telemetry ob (startup_telemetry_config ob (sa_coordinator_url args)
    (load_auth_token (bo_token_file ob)) (public_key_base64 (bo_b64 ob) kp)) hw ?st4"
  let ?client = "startup_client ob (sa_coordinator_url args) cfg hw kp se ?sel
    (advertised_models ?sel ?scan) (backend_name_for_mode InProcess) py"
  have "cmd_serve_start args ob st0 = boot_connect args ob cfg ?port (Some ?client) (backend_slots ?port True ?sel) ?st5"
    using assms(1-3,7) k v cp pv by (simp add: cmd_serve_start_def boot_python_def Let_def preferred_text_backend_mode_def)
  moreover have "\<exists>d st. boot_connect args ob cfg p (Some cl) slots s = (Ok d, st) \<and> BootConnected \<in> set (bt_trace st)" for p cl slots s
    using assms(6) by (auto simp: boot_connect_def deny_debugger_attachment_def Let_def split: prod.split)
  ultimately show ?thesis by simp
qed

text \<open>What a successful start hands over.\<close>

lemma serve_start_state:
  assumes "cmd_serve_start args ob st0 = (Ok d, st)" and "bt_trace st0 = []" and "engines_wf (bt_engines st0)"
  shows "serve_inv (sd_serve d) \<and> sc_inprocess (sd_config d) \<and> sc_engines_available (sd_config d) = bo_python_feature ob \<and>
    (\<exists>hw cfg be_port. map sl_model_id (sv_slots (sd_serve d)) = selected_models (sa_models args) cfg \<and>
      map sl_port (sv_slots (sd_serve d)) = map (\<lambda>i. be_port + word_of_nat i) [0..<length (selected_models (sa_models args) cfg)] \<and>
      list_all (\<lambda>s. \<not> sl_restarting s) (sv_slots (sd_serve d)) \<and> bo_hardware ob = Ok hw \<and>
      pred_option (\<lambda>c. cc_models (fst c) = filter (\<lambda>m. mi_id m \<in> set (selected_models (sa_models args) cfg))
        (scan_models (bo_sha256 ob) (bo_from_str ob) (bo_models ob) hw)) (sd_client d))"
proof -
  from serve_start_reaches[OF assms] obtain hw cfg be_port client st5 where hw: "bo_hardware ob = Ok hw"
      and wf: "engines_wf (bt_engines st5)"
      and cl: "case client of None \<Rightarrow> sa_local args
        | Some c \<Rightarrow> \<not> sa_local args \<and> cc_models (fst c) = advertised_models (selected_models (sa_models args) cfg)
              (scan_models (bo_sha256 ob) (bo_from_str ob) (bo_models ob) hw)"
      and conn: "boot_connect args ob cfg be_port client (backend_slots be_port True (selected_models (sa_models args) cfg)) st5 = (Ok d, st)"
    by auto
  from boot_connect_result[OF conn wf] obtain slots where s: "map bk_model_id slots = selected_models (sa_models args) cfg"
      "map bk_port slots = map (\<lambda>i. be_port + word_of_nat i) [0..<length (selected_models (sa_models args) cfg)]"
      "sd_client d = client" "sv_slots (sd_serve d) = map shared_slot slots" "serve_inv (sd_serve d)"
      "sc_inprocess (sd_config d)" "sc_engines_available (sd_config d) = bo_python_feature ob"
    by (auto simp: backend_slots_ports)
  have "map sl_model_id (map shared_slot slots) = map bk_model_id slots" "map sl_port (map shared_slot slots) = map bk_port slots"
      "list_all (\<lambda>s. \<not> sl_restarting s) (map shared_slot slots)"
    by (simp_all add: shared_slot_def list_all_iff)
  then show ?thesis
    using s hw cl by (auto simp: advertised_models_def pred_option_def split: option.splits intro!: exI[of _ cfg] exI[of _ be_port])
qed

section \<open>Properties\<close>

text \<open>C5: The provider connects only after every protection is in place. When a start has connected to the
  coordinator, it did so as its last act, and before that, in this order, the process was hardened (the
  security posture holds, core dumps are off, no loader or interpreter hook is left in the
  environment), the keys were made, the private runtime was validated when a model is served, the
  Python installation was verified against the coordinator's manifest, or replaced, and the packages
  brought up to date, one engine was tried per model, and debuggers were shut out.\<close>

theorem serve_connects_hardened:
  assumes "cmd_serve_start args ob st0 = (r, st)" and "bt_trace st0 = []" and "engines_wf (bt_engines st0)"
    and "BootConnected \<in> set (bt_trace st)"
  shows "\<exists>selected slots. bt_trace st = boot_prefix selected @ engine_events slots @ [BootNoDebugger, BootConnected] \<and>
    map bk_model_id slots = selected \<and> boot_checked args ob st0 selected st \<and> bo_ptrace ob = 0 \<and>
    (\<exists>d. r = Ok d \<and> sd_client d \<noteq> None)"
proof -
  from serve_start_reaches[OF assms(1-3)] assms(4) obtain hw cfg be_port client st5 where
      chk: "boot_checked args ob st0 (selected_models (sa_models args) cfg) st5"
      and tr: "bt_trace st5 = boot_prefix (selected_models (sa_models args) cfg)" and wf: "engines_wf (bt_engines st5)"
      and conn: "boot_connect args ob cfg be_port client (backend_slots be_port True (selected_models (sa_models args) cfg)) st5 = (r, st)"
    by blast
  let ?sel = "selected_models (sa_models args) cfg"
  from boot_connect_result[OF conn wf] obtain slots where s: "map bk_model_id slots = ?sel" "bt_env st = bt_env st5 \<and> boot_disk st = boot_disk st5"
      "bt_trace st = bt_trace st5 @ engine_events slots @
        (if bo_ptrace ob = 0 then [BootNoDebugger] @ (if client = None then [] else [BootConnected]) else [])"
      "case r of Inl _ \<Rightarrow> bo_ptrace ob \<noteq> 0 | Inr d \<Rightarrow> bo_ptrace ob = 0 \<and> sd_client d = client"
    by (cases r) auto
  have "BootConnected \<notin> set (boot_prefix ?sel)" "BootConnected \<notin> set (engine_events slots)"
    by (auto simp: boot_prefix_def engine_events_def)
  then have c: "bo_ptrace ob = 0" "client \<noteq> None"
    using s(3) assms(4) tr by (auto split: if_splits)
  with s(4) obtain d where "r = Ok d" "sd_client d = client" by (auto split: sum.splits)
  moreover have "boot_checked args ob st0 ?sel st" using chk s(2) by (simp add: boot_checked_def)
  ultimately show ?thesis using s(1,3) tr c by (intro exI[of _ ?sel] exI[of _ slots]) auto
qed

text \<open>C9: A start that succeeds hands the event loop a state that satisfies its invariant, with one slot per
  selected model, in order, on consecutive ports (modulo the width of a port), none restarting; and
  what is advertised are the scanned models among the selected ones.\<close>

theorem serve_start_invariant:
  assumes "cmd_serve_start args ob st0 = (Ok d, st)" and "bt_trace st0 = []" and "engines_wf (bt_engines st0)"
  shows "serve_inv (sd_serve d) \<and>
    (\<exists>hw cfg be_port. map sl_model_id (sv_slots (sd_serve d)) = selected_models (sa_models args) cfg \<and>
      map sl_port (sv_slots (sd_serve d)) = map (\<lambda>i. be_port + word_of_nat i) [0..<length (selected_models (sa_models args) cfg)] \<and>
      list_all (\<lambda>s. \<not> sl_restarting s) (sv_slots (sd_serve d)) \<and> bo_hardware ob = Ok hw \<and>
      pred_option (\<lambda>c. cc_models (fst c) = filter (\<lambda>m. mi_id m \<in> set (selected_models (sa_models args) cfg))
        (scan_models (bo_sha256 ob) (bo_from_str ob) (bo_models ob) hw)) (sd_client d))"
  using serve_start_state[OF assms] by blast

text \<open>With the verification of the interpreter: where the manifest names hashes and no fallback interpreter
  can be had, a provider that connected runs an interpreter with one of these hashes.\<close>

lemma connected_python_verified:
  assumes "cmd_serve_start args ob st0 = (r, st)" and "bt_trace st0 = []" and "engines_wf (bt_engines st0)"
    and "BootConnected \<in> set (bt_trace st)"
    and "fetch_runtime_manifest (bo_run ob) (bo_from_slice ob) (ws_to_http (sa_coordinator_url args)) = Some m" and "mf_python_hashes m \<noteq> []"
    and "\<not> pe_download_ok (bo_python ob) pbs_python_url" and "\<not> (pe_brew_exists (bo_python ob) \<and> pe_brew_runs (bo_python ob))"
  shows "pe_cmd_runs (bo_python ob) (bt_python st) \<and>
    (hash_or_empty (pe_cmd_hash (bo_python ob) (bt_python st)) \<in> set (mf_python_hashes m) \<or>
     hash_or_empty (pe_bin_hash (bo_python ob) (bt_python st)) \<in> set (mf_python_hashes m))"
proof -
  from serve_start_reaches[OF assms(1-3)] assms(4) obtain cfg be_port client st5 where
      chk: "boot_checked args ob st0 (selected_models (sa_models args) cfg) st5" and wf: "engines_wf (bt_engines st5)"
      and conn: "boot_connect args ob cfg be_port client (backend_slots be_port True (selected_models (sa_models args) cfg)) st5 = (r, st)"
    by blast
  have "bt_python st = bt_python st5" using boot_connect_result[OF conn wf] by auto
  with chk python_verified[OF _ assms(5-8)] show ?thesis by (auto simp: boot_checked_def)
qed

section \<open>Witnesses and observations\<close>

definition sample_boot :: "(nat, string, string) boot_obs" where
  "sample_boot = \<lparr>bo_pid = 7, bo_alive = (\<lambda>_. True), bo_still_alive = (\<lambda>_. False), bo_pid_write_ok = True, bo_caffeinate_ok = True, bo_hv = small_env,
     bo_run = (\<lambda>cmd _. if cmd = ''/usr/bin/csrutil'' then Some \<lparr>co_success = True, co_stdout = ''System Integrity Protection status: enabled.'', co_stderr = []\<rparr> else None),
     bo_exe = Ok [''usr'', ''darkbloom''], bo_setrlimit = 0, bo_ptrace = 0, bo_python_feature = True, bo_backend_var = None,
     bo_exists = (\<lambda>p. starts_with p ''/h/.darkbloom/python''), bo_symlink = (\<lambda>_. False), bo_home = Some ''/h'',
     bo_hardware = Ok demo_hardware, bo_config = sample_config_env, bo_parse_time = (\<lambda>_. None), bo_box = plain_box, bo_random = [1],
     bo_b64 = bytes_str, bo_sha256 = (\<lambda>b. b),
     bo_ffi = \<lparr>ffi_create = Some 1, ffi_public_key = (\<lambda>_. Some ''pk''), ffi_sign = (\<lambda>_ _. None), ffi_attestation = (\<lambda>_ _ _. None), raw_json_ok = (\<lambda>_. True)\<rparr>,
     bo_remove_ok = (\<lambda>_. True), bo_from_str = (\<lambda>_. None),
     bo_models = \<lparr>mf_home = None, mf_exists = (\<lambda>_. False), mf_read_dir = (\<lambda>_. None), mf_read_to_string = (\<lambda>_. None), mf_read_bytes = (\<lambda>_. None)\<rparr>,
     bo_from_slice = (\<lambda>_. None), bo_python = demo_python, bo_packages = demo_runtime ''p'', bo_read = (\<lambda>_. None), bo_token_file = None, bo_version = ''1'', bo_telemetry = tel_env,
     bo_event = \<lparr>ev_uuid = ''u'', ev_now = ''t'', ev_session = ''s''\<rparr>, bo_queue = None, bo_wallet = Err ''e'',
     bo_runtime_hashes = \<lparr>rh_python_hash = None, rh_runtime_hash = None, rh_template_hashes = []\<rparr>,
     bo_templates = demo_template_env None, bo_load = (\<lambda>p. if p = ''good'' then Ok () else Err ''e''), bo_now = 5\<rparr>"

definition sample_boot_state :: "(string, string) boot_state" where
  "sample_boot_state = \<lparr>bt_actions = [], bt_pid_file = Some ''42'', bt_hv = hv_init, bt_env = [(''PYTHONPATH'', ''/evil''), (''HOME'', ''/h'')],
     bt_config_file = Some ''toml'', bt_key_files = (\<lambda>_. None), bt_files = (\<lambda>_. None), bt_python = ''h'', bt_packages = demo_dirs,
     bt_engines = engines_init, bt_telemetry = None, bt_trace = []\<rparr>"

definition sample_args :: serve_args where
  "sample_args = \<lparr>sa_local = False, sa_coordinator_url = ''wss://c/ws/provider'', sa_port = 8000, sa_models = [''good'', ''bad''],
     sa_backend_port = Some 65535, sa_idle_timeout = None, sa_auto_update = True\<rparr>"

definition sample_started :: "started result \<times> (string, string) boot_state" where
  "sample_started = cmd_serve_start sample_args sample_boot sample_boot_state"

lemma sample_posture: "verify_security_posture (bo_run sample_boot) (bo_exe sample_boot) b [] [] = Ok ()"
  by (simp add: verify_security_posture_def check_sip_enabled_def check_rdma_disabled_def verify_bundle_signature_def
      sample_boot_def path_extension_def) code_simp

lemma sample_harden:
  "\<exists>st. harden sample_boot (boot_instance sample_boot sample_boot_state) = (Ok (), st) \<and> bt_config_file st = Some ''toml''"
  using sample_posture
  by (simp add: harden_def Let_def disable_core_dumps_def sample_boot_state_def boot_instance_def)
    (simp add: sample_boot_def)

lemma sample_config_loads:
  "load_or_create_config sample_config_env hw (Some ''toml'') = (Ok sample_config, Some ''toml'')"
proof -
  have "enc_toml_config sample_config \<noteq> None"
    unfolding enc_config_total by (simp add: writable_config_def sample_config_def)
  then show ?thesis
    by (auto simp: load_or_create_config_def default_config_path_def config_load_def sample_config_env_def dec_enc_config)
qed

lemma sample_runtime:
  assumes "\<not> sa_local args"
  shows "\<exists>st'. check_private_runtime args sample_boot sel st = (Ok (), st')"
proof -
  have "ensure_approved_runtime_available (\<lambda>p. starts_with p ''/h/.darkbloom/python'') (Ok [''usr'', ''darkbloom'']) (Some ''/h'') = Ok ()"
    by code_simp
  then have "ensure_approved_runtime_available (bo_exists sample_boot) (bo_exe sample_boot) (bo_home sample_boot) = Ok ()"
    by (simp add: sample_boot_def)
  then have "validate_private_text_runtime (sa_local args) (bo_backend_var sample_boot) (bo_python_feature sample_boot)
      (ensure_approved_runtime_available (bo_exists sample_boot) (bo_exe sample_boot) (bo_home sample_boot)) = Ok ()"
    using assms by (simp add: validate_private_text_runtime_def) (simp add: sample_boot_def)
  then show ?thesis by (simp add: check_private_runtime_def)
qed

lemma sample_boot_starts:
  assumes "\<not> sa_local args"
  shows "\<exists>d st. cmd_serve_start args sample_boot sample_boot_state = (Ok d, st) \<and> BootConnected \<in> set (bt_trace st)"
proof -
  obtain st1 where h: "harden sample_boot (boot_instance sample_boot sample_boot_state) = (Ok (), st1)"
      "bt_config_file st1 = Some ''toml''"
    using sample_harden by blast
  have py: "fst (ensure_python_verified (bo_run sample_boot) (bo_from_slice sample_boot) (bo_python sample_boot) base d)" for base d
    by (simp add: ensure_python_verified_def fetch_runtime_manifest_def curl_json_def sample_boot_def)
  show ?thesis
    by (rule serve_start_succeeds[where hw = demo_hardware, OF h(1) _ _ sample_runtime[OF assms] py])
      (simp_all add: h(2) sample_config_loads sample_boot_def assms)
qed

lemma sample_starts:
  "\<exists>d st. cmd_serve_start sample_args sample_boot sample_boot_state = (Ok d, st) \<and> BootConnected \<in> set (bt_trace st)"
  by (rule sample_boot_starts) (simp add: sample_args_def)

theorem serve_connects_hardened_witness:
  "\<exists>selected slots. bt_trace (snd (cmd_serve_start sample_args sample_boot sample_boot_state)) =
     boot_prefix selected @ engine_events slots @ [BootNoDebugger, BootConnected]"
proof -
  obtain d st where s: "cmd_serve_start sample_args sample_boot sample_boot_state = (Ok d, st)" "BootConnected \<in> set (bt_trace st)"
    using sample_starts by blast
  from serve_connects_hardened[OF s(1) _ _ s(2)] s(1) show ?thesis
    by (auto simp: sample_boot_state_def engines_wf_init)
qed

theorem serve_start_invariant_witness:
  "\<exists>d st. cmd_serve_start sample_args sample_boot sample_boot_state = (Ok d, st) \<and> serve_inv (sd_serve d) \<and>
     list_all (\<lambda>s. \<not> sl_restarting s) (sv_slots (sd_serve d))"
proof -
  obtain d st where s: "cmd_serve_start sample_args sample_boot sample_boot_state = (Ok d, st)"
    using sample_starts by blast
  from serve_start_invariant[OF s] s show ?thesis
    by (auto simp: sample_boot_state_def engines_wf_init)
qed

text \<open>Only the instance recorded in the file is stopped, and killed only when it did not stop; never the
  process itself.\<close>

lemma take_over_signals:
  "SendKill p \<in> set (take_over alive still me pid_file) \<Longrightarrow>
     SendTerm p \<in> set (take_over alive still me pid_file) \<and> alive p \<and> still p"
  "SendTerm p \<in> set (take_over alive still me pid_file) \<Longrightarrow>
     p \<noteq> me \<and> alive p \<and> Option.bind pid_file (parse_u32 \<circ> trim) = Some p"
  by (auto simp: take_over_def split: option.splits if_splits)

text \<open>The ports of many models wrap around, and so does a huge idle timeout.\<close>

lemma ports_wrap: "map bk_port (backend_slots 65535 True [''a'', ''b'']) = [65535, 0]"
  by code_simp

lemma idle_timeout_wraps: "idle_timeout (Some (2 ^ 62)) cfg = Some 0"
  by (simp add: idle_timeout_def)

text \<open>Closing a schedule window unloads the engines but the provider stays connected: the next request is
  accepted and loads its engine again.\<close>

lemma closed_window_still_serves:
  assumes "serve_inv st" and "sc_inprocess cfg" and "sc_engines_available cfg"
    and "find_slot (requested_model body) (sv_slots st) = Some s" and "ob_load_result ob = Ok ()"
    and "schedule_loop sched unload_ok [turn] (sv_engines st) = (sleeps, eg, False)"
  shows "eg = unload_inprocess_engines unload_ok (sv_engines st)"
    and "sv_outbound (on_inference_request cfg ob rid body (Some pk) (st\<lparr>sv_engines := eg\<rparr>)) = sv_outbound st @ [InferenceAccepted rid]
      \<and> map_of (sv_inflight (on_inference_request cfg ob rid body (Some pk) (st\<lparr>sv_engines := eg\<rparr>))) rid = Some (sv_next_task st)"
proof -
  show eg: "eg = unload_inprocess_engines unload_ok (sv_engines st)"
    using assms(6) by (auto simp: Let_def split: if_splits)
  have "serve_inv (st\<lparr>sv_engines := eg\<rparr>)"
    using assms(1) unload_engines_wf eg by (simp add: serve_inv_def)
  from on_inference_request_served[OF this assms(2,3) _ assms(5), of body s rid pk] assms(4)
  show "sv_outbound (on_inference_request cfg ob rid body (Some pk) (st\<lparr>sv_engines := eg\<rparr>)) = sv_outbound st @ [InferenceAccepted rid]
      \<and> map_of (sv_inflight (on_inference_request cfg ob rid body (Some pk) (st\<lparr>sv_engines := eg\<rparr>))) rid = Some (sv_next_task st)"
    by simp
qed

text \<open>Every turn of the schedule loop that is not interrupted ends with no engine in the map, and it serves
  no longer than the schedule stays open.\<close>

lemma schedule_turn_unloads:
  "schedule_loop sched unload_ok (turns @ [turn]) eg = (sleeps, eg', False) \<Longrightarrow> eg_map eg' = []"
  by (induction turns arbitrary: eg sleeps) (auto simp: Let_def unload_engines_map split: if_splits prod.splits)

lemma update_loop_installs:
  "Inr True \<notin> set before \<Longrightarrow> update_loop (before @ Inr True # after) = (Suc (length before), True)"
  by (induction before rule: update_loop.induct) simp_all

lemma update_loop_runs_on:
  "Inr True \<notin> set checks \<Longrightarrow> update_loop checks = (length checks, False)"
  by (induction checks rule: update_loop.induct) simp_all

end
