(* ===== verification/Proxy.thy ===== *)
theory Proxy
  imports Inference Utf8
begin

text \<open>
  The HTTP proxy of \<open>proxy.rs\<close>: a request is posted to a local backend and the answer, a
  JSON document or a stream of server-sent events, is relayed to the coordinator with token
  counts and an attestation. What the backend does is an observation: how the post ends, and
  for a stream the sequence of byte chunks, errors and cancellations the loop receives. The
  messages are those put on the outbound channel, in order.

  The stream loop works on a growing buffer, chunk by chunk. \<open>sse_reference\<close> is the reference:
  the whole text at once, cut into lines.
\<close>

section \<open>Observations\<close>

text \<open>An \<open>anyhow\<close> error: its message and whether a refused connection is in its chain.\<close>

record proxy_error =
  pe_message :: string
  pe_connect :: bool

datatype send_outcome =
    Refused bool
  | SendCancelled
  | Response u16 string

datatype json_outcome = JsonOk json | JsonError | JsonCancelled

datatype stream_item = Chunk bytes | ChunkError | StreamCancelled

record proxy_env =
  px_from_str :: "string \<Rightarrow> json option"
  px_to_string :: "json \<Rightarrow> string option"
  px_sha256 :: "bytes \<Rightarrow> bytes"
  px_se_handle :: "(bytes \<Rightarrow> string option) option"

record backend_answer =
  ba_send :: send_outcome
  ba_json :: json_outcome
  ba_stream :: "stream_item list"

definition proxy_url :: "string \<Rightarrow> json \<Rightarrow> string" where
  "proxy_url backend_url body =
     backend_url @ option_unwrap_or ''/v1/chat/completions'' (json_get_as json_as_str ''endpoint'' body)"

definition status_success :: "u16 \<Rightarrow> bool" where
  "status_success code \<longleftrightarrow> 200 \<le> code \<and> code < 300"

section \<open>Usage\<close>

definition json_or_else :: "string \<Rightarrow> string \<Rightarrow> json \<Rightarrow> json option" where
  "json_or_else k k' u = (case json_get k u of Some v \<Rightarrow> Some v | None \<Rightarrow> json_get k' u)"

definition extract_usage :: "json \<Rightarrow> usage_info" where
  "extract_usage response =
     (let usage = json_get ''usage'' response in
      \<lparr>prompt_tokens = option_unwrap_or 0
          (Option.bind (Option.bind usage (json_or_else ''prompt_tokens'' ''input_tokens'')) json_as_u64),
       completion_tokens = option_unwrap_or 0
          (Option.bind (Option.bind usage (json_or_else ''completion_tokens'' ''output_tokens'')) json_as_u64)\<rparr>)"

definition attested_complete :: "proxy_env \<Rightarrow> string \<Rightarrow> usage_info \<Rightarrow> string \<Rightarrow> provider_message" where
  "attested_complete env rid usage content =
     (case compute_response_attestation (px_sha256 env) (px_se_handle env) rid (completion_tokens usage) content of
        (response_hash, se_signature) \<Rightarrow> InferenceComplete rid usage se_signature (Some response_hash))"

text \<open>Counters are optional.\<close>

definition count_opt :: "u64 \<Rightarrow> provider_stats option \<Rightarrow> provider_stats option" where
  "count_opt completion stats = map_option (count_served completion) stats"

type_synonym proxy_result =
  "provider_message list \<times> provider_stats option \<times> (proxy_error + unit)"

section \<open>Plain requests\<close>

definition handle_non_streaming_request ::
  "proxy_env \<Rightarrow> (string \<Rightarrow> json \<Rightarrow> backend_answer) \<Rightarrow> string \<Rightarrow> string \<Rightarrow> json \<Rightarrow> provider_stats option \<Rightarrow> proxy_result" where
  "handle_non_streaming_request env backend backend_url rid body stats =
     (let ans = backend (proxy_url backend_url body) body in
      case ba_send ans of
        Refused c \<Rightarrow> ([], stats, Err \<lparr>pe_message = ''failed to send request to backend'', pe_connect = c\<rparr>)
      | SendCancelled \<Rightarrow> ([], stats, Err \<lparr>pe_message = ''request cancelled'', pe_connect = False\<rparr>)
      | Response status error_body \<Rightarrow>
          if \<not> status_success status then ([InferenceError rid error_body status], stats, Ok ())
          else (case ba_json ans of
             JsonError \<Rightarrow>
               ([], stats, Err \<lparr>pe_message = ''failed to parse backend response as JSON'', pe_connect = False\<rparr>)
           | JsonCancelled \<Rightarrow> ([], stats, Err \<lparr>pe_message = ''request cancelled'', pe_connect = False\<rparr>)
           | JsonOk response_json \<Rightarrow>
               let usage = extract_usage response_json;
                   raw_json = option_unwrap_or '''' (px_to_string env response_json)
               in ([InferenceResponseChunk rid (''data: '' @ raw_json) None,
                    attested_complete env rid usage raw_json],
                   count_opt (completion_tokens usage) stats, Ok ())))"

section \<open>Streams\<close>

record sse =
  ss_content :: string
  ss_completion :: u64
  ss_prompt :: u64
  ss_sent :: "provider_message list"

definition sse_init :: sse where
  "sse_init = \<lparr>ss_content = [], ss_completion = 0, ss_prompt = 0, ss_sent = []\<rparr>"

text \<open>One choice of a chunk: content is counted and kept for the signature, reasoning is kept.\<close>

definition delta_str :: "string \<Rightarrow> json \<Rightarrow> string option" where
  "delta_str k choice = Option.bind (Option.bind (json_get ''delta'' choice) (json_get k)) json_as_str"

definition add_choice :: "json \<Rightarrow> sse \<Rightarrow> sse" where
  "add_choice choice st =
     (let st1 = (case delta_str ''content'' choice of
                   Some content \<Rightarrow> st\<lparr>ss_completion := ss_completion st + 1, ss_content := ss_content st @ content\<rparr>
                 | None \<Rightarrow> st)
      in case delta_str ''reasoning_content'' choice of
           Some reasoning \<Rightarrow> st1\<lparr>ss_content := ss_content st1 @ reasoning\<rparr>
         | None \<Rightarrow> st1)"

definition add_usage :: "json \<Rightarrow> sse \<Rightarrow> sse" where
  "add_usage chunk_json st =
     (case json_get ''usage'' chunk_json of
        None \<Rightarrow> st
      | Some usage \<Rightarrow>
          let st1 = (case json_get_as json_as_u64 ''prompt_tokens'' usage of
                       Some pt \<Rightarrow> st\<lparr>ss_prompt := pt\<rparr> | None \<Rightarrow> st)
          in case json_get_as json_as_u64 ''completion_tokens'' usage of
               Some ct \<Rightarrow> st1\<lparr>ss_completion := ct\<rparr> | None \<Rightarrow> st1)"

text \<open>A complete line: the flag is set by the end marker.\<close>

definition sse_line :: "proxy_env \<Rightarrow> string \<Rightarrow> string \<Rightarrow> sse \<Rightarrow> bool \<times> sse" where
  "sse_line env rid line st =
     (case strip_prefix line ''data: '' of
        None \<Rightarrow> (False, st)
      | Some data \<Rightarrow>
          if data = ''[DONE]'' then (True, st)
          else
            let st1 = (case px_from_str env data of
                 None \<Rightarrow> st
               | Some chunk_json \<Rightarrow>
                   let st1 = add_usage chunk_json st
                   in case json_get_as json_as_array ''choices'' chunk_json of
                        Some choices \<Rightarrow> fold add_choice choices st1
                      | None \<Rightarrow> st1)
            in (False, st1\<lparr>ss_sent := ss_sent st1 @ [InferenceResponseChunk rid line None]\<rparr>))"

text \<open>The loop over the complete lines of the buffer: the rest of the buffer, whether the end marker
  was seen, and the state.\<close>

definition split_line :: "string \<Rightarrow> (string \<times> string) option" where
  "split_line buffer =
     (if newline \<in> set buffer
      then Some (trim_end_matches carriage_return (takeWhile (\<lambda>c. c \<noteq> newline) buffer),
                 tl (dropWhile (\<lambda>c. c \<noteq> newline) buffer))
      else None)"

lemma split_line_shorter: "split_line buffer = Some (line, rest) \<Longrightarrow> length rest < length buffer"
proof -
  assume s: "split_line buffer = Some (line, rest)"
  then have "newline \<in> set buffer" and r: "rest = tl (dropWhile (\<lambda>c. c \<noteq> newline) buffer)"
    by (auto simp: split_line_def split: if_splits)
  then have "dropWhile (\<lambda>c. c \<noteq> newline) buffer \<noteq> []"
    by (simp add: dropWhile_eq_Nil_conv)
  then show "length rest < length buffer"
    using length_dropWhile_le[of "\<lambda>c. c \<noteq> newline" buffer] by (cases "dropWhile (\<lambda>c. c \<noteq> newline) buffer") (auto simp: r)
qed

function sse_drain :: "proxy_env \<Rightarrow> string \<Rightarrow> string \<Rightarrow> sse \<Rightarrow> bool \<times> string \<times> sse" where
  "sse_drain env rid buffer st =
     (case split_line buffer of
        None \<Rightarrow> (False, buffer, st)
      | Some (line, rest) \<Rightarrow>
          if line = [] then sse_drain env rid rest st
          else (case sse_line env rid line st of
             (True, st') \<Rightarrow> (True, rest, st')
           | (False, st') \<Rightarrow> sse_drain env rid rest st'))"
  by auto
termination
  by (relation "measure (\<lambda>(_, _, buffer, _). length buffer)") (auto dest: split_line_shorter)

declare sse_drain.simps [simp del]

fun sse_stream :: "proxy_env \<Rightarrow> string \<Rightarrow> string \<Rightarrow> sse \<Rightarrow> stream_item list \<Rightarrow> sse \<times> (proxy_error + unit)" where
  "sse_stream env rid buffer st [] = (st, Ok ())"
| "sse_stream env rid buffer st (StreamCancelled # items) =
     (st, Err \<lparr>pe_message = ''request cancelled'', pe_connect = False\<rparr>)"
| "sse_stream env rid buffer st (ChunkError # items) =
     (st, Err \<lparr>pe_message = ''error reading SSE chunk'', pe_connect = False\<rparr>)"
| "sse_stream env rid buffer st (Chunk bs # items) =
     (case sse_drain env rid (buffer @ utf8_lossy (bytes_str bs)) st of
        (True, _, st') \<Rightarrow> (st', Ok ())
      | (False, buffer', st') \<Rightarrow> sse_stream env rid buffer' st' items)"

text \<open>The closing message is the same after the end marker and after the end of the stream.\<close>

definition sse_finish :: "proxy_env \<Rightarrow> string \<Rightarrow> provider_stats option \<Rightarrow> sse \<times> (proxy_error + unit) \<Rightarrow> proxy_result" where
  "sse_finish env rid stats r =
     (case r of
        (st, Err e) \<Rightarrow> (ss_sent st, stats, Err e)
      | (st, Ok _) \<Rightarrow>
          (ss_sent st @ [attested_complete env rid
              \<lparr>prompt_tokens = ss_prompt st, completion_tokens = ss_completion st\<rparr> (ss_content st)],
           count_opt (ss_completion st) stats, Ok ()))"

definition handle_streaming_request ::
  "proxy_env \<Rightarrow> (string \<Rightarrow> json \<Rightarrow> backend_answer) \<Rightarrow> string \<Rightarrow> string \<Rightarrow> json \<Rightarrow> provider_stats option \<Rightarrow> proxy_result" where
  "handle_streaming_request env backend backend_url rid body stats =
     (let ans = backend (proxy_url backend_url body) body in
      case ba_send ans of
        Refused c \<Rightarrow> ([], stats, Err \<lparr>pe_message = ''failed to send streaming request to backend'', pe_connect = c\<rparr>)
      | SendCancelled \<Rightarrow> ([], stats, Err \<lparr>pe_message = ''request cancelled'', pe_connect = False\<rparr>)
      | Response status error_body \<Rightarrow>
          if \<not> status_success status then ([InferenceError rid error_body status], stats, Ok ())
          else sse_finish env rid stats (sse_stream env rid [] sse_init (ba_stream ans)))"

section \<open>The entry point\<close>

text \<open>The result says whether the backend looks down. \<open>cancelled\<close> is the token's state once the
  request has been handled.\<close>

definition handle_inference_request ::
  "proxy_env \<Rightarrow> bool \<Rightarrow> bool \<Rightarrow> (string \<Rightarrow> json \<Rightarrow> backend_answer) \<Rightarrow> string \<Rightarrow> string \<Rightarrow> json
   \<Rightarrow> provider_stats option \<Rightarrow> bool \<times> provider_message list \<times> provider_stats option" where
  "handle_inference_request env sip_enabled cancelled backend backend_url rid body stats =
     (if \<not> sip_enabled
      then (False, [InferenceError rid ''provider security check failed: SIP disabled'' 503], stats)
      else
        let is_streaming = option_unwrap_or False (json_get_as json_as_bool ''stream'' body)
        in case (if is_streaming then handle_streaming_request env backend backend_url rid body stats
                 else handle_non_streaming_request env backend backend_url rid body stats) of
             (ms, stats', Ok _) \<Rightarrow> (False, ms, stats')
           | (ms, stats', Err e) \<Rightarrow>
               if cancelled then (False, ms, stats')
               else (pe_connect e, ms @ [InferenceError rid (pe_message e) 500], stats'))"

section \<open>Lines of a text\<close>

function parse_sse_loop :: "string list \<Rightarrow> string \<Rightarrow> string list \<times> string" where
  "parse_sse_loop ls remaining =
     (case split_line remaining of
        None \<Rightarrow> (ls, remaining)
      | Some (line, rest) \<Rightarrow> parse_sse_loop (if line = [] then ls else ls @ [line]) rest)"
  by auto
termination
  by (relation "measure (\<lambda>(_, remaining). length remaining)") (auto dest: split_line_shorter)

declare parse_sse_loop.simps [simp del]

definition parse_sse_lines :: "string \<Rightarrow> string list \<times> string" where
  "parse_sse_lines buffer = parse_sse_loop [] buffer"

section \<open>The reference\<close>

text \<open>The complete lines of a text, without carriage returns at their end and without empty ones;
  then the lines up to the end marker, in order.\<close>

definition complete_lines :: "string \<Rightarrow> string list" where
  "complete_lines s =
     filter (\<lambda>l. l \<noteq> []) (map (trim_end_matches carriage_return) (butlast (str_split newline s)))"

fun sse_lines :: "proxy_env \<Rightarrow> string \<Rightarrow> string list \<Rightarrow> sse \<Rightarrow> bool \<times> sse" where
  "sse_lines env rid [] st = (False, st)"
| "sse_lines env rid (l # ls) st =
     (case sse_line env rid l st of (True, st') \<Rightarrow> (True, st') | (False, st') \<Rightarrow> sse_lines env rid ls st')"

definition sse_reference :: "proxy_env \<Rightarrow> string \<Rightarrow> string \<Rightarrow> sse" where
  "sse_reference env rid s = snd (sse_lines env rid (complete_lines s) sse_init)"

lemma str_split_not_Nil [simp]: "str_split d s \<noteq> []"
  by (induction s) (auto split: list.split)

lemma str_split_none: "d \<notin> set s \<Longrightarrow> str_split d s = [s]"
  by (induction s) auto

lemma str_split_some: "d \<notin> set p \<Longrightarrow> str_split d (p @ d # rest) = p # str_split d rest"
  by (induction p) auto

lemma str_split_append:
  "str_split d (x @ y) = butlast (str_split d x) @ str_split d (last (str_split d x) @ y)"
proof (induction x)
  case (Cons c x)
  show ?case
  proof (cases "c = d")
    case False
    obtain p ps where s: "str_split d x = p # ps"
      by (cases "str_split d x") auto
    with False Cons.IH show ?thesis
      by (cases ps) (auto split: list.split)
  qed (use Cons in simp)
qed simp

lemma str_split_last_clean: "d \<notin> set (last (str_split d s))"
proof (induction s)
  case (Cons c s)
  obtain p ps where "str_split d s = p # ps"
    by (cases "str_split d s") auto
  with Cons show ?case by (cases ps) auto
qed simp

lemma split_line_Some:
  assumes "split_line buffer = Some (line, rest)"
  obtains p where "newline \<notin> set p" and "buffer = p @ newline # rest" and "line = trim_end_matches carriage_return p"
proof -
  let ?p = "takeWhile (\<lambda>c. c \<noteq> newline) buffer" and ?d = "dropWhile (\<lambda>c. c \<noteq> newline) buffer"
  from assms have nl: "newline \<in> set buffer" and r: "rest = tl ?d" and l: "line = trim_end_matches carriage_return ?p"
    by (auto simp: split_line_def split: if_splits)
  from nl have "?d \<noteq> []" by (simp add: dropWhile_eq_Nil_conv)
  with hd_dropWhile[of "\<lambda>c. c \<noteq> newline" buffer] have "?d = newline # rest"
    by (cases ?d) (auto simp: r)
  then have "buffer = ?p @ newline # rest"
    by (metis takeWhile_dropWhile_id)
  moreover have "newline \<notin> set ?p"
    using set_takeWhileD[of newline "\<lambda>c. c \<noteq> newline" buffer] by blast
  ultimately show thesis using that l by blast
qed

lemma split_line_None: "split_line buffer = None \<longleftrightarrow> newline \<notin> set buffer"
  by (simp add: split_line_def)

lemma complete_lines_none: "newline \<notin> set s \<Longrightarrow> complete_lines s = []"
  by (simp add: complete_lines_def str_split_none)

lemma complete_lines_some:
  "newline \<notin> set p \<Longrightarrow> complete_lines (p @ newline # rest) =
     (let l = trim_end_matches carriage_return p in if l = [] then complete_lines rest else l # complete_lines rest)"
  by (simp add: complete_lines_def str_split_some Let_def)

lemma complete_lines_append:
  "complete_lines (x @ y) = complete_lines x @ complete_lines (last (str_split newline x) @ y)"
  by (simp add: complete_lines_def str_split_append[of newline x y] butlast_append)

lemma sse_lines_append:
  "sse_lines env rid (ls @ ls') st =
     (case sse_lines env rid ls st of (True, st') \<Rightarrow> (True, st') | (False, st') \<Rightarrow> sse_lines env rid ls' st')"
  by (induction ls arbitrary: st) (simp_all split: prod.split bool.split)

text \<open>The buffer loop goes through the complete lines and leaves what follows the last line feed.\<close>

lemma sse_drain_lines:
  "case sse_drain env rid buffer st of (d, rest, st') \<Rightarrow>
     sse_lines env rid (complete_lines buffer) st = (d, st') \<and> (\<not> d \<longrightarrow> rest = last (str_split newline buffer))"
proof (induction env rid buffer st rule: sse_drain.induct)
  case (1 env rid buffer st)
  show ?case
  proof (cases "split_line buffer")
    case None
    then have "newline \<notin> set buffer" by (simp add: split_line_None)
    with None show ?thesis
      by (simp add: sse_drain.simps complete_lines_none str_split_none)
  next
    case (Some lr)
    obtain line rest where lr: "lr = (line, rest)" by (cases lr)
    from Some lr obtain p where p: "newline \<notin> set p" "buffer = p @ newline # rest"
        "line = trim_end_matches carriage_return p"
      using split_line_Some by blast
    have c: "complete_lines buffer = (if line = [] then complete_lines rest else line # complete_lines rest)"
      and l: "last (str_split newline buffer) = last (str_split newline rest)"
      using p by (simp_all add: complete_lines_some str_split_some)
    show ?thesis
      using 1(1)[OF Some lr[symmetric]] 1(2)[OF Some lr[symmetric]] Some lr c l
      by (subst sse_drain.simps) (auto split: prod.splits bool.splits)
  qed
qed

lemma sse_stream_lines:
  assumes "list_all (\<lambda>bs. utf8_valid (bytes_str bs)) bss" and "newline \<notin> set buffer"
  shows "sse_stream env rid buffer st (map Chunk bss) =
    (snd (sse_lines env rid (complete_lines (buffer @ concat (map bytes_str bss))) st), Ok ())"
  using assms
proof (induction bss arbitrary: buffer st)
  case Nil
  then show ?case by (simp add: complete_lines_none)
next
  case (Cons bs bss)
  let ?t = "buffer @ bytes_str bs"
  have lossy: "utf8_lossy (bytes_str bs) = bytes_str bs"
    using Cons.prems by (simp add: utf8_lossy_valid)
  obtain d rest st' where d: "sse_drain env rid ?t st = (d, rest, st')" by (cases "sse_drain env rid ?t st") auto
  with sse_drain_lines[of env rid ?t st] have l: "sse_lines env rid (complete_lines ?t) st = (d, st')"
    and r: "\<not> d \<Longrightarrow> rest = last (str_split newline ?t)"
    by auto
  have split: "complete_lines (buffer @ bytes_str bs @ concat (map bytes_str bss)) =
      complete_lines ?t @ complete_lines (last (str_split newline ?t) @ concat (map bytes_str bss))"
    using complete_lines_append[of ?t "concat (map bytes_str bss)"] by simp
  show ?case
  proof (cases d)
    case True
    with d l lossy show ?thesis by (simp add: split sse_lines_append)
  next
    case False
    with Cons.IH[of rest st'] Cons.prems r str_split_last_clean[of newline ?t]
    show ?thesis
      using d l lossy False by (simp add: split sse_lines_append)
  qed
qed

lemma parse_sse_loop_lines:
  "parse_sse_loop ls s = (ls @ complete_lines s, last (str_split newline s))"
proof (induction ls s rule: parse_sse_loop.induct)
  case (1 ls s)
  show ?case
  proof (cases "split_line s")
    case None
    then have "newline \<notin> set s" by (simp add: split_line_None)
    with None show ?thesis
      by (subst parse_sse_loop.simps) (simp add: complete_lines_none str_split_none)
  next
    case (Some lr)
    obtain line rest where lr: "lr = (line, rest)" by (cases lr)
    with Some obtain p where "newline \<notin> set p" "s = p @ newline # rest" "line = trim_end_matches carriage_return p"
      using split_line_Some by blast
    then show ?thesis
      using 1[OF Some lr[symmetric]] Some lr
      by (subst parse_sse_loop.simps) (auto simp: complete_lines_some str_split_some)
  qed
qed

section \<open>What is sent\<close>

definition plain_chunk :: "string \<Rightarrow> provider_message \<Rightarrow> bool" where
  "plain_chunk rid m \<longleftrightarrow> (case m of InferenceResponseChunk r d None \<Rightarrow> r = rid | _ \<Rightarrow> False)"

lemma add_choices_sent [simp]: "ss_sent (fold add_choice cs st) = ss_sent st"
  by (induction cs arbitrary: st) (simp_all add: add_choice_def Let_def split: option.split)

lemma add_usage_sent [simp]: "ss_sent (add_usage v st) = ss_sent st"
  by (simp add: add_usage_def Let_def split: option.split)

lemma sse_line_sent:
  "ss_sent (snd (sse_line env rid line st)) =
     ss_sent st @ (if starts_with line ''data: '' \<and> line \<noteq> ''data: [DONE]'' then [InferenceResponseChunk rid line None] else [])"
  by (auto simp: sse_line_def Let_def strip_prefix_def starts_with_def prefix_def split: option.split)

lemma sse_line_plain:
  "list_all (plain_chunk rid) (ss_sent st) \<Longrightarrow> list_all (plain_chunk rid) (ss_sent (snd (sse_line env rid line st)))"
  by (simp add: sse_line_sent plain_chunk_def)

lemma sse_drain_plain:
  "list_all (plain_chunk rid) (ss_sent st) \<Longrightarrow>
   list_all (plain_chunk rid) (ss_sent (snd (snd (sse_drain env rid buffer st))))"
proof (induction env rid buffer st rule: sse_drain.induct)
  case (1 env rid buffer st)
  show ?case
  proof (cases "split_line buffer")
    case None
    with 1(3) show ?thesis by (simp add: sse_drain.simps)
  next
    case (Some lr)
    obtain line rest where lr: "lr = (line, rest)" by (cases lr)
    obtain d st' where l: "sse_line env rid line st = (d, st')" by (cases "sse_line env rid line st")
    have "list_all (plain_chunk rid) (ss_sent st')"
      using sse_line_plain[OF 1(3), of env line] l by simp
    then show ?thesis
      using 1(1)[OF Some lr[symmetric] _ 1(3)] 1(2)[OF Some lr[symmetric] _ l[symmetric]] Some lr l
      by (subst sse_drain.simps) (cases d, auto)
  qed
qed

lemma sse_stream_plain:
  "list_all (plain_chunk rid) (ss_sent st) \<Longrightarrow>
   list_all (plain_chunk rid) (ss_sent (fst (sse_stream env rid buffer st items)))"
proof (induction env rid buffer st items rule: sse_stream.induct)
  case (4 env rid buffer st bs items)
  obtain d rest st' where d: "sse_drain env rid (buffer @ utf8_lossy (bytes_str bs)) st = (d, rest, st')"
    by (cases "sse_drain env rid (buffer @ utf8_lossy (bytes_str bs)) st") auto
  then have "list_all (plain_chunk rid) (ss_sent st')"
    using sse_drain_plain[OF 4(2), of env "buffer @ utf8_lossy (bytes_str bs)"] by simp
  with 4(1)[OF d[symmetric]] d show ?case
    by (cases d) simp_all
qed simp_all

lemma attested_complete_is: "\<exists>sig h. attested_complete env rid u content = InferenceComplete rid u sig (Some h)"
  by (simp add: attested_complete_def split: prod.split)

text \<open>The contract of the two handlers.\<close>

definition reply_ok :: "string \<Rightarrow> provider_stats option \<Rightarrow> send_outcome \<Rightarrow> proxy_result \<Rightarrow> bool" where
  "reply_ok rid stats sent r \<longleftrightarrow>
     (case r of
        (ms, stats', Inl e) \<Rightarrow> list_all (plain_chunk rid) ms \<and> stats' = stats \<and> pe_connect e = (sent = Refused True)
      | (ms, stats', Inr _) \<Rightarrow>
          sent \<noteq> Refused True \<and>
          (\<exists>chunks closing. ms = chunks @ [closing] \<and> list_all (plain_chunk rid) chunks \<and>
            ((\<exists>u sig h. closing = InferenceComplete rid u sig (Some h) \<and> stats' = count_opt (completion_tokens u) stats) \<or>
             (\<exists>e code. closing = InferenceError rid e code \<and> stats' = stats))))"

lemma sse_stream_error: "sse_stream env rid buffer st items = (st', Inl e) \<Longrightarrow> \<not> pe_connect e"
  by (induction env rid buffer st items rule: sse_stream.induct) (auto split: prod.splits bool.splits)

lemma reply_ok_complete:
  assumes "list_all (plain_chunk rid) chunks" and "sent \<noteq> Refused True"
  shows "reply_ok rid stats sent
    (chunks @ [attested_complete env rid u content], count_opt (completion_tokens u) stats, Ok ())"
  using assms attested_complete_is[of env rid u content] by (fastforce simp: reply_ok_def)

lemma streaming_reply_ok:
  "reply_ok rid stats (ba_send (backend (proxy_url url body) body)) (handle_streaming_request env backend url rid body stats)"
proof (cases "ba_send (backend (proxy_url url body) body)")
  case (Response status err)
  let ?r = "sse_stream env rid [] sse_init (ba_stream (backend (proxy_url url body) body))"
  have plain: "list_all (plain_chunk rid) (ss_sent (fst ?r))"
    by (rule sse_stream_plain) (simp add: sse_init_def)
  obtain st res where r: "?r = (st, res)" by (cases ?r)
  show ?thesis
  proof (cases res)
    case (Inl e)
    with plain r sse_stream_error[of env rid "[]" sse_init _ st e] Response show ?thesis
      by (auto simp: handle_streaming_request_def reply_ok_def sse_finish_def)
  next
    case (Inr u)
    with plain r Response reply_ok_complete[of rid "ss_sent st" "Response status err" stats env
        "\<lparr>prompt_tokens = ss_prompt st, completion_tokens = ss_completion st\<rparr>" "ss_content st"]
    show ?thesis
      by (auto simp: handle_streaming_request_def sse_finish_def) (simp add: reply_ok_def)
  qed
qed (simp_all add: handle_streaming_request_def reply_ok_def)

lemma non_streaming_reply_ok:
  "reply_ok rid stats (ba_send (backend (proxy_url url body) body)) (handle_non_streaming_request env backend url rid body stats)"
proof (cases "ba_send (backend (proxy_url url body) body)")
  case (Response status err)
  show ?thesis
  proof (cases "status_success status \<and> (\<exists>v. ba_json (backend (proxy_url url body) body) = JsonOk v)")
    case True
    then obtain v where "ba_json (backend (proxy_url url body) body) = JsonOk v" by blast
    with True Response reply_ok_complete[of rid "[InferenceResponseChunk rid (''data: '' @ option_unwrap_or [] (px_to_string env v)) None]"
        "Response status err" stats env "extract_usage v" "option_unwrap_or [] (px_to_string env v)"]
    show ?thesis
      by (simp add: handle_non_streaming_request_def Let_def plain_chunk_def)
  next
    case False
    with Response show ?thesis
      by (auto simp: handle_non_streaming_request_def Let_def reply_ok_def split: json_outcome.split)
  qed
qed (simp_all add: handle_non_streaming_request_def reply_ok_def)

section \<open>Properties\<close>

text \<open>C20: Relaying a stream does not depend on how the network cuts it: whatever chunks the answer
  arrives in, as long as each is UTF-8 on its own, the chunks relayed, the token counts and the
  text that is attested are those of the reference, which cuts the whole answer into lines.\<close>

theorem streaming_chunk_independent:
  assumes "list_all (\<lambda>bs. utf8_valid (bytes_str bs)) bss"
  shows "sse_finish env rid stats (sse_stream env rid [] sse_init (map Chunk bss)) =
    sse_finish env rid stats (sse_reference env rid (bytes_str (concat bss)), Ok ())"
proof -
  have "bytes_str (concat bss) = concat (map bytes_str bss)"
    by (induction bss) (simp_all add: bytes_str_def)
  then show ?thesis
    using sse_stream_lines[OF assms, of "[]" env rid sse_init] by (simp add: sse_reference_def)
qed

definition demo_proxy_env :: proxy_env where
  "demo_proxy_env = \<lparr>px_from_str = (\<lambda>_. None), px_to_string = (\<lambda>_. None), px_sha256 = (\<lambda>x. x), px_se_handle = None\<rparr>"

theorem streaming_chunk_independent_witness:
  "fst (sse_finish demo_proxy_env ''r'' None (sse_stream demo_proxy_env ''r'' [] sse_init
      (map Chunk [str_bytes ''data: a'', str_bytes ''b'' @ [10], str_bytes ''data: [DONE]'' @ [10]]))) =
   fst (sse_finish demo_proxy_env ''r'' None
     (sse_reference demo_proxy_env ''r'' (''data: ab'' @ [newline] @ ''data: [DONE]'' @ [newline]), Ok ()))"
proof -
  let ?bss = "[str_bytes ''data: a'', str_bytes ''b'' @ [10], str_bytes ''data: [DONE]'' @ [10]]"
  have "list_all (\<lambda>bs. utf8_valid (bytes_str bs)) ?bss"
    by code_simp
  moreover have "bytes_str (concat ?bss) = ''data: ab'' @ [newline] @ ''data: [DONE]'' @ [newline]"
    by code_simp
  ultimately show ?thesis
    using streaming_chunk_independent[of ?bss demo_proxy_env "''r''" None] by metis
qed

text \<open>A character that the network cuts in two is damaged: the two bytes of an e with acute
  accent in separate chunks are relayed as two replacement characters, while in one chunk they
  arrive unchanged.\<close>

theorem split_character_damaged:
  "ss_sent (fst (sse_stream demo_proxy_env ''r'' [] sse_init [Chunk (str_bytes ''data: '' @ [0xC3, 0xA9, 10])])) =
     [InferenceResponseChunk ''r'' (''data: '' @ [CHR 0xC3, CHR 0xA9]) None] \<and>
   ss_sent (fst (sse_stream demo_proxy_env ''r'' [] sse_init [Chunk (str_bytes ''data: '' @ [0xC3]), Chunk [0xA9, 10]])) =
     [InferenceResponseChunk ''r'' (''data: '' @ replacement_char @ replacement_char) None]"
  by code_simp

text \<open>A proxied request is answered by relayed chunks and one closing message, a completion or an
  error; only a cancelled one may get none. The counters grow exactly with a completion, by its
  token count. The backend is reported down exactly when it refused the connection and the request
  was not cancelled.\<close>

theorem proxy_reply_shape:
  "case handle_inference_request env sip cancelled backend url rid body stats of (dead, ms, stats') \<Rightarrow>
     (\<exists>chunks closing. ms = chunks @ closing \<and> list_all (plain_chunk rid) chunks \<and>
       ((closing = [] \<and> cancelled \<and> stats' = stats) \<or>
        (\<exists>u sig h. closing = [InferenceComplete rid u sig (Some h)] \<and> stats' = count_opt (completion_tokens u) stats) \<or>
        (\<exists>e code. closing = [InferenceError rid e code] \<and> stats' = stats))) \<and>
     dead = (sip \<and> \<not> cancelled \<and> ba_send (backend (proxy_url url body) body) = Refused True)"
proof (cases sip)
  case False
  then show ?thesis by (simp add: handle_inference_request_def) (metis append_Nil list.pred_inject(1))
next
  case True
  let ?sent = "ba_send (backend (proxy_url url body) body)"
  let ?h = "if option_unwrap_or False (json_get_as json_as_bool ''stream'' body)
    then handle_streaming_request env backend url rid body stats
    else handle_non_streaming_request env backend url rid body stats"
  have ok: "reply_ok rid stats ?sent ?h"
    by (simp add: streaming_reply_ok non_streaming_reply_ok)
  obtain ms stats' res where h: "?h = (ms, stats', res)" by (cases ?h)
  show ?thesis
  proof (cases res)
    case (Inl e)
    with ok h have "list_all (plain_chunk rid) ms" "stats' = stats" "pe_connect e = (?sent = Refused True)"
      by (simp_all add: reply_ok_def)
    with True h Inl show ?thesis
      by (cases cancelled) (simp_all add: handle_inference_request_def Let_def, blast+)
  next
    case (Inr u)
    with ok h obtain chunks closing where "ms = chunks @ [closing]" "list_all (plain_chunk rid) chunks"
        "(\<exists>u sig h. closing = InferenceComplete rid u sig (Some h) \<and> stats' = count_opt (completion_tokens u) stats) \<or>
         (\<exists>e code. closing = InferenceError rid e code \<and> stats' = stats)" "?sent \<noteq> Refused True"
      by (auto simp: reply_ok_def)
    with True h Inr show ?thesis
      by (simp add: handle_inference_request_def Let_def) blast
  qed
qed

text \<open>A chunk that reports a token count and carries content counts its content on top.\<close>

lemma usage_then_content_counts_one_more:
  assumes "json_get_as json_as_u64 ''completion_tokens'' usage = Some ct" and "json_get ''usage'' v = Some usage"
    and "delta_str ''content'' choice = Some c"
  shows "ss_completion (add_choice choice (add_usage v st)) = ct + 1"
  using assms by (simp add: add_choice_def add_usage_def Let_def split: option.split)

end
