(* ===== verification/Plist.thy ===== *)
theory Plist
  imports Prelude
begin

text \<open>
  The launchd property list of the provider: the text \<open>service.rs\<close> writes when the service is
  installed, and the functions of \<open>main.rs\<close> that read its program arguments, translate them
  to the shape of the Swift command line and splice them back in. The texts are handled by
  searching for tags, as the code does; \<open>cut_at\<close> is the search for a tag together with the two
  slices it gives.
\<close>

section \<open>Writing\<close>

definition plist_label :: string where "plist_label = ''io.darkbloom.provider''"

definition string_line :: "string \<Rightarrow> string" where
  "string_line s = ''        <string>'' @ s @ ''</string>''"

definition service_args :: "string \<Rightarrow> string \<Rightarrow> string list \<Rightarrow> u64 option \<Rightarrow> string list" where
  "service_args binary coordinator_url models idle_timeout =
     [binary, ''serve'', ''--coordinator'', coordinator_url]
     @ concat (map (\<lambda>m. [''--model'', m]) models)
     @ (case idle_timeout of None \<Rightarrow> [] | Some mins \<Rightarrow> [''--idle-timeout'', show_nat (unat mins)])"

definition plist_head :: string where
  \<open>plist_head = str_join [newline]
     [''<?xml version="1.0" encoding="UTF-8"?>'',
      ''<!DOCTYPE plist PUBLIC "-//Apple//DTD PLIST 1.0//EN" "http://www.apple.com/DTDs/PropertyList-1.0.dtd">'',
      ''<plist version="1.0">'',
      ''<dict>'',
      ''    <key>Label</key>'',
      ''    <string>'' @ plist_label @ ''</string>'',
      '''',
      ''    '']\<close>

definition plist_tail :: "string \<Rightarrow> string" where
  "plist_tail log = [newline] @ str_join [newline]
     ['''',
      ''    <key>KeepAlive</key>'',
      ''    <false/>'',
      '''',
      ''    <key>RunAtLoad</key>'',
      ''    <false/>'',
      '''',
      ''    <key>StandardOutPath</key>'',
      ''    <string>'' @ log @ ''</string>'',
      '''',
      ''    <key>StandardErrorPath</key>'',
      ''    <string>'' @ log @ ''</string>'',
      '''',
      ''    <key>ProcessType</key>'',
      ''    <string>Interactive</string>'',
      '''',
      ''    <key>Nice</key>'',
      ''    <integer>-5</integer>'',
      ''</dict>'',
      ''</plist>'',
      '''']"

abbreviation "pa_key \<equiv> ''<key>ProgramArguments</key>''"
abbreviation "array_open \<equiv> ''<array>''"
abbreviation "array_close \<equiv> ''</array>''"
abbreviation "string_open \<equiv> ''<string>''"
abbreviation "string_close \<equiv> ''</string>''"

text \<open>The text of \<open>write_plist\<close>; \<open>env_vars\<close> is empty there.\<close>

definition plist_text :: "string \<Rightarrow> string \<Rightarrow> string \<Rightarrow> string list \<Rightarrow> u64 option \<Rightarrow> string" where
  "plist_text binary log coordinator_url models idle_timeout =
     plist_head @ pa_key @ [newline] @ ''    '' @ array_open @ [newline]
     @ str_join [newline] (map string_line (service_args binary coordinator_url models idle_timeout))
     @ [newline] @ ''    '' @ array_close @ plist_tail log"

section \<open>Reading\<close>

definition cut_at :: "string \<Rightarrow> string \<Rightarrow> (string \<times> string) option" where
  "cut_at p s = (case str_find s p of None \<Rightarrow> None | Some i \<Rightarrow> Some (take i s, drop (i + length p) s))"

text \<open>The text up to and including the opening tag of the argument array, its body, and the text
  from the closing tag on.\<close>

definition program_arguments :: "string \<Rightarrow> (string \<times> string \<times> string) result" where
  "program_arguments plist =
     (case cut_at pa_key plist of
        None \<Rightarrow> Err ''plist is missing ProgramArguments''
      | Some (before, after_key) \<Rightarrow>
          (case cut_at array_open after_key of
             None \<Rightarrow> Err ''plist ProgramArguments has no <array>''
           | Some (gap, rest) \<Rightarrow>
               (case cut_at array_close rest of
                  None \<Rightarrow> Err ''plist ProgramArguments <array> is not terminated''
                | Some (body, after) \<Rightarrow>
                    Ok (before @ pa_key @ gap @ array_open, body, array_close @ after))))"

lemma cut_shorter: "cut_at p s = Some (a, b) \<Longrightarrow> p \<noteq> [] \<Longrightarrow> length b < length s"
proof -
  assume c: "cut_at p s = Some (a, b)" and p: "p \<noteq> []"
  then have "str_find s p \<noteq> None" and b: "\<exists>i. b = drop (i + length p) s"
    by (auto simp: cut_at_def split: option.splits)
  then have "s \<noteq> []" using p by (cases s) auto
  with b p show ?thesis by (cases s; cases p) auto
qed

function string_values :: "string \<Rightarrow> string list result" where
  "string_values body =
     (case cut_at string_open body of
        None \<Rightarrow> Ok []
      | Some (_, rest) \<Rightarrow>
          (case cut_at string_close rest of
             None \<Rightarrow> Err ''plist contains malformed <string>''
           | Some (v, rest') \<Rightarrow>
               (case string_values rest' of Inl e \<Rightarrow> Err e | Inr vs \<Rightarrow> Ok (v # vs))))"
  by auto
termination
proof (relation "measure length")
  fix body x a rest y v rest'
  assume "cut_at string_open body = Some x" "(a, rest) = x" "cut_at string_close rest = Some y" "(v, rest') = y"
  then show "(rest', body) \<in> measure length"
    using cut_shorter[of string_open body a rest] cut_shorter[of string_close rest v rest'] by auto
qed simp

declare string_values.simps [simp del]

definition extract_program_arguments :: "string \<Rightarrow> string list result" where
  "extract_program_arguments plist =
     (case program_arguments plist of
        Inl e \<Rightarrow> Err e
      | Inr (_, body, _) \<Rightarrow>
          (case string_values body of
             Inl e \<Rightarrow> Err e
           | Inr args \<Rightarrow> if args = [] then Err ''plist ProgramArguments is empty'' else Ok args))"

section \<open>Translating\<close>

fun convert_flags :: "string list \<Rightarrow> string list" where
  "convert_flags (arg # v # rest) =
     (if arg = ''--coordinator'' \<or> arg = ''--coordinator-url'' then ''--coordinator-url'' # v # convert_flags rest
      else if arg = ''--model'' then ''--model'' # v # convert_flags rest
      else if arg = ''--idle-timeout'' then ''--idle-timeout'' # v # convert_flags rest
      else convert_flags (v # rest))"
| "convert_flags _ = []"

definition convert_rust_args_to_swift :: "string list \<Rightarrow> string \<Rightarrow> string list" where
  "convert_rust_args_to_swift rust_args binary_path =
     [binary_path, ''start'', ''--foreground''] @ convert_flags (drop 2 rust_args)"

definition xml_escape :: "string \<Rightarrow> string" where
  "xml_escape s = str_replace (str_replace (str_replace s ''&'' ''&amp;'') ''<'' ''&lt;'') ''>'' ''&gt;''"

definition rendered_body :: "string list \<Rightarrow> string" where
  "rendered_body new_args =
     [newline] @ concat (map (\<lambda>arg. string_line (xml_escape arg) @ [newline]) new_args) @ ''    ''"

definition render_launchd_plist :: "string list \<Rightarrow> string \<Rightarrow> string result" where
  "render_launchd_plist new_args original =
     (case program_arguments original of
        Inl e \<Rightarrow> Err e
      | Inr (before, _, after) \<Rightarrow> Ok (before @ rendered_body new_args @ after))"

text \<open>The file operations of the rewrite: reading, writing the temporary file, renaming it.\<close>

definition rewrite_launchd_plist_for_swift ::
  "bool \<Rightarrow> bool \<Rightarrow> string option \<Rightarrow> string \<Rightarrow> string option \<times> unit result" where
  "rewrite_launchd_plist_for_swift write_ok rename_ok plist binary_path =
     (case plist of
        None \<Rightarrow> (plist, Err ''read'')
      | Some original \<Rightarrow>
          (case extract_program_arguments original of
             Inl e \<Rightarrow> (plist, Err e)
           | Inr rust_args \<Rightarrow>
               (case render_launchd_plist (convert_rust_args_to_swift rust_args binary_path) original of
                  Inl e \<Rightarrow> (plist, Err e)
                | Inr new_plist \<Rightarrow>
                    if \<not> write_ok then (plist, Err ''write'')
                    else if \<not> rename_ok then (plist, Err ''rename'')
                    else (Some new_plist, Ok ()))))"

section \<open>Searching for tags\<close>

abbreviation "lt \<equiv> CHR ''<''"

lemma cut_here: "p \<noteq> [] \<Longrightarrow> cut_at p (p @ s) = Some ([], s)"
  by (simp add: cut_at_def str_find_prefix)

lemma cut_step: "\<not> prefix p (c # s) \<Longrightarrow> cut_at p (c # s) = map_option (apfst (Cons c)) (cut_at p s)"
  by (auto simp: cut_at_def split: option.split)

lemma cut_skip: "c \<notin> set w \<Longrightarrow> cut_at (c # p) (w @ s) = map_option (apfst ((@) w)) (cut_at (c # p) s)"
proof (induction w)
  case Nil
  then show ?case by (cases "cut_at (c # p) s") (auto simp: apfst_def)
next
  case (Cons d w)
  then have "cut_at (c # p) (d # w @ s) = map_option (apfst (Cons d)) (cut_at (c # p) (w @ s))"
    by (intro cut_step) auto
  with Cons show ?case
    by (simp add: option.map_comp comp_def apfst_def map_prod_def case_prod_beta)
qed

lemma cut_none: "c \<notin> set w \<Longrightarrow> cut_at (c # p) w = None"
  using cut_skip[of c w p "[]"] by (simp add: cut_at_def)

text \<open>A tag that does not occur in a text followed by the tag's own beginning is found right after
  the text.\<close>

lemma str_find_after:
  assumes "str_find (w @ butlast p) p = None" and "p \<noteq> []"
  shows "str_find (w @ p @ s) p = Some (length w)"
  using assms(1)
proof (induction w)
  case Nil
  then show ?case using assms(2) by (simp add: str_find_prefix)
next
  case (Cons c w)
  have "\<not> prefix p (c # w @ p @ s)"
  proof
    assume "prefix p (c # w @ p @ s)"
    then have "p = take (length p) (c # w @ p @ s)"
      by (auto simp: prefix_def)
    also have "\<dots> = take (length p) (c # w @ butlast p @ [last p] @ s)"
      using assms(2) by (metis append_assoc append_butlast_last_id)
    also have "\<dots> = take (length p) (c # w @ butlast p)"
      using assms(2) by (cases p) auto
    finally have "prefix p (c # w @ butlast p)"
      by (metis take_is_prefix)
    with Cons.prems show False by simp
  qed
  with Cons show ?case by (auto split: if_splits)
qed

lemma cut_after:
  assumes "str_find (w @ butlast p) p = None" and "p \<noteq> []"
  shows "cut_at p (w @ p @ s) = Some (w, s)"
  using str_find_after[OF assms] by (simp add: cut_at_def)

section \<open>Argument bodies\<close>

definition args_body :: "string list \<Rightarrow> string" where
  "args_body vs = concat (map (\<lambda>v. newline # string_line v) vs) @ newline # ''    ''"

lemma args_body_Cons: "args_body (v # vs) = newline # ''        '' @ string_open @ v @ string_close @ args_body vs"
  by (simp add: args_body_def string_line_def)

lemma rendered_args_body: "rendered_body args = args_body (map xml_escape args)"
proof -
  have "[newline] @ concat (map (\<lambda>a. f a @ [newline]) as) = concat (map (\<lambda>a. newline # f a) as) @ [newline]"
    for f :: "string \<Rightarrow> string" and as
    by (induction as) simp_all
  from this[of "\<lambda>a. string_line (xml_escape a)" args] show ?thesis
    by (simp add: rendered_body_def args_body_def comp_def)
qed

lemma joined_args_body:
  "args \<noteq> [] \<Longrightarrow> [newline] @ str_join [newline] (map string_line args) @ [newline] @ ''    '' = args_body args"
proof (induction args)
  case (Cons a args)
  then show ?case by (cases args) (simp_all add: args_body_def)
qed simp

lemma newline_not_lt [simp]: "newline \<noteq> lt" "lt \<noteq> newline"
  by (simp_all add: newline_def)

lemma string_values_args_body:
  "list_all (\<lambda>v. lt \<notin> set v) vs \<Longrightarrow> string_values (args_body vs) = Ok vs"
proof (induction vs)
  case Nil
  have "cut_at string_open (args_body []) = None"
    by (rule cut_none) (simp add: args_body_def)
  then show ?case by (simp add: string_values.simps)
next
  case (Cons v vs)
  have "cut_at string_open (args_body (v # vs)) = Some (newline # ''        '', v @ string_close @ args_body vs)"
    using cut_skip[of lt "newline # ''        ''" "''string>''" "string_open @ v @ string_close @ args_body vs"]
      cut_here[of string_open "v @ string_close @ args_body vs"]
    by (simp add: args_body_Cons)
  moreover have "cut_at string_close (v @ string_close @ args_body vs) = Some (v, args_body vs)"
    using cut_skip[of lt v "''/string>''" "string_close @ args_body vs"] cut_here[of string_close "args_body vs"] Cons.prems
    by simp
  ultimately show ?case
    using Cons by (subst string_values.simps) simp
qed

lemma cut_array_args_body:
  "list_all (\<lambda>v. lt \<notin> set v) vs \<Longrightarrow> cut_at array_close (args_body vs @ array_close @ rest) = Some (args_body vs, rest)"
proof (induction vs)
  case Nil
  have "lt \<notin> set (args_body [])" by (simp add: args_body_def)
  from cut_skip[OF this, of "''/array>''" "array_close @ rest"] cut_here[of array_close rest]
  show ?case by simp
next
  case (Cons v vs)
  let ?rest = "args_body vs @ array_close @ rest"
  have "cut_at array_close ?rest = Some (args_body vs, rest)"
    using Cons by simp
  then have "cut_at array_close (string_close @ ?rest) = Some (string_close @ args_body vs, rest)"
    by (simp add: cut_step)
  then have "cut_at array_close (v @ string_close @ ?rest) = Some (v @ string_close @ args_body vs, rest)"
    using cut_skip[of lt v "''/array>''" "string_close @ ?rest"] Cons.prems by simp
  then have "cut_at array_close (string_open @ v @ string_close @ ?rest) = Some (string_open @ v @ string_close @ args_body vs, rest)"
    by (simp add: cut_step)
  then show ?case
    using cut_skip[of lt "newline # ''        ''" "''/array>''" "string_open @ v @ string_close @ ?rest"]
    by (simp add: args_body_Cons)
qed

section \<open>Reading what was written\<close>

definition plist_before :: string where
  "plist_before = plist_head @ pa_key @ [newline] @ ''    '' @ array_open"

lemma head_no_key: "str_find (plist_head @ butlast pa_key) pa_key = None"
  by code_simp

lemma program_arguments_body:
  assumes "list_all (\<lambda>v. lt \<notin> set v) vs"
  shows "program_arguments (plist_before @ args_body vs @ array_close @ after) =
    Ok (plist_before, args_body vs, array_close @ after)"
proof -
  have "cut_at pa_key (plist_before @ args_body vs @ array_close @ after) =
      Some (plist_head, ([newline] @ ''    '') @ array_open @ args_body vs @ array_close @ after)"
    using cut_after[OF head_no_key, of "[newline] @ ''    '' @ array_open @ args_body vs @ array_close @ after"]
    by (simp add: plist_before_def)
  moreover have "cut_at array_open (([newline] @ ''    '') @ array_open @ args_body vs @ array_close @ after) =
      Some ([newline] @ ''    '', args_body vs @ array_close @ after)"
    using cut_skip[of lt "[newline] @ ''    ''" "''array>''" "array_open @ args_body vs @ array_close @ after"]
      cut_here[of array_open "args_body vs @ array_close @ after"]
    by simp
  ultimately show ?thesis
    by (simp only: program_arguments_def option.case prod.case cut_array_args_body[OF assms])
      (simp add: plist_before_def)
qed

lemma plist_text_body:
  "plist_text binary log url models idle = plist_before @ args_body (service_args binary url models idle) @ array_close @ plist_tail log"
proof -
  have "service_args binary url models idle \<noteq> []" by (simp add: service_args_def)
  from joined_args_body[OF this] show ?thesis
    by (simp add: plist_text_def plist_before_def)
qed

lemma extract_body:
  assumes "list_all (\<lambda>v. lt \<notin> set v) vs" and "vs \<noteq> []"
  shows "extract_program_arguments (plist_before @ args_body vs @ array_close @ after) = Ok vs"
  using assms unfolding extract_program_arguments_def program_arguments_body[OF assms(1)]
  by (simp add: string_values_args_body)

section \<open>Escaping\<close>

lemma str_replace_char: "str_replace s [c] r = concat (map (\<lambda>x. if x = c then r else [x]) s)"
  by (induction s) (auto simp: str_replace_Cons)

lemma str_replace_char_absent: "c \<notin> set s \<Longrightarrow> str_replace s [c] r = s"
  by (induction s) (auto simp: str_replace_Cons)

lemma xml_escape_no_lt: "lt \<notin> set (xml_escape s)"
  by (auto simp: xml_escape_def str_replace_char split: if_splits)

definition xml_plain :: "string \<Rightarrow> bool" where
  "xml_plain s \<longleftrightarrow> CHR ''&'' \<notin> set s \<and> lt \<notin> set s \<and> CHR ''>'' \<notin> set s"

lemma xml_escape_plain: "xml_plain s \<Longrightarrow> xml_escape s = s"
  by (simp add: xml_escape_def xml_plain_def str_replace_char_absent)

lemma xml_plain_digits: "xml_plain (show_nat n)"
  using show_nat_no_char[of _ n] by (simp add: xml_plain_def)

section \<open>Properties\<close>

text \<open>The command line the Swift provider gets: the same coordinator, models and idle timeout.\<close>

definition swift_args :: "string \<Rightarrow> string \<Rightarrow> string list \<Rightarrow> u64 option \<Rightarrow> string list" where
  "swift_args binary url models idle =
     [binary, ''start'', ''--foreground'', ''--coordinator-url'', url]
     @ concat (map (\<lambda>m. [''--model'', m]) models)
     @ (case idle of None \<Rightarrow> [] | Some mins \<Rightarrow> [''--idle-timeout'', show_nat (unat mins)])"

lemma convert_service_args:
  "convert_rust_args_to_swift (service_args old url models idle) binary = swift_args binary url models idle"
proof -
  have "convert_flags (concat (map (\<lambda>m. [''--model'', m]) ms) @ rest) =
      concat (map (\<lambda>m. [''--model'', m]) ms) @ convert_flags rest" for ms rest
    by (induction ms) simp_all
  then show ?thesis
    by (simp add: convert_rust_args_to_swift_def service_args_def swift_args_def split: option.split)
qed

lemma map_escape_plain: "list_all xml_plain vs \<Longrightarrow> map xml_escape vs = vs"
  by (induction vs) (simp_all add: xml_escape_plain)

lemma args_plain:
  assumes "xml_plain binary" "xml_plain url" "list_all xml_plain models"
  shows "list_all xml_plain (service_args binary url models idle)" "list_all xml_plain (swift_args binary url models idle)"
  using assms
  by (auto simp: service_args_def swift_args_def list_all_iff xml_plain_digits split: option.splits)
    (simp_all add: xml_plain_def)

lemma list_all_no_lt: "list_all xml_plain vs \<Longrightarrow> list_all (\<lambda>v. lt \<notin> set v) vs"
  by (auto simp: list_all_iff xml_plain_def)

text \<open>C29: Migrating the property list the service wrote keeps the configuration. For values without
  XML markup the rewritten list starts the Swift provider with the same coordinator, models and
  idle timeout, and every other byte of the file is the same.\<close>

theorem plist_migration:
  assumes "xml_plain old" and "xml_plain url" and "list_all xml_plain models" and "xml_plain binary"
  shows "\<exists>new. rewrite_launchd_plist_for_swift True True (Some (plist_text old log url models idle)) binary = (Some new, Ok ())
    \<and> extract_program_arguments new = Ok (swift_args binary url models idle)
    \<and> new = plist_before @ args_body (swift_args binary url models idle) @ array_close @ plist_tail log
    \<and> plist_text old log url models idle = plist_before @ args_body (service_args old url models idle) @ array_close @ plist_tail log"
proof -
  let ?old = "service_args old url models idle" and ?new = "swift_args binary url models idle"
  have plain: "list_all (\<lambda>v. lt \<notin> set v) ?old" "list_all (\<lambda>v. lt \<notin> set v) ?new" "list_all xml_plain ?new"
    using args_plain assms list_all_no_lt by blast+
  have ne: "?old \<noteq> []" "?new \<noteq> []"
    by (simp_all add: service_args_def swift_args_def)
  have "render_launchd_plist ?new (plist_before @ args_body ?old @ array_close @ plist_tail log) =
      Ok (plist_before @ args_body ?new @ array_close @ plist_tail log)"
    unfolding render_launchd_plist_def program_arguments_body[OF plain(1)]
    by (simp add: rendered_args_body map_escape_plain[OF plain(3)])
  then show ?thesis
    using extract_body[OF plain(1) ne(1)] extract_body[OF plain(2) ne(2)]
    by (simp only: rewrite_launchd_plist_for_swift_def plist_text_body option.case sum.case convert_service_args) simp
qed

theorem plist_migration_witness:
  "\<exists>new. rewrite_launchd_plist_for_swift True True
       (Some (plist_text ''/b'' ''/l'' ''wss://c'' [''qwen''] (Some 30))) ''/s'' = (Some new, Ok ())
     \<and> extract_program_arguments new = Ok [''/s'', ''start'', ''--foreground'', ''--coordinator-url'', ''wss://c'',
         ''--model'', ''qwen'', ''--idle-timeout'', ''30'']"
proof -
  have "swift_args ''/s'' ''wss://c'' [''qwen''] (Some 30) = [''/s'', ''start'', ''--foreground'', ''--coordinator-url'', ''wss://c'',
         ''--model'', ''qwen'', ''--idle-timeout'', ''30'']"
    by code_simp
  then show ?thesis
    using plist_migration[of "''/b''" "''wss://c''" "[''qwen'']" "''/s''" "''/l''" "Some 30"]
    by (fastforce simp: xml_plain_def)
qed

text \<open>Rewriting a list that is already escaped escapes it again: the arguments are read without
  undoing the escapes and written with them.\<close>

lemma plist_rewrite_escapes_again:
  assumes "list_all (\<lambda>v. lt \<notin> set v) vs" and "vs \<noteq> []" and "convert_rust_args_to_swift vs binary = out"
  shows "\<exists>new. rewrite_launchd_plist_for_swift True True (Some (plist_before @ args_body vs @ array_close @ after)) binary = (Some new, Ok ())
    \<and> extract_program_arguments new = Ok (map xml_escape out)"
proof -
  have lt: "list_all (\<lambda>v. lt \<notin> set v) (map xml_escape out)"
    by (simp add: list_all_iff xml_escape_no_lt)
  have ne: "map xml_escape out \<noteq> []"
    using assms(3) by (auto simp: convert_rust_args_to_swift_def)
  have "render_launchd_plist out (plist_before @ args_body vs @ array_close @ after) =
      Ok (plist_before @ args_body (map xml_escape out) @ array_close @ after)"
    unfolding render_launchd_plist_def program_arguments_body[OF assms(1)] by (simp add: rendered_args_body)
  then show ?thesis
    using extract_body[OF assms(1,2)] extract_body[OF lt ne] assms(3)
    by (simp only: rewrite_launchd_plist_for_swift_def option.case sum.case) simp
qed

end
