(* ===== verification/Update.thy ===== *)
theory Update
  imports Plist LinkFs FileTree Hardware Security
begin

text \<open>
  The automatic update of \<open>main.rs\<close>: comparing versions, checking code signatures, backing up,
  installing and verifying a bundle, and rolling back. The installation directory is a file
  system with links (\<open>LinkFs\<close>), the launchd property list its text (\<open>Plist\<close>). What the
  network answers, what \<open>tar\<close> and \<open>codesign\<close> do and which permission changes succeed are
  observations.
\<close>

section \<open>Versions\<close>

definition version_part :: "nat \<Rightarrow> string list \<Rightarrow> u32" where
  "version_part i parts =
     (if i < length parts then (case parse_u32 (parts ! i) of Some n \<Rightarrow> n | None \<Rightarrow> 0) else 0)"

definition parse_version :: "string \<Rightarrow> u32 \<times> u32 \<times> u32" where
  "parse_version v =
     (let parts = str_split (CHR ''.'') v
      in (version_part 0 parts, version_part 1 parts, version_part 2 parts))"

definition version_less :: "u32 \<times> u32 \<times> u32 \<Rightarrow> u32 \<times> u32 \<times> u32 \<Rightarrow> bool" where
  "version_less v w \<longleftrightarrow>
     (case (v, w) of ((a, b, c), (a', b', c')) \<Rightarrow> a < a' \<or> (a = a' \<and> (b < b' \<or> (b = b' \<and> c < c'))))"

definition is_newer_version :: "string \<Rightarrow> string \<Rightarrow> bool" where
  "is_newer_version current latest \<longleftrightarrow> version_less (parse_version current) (parse_version latest)"

section \<open>Code signatures\<close>

definition team_of_line :: "string \<Rightarrow> string option" where
  "team_of_line line =
     (case strip_prefix (trim line) ''TeamIdentifier='' of
        None \<Rightarrow> None
      | Some t \<Rightarrow> let team = trim t in if team \<noteq> [] \<and> team \<noteq> ''not set'' then Some team else None)"

fun first_some :: "('a \<Rightarrow> 'b option) \<Rightarrow> 'a list \<Rightarrow> 'b option" where
  "first_some f [] = None"
| "first_some f (x # xs) = (case f x of Some y \<Rightarrow> Some y | None \<Rightarrow> first_some f xs)"

definition parse_codesign_team_identifier :: "string \<Rightarrow> string option" where
  "parse_codesign_team_identifier output = first_some team_of_line (str_lines output)"

definition codesign_team_identifier :: "cmd_env \<Rightarrow> string \<Rightarrow> string result" where
  "codesign_team_identifier run path =
     (case run ''codesign'' [''-dvv'', path] of
        None \<Rightarrow> Err ''failed to inspect code signature''
      | Some output \<Rightarrow>
          (case parse_codesign_team_identifier (co_stdout output @ [newline] @ co_stderr output) of
             Some t \<Rightarrow> Ok t
           | None \<Rightarrow> Err (path @ '' is missing a TeamIdentifier'')))"

text \<open>Directories reached through links are entered as well.\<close>

function collect_signature_targets :: "path \<Rightarrow> fnode \<Rightarrow> path list"
  and collect_signature_entries :: "path \<Rightarrow> (string \<times> fnode) list \<Rightarrow> path list" where
  "collect_signature_targets p (FDir es) = collect_signature_entries p es"
| "collect_signature_targets p (FSymDir t) = collect_signature_targets p t"
| "collect_signature_targets p (FFile c) = []"
| "collect_signature_targets p (FSymFile c) = []"
| "collect_signature_targets p FDeniedDir = []"
| "collect_signature_entries p [] = []"
| "collect_signature_entries p ((name, n) # es) =
     (if is_dir n then collect_signature_targets (p @ [name]) n
      else if path_extension name = Some ''dylib'' \<or> path_extension name = Some ''so'' then [p @ [name]]
      else [])
     @ collect_signature_entries p es"
  by pat_completeness auto
termination
  by (relation "measure (case_sum (\<lambda>(_, n). size n) (\<lambda>(_, es). size_list (size_prod (\<lambda>_. 0) size) es))") auto

text \<open>The check of one target against the team of the provider binary.\<close>

definition verify_target :: "cmd_env \<Rightarrow> string \<Rightarrow> string \<Rightarrow> unit result" where
  "verify_target run team target =
     (case run ''codesign'' [''--verify'', ''--verbose'', target] of
        None \<Rightarrow> Err ''failed to verify code signature''
      | Some v \<Rightarrow>
          if \<not> co_success v then Err (target @ '' has an invalid signature'')
          else (case codesign_team_identifier run target of
             Inl e \<Rightarrow> Err e
           | Inr t \<Rightarrow> if t \<noteq> team then Err (target @ '' Team ID does not match darkbloom Team ID'') else Ok ()))"

fun verify_targets :: "cmd_env \<Rightarrow> string \<Rightarrow> string list \<Rightarrow> unit result" where
  "verify_targets run team [] = Ok ()"
| "verify_targets run team (t # ts) =
     (case verify_target run team t of Inl e \<Rightarrow> Err e | Inr _ \<Rightarrow> verify_targets run team ts)"

definition python_targets :: "bool \<Rightarrow> path \<Rightarrow> fnode \<Rightarrow> path list" where
  "python_targets python_exists dir python_lib =
     remdups_adj (sort ((if python_exists then [dir @ [''python'', ''bin'', ''python3.12'']] else [])
       @ collect_signature_targets (dir @ [''python'', ''lib'']) python_lib))"

definition verify_python_core_signature_match :: "cmd_env \<Rightarrow> bool \<Rightarrow> bool \<Rightarrow> path \<Rightarrow> fnode \<Rightarrow> unit result" where
  "verify_python_core_signature_match run darkbloom_exists python_exists dir python_lib =
     (if \<not> darkbloom_exists then Err ''updated darkbloom binary missing after install''
      else case codesign_team_identifier run (path_string (dir @ [''bin'', ''darkbloom''])) of
        Inl e \<Rightarrow> Err e
      | Inr team \<Rightarrow>
          let targets = python_targets python_exists dir python_lib in
          if targets = [] then Err ''bundled Python core missing after update''
          else verify_targets run team (map path_string targets))"

text \<open>The checks after installing a release of the old kind. The signature check, and the two
  functions that verify or reinstall the Python runtime, are arguments.\<close>

definition verify_installed_update_runtime ::
  "(lfs \<Rightarrow> unit result) \<Rightarrow> (lfs \<Rightarrow> bool \<times> lfs) \<Rightarrow> (lfs \<Rightarrow> bool \<times> lfs) \<Rightarrow> string \<Rightarrow> lfs \<Rightarrow> unit result \<times> lfs" where
  "verify_installed_update_runtime signature_match ensure_python ensure_runtime dir fs =
     (let fs1 = (case signature_match fs of
                   Inl _ \<Rightarrow> fs_try (\<lambda>fs. fs_remove fs (path_join dir ''python/bin/python3.12'')) fs
                 | Inr _ \<Rightarrow> fs)
      in case ensure_python fs1 of
           (False, fs2) \<Rightarrow> (Err ''Python runtime could not be verified after update'', fs2)
         | (True, fs2) \<Rightarrow>
             (case signature_match fs2 of
                Inl _ \<Rightarrow> (Err ''bundled Python core still failed signature validation after reinstall'', fs2)
              | Inr _ \<Rightarrow>
                  (case ensure_runtime fs2 of
                     (False, fs3) \<Rightarrow> (Err ''Python site-packages could not be verified after update'', fs3)
                   | (True, fs3) \<Rightarrow> (Ok (), fs3))))"

section \<open>Backups\<close>

definition backup_path :: "string \<Rightarrow> string \<Rightarrow> string" where
  "backup_path bin_dir name = path_join bin_dir (path_file_stem name @ ''.auto-update-backup'')"

definition backup_installed_binary :: "string \<Rightarrow> string \<Rightarrow> lfs \<Rightarrow> (string option \<times> lfs) result" where
  "backup_installed_binary bin_dir name fs =
     (let path = path_join bin_dir name; backup = backup_path bin_dir name in
      if \<not> fs_exists fs path then Ok (None, fs)
      else (case fs_copy (fs_try (\<lambda>fs. fs_remove fs backup) fs) path backup of
         None \<Rightarrow> Err ''copy''
       | Some fs' \<Rightarrow> Ok (Some backup, fs')))"

definition restore_installed_binary :: "string \<Rightarrow> string option \<Rightarrow> lfs \<Rightarrow> lfs option" where
  "restore_installed_binary path backup fs =
     (case backup of
        None \<Rightarrow> Some fs
      | Some b \<Rightarrow> map_option (fs_try (\<lambda>fs. fs_remove fs b)) (fs_copy fs b path))"

definition restore_or_remove_installed_path :: "string \<Rightarrow> string option \<Rightarrow> lfs \<Rightarrow> lfs option" where
  "restore_or_remove_installed_path path backup fs =
     (case backup of
        Some b \<Rightarrow> restore_installed_binary path (Some b) fs
      | None \<Rightarrow> Some (fs_try (\<lambda>fs. fs_remove fs path) fs))"

definition remove_binary_backup :: "string option \<Rightarrow> lfs \<Rightarrow> lfs" where
  "remove_binary_backup backup fs =
     (case backup of None \<Rightarrow> fs | Some b \<Rightarrow> fs_try (\<lambda>fs. fs_remove fs b) fs)"

section \<open>Installing a Swift bundle\<close>

definition release_string :: "json \<Rightarrow> string \<Rightarrow> string" where
  "release_string info key = (case json_get_as json_as_str key info of Some s \<Rightarrow> s | None \<Rightarrow> [])"

definition is_swift_release :: "json \<Rightarrow> bool" where
  "is_swift_release info \<longleftrightarrow>
     release_string info ''backend'' = ''mlx-swift'' \<or> release_string info ''metallib_hash'' \<noteq> []"

definition verify_update_file_hash :: "(bytes \<Rightarrow> bytes) \<Rightarrow> lfs \<Rightarrow> string \<Rightarrow> string \<Rightarrow> string \<Rightarrow> unit result" where
  "verify_update_file_hash sha256 fs path expected label =
     (if expected = [] then Ok ()
      else case fs_read fs path of
        None \<Rightarrow> Err (label @ '' missing after Swift update'')
      | Some content \<Rightarrow>
          if sha256_bytes sha256 content \<noteq> expected then Err (label @ '' hash mismatch'') else Ok ())"

definition swift_names :: "string list" where
  "swift_names = [''darkbloom'', ''darkbloom-enclave'', ''mlx.metallib'']"

text \<open>Root-level files of early bundles are moved to the bin directory.\<close>

definition move_root_files :: "string \<Rightarrow> lfs \<Rightarrow> lfs" where
  "move_root_files dir fs =
     (let bin_dir = path_join dir ''bin'';
          fs1 = fold (\<lambda>name fs. if fs_exists fs (path_join dir name)
                    then fs_try (\<lambda>fs. fs_rename fs (path_join dir name) (path_join bin_dir name)) fs else fs)
                  swift_names fs;
          legacy = path_join dir ''eigeninference-enclave''
      in if fs_exists fs1 legacy \<and> \<not> fs_exists fs1 (path_join bin_dir ''darkbloom-enclave'')
         then fs_try (\<lambda>fs. fs_rename fs legacy (path_join bin_dir ''darkbloom-enclave'')) fs1 else fs1)"

text \<open>The first half of the installation: the bundle is complete and its hashes are right.\<close>

definition swift_checks :: "(bytes \<Rightarrow> bytes) \<Rightarrow> string \<Rightarrow> json \<Rightarrow> lfs \<Rightarrow> unit result" where
  "swift_checks sha256 bin_dir info fs =
     (let darkbloom = path_join bin_dir ''darkbloom''; metallib = path_join bin_dir ''mlx.metallib'' in
      if \<not> fs_exists fs darkbloom then Err ''Swift update bundle missing bin/darkbloom''
      else if \<not> fs_exists fs (path_join bin_dir ''darkbloom-enclave'') then Err ''Swift update bundle missing bin/darkbloom-enclave''
      else if \<not> fs_exists fs metallib then Err ''Swift update bundle missing bin/mlx.metallib''
      else if release_string info ''binary_hash'' = [] then Err ''Swift update metadata missing binary_hash''
      else if release_string info ''metallib_hash'' = [] then Err ''Swift update metadata missing metallib_hash''
      else case verify_update_file_hash sha256 fs darkbloom (release_string info ''binary_hash'') ''darkbloom'' of
        Inl e \<Rightarrow> Err e
      | Inr _ \<Rightarrow> verify_update_file_hash sha256 fs metallib (release_string info ''metallib_hash'') ''mlx.metallib'')"

record update_obs =
  uo_chmod_ok :: "string \<Rightarrow> bool"
  uo_symlink_ok :: "string \<Rightarrow> bool"
  uo_plist_write_ok :: bool
  uo_plist_rename_ok :: bool

text \<open>The second half: permissions, the link for the old helper name, links into the application
  bundle when there is one, and the property list.\<close>

definition replace_by_link :: "update_obs \<Rightarrow> string \<Rightarrow> string \<Rightarrow> lfs \<Rightarrow> bool \<times> lfs" where
  "replace_by_link ob target link fs =
     (let fs1 = fs_try (\<lambda>fs. fs_remove fs link) fs
      in if uo_symlink_ok ob link
         then (case fs_symlink fs1 target link of None \<Rightarrow> (False, fs1) | Some fs2 \<Rightarrow> (True, fs2))
         else (False, fs1))"

fun link_app_files :: "update_obs \<Rightarrow> string \<Rightarrow> string \<Rightarrow> string list \<Rightarrow> lfs \<Rightarrow> bool \<times> lfs" where
  "link_app_files ob app bin_dir [] fs = (True, fs)"
| "link_app_files ob app bin_dir (name # names) fs =
     (if \<not> fs_exists fs (path_join app name) then link_app_files ob app bin_dir names fs
      else (case replace_by_link ob (path_join app name) (path_join bin_dir name) fs of
         (False, fs') \<Rightarrow> (False, fs')
       | (True, fs') \<Rightarrow> link_app_files ob app bin_dir names fs'))"

definition swift_links :: "update_obs \<Rightarrow> string \<Rightarrow> lfs \<Rightarrow> string option \<Rightarrow> unit result \<times> lfs \<times> string option" where
  "swift_links ob dir fs plist =
     (let bin_dir = path_join dir ''bin'';
          app = path_join dir ''Darkbloom.app/Contents/MacOS''
      in if \<not> list_all (uo_chmod_ok ob) [''darkbloom'', ''darkbloom-enclave''] then (Err ''chmod'', fs, plist)
         else case replace_by_link ob (path_join bin_dir ''darkbloom-enclave'') (path_join bin_dir ''eigeninference-enclave'') fs of
           (False, fs1) \<Rightarrow> (Err ''failed to create link'', fs1, plist)
         | (True, fs1) \<Rightarrow>
             let in_app = fs_exists fs1 (path_join app ''darkbloom'') in
             case (if in_app then link_app_files ob app bin_dir swift_names fs1 else (True, fs1)) of
               (False, fs2) \<Rightarrow> (Err ''failed to symlink'', fs2, plist)
             | (True, fs2) \<Rightarrow>
                 if plist = None then (Ok (), fs2, plist)
                 else (case rewrite_launchd_plist_for_swift (uo_plist_write_ok ob) (uo_plist_rename_ok ob) plist
                          (if in_app then path_join app ''darkbloom'' else path_join bin_dir ''darkbloom'') of
                    (plist', Inl e) \<Rightarrow> (Err ''failed to migrate launchd plist'', fs2, plist')
                  | (plist', Inr _) \<Rightarrow> (Ok (), fs2, plist')))"

definition install_swift_update_bundle_at ::
  "(bytes \<Rightarrow> bytes) \<Rightarrow> update_obs \<Rightarrow> string \<Rightarrow> json \<Rightarrow> lfs \<Rightarrow> string option \<Rightarrow> unit result \<times> lfs \<times> string option" where
  "install_swift_update_bundle_at sha256 ob dir info fs plist =
     (let fs1 = move_root_files dir fs in
      case swift_checks sha256 (path_join dir ''bin'') info fs1 of
        Inl e \<Rightarrow> (Err e, fs1, plist)
      | Inr _ \<Rightarrow> swift_links ob dir fs1 plist)"

section \<open>The update\<close>

record update_net =
  un_version :: "nat \<times> json option"
  un_version_ok :: bool
  un_download :: "(nat \<times> bytes) option"
  un_tmp_write_ok :: bool
  un_tar :: "lfs \<Rightarrow> bool option \<times> lfs"
  un_rust_verify :: "lfs \<Rightarrow> unit result \<times> lfs"

record installation =
  in_fs :: lfs
  in_plist :: "string option"

definition backup_names :: "string list" where
  "backup_names = [''darkbloom'', ''eigeninference-enclave'', ''darkbloom-enclave'', ''mlx.metallib'']"

text \<open>The four backups in order; an error leaves what was copied before it.\<close>

fun make_backups :: "string \<Rightarrow> string list \<Rightarrow> lfs \<Rightarrow> string option list result \<times> lfs" where
  "make_backups bin_dir [] fs = (Ok [], fs)"
| "make_backups bin_dir (name # names) fs =
     (case backup_installed_binary bin_dir name fs of
        Inl e \<Rightarrow> (Err e, fs)
      | Inr (b, fs1) \<Rightarrow>
          (case make_backups bin_dir names fs1 of
             (Inl e, fs2) \<Rightarrow> (Err e, fs2)
           | (Inr bs, fs2) \<Rightarrow> (Ok (b # bs), fs2)))"

fun restore_all :: "string \<Rightarrow> (string \<times> string option) list \<Rightarrow> lfs \<Rightarrow> bool \<times> lfs" where
  "restore_all bin_dir [] fs = (True, fs)"
| "restore_all bin_dir ((name, b) # rest) fs =
     (case restore_or_remove_installed_path (path_join bin_dir name) b fs of
        None \<Rightarrow> (False, fs)
      | Some fs1 \<Rightarrow> restore_all bin_dir rest fs1)"

text \<open>Installing a release of the old kind: a failed permission change returns at once, without
  the rollback.\<close>

definition install_rust_update ::
  "update_obs \<Rightarrow> update_net \<Rightarrow> string \<Rightarrow> lfs \<Rightarrow> (unit result \<times> lfs) + (string \<times> lfs)" where
  "install_rust_update ob net dir fs =
     (let bin_dir = path_join dir ''bin'';
          fs1 = fold (\<lambda>name fs. fs_try (\<lambda>fs. fs_rename fs (path_join dir name) (path_join bin_dir name)) fs)
                  [''darkbloom'', ''eigeninference-enclave''] fs
      in if list_ex (\<lambda>name. fs_exists fs1 (path_join bin_dir name) \<and> \<not> uo_chmod_ok ob name)
              [''darkbloom'', ''eigeninference-enclave'']
         then Inr (''chmod'', fs1)
         else Inl (un_rust_verify net fs1))"

definition auto_update_check_with_install_dir ::
  "(bytes \<Rightarrow> bytes) \<Rightarrow> update_obs \<Rightarrow> update_net \<Rightarrow> string \<Rightarrow> string \<Rightarrow> installation \<Rightarrow> bool result \<times> installation" where
  "auto_update_check_with_install_dir sha256 ob net current_version dir st =
     (if \<not> un_version_ok net then (Err ''request failed'', st)
      else if \<not> (200 \<le> fst (un_version net) \<and> fst (un_version net) < 300) then (Err ''coordinator returned an error'', st)
      else case snd (un_version net) of
        None \<Rightarrow> (Err ''invalid JSON'', st)
      | Some info \<Rightarrow>
          let latest = (case json_get_as json_as_str ''version'' info of Some s \<Rightarrow> s | None \<Rightarrow> ''unknown'') in
          if \<not> is_newer_version current_version latest then (Ok False, st)
          else if release_string info ''download_url'' = [] then (Ok False, st)
          else case un_download net of
            None \<Rightarrow> (Err ''request failed'', st)
          | Some (status, bytes) \<Rightarrow>
              if \<not> (200 \<le> status \<and> status < 300) then (Err ''download failed'', st)
              else if release_string info ''bundle_hash'' \<noteq> [] \<and> sha256_bytes sha256 bytes \<noteq> release_string info ''bundle_hash''
                then (Err ''bundle hash mismatch'', st)
              else if \<not> un_tmp_write_ok net then (Err ''write'', st)
              else
                let bin_dir = path_join dir ''bin'' in
                case make_backups bin_dir backup_names (in_fs st) of
                  (Inl e, fs1) \<Rightarrow> (Err e, st\<lparr>in_fs := fs1\<rparr>)
                | (Inr bs, fs1) \<Rightarrow>
                    (case un_tar net fs1 of
                       (None, fs2) \<Rightarrow> (Err ''failed to run tar'', st\<lparr>in_fs := fs2\<rparr>)
                     | (Some False, fs2) \<Rightarrow> (Err ''tar extraction failed'', st\<lparr>in_fs := fs2\<rparr>)
                     | (Some True, fs2) \<Rightarrow>
                         let install =
                           (if is_swift_release info
                            then (case install_swift_update_bundle_at sha256 ob dir info fs2 (in_plist st) of
                                    (r, fs3, plist) \<Rightarrow> Inl (r, fs3, plist))
                            else (case install_rust_update ob net dir fs2 of
                                    Inl (r, fs3) \<Rightarrow> Inl (r, fs3, in_plist st)
                                  | Inr (e, fs3) \<Rightarrow> Inr (e, fs3)))
                         in case install of
                              Inr (e, fs3) \<Rightarrow> (Err e, st\<lparr>in_fs := fs3\<rparr>)
                            | Inl (Inl e, fs3, plist) \<Rightarrow>
                                (case restore_all bin_dir (zip backup_names bs) fs3 of
                                   (False, fs4) \<Rightarrow> (Err ''restore'', st\<lparr>in_fs := fs4, in_plist := plist\<rparr>)
                                 | (True, fs4) \<Rightarrow>
                                     (Err ''auto-update verification failed'', st\<lparr>in_fs := fs4, in_plist := plist\<rparr>))
                            | Inl (Inr _, fs3, plist) \<Rightarrow>
                                (Ok True, st\<lparr>in_fs := fold remove_binary_backup bs fs3, in_plist := plist\<rparr>)))"

section \<open>Versions compare as numbers\<close>

lemma digit_val_char: "d < 10 \<Longrightarrow> digit_val (digit_char d) = Some d"
  by (simp add: digit_val_def digit_char_def Let_def)

lemma parse_digits_append:
  "parse_digits acc (s @ t) = (case parse_digits acc s of None \<Rightarrow> None | Some n \<Rightarrow> parse_digits n t)"
  by (induction s arbitrary: acc) (auto split: option.split)

lemma parse_digits_show: "parse_digits 0 (show_nat n) = Some n"
proof (induction n rule: show_nat.induct)
  case (1 n)
  show ?case
  proof (cases "n < 10")
    case False
    with 1 show ?thesis
      by (subst show_nat.simps) (simp add: parse_digits_append digit_val_char)
  qed (simp add: show_nat.simps[of n] digit_val_char)
qed

lemma show_nat_not_Nil [simp]: "show_nat n \<noteq> []"
  by (subst show_nat.simps) simp

lemma parse_nat_show: "parse_nat (show_nat n) = Some n"
proof -
  have "CHR ''+'' \<notin> set (show_nat n)"
    by (rule show_nat_no_char) simp
  then show ?thesis
    by (cases "show_nat n") (auto simp: parse_nat_def parse_digits_show[of n, symmetric])
qed

lemma parse_u32_show: "parse_u32 (show_nat (unat (n :: u32))) = Some n"
  using unsigned_less[of n] by (simp add: parse_u32_def parse_nat_show)

definition show_version :: "u32 \<times> u32 \<times> u32 \<Rightarrow> string" where
  "show_version v = (case v of (a, b, c) \<Rightarrow>
     show_nat (unat a) @ ''.'' @ show_nat (unat b) @ ''.'' @ show_nat (unat c))"

lemma str_split_absent: "d \<notin> set s \<Longrightarrow> str_split d s = [s]"
  by (induction s) auto

lemma str_split_present: "d \<notin> set p \<Longrightarrow> str_split d (p @ d # rest) = p # str_split d rest"
  by (induction p) auto

lemma parse_show_version: "parse_version (show_version v) = v"
proof -
  have "CHR ''.'' \<notin> set (show_nat n)" for n
    by (rule show_nat_no_char) simp
  then have "str_split (CHR ''.'') (show_version (a, b, c)) = [show_nat (unat a), show_nat (unat b), show_nat (unat c)]" for a b c
    by (simp add: show_version_def str_split_present str_split_absent)
  then show ?thesis
    by (cases v) (simp add: parse_version_def version_part_def parse_u32_show)
qed

section \<open>Backups and restoring\<close>

text \<open>What a backup promises: it holds what the file held, and there is none when there was no file.\<close>

definition backed_up :: "string \<Rightarrow> lfs \<Rightarrow> lfs \<Rightarrow> string \<times> string option \<Rightarrow> bool" where
  "backed_up bin fs0 fs nb \<longleftrightarrow>
     (case snd nb of
        None \<Rightarrow> fs_read fs0 (path_join bin (fst nb)) = None
      | Some q \<Rightarrow> q = backup_path bin (fst nb) \<and>
          (\<exists>c. fs q = Some (EFile c) \<and> fs_read fs0 (path_join bin (fst nb)) = Some c))"

lemma backed_up_cong:
  assumes "fs_read fs0 (path_join bin (fst nb)) = fs_read fs0' (path_join bin (fst nb))"
    and "fs (backup_path bin (fst nb)) = fs' (backup_path bin (fst nb))"
  shows "backed_up bin fs0 fs nb = backed_up bin fs0' fs' nb"
  using assms by (auto simp: backed_up_def split: option.split)

definition names_apart :: "string \<Rightarrow> string list \<Rightarrow> bool" where
  "names_apart bin names \<longleftrightarrow> distinct (map (backup_path bin) names) \<and> distinct names \<and>
     (\<forall>n \<in> set names. \<forall>m \<in> set names. path_join bin n \<noteq> backup_path bin m)"

lemma path_join_inject [simp]: "path_join d n = path_join d m \<longleftrightarrow> n = m"
  by (simp add: path_join_def)

lemma backup_stems:
  "path_file_stem ''darkbloom'' = ''darkbloom''" "path_file_stem ''darkbloom-enclave'' = ''darkbloom-enclave''"
  "path_file_stem ''eigeninference-enclave'' = ''eigeninference-enclave''" "path_file_stem ''mlx.metallib'' = ''mlx''"
  by code_simp+

lemma backup_names_apart: "names_apart bin backup_names"
  by (simp add: names_apart_def backup_names_def backup_path_def backup_stems)

lemma make_backups_spec:
  assumes "list_all (\<lambda>n. plain_at fs (path_join bin n) \<and> plain_at fs (backup_path bin n)) names"
    and "names_apart bin names"
  shows "\<exists>bs fs'. make_backups bin names fs = (Ok bs, fs') \<and> length bs = length names \<and>
    (\<forall>p. p \<notin> backup_path bin ` set names \<longrightarrow> fs' p = fs p) \<and>
    list_all (backed_up bin fs fs') (zip names bs)"
  using assms
proof (induction names arbitrary: fs)
  case (Cons n names)
  let ?p = "path_join bin n" and ?b = "backup_path bin n"
  have pl: "plain_at fs ?p" "plain_at fs ?b" and ap: "names_apart bin names"
    and nb: "?p \<noteq> ?b" and fresh: "?b \<notin> backup_path bin ` set names"
    using Cons.prems by (auto simp: names_apart_def)
  obtain b fs1 where b: "backup_installed_binary bin n fs = Ok (b, fs1)"
      and bk: "backed_up bin fs fs1 (n, b)" and fr: "\<And>p. p \<noteq> ?b \<Longrightarrow> fs1 p = fs p"
  proof (cases "fs_read fs ?p")
    case None
    then show ?thesis
      using that[of None fs] by (simp add: backup_installed_binary_def Let_def fs_exists_def backed_up_def)
  next
    case (Some c)
    let ?fs0 = "fs_try (\<lambda>fs. fs_remove fs ?b) fs"
    have "?fs0 ?p = fs ?p" and fr0: "\<And>p. p \<noteq> ?b \<Longrightarrow> ?fs0 p = fs p" and "plain_at ?fs0 ?b"
      using nb pl(2) by (auto simp: fs_try_def fs_remove_def plain_at_def split: option.splits)
    then have "fs_copy ?fs0 ?p ?b = Some (?fs0(?b \<mapsto> EFile c))"
      using Some read_same_plain[OF pl(1), of ?fs0] by (simp add: fs_copy_def write_plain)
    then show ?thesis
      using that[of "Some ?b" "?fs0(?b \<mapsto> EFile c)"] Some fr0
      by (simp add: backup_installed_binary_def Let_def fs_exists_def backed_up_def)
  qed
  have "list_all (\<lambda>n. plain_at fs1 (path_join bin n) \<and> plain_at fs1 (backup_path bin n)) names"
    using Cons.prems fresh fr by (auto simp: list_all_iff names_apart_def plain_at_def image_iff)
  from Cons.IH[OF this ap] obtain bs fs' where m: "make_backups bin names fs1 = (Ok bs, fs')" "length bs = length names"
      and fr': "\<And>p. p \<notin> backup_path bin ` set names \<Longrightarrow> fs' p = fs1 p"
      and bks: "list_all (backed_up bin fs1 fs') (zip names bs)"
    by blast
  have "fs_read fs1 (path_join bin m) = fs_read fs (path_join bin m)" if "m \<in> set names" for m
    using Cons.prems that fr by (intro read_same_plain) (auto simp: list_all_iff names_apart_def)
  then have "backed_up bin fs fs' nb" if "nb \<in> set (zip names bs)" for nb
    using bks that backed_up_cong[of fs1 bin nb fs fs' fs'] by (cases nb) (auto simp: list_all_iff dest: set_zip_leftD)
  then have "list_all (backed_up bin fs fs') (zip names bs)"
    by (simp add: list_all_iff)
  moreover have "backed_up bin fs fs' (n, b)"
    using bk fr'[OF fresh] by (auto simp: backed_up_def split: option.splits)
  ultimately show ?case
    using b m fr fr' by auto
qed simp

lemma restore_all_spec:
  assumes "list_all (\<lambda>nb. plain_at fs (path_join bin (fst nb)) \<and> backed_up bin fs0 fs nb) nbs"
    and "names_apart bin (map fst nbs)"
  shows "\<exists>fs'. restore_all bin nbs fs = (True, fs') \<and>
    (\<forall>n \<in> set (map fst nbs). fs_read fs' (path_join bin n) = fs_read fs0 (path_join bin n)) \<and>
    (\<forall>p. p \<notin> path_join bin ` set (map fst nbs) \<union> backup_path bin ` set (map fst nbs) \<longrightarrow> fs' p = fs p)"
  using assms
proof (induction nbs arbitrary: fs)
  case (Cons nb nbs)
  obtain n b where nb: "nb = (n, b)" by (cases nb)
  let ?p = "path_join bin n" and ?q = "backup_path bin n"
  have pl: "plain_at fs ?p" and bk: "backed_up bin fs0 fs (n, b)" and ap: "names_apart bin (map fst nbs)"
    and pq: "?p \<noteq> ?q" and fq: "?q \<notin> backup_path bin ` set (map fst nbs)" "n \<notin> set (map fst nbs)"
    "?p \<notin> backup_path bin ` set (map fst nbs)" "?q \<notin> path_join bin ` set (map fst nbs)"
    using Cons.prems by (auto simp: nb names_apart_def)
  obtain fs1 where r: "restore_or_remove_installed_path ?p b fs = Some fs1"
      and rd: "plain_at fs1 ?p" "fs_read fs1 ?p = fs_read fs0 ?p" and fr: "\<And>x. x \<noteq> ?p \<Longrightarrow> x \<noteq> ?q \<Longrightarrow> fs1 x = fs x"
  proof (cases b)
    case None
    let ?fs1 = "fs_try (\<lambda>fs. fs_remove fs ?p) fs"
    have "plain_at ?fs1 ?p" and "fs_read ?fs1 ?p = None" and "\<And>x. x \<noteq> ?p \<Longrightarrow> ?fs1 x = fs x"
      using pl bk by (auto simp: fs_try_def fs_remove_def plain_at_def read_plain None split: option.splits)
    then show ?thesis
      using that[of ?fs1] bk by (simp add: restore_or_remove_installed_path_def None backed_up_def)
  next
    case (Some q)
    with bk obtain c where c: "q = ?q" "fs ?q = Some (EFile c)" "fs_read fs0 ?p = Some c"
      by (auto simp: backed_up_def)
    then have "fs_read fs ?q = Some c" by (simp add: read_plain plain_at_def)
    then have "restore_or_remove_installed_path ?p b fs = Some ((fs(?p \<mapsto> EFile c))(?q := None))"
      using c pl pq
      by (simp add: restore_or_remove_installed_path_def restore_installed_binary_def Some fs_copy_def write_plain
          fs_try_def fs_remove_def)
    then show ?thesis
      using that[of "(fs(?p \<mapsto> EFile c))(?q := None)"] c pq
      by (simp add: plain_at_def read_plain)
  qed
  have "list_all (\<lambda>nb. plain_at fs1 (path_join bin (fst nb)) \<and> backed_up bin fs0 fs1 nb) nbs"
    unfolding list_all_iff
  proof
    fix nb' assume nb': "nb' \<in> set nbs"
    then have m: "fst nb' \<in> set (map fst nbs)" by simp
    have "path_join bin (fst nb') \<noteq> ?p" "path_join bin (fst nb') \<noteq> ?q"
      "backup_path bin (fst nb') \<noteq> ?p" "backup_path bin (fst nb') \<noteq> ?q"
      using m fq by (metis path_join_inject, metis imageI, metis imageI, metis imageI)
    then have "fs1 (path_join bin (fst nb')) = fs (path_join bin (fst nb'))"
      and "fs (backup_path bin (fst nb')) = fs1 (backup_path bin (fst nb'))"
      using fr by simp_all
    moreover have "plain_at fs (path_join bin (fst nb')) \<and> backed_up bin fs0 fs nb'"
      using Cons.prems(1) nb' by (simp add: list_all_iff)
    ultimately show "plain_at fs1 (path_join bin (fst nb')) \<and> backed_up bin fs0 fs1 nb'"
      using backed_up_cong[OF refl, of fs bin nb' fs1 fs0] by (simp add: plain_at_def)
  qed
  from Cons.IH[OF this ap] obtain fs' where h: "restore_all bin nbs fs1 = (True, fs')"
      "\<And>m. m \<in> set (map fst nbs) \<Longrightarrow> fs_read fs' (path_join bin m) = fs_read fs0 (path_join bin m)"
      "\<And>p. p \<notin> path_join bin ` set (map fst nbs) \<union> backup_path bin ` set (map fst nbs) \<Longrightarrow> fs' p = fs1 p"
    by blast
  have "fs' ?p = fs1 ?p"
    using fq by (intro h(3)) (simp add: image_iff)
  then have "fs_read fs' ?p = fs_read fs0 ?p"
    using read_same_plain[OF rd(1), of fs'] rd(2) by simp
  then have "\<forall>m \<in> set (map fst (nb # nbs)). fs_read fs' (path_join bin m) = fs_read fs0 (path_join bin m)"
    using h(2) by (simp add: nb)
  moreover have "\<forall>x. x \<notin> path_join bin ` set (map fst (nb # nbs)) \<union> backup_path bin ` set (map fst (nb # nbs)) \<longrightarrow> fs' x = fs x"
    using h(3) fr by (simp add: nb)
  moreover have "restore_all bin (nb # nbs) fs = (True, fs')"
    using r h(1) by (simp add: nb)
  ultimately show ?case by blast
qed simp

section \<open>What the installation steps leave alone\<close>

lemma try_rename_frame: "x \<noteq> a \<Longrightarrow> x \<noteq> b \<Longrightarrow> fs_try (\<lambda>fs. fs_rename fs a b) fs x = fs x"
  by (simp add: fs_try_def fs_rename_def split: option.split)

lemma try_rename_plain:
  "\<forall>x \<in> S. plain_at fs x \<Longrightarrow> a \<in> S \<Longrightarrow> \<forall>x \<in> S. plain_at (fs_try (\<lambda>fs. fs_rename fs a b) fs) x"
  by (auto simp: fs_try_def fs_rename_def plain_at_def split: option.split)

lemma try_remove_frame: "x \<noteq> a \<Longrightarrow> fs_try (\<lambda>fs. fs_remove fs a) fs x = fs x"
  by (simp add: fs_try_def fs_remove_def split: option.split)

definition root_names :: "string list" where
  "root_names = swift_names @ [''eigeninference-enclave'']"

lemma fold_frame:
  assumes "\<And>n fs. n \<in> set ns \<Longrightarrow> f n fs x = fs x"
  shows "fold f ns fs x = fs x"
  using assms by (induction ns arbitrary: fs) auto

lemma fold_plain:
  assumes "\<And>n fs. n \<in> set ns \<Longrightarrow> \<forall>x \<in> S. plain_at fs x \<Longrightarrow> \<forall>x \<in> S. plain_at (f n fs) x" "\<forall>x \<in> S. plain_at fs x"
  shows "\<forall>x \<in> S. plain_at (fold f ns fs) x"
  using assms by (induction ns arbitrary: fs) auto

lemma move_root_files_frame:
  assumes "x \<notin> path_join dir ` set root_names" "x \<notin> path_join (path_join dir ''bin'') ` set root_names"
  shows "move_root_files dir fs x = fs x"
proof -
  have x: "x \<noteq> path_join dir n" "x \<noteq> path_join (path_join dir ''bin'') n" if "n \<in> set root_names" for n
    using assms that by auto
  let ?f = "\<lambda>name fs. if fs_exists fs (path_join dir name)
    then fs_try (\<lambda>fs. fs_rename fs (path_join dir name) (path_join (path_join dir ''bin'') name)) fs else fs"
  have "fold ?f swift_names fs x = fs x"
    using x by (intro fold_frame) (simp add: root_names_def try_rename_frame)
  then show ?thesis
    using x(1)[of "''eigeninference-enclave''"] x(2)[of "''darkbloom-enclave''"]
    by (simp add: move_root_files_def Let_def root_names_def swift_names_def try_rename_frame)
qed

lemma move_root_files_plain:
  assumes "\<forall>x \<in> S. plain_at fs x" "path_join dir ` set root_names \<subseteq> S"
  shows "\<forall>x \<in> S. plain_at (move_root_files dir fs) x"
proof -
  have r: "path_join dir n \<in> S" if "n \<in> set root_names" for n
    using assms(2) that by auto
  let ?f = "\<lambda>name fs. if fs_exists fs (path_join dir name)
    then fs_try (\<lambda>fs. fs_rename fs (path_join dir name) (path_join (path_join dir ''bin'') name)) fs else fs"
  have "\<forall>x \<in> S. plain_at (fold ?f swift_names fs) x"
    using r assms(1) by (intro fold_plain) (simp_all add: root_names_def try_rename_plain)
  then show ?thesis
    using r[of "''eigeninference-enclave''"]
    by (simp add: move_root_files_def Let_def root_names_def try_rename_plain)
qed

text \<open>A path is left as it is by the linking steps, or it is a link after them.\<close>

lemma replace_by_link_other: "replace_by_link ob t l fs = (ok, fs') \<Longrightarrow> x \<noteq> l \<Longrightarrow> fs' x = fs x"
  by (auto simp: replace_by_link_def Let_def fs_symlink_def try_remove_frame split: if_splits option.splits)

lemma replace_by_link_self: "replace_by_link ob t l fs = (True, fs') \<Longrightarrow> fs' l = Some (ELink t)"
  by (auto simp: replace_by_link_def Let_def fs_symlink_def split: if_splits option.splits)

lemma link_app_files_plain:
  "link_app_files ob app bin names fs = (True, fs') \<Longrightarrow> plain_at fs' x \<Longrightarrow> fs' x = fs x"
proof (induction names arbitrary: fs)
  case (Cons n names)
  show ?case
  proof (cases "fs_exists fs (path_join app n)")
    case True
    with Cons.prems obtain fs1 where l: "replace_by_link ob (path_join app n) (path_join bin n) fs = (True, fs1)"
        "link_app_files ob app bin names fs1 = (True, fs')"
      by (auto split: prod.splits bool.splits)
    with Cons have "fs' x = fs1 x" by blast
    with Cons.prems(2) replace_by_link_self[OF l(1)] replace_by_link_other[OF l(1)] show ?thesis
      by (cases "x = path_join bin n") (auto simp: plain_at_def)
  qed (use Cons in auto)
qed simp

lemma swift_links_plain:
  assumes "swift_links ob dir fs plist = (Ok (), fs', plist')" and "plain_at fs' x"
  shows "fs' x = fs x"
proof -
  let ?bin = "path_join dir ''bin''" and ?app = "path_join dir ''Darkbloom.app/Contents/MacOS''"
  obtain fs1 where l: "replace_by_link ob (path_join ?bin ''darkbloom-enclave'') (path_join ?bin ''eigeninference-enclave'') fs = (True, fs1)"
      and a: "(if fs_exists fs1 (path_join ?app ''darkbloom'') then link_app_files ob ?app ?bin swift_names fs1 else (True, fs1)) = (True, fs')"
    using assms(1) by (auto simp: swift_links_def Let_def split: if_splits prod.splits bool.splits sum.splits)
  from a assms(2) have "fs' x = fs1 x"
    by (auto split: if_splits intro: link_app_files_plain)
  with assms(2) replace_by_link_self[OF l] replace_by_link_other[OF l] show ?thesis
    by (cases "x = path_join ?bin ''eigeninference-enclave''") (auto simp: plain_at_def)
qed

lemma make_backups_result:
  "make_backups bin names fs = (Ok bs, fs') \<Longrightarrow> set bs \<subseteq> insert None ((\<lambda>n. Some (backup_path bin n)) ` set names)"
  by (induction names arbitrary: fs bs)
    (force simp: backup_installed_binary_def Let_def split: sum.splits prod.splits if_splits option.splits)+

lemma remove_backups_frame:
  assumes "set bs \<subseteq> insert None ((\<lambda>n. Some (backup_path bin n)) ` set names)" "x \<notin> backup_path bin ` set names"
  shows "fold remove_binary_backup bs fs x = fs x"
  using assms by (intro fold_frame) (auto simp: remove_binary_backup_def split: option.split intro!: try_remove_frame)

lemma swift_checks_ok:
  assumes "swift_checks sha256 bin info fs = Ok ()"
  shows "release_string info ''binary_hash'' \<noteq> []" "release_string info ''metallib_hash'' \<noteq> []"
    "\<exists>c. fs_read fs (path_join bin ''darkbloom'') = Some c \<and> sha256_bytes sha256 c = release_string info ''binary_hash''"
    "\<exists>c. fs_read fs (path_join bin ''mlx.metallib'') = Some c \<and> sha256_bytes sha256 c = release_string info ''metallib_hash''"
  using assms
  by (auto simp: swift_checks_def verify_update_file_hash_def Let_def split: if_splits option.splits sum.splits)

text \<open>What a successful update of the Swift kind went through.\<close>

lemma auto_update_ok:
  assumes "auto_update_check_with_install_dir sha256 ob net cur dir st = (Ok True, st')"
    and "snd (un_version net) = Some info" and "is_swift_release info"
  obtains status bytes bs fs1 fs2 fs3 plist where
    "is_newer_version cur (case json_get_as json_as_str ''version'' info of Some s \<Rightarrow> s | None \<Rightarrow> ''unknown'')"
    "un_download net = Some (status, bytes)"
    "release_string info ''bundle_hash'' \<noteq> [] \<Longrightarrow> sha256_bytes sha256 bytes = release_string info ''bundle_hash''"
    "make_backups (path_join dir ''bin'') backup_names (in_fs st) = (Ok bs, fs1)"
    "un_tar net fs1 = (Some True, fs2)"
    "install_swift_update_bundle_at sha256 ob dir info fs2 (in_plist st) = (Ok (), fs3, plist)"
    "st' = st\<lparr>in_fs := fold remove_binary_backup bs fs3, in_plist := plist\<rparr>"
  using assms
  by (auto simp: auto_update_check_with_install_dir_def Let_def
      split: if_splits option.splits prod.splits sum.splits bool.splits)

text \<open>The signature check accepts only when every library of the runtime is signed by the
  provider's own team.\<close>

lemma verify_targets_ok:
  "verify_targets run team ts = Ok () \<Longrightarrow> t \<in> set ts \<Longrightarrow>
     (\<exists>v. run ''codesign'' [''--verify'', ''--verbose'', t] = Some v \<and> co_success v) \<and>
     codesign_team_identifier run t = Ok team"
  by (induction ts)
    (auto simp: verify_target_def split: sum.splits option.splits if_splits)

lemma signature_match_ok:
  assumes "verify_python_core_signature_match run dbe pye dir lib = Ok ()"
  shows "\<exists>team. codesign_team_identifier run (path_string (dir @ [''bin'', ''darkbloom''])) = Ok team \<and>
    python_targets pye dir lib \<noteq> [] \<and>
    (\<forall>t \<in> set (python_targets pye dir lib). codesign_team_identifier run (path_string t) = Ok team)"
  using assms
  by (auto simp: verify_python_core_signature_match_def Let_def split: if_splits sum.splits)
    (metis image_eqI list.set_map verify_targets_ok)

section \<open>Properties\<close>

text \<open>C18: when an update to a Swift release reports success, the release is newer than the running version,
  the downloaded bundle has the announced hash (if one was announced), and each of \<open>bin/darkbloom\<close> and
  \<open>bin/mlx.metallib\<close> that is a file of the bin directory itself, not a link into an application
  bundle, has exactly the hash of the release metadata.\<close>

theorem update_verified_install:
  assumes "auto_update_check_with_install_dir sha256 ob net cur dir st = (Ok True, st')"
    and "snd (un_version net) = Some info" and "is_swift_release info"
    and "(name, key) \<in> {(''darkbloom'', ''binary_hash''), (''mlx.metallib'', ''metallib_hash'')}"
    and "plain_at (in_fs st') (path_join (path_join dir ''bin'') name)"
  shows "is_newer_version cur (case json_get_as json_as_str ''version'' info of Some s \<Rightarrow> s | None \<Rightarrow> ''unknown'') \<and>
    (\<exists>status bytes. un_download net = Some (status, bytes) \<and>
       (release_string info ''bundle_hash'' \<noteq> [] \<longrightarrow> sha256_bytes sha256 bytes = release_string info ''bundle_hash'')) \<and>
    (\<exists>c. in_fs st' (path_join (path_join dir ''bin'') name) = Some (EFile c) \<and>
       sha256_bytes sha256 c = release_string info key)"
proof -
  let ?bin = "path_join dir ''bin''" and ?p = "path_join (path_join dir ''bin'') name"
  from assms(1-3) obtain status bytes bs fs1 fs2 fs3 plist where u:
    "is_newer_version cur (case json_get_as json_as_str ''version'' info of Some s \<Rightarrow> s | None \<Rightarrow> ''unknown'')"
    "un_download net = Some (status, bytes)"
    "release_string info ''bundle_hash'' \<noteq> [] \<Longrightarrow> sha256_bytes sha256 bytes = release_string info ''bundle_hash''"
    and b: "make_backups ?bin backup_names (in_fs st) = (Ok bs, fs1)"
    and "un_tar net fs1 = (Some True, fs2)"
    and i: "install_swift_update_bundle_at sha256 ob dir info fs2 (in_plist st) = (Ok (), fs3, plist)"
    and st': "st' = st\<lparr>in_fs := fold remove_binary_backup bs fs3, in_plist := plist\<rparr>"
    by (rule auto_update_ok) blast
  from i have c: "swift_checks sha256 ?bin info (move_root_files dir fs2) = Ok ()"
    and l: "swift_links ob dir (move_root_files dir fs2) (in_plist st) = (Ok (), fs3, plist)"
    by (auto simp: install_swift_update_bundle_at_def Let_def split: sum.splits)
  have "?p \<notin> backup_path ?bin ` set backup_names"
    using backup_names_apart[of ?bin] assms(4) by (auto simp: names_apart_def backup_names_def)
  with st' have fin: "in_fs st' ?p = fs3 ?p"
    by (simp add: remove_backups_frame[OF make_backups_result[OF b]])
  with assms(5) have "plain_at fs3 ?p" by (simp add: plain_at_def)
  with swift_links_plain[OF l] have m: "move_root_files dir fs2 ?p = fs3 ?p" "plain_at (move_root_files dir fs2) ?p"
    by (simp_all add: plain_at_def)
  have "\<exists>c. fs_read (move_root_files dir fs2) ?p = Some c \<and> sha256_bytes sha256 c = release_string info key"
    using swift_checks_ok(3,4)[OF c] assms(4) by auto
  then show ?thesis
    using u fin m read_plain[OF m(2)] by (auto split: option.splits fs_entry.splits)
qed


section \<open>A concrete installation\<close>

text \<open>A Rust installation at \<open>d\<close>, and an archive with the three files of a Swift bundle in its
  bin directory; the digest is the content itself.\<close>

definition rust_install :: "string option \<Rightarrow> installation" where
  "rust_install plist = \<lparr>in_fs = [''d/bin/darkbloom'' \<mapsto> EFile [9], ''d/bin/eigeninference-enclave'' \<mapsto> EFile [8]],
     in_plist = plist\<rparr>"

definition sample_info :: "string \<Rightarrow> json" where
  "sample_info binary_hash = JObj [(''version'', JStr ''1.0.0''), (''download_url'', JStr ''u''),
     (''backend'', JStr ''mlx-swift''), (''bundle_hash'', JStr ''05''),
     (''binary_hash'', JStr binary_hash), (''metallib_hash'', JStr ''03'')]"

definition sample_net :: "string \<Rightarrow> (string \<times> fs_entry) list \<Rightarrow> update_net" where
  "sample_net binary_hash app = \<lparr>un_version = (200, Some (sample_info binary_hash)), un_version_ok = True,
     un_download = Some (200, [5]), un_tmp_write_ok = True,
     un_tar = (\<lambda>fs. (Some True, fs ++ map_of ([(''d/bin/darkbloom'', EFile [1]), (''d/bin/darkbloom-enclave'', EFile [2]),
        (''d/bin/mlx.metallib'', EFile [3])] @ app))),
     un_rust_verify = (\<lambda>fs. (Ok (), fs))\<rparr>"

definition all_fine :: update_obs where
  "all_fine = \<lparr>uo_chmod_ok = (\<lambda>_. True), uo_symlink_ok = (\<lambda>_. True), uo_plist_write_ok = True, uo_plist_rename_ok = True\<rparr>"

definition run_sample :: "update_obs \<Rightarrow> string \<Rightarrow> (string \<times> fs_entry) list \<Rightarrow> string option \<Rightarrow> bool result \<times> installation" where
  "run_sample ob binary_hash app plist =
     auto_update_check_with_install_dir (\<lambda>b. b) ob (sample_net binary_hash app) ''0.9.9'' ''d'' (rust_install plist)"

lemma sample_info_strings:
  "release_string (sample_info h) ''download_url'' = ''u''" "release_string (sample_info h) ''bundle_hash'' = ''05''"
  "release_string (sample_info h) ''binary_hash'' = h" "release_string (sample_info h) ''metallib_hash'' = ''03''"
  "json_get_as json_as_str ''version'' (sample_info h) = Some ''1.0.0''" "is_swift_release (sample_info h)"
  by (simp_all add: is_swift_release_def release_string_def sample_info_def json_get_as_def)

lemma sample_digits: "digit_char 0 = CHR ''0''" "digit_char (Suc 0) = CHR ''1''" "digit_char 9 = CHR ''9''"
  by code_simp+

lemma sample_newer: "is_newer_version ''0.9.9'' ''1.0.0''"
proof -
  have "''0.9.9'' = show_version (0, 9, 9)" "''1.0.0'' = show_version (1, 0, 0)"
    by (simp_all add: show_version_def show_nat.simps sample_digits)
  then show ?thesis
    by (simp add: is_newer_version_def parse_show_version version_less_def)
qed

lemma sample_hashes: "sha256_bytes (\<lambda>b. b) [5] = ''05''" "sha256_bytes (\<lambda>b. b) [1] = ''01''" "sha256_bytes (\<lambda>b. b) [3] = ''03''"
   "sha256_bytes (\<lambda>b. b) [7] = ''07''"
  by code_simp+

lemmas fs_eval = fs_exists_def fs_read_def fs_copy_def fs_write_def fs_remove_def fs_rename_def fs_symlink_def fs_try_def
  max_links_def numeral_eq_Suc

definition backed_up_install :: lfs where
  "backed_up_install = [''d/bin/darkbloom'' \<mapsto> EFile [9], ''d/bin/eigeninference-enclave'' \<mapsto> EFile [8],
     ''d/bin/darkbloom.auto-update-backup'' \<mapsto> EFile [9],
     ''d/bin/eigeninference-enclave.auto-update-backup'' \<mapsto> EFile [8]]"

lemma sample_backups:
  "make_backups ''d/bin'' backup_names (in_fs (rust_install p)) =
     (Ok [Some ''d/bin/darkbloom.auto-update-backup'', Some ''d/bin/eigeninference-enclave.auto-update-backup'', None, None],
      backed_up_install)"
  by (simp add: rust_install_def backup_names_def backup_installed_binary_def backup_path_def backup_stems
      path_join_def fs_eval backed_up_install_def Let_def)

text \<open>The state after the archive is extracted.\<close>

definition extracted :: "(string \<times> fs_entry) list \<Rightarrow> lfs" where
  "extracted app = backed_up_install ++ map_of ([(''d/bin/darkbloom'', EFile [1]), (''d/bin/darkbloom-enclave'', EFile [2]),
     (''d/bin/mlx.metallib'', EFile [3])] @ app)"

lemma sample_extract: "un_tar (sample_net h app) backed_up_install = (Some True, extracted app)"
  by (simp add: sample_net_def extracted_def)

lemma sample_install:
  "run_sample ob h app plist =
     (case install_swift_update_bundle_at (\<lambda>b. b) ob ''d'' (sample_info h) (extracted app) plist of
        (Inl e, fs3, plist') \<Rightarrow>
          (case restore_all ''d/bin'' (zip backup_names [Some ''d/bin/darkbloom.auto-update-backup'',
               Some ''d/bin/eigeninference-enclave.auto-update-backup'', None, None]) fs3 of
             (False, fs4) \<Rightarrow> (Err ''restore'', \<lparr>in_fs = fs4, in_plist = plist'\<rparr>)
           | (True, fs4) \<Rightarrow> (Err ''auto-update verification failed'', \<lparr>in_fs = fs4, in_plist = plist'\<rparr>))
      | (Inr _, fs3, plist') \<Rightarrow>
          (Ok True, \<lparr>in_fs = fold remove_binary_backup [Some ''d/bin/darkbloom.auto-update-backup'',
               Some ''d/bin/eigeninference-enclave.auto-update-backup'', None, None] fs3, in_plist = plist'\<rparr>))"
proof -
  have n: "un_version_ok (sample_net h app)" "un_version (sample_net h app) = (200, Some (sample_info h))"
    "un_download (sample_net h app) = Some (200, [5])" "un_tmp_write_ok (sample_net h app)"
    by (simp_all add: sample_net_def)
  have p: "path_join ''d'' ''bin'' = ''d/bin''" by (simp add: path_join_def)
  show ?thesis
    unfolding run_sample_def auto_update_check_with_install_dir_def
    by (simp add: n p sample_info_strings sample_newer sample_hashes sample_backups sample_extract Let_def
        split: sum.split prod.split bool.split) (auto simp: rust_install_def split: prod.split sum.split bool.split)
qed

lemma sample_moved: "move_root_files ''d'' (extracted app) = extracted app"
  if "\<forall>n \<in> set root_names. extracted app (path_join ''d'' n) = None"
  using that
  by (simp add: move_root_files_def Let_def root_names_def swift_names_def fs_exists_def fs_read_def max_links_def numeral_eq_Suc)

lemma sample_checks:
  "swift_checks (\<lambda>b. b) ''d/bin'' (sample_info h) (extracted []) =
     (if h = ''01'' then Ok () else if h = [] then Err ''Swift update metadata missing binary_hash'' else Err ''darkbloom hash mismatch'')"
  by (simp add: swift_checks_def verify_update_file_hash_def path_join_def extracted_def backed_up_install_def
      fs_eval sample_info_strings sample_hashes map_add_def)

lemma sample_links:
  "swift_links all_fine ''d'' (extracted []) None =
     (Ok (), (extracted [])(''d/bin/eigeninference-enclave'' \<mapsto> ELink ''d/bin/darkbloom-enclave''), None)"
  by (simp add: swift_links_def all_fine_def replace_by_link_def path_join_def extracted_def backed_up_install_def fs_eval map_add_def)

lemma sample_root_free: "\<forall>n \<in> set root_names. extracted [] (path_join ''d'' n) = None"
  by (simp add: root_names_def swift_names_def path_join_def extracted_def backed_up_install_def)

lemma sample_succeeds:
  "\<exists>st'. run_sample all_fine ''01'' [] None = (Ok True, st') \<and>
     plain_at (in_fs st') (path_join (path_join ''d'' ''bin'') ''darkbloom'')"
  by (simp add: sample_install install_swift_update_bundle_at_def sample_moved[OF sample_root_free] path_join_def
      sample_checks sample_links remove_binary_backup_def fs_try_def fs_remove_def plain_at_def)
    (simp add: extracted_def backed_up_install_def)

theorem update_verified_install_witness:
  "\<exists>st' c. auto_update_check_with_install_dir (\<lambda>b. b) all_fine (sample_net ''01'' []) ''0.9.9'' ''d'' (rust_install None) = (Ok True, st') \<and>
     in_fs st' (path_join (path_join ''d'' ''bin'') ''darkbloom'') = Some (EFile c) \<and> sha256_bytes (\<lambda>b. b) c = ''01''"
proof -
  obtain st' where r: "auto_update_check_with_install_dir (\<lambda>b. b) all_fine (sample_net ''01'' []) ''0.9.9'' ''d'' (rust_install None) = (Ok True, st')"
      and p: "plain_at (in_fs st') (path_join (path_join ''d'' ''bin'') ''darkbloom'')"
    using sample_succeeds by (auto simp: run_sample_def)
  have "snd (un_version (sample_net ''01'' [])) = Some (sample_info ''01'')"
    by (simp add: sample_net_def)
  from update_verified_install[OF r this sample_info_strings(6) _ p, of "''binary_hash''"] r show ?thesis
    by (auto simp: sample_info_strings)
qed


text \<open>The two gaps around these theorems, on concrete installations. With an application bundle in the
  archive the hashes of the metadata are compared with the files in \<open>bin\<close>, which links into the
  bundle then replace: the binary that runs (content 7) has another hash than the metadata (01).\<close>

definition evil_app :: "(string \<times> fs_entry) list" where
  "evil_app = [(''d/Darkbloom.app/Contents/MacOS/darkbloom'', EFile [7])]"

lemma app_checks: "swift_checks (\<lambda>b. b) ''d/bin'' (sample_info ''01'') (extracted evil_app) = Ok ()"
  by (simp add: swift_checks_def verify_update_file_hash_def path_join_def extracted_def backed_up_install_def evil_app_def
      fs_eval sample_info_strings sample_hashes map_add_def)

lemma app_root_free: "\<forall>n \<in> set root_names. extracted evil_app (path_join ''d'' n) = None"
  by (simp add: root_names_def swift_names_def path_join_def extracted_def backed_up_install_def evil_app_def)

lemma app_links:
  "swift_links all_fine ''d'' (extracted evil_app) None =
     (Ok (), (extracted evil_app)(''d/bin/eigeninference-enclave'' \<mapsto> ELink ''d/bin/darkbloom-enclave'',
        ''d/bin/darkbloom'' \<mapsto> ELink ''d/Darkbloom.app/Contents/MacOS/darkbloom''), None)"
  by (simp add: swift_links_def all_fine_def replace_by_link_def path_join_def extracted_def backed_up_install_def evil_app_def
      swift_names_def fs_eval map_add_def)

lemma app_binary_unchecked:
  "\<exists>st'. run_sample all_fine ''01'' evil_app None = (Ok True, st') \<and>
     fs_read (in_fs st') ''d/bin/darkbloom'' = Some [7] \<and> sha256_bytes (\<lambda>b. b) [7] \<noteq> ''01''"
  by (simp add: sample_install install_swift_update_bundle_at_def sample_moved[OF app_root_free] path_join_def
      app_checks app_links sample_hashes remove_binary_backup_def)
    (simp add: extracted_def backed_up_install_def evil_app_def fs_eval)

text \<open>And when the last step fails, writing the property list, the rollback writes the old helper
  through the new link and then removes what the link points to: \<open>eigeninference-enclave\<close>, which
  read as 8 before, is gone.\<close>

definition no_plist_write :: update_obs where
  "no_plist_write = all_fine\<lparr>uo_plist_write_ok := False\<rparr>"

lemma late_links:
  "\<exists>e p. swift_links no_plist_write ''d'' (extracted []) (Some []) =
     (Err e, (extracted [])(''d/bin/eigeninference-enclave'' \<mapsto> ELink ''d/bin/darkbloom-enclave''), p)"
  by (simp add: swift_links_def all_fine_def no_plist_write_def replace_by_link_def path_join_def extracted_def backed_up_install_def
      rewrite_launchd_plist_for_swift_def fs_eval map_add_def split: sum.split prod.split)

lemma late_failure_loses_helper:
  "\<exists>st'. run_sample no_plist_write ''01'' [] (Some []) = (Err ''auto-update verification failed'', st') \<and>
     fs_read (in_fs (rust_install (Some []))) ''d/bin/eigeninference-enclave'' = Some [8] \<and>
     fs_read (in_fs st') ''d/bin/eigeninference-enclave'' = None"
proof -
  obtain e p where l: "swift_links no_plist_write ''d'' (extracted []) (Some []) =
     (Err e, (extracted [])(''d/bin/eigeninference-enclave'' \<mapsto> ELink ''d/bin/darkbloom-enclave''), p)"
    using late_links by blast
  have "\<exists>fs4. restore_all ''d/bin'' (zip backup_names [Some ''d/bin/darkbloom.auto-update-backup'',
        Some ''d/bin/eigeninference-enclave.auto-update-backup'', None, None])
        ((extracted [])(''d/bin/eigeninference-enclave'' \<mapsto> ELink ''d/bin/darkbloom-enclave'')) = (True, fs4) \<and>
      fs_read fs4 ''d/bin/eigeninference-enclave'' = None"
    by (simp add: backup_names_def restore_or_remove_installed_path_def restore_installed_binary_def path_join_def
        extracted_def backed_up_install_def fs_eval)
  then show ?thesis
    by (auto simp: sample_install install_swift_update_bundle_at_def sample_moved[OF sample_root_free] path_join_def
        sample_checks l)
     (simp add: rust_install_def fs_eval)
qed

text \<open>For version strings of three decimal numbers the comparison is the numeric one, component by
  component, however many digits they have.\<close>

theorem newer_version_numeric:
  "is_newer_version (show_version (a, b, c)) (show_version (a', b', c')) \<longleftrightarrow>
     unat a < unat a' \<or> unat a = unat a' \<and> (unat b < unat b' \<or> unat b = unat b' \<and> unat c < unat c')"
  by (simp add: is_newer_version_def parse_show_version version_less_def word_less_nat_alt word_unat_eq_iff)

text \<open>A part that is not a number counts as zero, so a pre-release is older than the releases before it.\<close>

lemma prerelease_downgraded: "is_newer_version ''1.2.3-rc1'' ''1.2.2''"
proof -
  have "parse_u32 ''3-rc1'' = None"
    by (simp add: parse_u32_def parse_nat_def digit_val_def Let_def)
  moreover have "parse_u32 ''1'' = Some 1" "parse_u32 ''2'' = Some 2"
    by (simp_all add: parse_u32_def parse_nat_def digit_val_def Let_def)
  ultimately show ?thesis
    by (simp add: is_newer_version_def parse_version_def version_part_def version_less_def)
qed

end
