(* ===== verification/Service.thy ===== *)
theory Service
  imports Plist Hardware
begin

text \<open>
  The launchd user agent of \<open>service.rs\<close>: writing the property list, loading, unloading and
  removing the service. A run of an operation yields the \<open>launchctl\<close> invocations it makes, in
  order, the property list afterwards and its result. The outcome of commands and of file
  operations, the user and the home directory are the record \<open>service_env\<close>.
\<close>

record service_env =
  se_run :: cmd_env
  se_uid :: nat
  se_home :: "string option"
  se_exe :: "string option"
  se_mkdir_ok :: bool
  se_write_ok :: bool
  se_remove_ok :: bool

record service_run =
  sr_launchctl :: "string list list"
  sr_plist :: "string option"

definition plist_path :: "service_env \<Rightarrow> string" where
  "plist_path env =
     (case se_home env of None \<Rightarrow> ''/tmp'' | Some h \<Rightarrow> h) @ ''/Library/LaunchAgents/'' @ plist_label @ ''.plist''"

definition service_domain :: "service_env \<Rightarrow> string" where
  "service_domain env = ''gui/'' @ show_nat (se_uid env)"

definition service_target :: "service_env \<Rightarrow> string" where
  "service_target env = service_domain env @ ''/'' @ plist_label"

definition launchctl :: "service_env \<Rightarrow> string list \<Rightarrow> service_run \<Rightarrow> cmd_output option \<times> service_run" where
  "launchctl env args r = (se_run env ''launchctl'' args, r\<lparr>sr_launchctl := sr_launchctl r @ [args]\<rparr>)"

definition write_plist ::
  "service_env \<Rightarrow> string \<Rightarrow> string \<Rightarrow> string list \<Rightarrow> u64 option \<Rightarrow> service_run \<Rightarrow> unit result \<times> service_run" where
  "write_plist env binary_path coordinator_url models idle_timeout r =
     (let log = (case se_home env of None \<Rightarrow> [] | Some h \<Rightarrow> h @ ''/'') @ ''.darkbloom/provider.log''
      in if \<not> se_mkdir_ok env then (Err ''Failed to create ~/Library/LaunchAgents'', r)
         else if se_write_ok env
         then (Ok (), r\<lparr>sr_plist := Some (plist_text binary_path log coordinator_url models idle_timeout)\<rparr>)
         else (Err ''Failed to write launchd plist'', r))"

definition load_service :: "service_env \<Rightarrow> service_run \<Rightarrow> unit result \<times> service_run" where
  "load_service env r =
     (case launchctl env [''bootstrap'', service_domain env, plist_path env] r of
        (None, r1) \<Rightarrow> (Err ''Failed to run launchctl bootstrap'', r1)
      | (Some out, r1) \<Rightarrow>
          if \<not> co_success out \<and> \<not> str_contains (co_stderr out) ''37:'' \<and> \<not> str_contains (co_stderr out) ''already loaded''
          then (Err (''launchctl bootstrap failed: '' @ trim (co_stderr out)), r1)
          else (Ok (), snd (launchctl env [''kickstart'', service_target env] r1)))"

definition unload_service :: "service_env \<Rightarrow> service_run \<Rightarrow> unit result \<times> service_run" where
  "unload_service env r =
     (case launchctl env [''bootout'', service_target env] r of
        (None, r1) \<Rightarrow> (Err ''Failed to run launchctl bootout'', r1)
      | (Some out, r1) \<Rightarrow>
          if \<not> co_success out then
            if str_contains (co_stderr out) ''3:'' \<or> str_contains (co_stderr out) ''could not find service''
            then (Ok (), r1)
            else (Err (''launchctl bootout failed: '' @ trim (co_stderr out)), r1)
          else (Ok (), r1))"

definition is_loaded :: "service_env \<Rightarrow> service_run \<Rightarrow> bool \<times> service_run" where
  "is_loaded env r =
     (case launchctl env [''print'', service_target env] r of
        (out, r1) \<Rightarrow> (case out of Some o1 \<Rightarrow> co_success o1 | None \<Rightarrow> False, r1))"

definition is_installed :: "service_run \<Rightarrow> bool" where
  "is_installed r \<longleftrightarrow> sr_plist r \<noteq> None"

text \<open>The binary the service runs: the current executable, or the installed one where that is unknown.\<close>

definition service_binary :: "service_env \<Rightarrow> string" where
  "service_binary env =
     (case se_exe env of
        Some e \<Rightarrow> e
      | None \<Rightarrow> (case se_home env of None \<Rightarrow> [] | Some h \<Rightarrow> h @ ''/'') @ ''.darkbloom/bin/darkbloom'')"

definition install_and_start ::
  "service_env \<Rightarrow> string \<Rightarrow> string list \<Rightarrow> u64 option \<Rightarrow> service_run \<Rightarrow> unit result \<times> service_run" where
  "install_and_start env coordinator_url models idle_timeout r =
     (let binary_path = service_binary env;
          (loaded, r1) = is_loaded env r;
          (unloaded, r2) = (if loaded then unload_service env r1 else (Ok (), r1))
      in case unloaded of
           Inl e \<Rightarrow> (Err ''Failed to unload existing service'', r2)
         | Inr _ \<Rightarrow>
             (case write_plist env binary_path coordinator_url models idle_timeout r2 of
                (Inl e, r3) \<Rightarrow> (Err e, r3)
              | (Inr _, r3) \<Rightarrow>
                  (case load_service env r3 of
                     (Inl e, r4) \<Rightarrow> (Err ''Failed to load launchd service'', r4)
                   | (Inr _, r4) \<Rightarrow> (Ok (), r4))))"

definition service_stop :: "service_env \<Rightarrow> service_run \<Rightarrow> unit result \<times> service_run" where
  "service_stop env r =
     (case is_loaded env r of
        (False, r1) \<Rightarrow> (Ok (), r1)
      | (True, r1) \<Rightarrow>
          (case unload_service env r1 of
             (Inl e, r2) \<Rightarrow> (Err ''Failed to unload launchd service'', r2)
           | (Inr _, r2) \<Rightarrow> (Ok (), r2)))"

definition uninstall :: "service_env \<Rightarrow> service_run \<Rightarrow> unit result \<times> service_run" where
  "uninstall env r =
     (case service_stop env r of
        (Inl e, r1) \<Rightarrow> (Err e, r1)
      | (Inr _, r1) \<Rightarrow>
          if is_installed r1 then
            (if se_remove_ok env then (Ok (), r1\<lparr>sr_plist := None\<rparr>)
             else (Err ''Failed to remove launchd plist'', r1))
          else (Ok (), r1))"

section \<open>Properties\<close>

text \<open>Starting succeeds only with the property list in place and after it was loaded and started;
  a running instance is stopped first.\<close>

lemma unload_service_log:
  "sr_launchctl (snd (unload_service env r)) = sr_launchctl r @ [[''bootout'', service_target env]]"
  by (simp add: unload_service_def launchctl_def split: option.split)

lemma is_loaded_log:
  "sr_launchctl (snd (is_loaded env r)) = sr_launchctl r @ [[''print'', service_target env]]"
  by (simp add: is_loaded_def launchctl_def)

lemma write_plist_ok:
  assumes "write_plist env binary url models idle r = (Ok (), r')"
  shows "sr_launchctl r' = sr_launchctl r \<and> (\<exists>log. sr_plist r' = Some (plist_text binary log url models idle))"
  using assms by (auto simp: write_plist_def Let_def split: if_splits)

lemma load_service_ok:
  assumes "load_service env r = (Ok (), r')"
  shows "sr_plist r' = sr_plist r \<and> sr_launchctl r' = sr_launchctl r @
    [[''bootstrap'', service_domain env, plist_path env], [''kickstart'', service_target env]]"
  using assms by (auto simp: load_service_def launchctl_def split: option.splits if_splits)

lemma install_and_start_ok:
  assumes "install_and_start env url models idle r = (Ok (), r')"
  shows "(\<exists>log. sr_plist r' = Some (plist_text (service_binary env) log url models idle)) \<and>
    sr_launchctl r' = sr_launchctl r @ [[''print'', service_target env]] @
      (if fst (is_loaded env r) then [[''bootout'', service_target env]] else []) @
      [[''bootstrap'', service_domain env, plist_path env], [''kickstart'', service_target env]]"
proof -
  obtain loaded r1 where l: "is_loaded env r = (loaded, r1)" by fastforce
  obtain un r2 where u: "(if loaded then unload_service env r1 else (Ok (), r1)) = (un, r2)" by fastforce
  have log2: "sr_launchctl r2 = sr_launchctl r @ [[''print'', service_target env]] @
      (if loaded then [[''bootout'', service_target env]] else [])"
    using is_loaded_log[of env r] unload_service_log[of env r1] l u by (auto split: if_splits)
  obtain r3 where w: "write_plist env (service_binary env) url models idle r2 = (Ok (), r3)"
      and ls: "load_service env r3 = (Ok (), r')"
    using assms l u by (auto simp: install_and_start_def Let_def split: sum.splits prod.splits)
  show ?thesis
    using write_plist_ok[OF w] load_service_ok[OF ls] log2 l by auto
qed

lemma uninstall_ok:
  assumes "uninstall env r = (Ok (), r')"
  shows "\<not> is_installed r'"
  using assms by (auto simp: uninstall_def is_installed_def split: sum.splits prod.splits if_splits)

end
