(* ===== verification/ManualUpdate.thy ===== *)
theory ManualUpdate
  imports Update Service
begin

text \<open>
  \<open>darkbloom update\<close> (\<open>cmd_update\<close>) and the restart after an automatic update
  (\<open>auto_update_restart\<close>), both of \<open>provider/src/main.rs\<close>. The network, the archive and the
  verification of the installed runtime are those of the automatic update; the service is that
  of \<open>service.rs\<close>, whose property list is the one of the installation. Unlike the automatic
  update, the command makes no backups.
\<close>

section \<open>Restarting the service\<close>

text \<open>The property list in the user's home; without a home directory the path is relative, and whether
  there is a file is an observation.\<close>

definition agent_plist :: "service_env \<Rightarrow> string" where
  "agent_plist env = (case se_home env of None \<Rightarrow> [] | Some h \<Rightarrow> h @ ''/'') @ ''Library/LaunchAgents/io.darkbloom.provider.plist''"

definition restart_service :: "service_env \<Rightarrow> bool \<Rightarrow> service_run \<Rightarrow> unit result \<times> service_run" where
  "restart_service env relative_exists r =
     (case service_stop env r of
        (Inl e, r1) \<Rightarrow> (Err e, r1)
      | (Inr _, r1) \<Rightarrow>
          if (case se_home env of None \<Rightarrow> relative_exists | Some _ \<Rightarrow> is_installed r1)
          then (Ok (), snd (launchctl env [''kickstart'', service_target env]
                 (snd (launchctl env [''bootstrap'', service_domain env, agent_plist env] r1))))
          else (Ok (), r1))"

datatype restart_outcome = Reexecuted string "string list" | RestartFailed string | ServiceRestarted

definition no_nul :: "string \<Rightarrow> bool" where
  "no_nul s \<longleftrightarrow> CHR 0x00 \<notin> set s"

definition auto_update_restart ::
  "service_env \<Rightarrow> bool \<Rightarrow> bool \<Rightarrow> string list \<Rightarrow> service_run \<Rightarrow> restart_outcome \<times> service_run" where
  "auto_update_restart env relative_exists execv_ok args r =
     (case is_loaded env r of
        (False, r1) \<Rightarrow>
          (case se_exe env of
             None \<Rightarrow> (RestartFailed ''cannot find executable'', r1)
           | Some exe \<Rightarrow>
               if \<not> no_nul exe then (RestartFailed ''invalid executable path'', r1)
               else if execv_ok then (Reexecuted exe (map (\<lambda>a. if no_nul a then a else []) args), r1)
               else (RestartFailed ''execv failed'', r1))
      | (True, r1) \<Rightarrow>
          (case restart_service env relative_exists r1 of
             (Inl e, r2) \<Rightarrow> (RestartFailed e, r2)
           | (Inr _, r2) \<Rightarrow> (ServiceRestarted, r2)))"

section \<open>The command\<close>

datatype update_end = UpToDate | ManualInstall | Updated string

record manual_update =
  mu_installation :: installation
  mu_launchctl :: "string list list"

definition latest_version :: "json \<Rightarrow> string" where
  "latest_version info = (case json_get_as json_as_str ''version'' info of Some s \<Rightarrow> s | None \<Rightarrow> ''unknown'')"

text \<open>Putting the extracted release in place.\<close>

definition install_release ::
  "(bytes \<Rightarrow> bytes) \<Rightarrow> update_obs \<Rightarrow> update_net \<Rightarrow> string \<Rightarrow> json \<Rightarrow> installation \<Rightarrow> unit result \<times> installation" where
  "install_release sha256 ob net dir info st =
     (if is_swift_release info
      then (case install_swift_update_bundle_at sha256 ob dir info (in_fs st) (in_plist st) of
              (r, fs, plist) \<Rightarrow> (r, st\<lparr>in_fs := fs, in_plist := plist\<rparr>))
      else (case install_rust_update ob net dir (in_fs st) of
              Inl (r, fs) \<Rightarrow> (r, st\<lparr>in_fs := fs\<rparr>)
            | Inr (e, fs) \<Rightarrow> (Err e, st\<lparr>in_fs := fs\<rparr>)))"

definition restart_after_update ::
  "service_env \<Rightarrow> bool \<Rightarrow> manual_update \<Rightarrow> unit result \<times> manual_update" where
  "restart_after_update env relative_exists st =
     (let r = \<lparr>sr_launchctl = mu_launchctl st, sr_plist = in_plist (mu_installation st)\<rparr> in
      case is_loaded env r of
        (False, r1) \<Rightarrow> (Ok (), st\<lparr>mu_launchctl := sr_launchctl r1\<rparr>)
      | (True, r1) \<Rightarrow>
          (case restart_service env relative_exists r1 of
             (res, r2) \<Rightarrow> (res, st\<lparr>mu_launchctl := sr_launchctl r2\<rparr>)))"

definition fetch_release ::
  "(bytes \<Rightarrow> bytes) \<Rightarrow> update_net \<Rightarrow> json \<Rightarrow> unit result" where
  "fetch_release sha256 net info =
     (case un_download net of
        None \<Rightarrow> Err ''request failed''
      | Some (status, bytes) \<Rightarrow>
          if \<not> (200 \<le> status \<and> status < 300) then Err ''Download failed''
          else if \<not> un_tmp_write_ok net then Err ''write''
          else if release_string info ''bundle_hash'' \<noteq> [] \<and> sha256_bytes sha256 bytes \<noteq> release_string info ''bundle_hash''
          then Err ''Bundle hash mismatch'' else Ok ())"

definition cmd_update ::
  "(bytes \<Rightarrow> bytes) \<Rightarrow> update_obs \<Rightarrow> update_net \<Rightarrow> service_env \<Rightarrow> bool \<Rightarrow> string \<Rightarrow> bool \<Rightarrow> manual_update
   \<Rightarrow> update_end result \<times> manual_update" where
  "cmd_update sha256 ob net env relative_exists current_version force st =
     (if \<not> un_version_ok net then (Err ''Could not reach coordinator'', st)
      else if \<not> (200 \<le> fst (un_version net) \<and> fst (un_version net) < 300) then (Err ''Coordinator returned an error'', st)
      else case snd (un_version net) of
        None \<Rightarrow> (Err ''invalid JSON'', st)
      | Some info \<Rightarrow>
          let latest = latest_version info in
          if \<not> force \<and> (latest = current_version \<or> \<not> is_newer_version current_version latest) then (Ok UpToDate, st)
          else if release_string info ''download_url'' = [] then (Ok ManualInstall, st)
          else case fetch_release sha256 net info of
            Inl e \<Rightarrow> (Err e, st)
          | Inr _ \<Rightarrow>
              (case se_home env of
                 None \<Rightarrow> (Err ''cannot find home directory'', st)
               | Some h \<Rightarrow>
                   let dir = h @ ''/.darkbloom''; inst = mu_installation st in
                   (case un_tar net (in_fs inst) of
                      (None, fs) \<Rightarrow> (Err ''failed to run tar'', st\<lparr>mu_installation := inst\<lparr>in_fs := fs\<rparr>\<rparr>)
                    | (Some False, fs) \<Rightarrow> (Err ''tar extraction failed'', st\<lparr>mu_installation := inst\<lparr>in_fs := fs\<rparr>\<rparr>)
                    | (Some True, fs) \<Rightarrow>
                        (case install_release sha256 ob net dir info (inst\<lparr>in_fs := fs\<rparr>) of
                           (Inl e, inst1) \<Rightarrow> (Err e, st\<lparr>mu_installation := inst1\<rparr>)
                         | (Inr _, inst1) \<Rightarrow>
                             (case restart_after_update env relative_exists (st\<lparr>mu_installation := inst1\<rparr>) of
                                (Inl e, st2) \<Rightarrow> (Err e, st2)
                              | (Inr _, st2) \<Rightarrow> (Ok (Updated latest), st2))))))"

section \<open>Properties\<close>

lemma restart_keeps_installation:
  "restart_after_update env rel st = (r, st') \<Longrightarrow> mu_installation st' = mu_installation st"
  by (auto simp: restart_after_update_def Let_def split: prod.splits bool.splits)

text \<open>What an update that reports success has checked: the release is newer, unless forced; the archive has
  the hash the coordinator named, if it named one; the release was installed with its own checks, and
  the installation is left as that step left it.\<close>

theorem manual_update_verified:
  assumes "cmd_update sha256 ob net env rel cur force st = (Ok (Updated v), st')"
  shows "\<exists>info status bytes h fs inst. snd (un_version net) = Some info \<and> v = latest_version info \<and>
    (force \<or> v \<noteq> cur \<and> is_newer_version cur v) \<and>
    un_download net = Some (status, bytes) \<and>
    (release_string info ''bundle_hash'' \<noteq> [] \<longrightarrow> sha256_bytes sha256 bytes = release_string info ''bundle_hash'') \<and>
    se_home env = Some h \<and> un_tar net (in_fs (mu_installation st)) = (Some True, fs) \<and>
    install_release sha256 ob net (h @ ''/.darkbloom'') info ((mu_installation st)\<lparr>in_fs := fs\<rparr>) = (Ok (), inst) \<and>
    mu_installation st' = inst"
proof -
  obtain info where info: "snd (un_version net) = Some info"
    using assms by (auto simp: cmd_update_def split: if_splits option.splits)
  have go: "force \<or> latest_version info \<noteq> cur \<and> is_newer_version cur (latest_version info)"
    and f: "fetch_release sha256 net info = Ok ()"
    using assms info by (auto simp: cmd_update_def Let_def split: if_splits sum.splits)
  obtain h where h: "se_home env = Some h"
    using assms info f by (auto simp: cmd_update_def Let_def split: if_splits option.splits)
  obtain fs where t: "un_tar net (in_fs (mu_installation st)) = (Some True, fs)"
    using assms info f h by (auto simp: cmd_update_def Let_def split: if_splits option.splits prod.splits bool.splits)
  obtain inst where i: "install_release sha256 ob net (h @ ''/.darkbloom'') info ((mu_installation st)\<lparr>in_fs := fs\<rparr>) = (Ok (), inst)"
      and v: "v = latest_version info" and r: "restart_after_update env rel (st\<lparr>mu_installation := inst\<rparr>) = (Ok (), st')"
    using assms info f h t by (auto simp: cmd_update_def Let_def split: if_splits prod.splits sum.splits)
  have "\<exists>status bytes. un_download net = Some (status, bytes) \<and>
      (release_string info ''bundle_hash'' \<noteq> [] \<longrightarrow> sha256_bytes sha256 bytes = release_string info ''bundle_hash'')"
    using f by (auto simp: fetch_release_def split: option.splits if_splits prod.splits)
  with info go h t i v restart_keeps_installation[OF r] show ?thesis by auto
qed

text \<open>Restarting after an automatic update replaces the process by the same program with the same arguments
  when it does not run under launchd; otherwise the service is stopped, and loaded and started again
  when its property list is there.\<close>

theorem auto_update_restart_outcome:
  assumes "auto_update_restart env rel execv_ok args r = (out, r')" and "list_all no_nul args"
  shows "case out of
      Reexecuted exe args' \<Rightarrow> \<not> fst (is_loaded env r) \<and> se_exe env = Some exe \<and> args' = args \<and> sr_plist r' = sr_plist r
    | ServiceRestarted \<Rightarrow> fst (is_loaded env r) \<and>
        (sr_plist r \<noteq> None \<and> se_home env \<noteq> None \<longrightarrow> (\<exists>calls. sr_launchctl r' = calls @
          [[''bootstrap'', service_domain env, agent_plist env], [''kickstart'', service_target env]]))
    | RestartFailed _ \<Rightarrow> sr_plist r' = sr_plist r"
proof -
  obtain loaded r1 where l: "is_loaded env r = (loaded, r1)" by fastforce
  have p: "sr_plist r1 = sr_plist r" using l by (auto simp: is_loaded_def launchctl_def)
  have a: "map (\<lambda>a. if no_nul a then a else []) args = args"
    using assms(2) by (induction args) simp_all
  show ?thesis
  proof (cases loaded)
    case False
    with assms(1) l p a show ?thesis
      by (auto simp: auto_update_restart_def split: option.splits if_splits)
  next
    case True
    obtain s r2 where s: "service_stop env r1 = (s, r2)" by fastforce
    have p2: "sr_plist r2 = sr_plist r1"
      using s by (auto simp: service_stop_def is_loaded_def unload_service_def launchctl_def
          split: option.splits if_splits bool.splits prod.splits sum.splits)
    with assms(1) l p True s show ?thesis
      by (auto simp: auto_update_restart_def restart_service_def launchctl_def is_installed_def split: sum.splits if_splits option.splits)
  qed
qed

section \<open>Witnesses and observations\<close>

text \<open>A release of the old kind whose runtime fails its verification after the new binary is in place.\<close>

definition manual_net :: "unit result \<Rightarrow> update_net" where
  "manual_net verdict = \<lparr>un_version = (200, Some (JObj [(''version'', JStr ''1.0.0''), (''download_url'', JStr ''u'')])), un_version_ok = True,
     un_download = Some (200, [5]), un_tmp_write_ok = True,
     un_tar = (\<lambda>fs. (Some True, fs(''h/.darkbloom/bin/darkbloom'' \<mapsto> EFile [1]))), un_rust_verify = (\<lambda>fs. (verdict, fs))\<rparr>"

definition stopped_service :: service_env where
  "stopped_service = \<lparr>se_run = (\<lambda>_ _. None), se_uid = 501, se_home = Some ''h'', se_exe = Some ''/b'', se_mkdir_ok = True,
     se_write_ok = True, se_remove_ok = True\<rparr>"

definition old_installation :: manual_update where
  "old_installation = \<lparr>mu_installation = \<lparr>in_fs = [''h/.darkbloom/bin/darkbloom'' \<mapsto> EFile [9]], in_plist = None\<rparr>, mu_launchctl = []\<rparr>"

lemma manual_sample:
  "\<exists>st. cmd_update (\<lambda>b. b) all_fine (manual_net verdict) stopped_service False ''0.9.9'' False old_installation =
     (case verdict of Inl e \<Rightarrow> Err e | Inr _ \<Rightarrow> Ok (Updated ''1.0.0''), st) \<and>
     in_fs (mu_installation st) ''h/.darkbloom/bin/darkbloom'' = Some (EFile [1])"
proof -
  let ?info = "JObj [(''version'', JStr ''1.0.0''), (''download_url'', JStr ''u'')]"
  have i: "latest_version ?info = ''1.0.0''" "release_string ?info ''download_url'' = ''u''" "release_string ?info ''bundle_hash'' = []"
      "\<not> is_swift_release ?info"
    by (simp_all add: latest_version_def release_string_def is_swift_release_def json_get_as_def)
  have n: "snd (un_version (manual_net verdict)) = Some ?info" "fst (un_version (manual_net verdict)) = 200" "un_version_ok (manual_net verdict)"
      "fetch_release (\<lambda>b. b) (manual_net verdict) ?info = Ok ()"
    by (simp_all add: manual_net_def fetch_release_def i)
  let ?fs = "[''h/.darkbloom/bin/darkbloom'' \<mapsto> EFile [1]] :: lfs"
  have t: "un_tar (manual_net verdict) (in_fs (mu_installation old_installation)) = (Some True, ?fs)"
    by (simp add: manual_net_def old_installation_def)
  have r: "install_release (\<lambda>b. b) all_fine (manual_net verdict) ''h/.darkbloom'' ?info \<lparr>in_fs = ?fs, in_plist = None\<rparr> =
      (verdict, \<lparr>in_fs = ?fs, in_plist = None\<rparr>)"
    by (simp add: install_release_def i install_rust_update_def all_fine_def path_join_def fs_eval manual_net_def Let_def)
  show ?thesis
    by (simp add: cmd_update_def n i sample_newer stopped_service_def t) 
      (auto simp: old_installation_def r restart_after_update_def is_loaded_def launchctl_def Let_def split: sum.split)
qed

theorem manual_update_verified_witness:
  "\<exists>st inst. cmd_update (\<lambda>b. b) all_fine (manual_net (Ok ())) stopped_service False ''0.9.9'' False old_installation = (Ok (Updated ''1.0.0''), st) \<and>
     mu_installation st = inst \<and> is_newer_version ''0.9.9'' ''1.0.0''"
proof -
  obtain st where s: "cmd_update (\<lambda>b. b) all_fine (manual_net (Ok ())) stopped_service False ''0.9.9'' False old_installation = (Ok (Updated ''1.0.0''), st)"
    using manual_sample[of "Ok ()"] by auto
  from manual_update_verified[OF s] s show ?thesis by auto
qed

theorem auto_update_restart_outcome_witness:
  "\<exists>r'. auto_update_restart stopped_service False True [''darkbloom'', ''serve''] \<lparr>sr_launchctl = [], sr_plist = None\<rparr> =
     (Reexecuted ''/b'' [''darkbloom'', ''serve''], r')"
proof -
  obtain out r' where a: "auto_update_restart stopped_service False True [''darkbloom'', ''serve''] \<lparr>sr_launchctl = [], sr_plist = None\<rparr> = (out, r')"
    by fastforce
  have n: "list_all no_nul [''darkbloom'', ''serve'']" by (simp add: no_nul_def)
  have "\<exists>exe args. out = Reexecuted exe args"
    using a by (auto simp: auto_update_restart_def is_loaded_def launchctl_def stopped_service_def no_nul_def)
  with auto_update_restart_outcome[OF a n] a show ?thesis by (auto simp: stopped_service_def)
qed

text \<open>No rollback: when the runtime fails its verification the command reports the error and leaves the
  binary of the release in place, without a backup of the old one.\<close>

lemma manual_update_no_rollback:
  "\<exists>st. cmd_update (\<lambda>b. b) all_fine (manual_net (Err e)) stopped_service False ''0.9.9'' False old_installation = (Err e, st) \<and>
     in_fs (mu_installation st) ''h/.darkbloom/bin/darkbloom'' = Some (EFile [1]) \<and>
     in_fs (mu_installation old_installation) ''h/.darkbloom/bin/darkbloom'' = Some (EFile [9])"
  using manual_sample[of "Err e"] by (auto simp: old_installation_def)

end
