(* ===== verification/Picker.thy ===== *)
theory Picker
  imports FloatArith
begin

text \<open>
  The model picker of \<open>darkbloom start\<close> (\<open>run_model_picker\<close> in \<open>provider/src/main.rs\<close>): a
  cursor and one flag per entry, driven by key events, with a memory budget. The terminal is
  the list of events it delivers; what is drawn is the list of rows, without their formatting.
  Raw mode is a flag of the state.
\<close>

record picker_entry =
  pe_display :: string
  pe_size_gb :: f64
  pe_downloaded :: bool

datatype key_code = KeyUp | KeyDown | KeySpace | KeyEnter | KeyQuit | KeyEsc | KeyOther

text \<open>A key press, any other event of the terminal, or a failed read.\<close>

datatype pick_event = Press key_code | OtherEvent | ReadFailed

record picker =
  pk_cursor :: nat
  pk_selected :: "bool list"
  pk_raw_mode :: bool

datatype pick_outcome =
    Picked "nat list"
  | PickErr string
  | PickPanic
  | PickWaiting

definition first_downloaded :: "picker_entry list \<Rightarrow> nat option" where
  "first_downloaded entries =
     (case filter (\<lambda>i. pe_downloaded (entries ! i)) [0..<length entries] of [] \<Rightarrow> None | i # _ \<Rightarrow> Some i)"

definition picker_init :: "picker_entry list \<Rightarrow> picker" where
  "picker_init entries =
     (let sel = replicate (length entries) False in
      \<lparr>pk_cursor = 0,
       pk_selected = (case first_downloaded entries of None \<Rightarrow> sel | Some i \<Rightarrow> sel[i := True]),
       pk_raw_mode = True\<rparr>)"

definition os_reserve :: f64 where
  "os_reserve = f64_of_nat 4"

definition picker_budget :: "f64 \<Rightarrow> f64" where
  "picker_budget memory_gb = f64_sub memory_gb os_reserve"

definition selected_indices :: "bool list \<Rightarrow> nat list" where
  "selected_indices sel = filter (\<lambda>i. sel ! i) [0..<length sel]"

definition used_gb :: "picker_entry list \<Rightarrow> bool list \<Rightarrow> f64" where
  "used_gb entries sel = f64_sum (map (\<lambda>i. pe_size_gb (entries ! i)) (selected_indices sel))"

text \<open>Space on an entry. An index outside the entries stops the program.\<close>

definition toggle :: "picker_entry list \<Rightarrow> f64 \<Rightarrow> picker \<Rightarrow> picker option" where
  "toggle entries budget p =
     (let c = pk_cursor p; sel = pk_selected p in
      if c \<ge> length sel then None
      else if sel ! c then Some (p\<lparr>pk_selected := sel[c := False]\<rparr>)
      else if f64_le (f64_add (used_gb entries sel) (pe_size_gb (entries ! c))) budget
      then Some (p\<lparr>pk_selected := sel[c := True]\<rparr>)
      else Some p)"

text \<open>The cursor moves; \<open>entries.len() - 1\<close> wraps on an empty list.\<close>

definition cursor_down :: "picker_entry list \<Rightarrow> picker \<Rightarrow> picker" where
  "cursor_down entries p =
     (if pk_cursor p < unat (word_of_nat (length entries) - 1 :: u64) then p\<lparr>pk_cursor := pk_cursor p + 1\<rparr> else p)"

definition cursor_up :: "picker \<Rightarrow> picker" where
  "cursor_up p = (if pk_cursor p > 0 then p\<lparr>pk_cursor := pk_cursor p - 1\<rparr> else p)"

fun pick_loop :: "picker_entry list \<Rightarrow> f64 \<Rightarrow> pick_event list \<Rightarrow> picker \<Rightarrow> pick_outcome \<times> picker" where
  "pick_loop entries budget [] p = (PickWaiting, p)"
| "pick_loop entries budget (ReadFailed # evs) p = (PickErr ''event read failed'', p)"
| "pick_loop entries budget (OtherEvent # evs) p = pick_loop entries budget evs p"
| "pick_loop entries budget (Press KeyUp # evs) p = pick_loop entries budget evs (cursor_up p)"
| "pick_loop entries budget (Press KeyDown # evs) p = pick_loop entries budget evs (cursor_down entries p)"
| "pick_loop entries budget (Press KeySpace # evs) p =
     (case toggle entries budget p of None \<Rightarrow> (PickPanic, p) | Some p' \<Rightarrow> pick_loop entries budget evs p')"
| "pick_loop entries budget (Press KeyEnter # evs) p =
     (if list_ex id (pk_selected p)
      then (Picked (selected_indices (pk_selected p)), p\<lparr>pk_raw_mode := False\<rparr>)
      else pick_loop entries budget evs p)"
| "pick_loop entries budget (Press KeyQuit # evs) p = (PickErr ''Cancelled'', p\<lparr>pk_raw_mode := False\<rparr>)"
| "pick_loop entries budget (Press KeyEsc # evs) p = (PickErr ''Cancelled'', p\<lparr>pk_raw_mode := False\<rparr>)"
| "pick_loop entries budget (Press KeyOther # evs) p = pick_loop entries budget evs p"

definition run_model_picker :: "picker_entry list \<Rightarrow> f64 \<Rightarrow> pick_event list \<Rightarrow> pick_outcome \<times> picker" where
  "run_model_picker entries memory_gb evs =
     pick_loop entries (picker_budget memory_gb) evs (picker_init entries)"

section \<open>What is drawn\<close>

text \<open>A row shows an entry, whether the cursor is on it, its check mark and the warning that it does
  not fit. The rows of the downloaded entries come first; the position is counted over the rows.\<close>

record picker_row =
  row_entry :: picker_entry
  row_cursor :: bool
  row_checked :: bool
  row_wont_fit :: bool

definition picker_row_of :: "picker_entry list \<Rightarrow> f64 \<Rightarrow> picker \<Rightarrow> nat \<times> picker_entry \<Rightarrow> picker_row" where
  "picker_row_of entries budget p ie =
     (case ie of (idx, e) \<Rightarrow>
        let remaining = f64_sub budget (used_gb entries (pk_selected p)) in
        \<lparr>row_entry = e, row_cursor = (idx = pk_cursor p), row_checked = pk_selected p ! idx,
         row_wont_fit = (\<not> pe_downloaded e \<and> \<not> pk_selected p ! idx \<and> f64_gt (pe_size_gb e) remaining)\<rparr>)"

definition picker_rows :: "picker_entry list \<Rightarrow> f64 \<Rightarrow> picker \<Rightarrow> picker_row list" where
  "picker_rows entries budget p =
     map (picker_row_of entries budget p)
       (enumerate 0 (filter pe_downloaded entries @ filter (\<lambda>e. \<not> pe_downloaded e) entries))"

text \<open>The lines of a drawing, which the next one moves back over.\<close>

definition picker_lines :: "picker_entry list \<Rightarrow> u16" where
  "picker_lines entries =
     (let downloaded = length (filter pe_downloaded entries); available = length entries - downloaded in
      3 + (if downloaded > 0 then 1 + word_of_nat downloaded else 0) +
      (if available > 0 then (if downloaded > 0 then 1 else 0) + 1 + word_of_nat available else 0))"

section \<open>Lemmas\<close>

lemma nth_update: "j < length xs \<Longrightarrow> xs[i := v] ! j = (if i = j then v else xs ! j)"
  by (cases "i < length xs") (auto simp: nth_list_update)

definition picker_wf :: "picker_entry list \<Rightarrow> picker \<Rightarrow> bool" where
  "picker_wf entries p \<longleftrightarrow> pk_cursor p < length entries \<and> length (pk_selected p) = length entries"

lemma first_downloaded_less: "first_downloaded entries = Some i \<Longrightarrow> i < length entries \<and> pe_downloaded (entries ! i)"
proof -
  assume "first_downloaded entries = Some i"
  then have "i \<in> set (filter (\<lambda>i. pe_downloaded (entries ! i)) [0..<length entries])"
    by (cases "filter (\<lambda>i. pe_downloaded (entries ! i)) [0..<length entries]") (simp_all add: first_downloaded_def)
  then show ?thesis by simp
qed

lemma picker_init_wf: "entries \<noteq> [] \<Longrightarrow> picker_wf entries (picker_init entries)"
  by (simp add: picker_wf_def picker_init_def Let_def split: option.split)

lemma cursor_wf:
  assumes "picker_wf entries p" "length entries < 2 ^ 64"
  shows "picker_wf entries (cursor_up p)" "picker_wf entries (cursor_down entries p)"
proof -
  have "unat (word_of_nat (length entries) - 1 :: u64) = length entries - 1"
    using assms by (subst unat_sub_u64) (simp_all add: unat_of_nat_u64 picker_wf_def)
  then show "picker_wf entries (cursor_up p)" "picker_wf entries (cursor_down entries p)"
    using assms by (auto simp: picker_wf_def cursor_up_def cursor_down_def)
qed

lemma toggle_wf:
  assumes "picker_wf entries p"
  shows "\<exists>p'. toggle entries budget p = Some p' \<and> picker_wf entries p'"
  using assms by (simp add: toggle_def picker_wf_def Let_def)

text \<open>The keys of a run keep every property that moving and toggling keep, and the flags at the end are
  the result.\<close>

lemma pick_loop_induct:
  assumes "I p" and "\<And>p. I p \<Longrightarrow> I (cursor_up p)" and "\<And>p. I p \<Longrightarrow> I (cursor_down entries p)"
    and "\<And>p p'. I p \<Longrightarrow> toggle entries budget p = Some p' \<Longrightarrow> I p'"
    and "pick_loop entries budget evs p = (Picked is, p')"
  shows "\<exists>q. I q \<and> is = selected_indices (pk_selected q) \<and> list_ex id (pk_selected q) \<and> pk_selected p' = pk_selected q"
  using assms
  by (induction entries budget evs p rule: pick_loop.induct) (auto split: if_splits option.splits)

lemma set_selected_indices: "set (selected_indices sel) = {i. i < length sel \<and> sel ! i}"
  by (auto simp: selected_indices_def)

lemma picked_in_range:
  assumes "run_model_picker entries memory_gb evs = (Picked is, p)" and "i \<in> set is"
  shows "i < length entries"
proof -
  have "\<exists>q :: picker. length (pk_selected q) = length entries \<and> is = selected_indices (pk_selected q) \<and> list_ex id (pk_selected q) \<and>
      pk_selected p = pk_selected q"
  proof (rule pick_loop_induct[where I = "\<lambda>p. length (pk_selected p) = length entries"])
    show "pick_loop entries (picker_budget memory_gb) evs (picker_init entries) = (Picked is, p)"
      using assms(1) by (simp add: run_model_picker_def)
  qed (auto simp: picker_init_def cursor_up_def cursor_down_def toggle_def Let_def split: option.splits if_splits)
  with assms(2) show ?thesis by (auto simp: set_selected_indices)
qed

text \<open>Sums over the selected entries, as the program computes them and as numbers.\<close>

definition whole_sizes :: "picker_entry list \<Rightarrow> nat list \<Rightarrow> bool" where
  "whole_sizes entries ns \<longleftrightarrow> map pe_size_gb entries = map f64_of_nat ns \<and> sum_list ns < 2 ^ 53"

definition selected_sum :: "nat list \<Rightarrow> bool list \<Rightarrow> nat" where
  "selected_sum ns sel = (\<Sum>i | i < length sel \<and> sel ! i. ns ! i)"

lemma selected_sum_list: "selected_sum ns sel = sum_list (map ((!) ns) (selected_indices sel))"
proof -
  have "distinct (selected_indices sel)" by (simp add: selected_indices_def)
  then show ?thesis
    by (simp add: selected_sum_def sum_list_distinct_conv_sum_set set_selected_indices)
qed

lemma selected_sum_le: "length sel = length ns \<Longrightarrow> selected_sum ns sel \<le> sum_list ns"
proof -
  assume "length sel = length ns"
  then have "selected_sum ns sel \<le> (\<Sum>i<length ns. ns ! i)"
    unfolding selected_sum_def by (intro sum_mono2) auto
  then show ?thesis by (simp add: sum_list_sum_nth atLeast0LessThan)
qed

lemma selected_sum_update:
  assumes "c < length sel" "\<not> sel ! c"
  shows "selected_sum ns (sel[c := True]) = selected_sum ns sel + ns ! c"
proof -
  have "{i. i < length (sel[c := True]) \<and> sel[c := True] ! i} = insert c {i. i < length sel \<and> sel ! i}"
    using assms by (auto simp: nth_list_update)
  then show ?thesis using assms by (simp add: selected_sum_def)
qed

lemma selected_sum_clear:
  "c < length sel \<Longrightarrow> selected_sum ns (sel[c := False]) \<le> selected_sum ns sel"
  unfolding selected_sum_def by (intro sum_mono2) (auto simp: nth_list_update split: if_splits)

lemma used_gb_whole:
  assumes "whole_sizes entries ns" "length sel = length entries"
  shows "used_gb entries sel =
    (if selected_indices sel = [] then f64_neg f64_zero else f64_of_nat (selected_sum ns sel))"
proof -
  have n: "length ns = length entries"
    using assms(1) by (metis whole_sizes_def length_map)
  have "pe_size_gb (entries ! i) = f64_of_nat (ns ! i)" if "i < length entries" for i
    using assms(1) that n by (metis whole_sizes_def nth_map)
  then have m: "map (\<lambda>i. pe_size_gb (entries ! i)) (selected_indices sel) = map f64_of_nat (map ((!) ns) (selected_indices sel))"
    using assms(2) by (auto simp: set_selected_indices)
  have "sum_list (map ((!) ns) (selected_indices sel)) < 2 ^ 53"
    using selected_sum_le[of sel ns] assms n unfolding selected_sum_list whole_sizes_def by simp
  then show ?thesis
    unfolding used_gb_def m by (simp add: f64_sum_whole selected_sum_list del: map_map)
qed

text \<open>The test of a selecting toggle is the test on numbers.\<close>

lemma budget_test_whole:
  assumes "whole_sizes entries ns" "length sel = length entries" "c < length entries" "\<not> sel ! c" "m < 2 ^ 53"
  shows "f64_le (f64_add (used_gb entries sel) (pe_size_gb (entries ! c))) (f64_of_nat m) \<longleftrightarrow>
    selected_sum ns sel + ns ! c \<le> m"
proof -
  have n: "length ns = length entries"
    using assms(1) by (metis whole_sizes_def length_map)
  have e: "pe_size_gb (entries ! c) = f64_of_nat (ns ! c)"
    using assms(1,3) n by (metis whole_sizes_def nth_map)
  have s: "selected_sum ns sel + ns ! c < 2 ^ 53"
    using selected_sum_update[of c sel ns] selected_sum_le[of "sel[c := True]" ns] assms n
    by (simp add: whole_sizes_def)
  have c: "ns ! c < 2 ^ 53" using s by simp
  have "f64_add (used_gb entries sel) (f64_of_nat (ns ! c)) = f64_of_nat (selected_sum ns sel + ns ! c)"
  proof (cases "selected_indices sel = []")
    case True
    then have "selected_sum ns sel = 0" by (simp add: selected_sum_list)
    with True c show ?thesis by (simp add: used_gb_whole[OF assms(1,2)] f64_add_from_zero)
  next
    case False
    with s show ?thesis by (simp add: used_gb_whole[OF assms(1,2)] f64_add_whole)
  qed
  then show ?thesis using s assms(5) by (simp add: e f64_le_whole)
qed

text \<open>Within the budget, or nothing selected but the entry selected at the start.\<close>

definition budget_inv :: "picker_entry list \<Rightarrow> nat list \<Rightarrow> nat \<Rightarrow> picker \<Rightarrow> bool" where
  "budget_inv entries ns budget p \<longleftrightarrow> length (pk_selected p) = length entries \<and>
     (selected_sum ns (pk_selected p) \<le> budget \<or>
      (\<forall>i < length entries. pk_selected p ! i \<longrightarrow> first_downloaded entries = Some i))"

lemma budget_inv_init: "budget_inv entries ns budget (picker_init entries)"
  by (auto simp: budget_inv_def picker_init_def Let_def nth_update split: option.split if_splits)

lemma budget_inv_cursor:
  "budget_inv entries ns budget p \<Longrightarrow> budget_inv entries ns budget (cursor_up p)"
  "budget_inv entries ns budget p \<Longrightarrow> budget_inv entries ns budget (cursor_down entries p)"
  by (simp_all add: budget_inv_def cursor_up_def cursor_down_def)

lemma toggle_budget_inv:
  assumes "whole_sizes entries ns" "budget_inv entries ns budget p"
    and "toggle entries (f64_of_nat budget) p = Some p'" "budget < 2 ^ 53"
  shows "budget_inv entries ns budget p'"
proof -
  let ?c = "pk_cursor p" and ?sel = "pk_selected p"
  have len: "length ?sel = length entries" using assms(2) by (simp add: budget_inv_def)
  have c: "?c < length ?sel" using assms(3) by (simp add: toggle_def Let_def split: if_splits)
  show ?thesis
  proof (cases "?sel ! ?c")
    case True
    with assms(3) c have p': "p' = p\<lparr>pk_selected := ?sel[?c := False]\<rparr>" by (simp add: toggle_def Let_def)
    have "selected_sum ns (?sel[?c := False]) \<le> selected_sum ns ?sel" by (rule selected_sum_clear[OF c])
    with assms(2) show ?thesis by (auto simp: budget_inv_def p' nth_update split: if_splits)
  next
    case False
    with assms(3) c budget_test_whole[OF assms(1) len _ False assms(4)] len
    have "p' = p \<or> p' = p\<lparr>pk_selected := ?sel[?c := True]\<rparr> \<and> selected_sum ns ?sel + ns ! ?c \<le> budget"
      by (simp add: toggle_def Let_def split: if_splits)
    then show ?thesis
      using assms(2) selected_sum_update[OF c False] len by (auto simp: budget_inv_def)
  qed
qed

section \<open>Properties\<close>

text \<open>A confirmed choice is a non-empty, strictly ascending list of positions of entries, the terminal is
  out of raw mode, and the picker never indexes outside the entries.\<close>

theorem picker_confirms:
  assumes "entries \<noteq> []" "length entries < 2 ^ 64"
  shows "case run_model_picker entries memory_gb evs of
      (Picked is, p) \<Rightarrow> is \<noteq> [] \<and> sorted_wrt (<) is \<and> (\<forall>i \<in> set is. i < length entries) \<and> \<not> pk_raw_mode p
    | (PickErr e, p) \<Rightarrow> pk_raw_mode p \<longleftrightarrow> e = ''event read failed''
    | (PickPanic, _) \<Rightarrow> False
    | (PickWaiting, p) \<Rightarrow> pk_raw_mode p"
proof -
  have "picker_wf entries p \<and> pk_raw_mode p \<Longrightarrow>
    (case pick_loop entries budget evs p of
      (Picked is, p) \<Rightarrow> is \<noteq> [] \<and> sorted_wrt (<) is \<and> (\<forall>i \<in> set is. i < length entries) \<and> \<not> pk_raw_mode p
    | (PickErr e, p) \<Rightarrow> pk_raw_mode p \<longleftrightarrow> e = ''event read failed''
    | (PickPanic, _) \<Rightarrow> False
    | (PickWaiting, p) \<Rightarrow> pk_raw_mode p)" for budget p
    using assms(2)
  proof (induction entries budget evs p rule: pick_loop.induct)
    case (4 entries budget evs p)
    then show ?case using cursor_wf[of entries p] by (simp add: cursor_up_def)
  next
    case (5 entries budget evs p)
    then show ?case using cursor_wf[of entries p] by (simp add: cursor_down_def)
  next
    case (6 entries budget evs p)
    obtain p' where t: "toggle entries budget p = Some p'" "picker_wf entries p'"
      using toggle_wf 6 by blast
    moreover have "pk_raw_mode p'" using t(1) 6 by (auto simp: toggle_def Let_def split: if_splits)
    ultimately show ?case using 6 by simp
  next
    case (7 entries budget evs p)
    show ?case
    proof (cases "list_ex id (pk_selected p)")
      case True
      then have "set (selected_indices (pk_selected p)) \<noteq> {}"
        unfolding set_selected_indices by (auto simp: list_ex_iff in_set_conv_nth)
      then have "selected_indices (pk_selected p) \<noteq> []" by auto
      moreover have "sorted_wrt (<) (selected_indices (pk_selected p))"
        unfolding selected_indices_def by (intro sorted_wrt_filter) simp
      ultimately show ?thesis using True 7(2) by (auto simp: set_selected_indices picker_wf_def)
    next
      case False
      with 7 show ?thesis by simp
    qed
  qed simp_all
  from this[of "picker_init entries" "picker_budget memory_gb"] show ?thesis
    using picker_init_wf[OF assms(1)] by (simp add: run_model_picker_def) (simp add: picker_init_def Let_def)
qed

text \<open>C38: The memory budget, for whole sizes, where \<open>f64\<close> arithmetic is exact: a confirmed choice fits into
  the memory less four gigabytes, or it is the single model selected at the start, which is not
  checked.\<close>

theorem picker_within_budget:
  assumes "run_model_picker entries (f64_of_nat m) evs = (Picked is, p)" "whole_sizes entries ns"
    and "4 \<le> m" "m < 2 ^ 53"
  shows "sum_list (map ((!) ns) is) \<le> m - 4 \<or> (\<exists>i. first_downloaded entries = Some i \<and> is = [i])"
proof -
  have b: "picker_budget (f64_of_nat m) = f64_of_nat (m - 4)"
    using assms(3,4) by (simp add: picker_budget_def os_reserve_def f64_sub_whole)
  have "\<exists>q. budget_inv entries ns (m - 4) q \<and> is = selected_indices (pk_selected q) \<and> list_ex id (pk_selected q) \<and>
      pk_selected p = pk_selected q"
  proof (rule pick_loop_induct[where I = "budget_inv entries ns (m - 4)", OF budget_inv_init])
    show "pick_loop entries (f64_of_nat (m - 4)) evs (picker_init entries) = (Picked is, p)"
      using assms(1) by (simp add: run_model_picker_def b)
  qed (use budget_inv_cursor toggle_budget_inv[OF assms(2)] assms(4) in simp_all)
  then obtain q where q: "budget_inv entries ns (m - 4) q" "is = selected_indices (pk_selected q)" "list_ex id (pk_selected q)"
    by blast
  show ?thesis
  proof (cases "selected_sum ns (pk_selected q) \<le> m - 4")
    case False
    then have "\<forall>i \<in> set is. first_downloaded entries = Some i"
      using q(1) by (simp add: q(2) set_selected_indices budget_inv_def)
    moreover have "set is \<noteq> {}"
      using q(3) unfolding q(2) set_selected_indices by (auto simp: list_ex_iff in_set_conv_nth)
    moreover have "distinct is" by (simp add: q(2) selected_indices_def)
    ultimately show ?thesis by (cases "is" rule: remdups_adj.cases) auto
  qed (simp add: q(2) selected_sum_list)
qed

text \<open>What is drawn agrees with what the keys change when the downloaded entries come first: row \<open>i\<close> shows
  entry \<open>i\<close> with its own check mark.\<close>

theorem picker_rows_aligned:
  assumes "sorted (map (\<lambda>e. \<not> pe_downloaded e) entries)" "i < length entries"
  shows "picker_rows entries budget p ! i = picker_row_of entries budget p (i, entries ! i) \<and>
    length (picker_rows entries budget p) = length entries"
proof -
  have "filter pe_downloaded es @ filter (\<lambda>e. \<not> pe_downloaded e) es = es"
    if "sorted (map (\<lambda>e. \<not> pe_downloaded e) es)" for es
    using that
  proof (induction es)
    case (Cons e es)
    show ?case
    proof (cases "pe_downloaded e")
      case False
      with Cons.prems have "filter pe_downloaded es = []" "filter (\<lambda>e. \<not> pe_downloaded e) es = es"
        by (auto simp: filter_empty_conv intro!: filter_True)
      with False show ?thesis by simp
    qed (use Cons in simp)
  qed simp
  from this[OF assms(1)] assms(2) show ?thesis
    unfolding picker_rows_def by (simp add: nth_enumerate_eq del: filter_append)
qed

section \<open>Witnesses and observations\<close>

definition demo_entry :: "nat \<Rightarrow> bool \<Rightarrow> picker_entry" where
  "demo_entry gb downloaded = \<lparr>pe_display = ''m'', pe_size_gb = f64_of_nat gb, pe_downloaded = downloaded\<rparr>"

definition demo_entries :: "picker_entry list" where
  "demo_entries = [demo_entry 10 True, demo_entry 5 False]"

lemma demo_whole: "whole_sizes demo_entries [10, 5]"
  by (simp add: whole_sizes_def demo_entries_def demo_entry_def)

theorem picker_confirms_witness:
  "demo_entries \<noteq> [] \<and> length demo_entries < 2 ^ 64 \<and>
   (case run_model_picker demo_entries (f64_of_nat 16) [Press KeyEnter] of (PickPanic, _) \<Rightarrow> False | _ \<Rightarrow> True)"
proof -
  have d: "demo_entries \<noteq> []" "length demo_entries < 2 ^ 64" by (simp_all add: demo_entries_def)
  show ?thesis
    using picker_confirms[OF d, of "f64_of_nat 16" "[Press KeyEnter]"] d
    by (auto split: pick_outcome.splits prod.splits)
qed

lemma demo_confirms: "fst (run_model_picker demo_entries m [Press KeyEnter]) = Picked [0]"
  by (simp add: run_model_picker_def picker_init_def first_downloaded_def demo_entries_def demo_entry_def
      selected_indices_def upt_rec)

theorem picker_within_budget_witness:
  "\<exists>is p. run_model_picker demo_entries (f64_of_nat 16) [Press KeyEnter] = (Picked is, p) \<and>
     (sum_list (map ((!) [10 :: nat, 5]) is) \<le> 16 - 4 \<or> (\<exists>i. first_downloaded demo_entries = Some i \<and> is = [i]))"
proof -
  obtain p where "run_model_picker demo_entries (f64_of_nat 16) [Press KeyEnter] = (Picked [0], p)"
    using demo_confirms by (metis prod.collapse)
  from picker_within_budget[OF this demo_whole] this show ?thesis by auto
qed

theorem picker_rows_aligned_witness:
  "row_entry (picker_rows demo_entries f64_zero (picker_init demo_entries) ! 1) = demo_entry 5 False"
proof -
  have "sorted (map (\<lambda>e. \<not> pe_downloaded e) demo_entries)" "1 < length demo_entries"
    by (simp_all add: demo_entries_def demo_entry_def)
  from picker_rows_aligned[OF this] show ?thesis
    by (simp add: picker_row_of_def Let_def demo_entries_def)
qed

text \<open>The model selected at the start is not held against the budget: on a machine of 8 gigabytes the
  first downloaded model of 10 is confirmed.\<close>

lemma preselection_unchecked:
  "fst (run_model_picker demo_entries (f64_of_nat 8) [Press KeyEnter]) = Picked [0] \<and> 8 - 4 < [10, 5 :: nat] ! 0"
  by (simp add: demo_confirms)

text \<open>A failed read of the terminal leaves it in raw mode.\<close>

lemma read_failure_leaves_raw_mode:
  "pk_raw_mode (snd (run_model_picker entries m [ReadFailed]))"
  by (simp add: run_model_picker_def picker_init_def Let_def)

end
