(* ===== verification/Start.thy ===== *)
theory Start
  imports Picker Download Service Models
begin

text \<open>
  \<open>darkbloom start\<close> and \<open>darkbloom stop\<close> (\<open>cmd_start\<close> and \<open>cmd_stop\<close> in
  \<open>provider/src/main.rs\<close>): what runs is stopped, the catalog and the models on disk become the
  entries of the picker, the chosen models that are missing are downloaded, and the launchd
  service is installed for exactly the chosen models. Printed lines are left out.
\<close>

section \<open>Stopping\<close>

definition parse_i32 :: "string \<Rightarrow> int option" where
  "parse_i32 s =
     (case (case s of
              c # cs \<Rightarrow> if c = CHR ''-'' then (if cs = [] then None else map_option (\<lambda>n. - int n) (parse_digits 0 cs))
                        else map_option int (parse_nat s)
            | [] \<Rightarrow> None) of
        None \<Rightarrow> None
      | Some i \<Rightarrow> if - (2 ^ 31) \<le> i \<and> i < 2 ^ 31 then Some i else None)"

text \<open>The signals sent by the program itself and its calls of \<open>pkill\<close>.\<close>

datatype stop_signal = TermPid int | ProbePid int | PkillMatching string

record stop_obs =
  sp_env :: service_env
  sp_read_caffeinate :: bool
  sp_read_pid :: bool
  sp_remove_caffeinate :: bool
  sp_remove_pid :: bool
  sp_kill :: "int \<Rightarrow> bool"
  sp_alive :: "nat \<Rightarrow> bool"

record stop_state =
  ss_service :: service_run
  ss_caffeinate :: "string option"
  ss_pid :: "string option"
  ss_signals :: "stop_signal list"

definition emit_signals :: "stop_signal list \<Rightarrow> stop_state \<Rightarrow> stop_state" where
  "emit_signals sigs st = st\<lparr>ss_signals := ss_signals st @ sigs\<rparr>"

definition stop_caffeinate :: "stop_obs \<Rightarrow> stop_state \<Rightarrow> stop_state" where
  "stop_caffeinate ob st =
     (case ss_caffeinate st of
        None \<Rightarrow> st
      | Some text \<Rightarrow>
          let sigs = (if sp_read_caffeinate ob then (case parse_i32 (trim text) of Some pid \<Rightarrow> [TermPid pid] | None \<Rightarrow> []) else [])
          in (emit_signals sigs st)\<lparr>ss_caffeinate := (if sp_remove_caffeinate ob then None else Some text)\<rparr>)"

text \<open>At most ten looks, half a second apart, whether the process is gone.\<close>

fun stop_probes :: "(nat \<Rightarrow> bool) \<Rightarrow> nat \<Rightarrow> nat \<Rightarrow> nat" where
  "stop_probes alive 0 k = 0"
| "stop_probes alive (Suc n) k = (if alive k then Suc (stop_probes alive n (Suc k)) else 1)"

definition stop_legacy :: "stop_obs \<Rightarrow> stop_state \<Rightarrow> unit result \<times> stop_state" where
  "stop_legacy ob st =
     (case ss_pid st of
        None \<Rightarrow> (Ok (), st)
      | Some text \<Rightarrow>
          if \<not> sp_read_pid ob then (Err ''cannot read the PID file'', st)
          else
            let sigs = (case parse_i32 (trim text) of
                  None \<Rightarrow> []
                | Some pid \<Rightarrow>
                    TermPid pid # (if sp_kill ob pid then replicate (stop_probes (sp_alive ob) 10 0) (ProbePid pid) else []))
            in (Ok (), (emit_signals sigs st)\<lparr>ss_pid := (if sp_remove_pid ob then None else Some text)\<rparr>))"

definition cmd_stop :: "stop_obs \<Rightarrow> stop_state \<Rightarrow> unit result \<times> stop_state" where
  "cmd_stop ob st =
     (case is_loaded (sp_env ob) (ss_service st) of
        (loaded, r1) \<Rightarrow>
          (case (if loaded then service_stop (sp_env ob) r1 else (Ok (), r1)) of
             (Inl e, r2) \<Rightarrow> (Err e, st\<lparr>ss_service := r2\<rparr>)
           | (Inr _, r2) \<Rightarrow>
               (case stop_legacy ob (stop_caffeinate ob (st\<lparr>ss_service := r2\<rparr>)) of
                  (Inl e, st3) \<Rightarrow> (Err e, st3)
                | (Inr _, st3) \<Rightarrow> (Ok (), emit_signals [PkillMatching ''mlx_lm.server'', PkillMatching ''vllm_mlx''] st3))))"

section \<open>The entries of the picker\<close>

record picker_item =
  it_id :: string
  it_display :: string
  it_size_gb :: f64
  it_downloaded :: bool
  it_s3_name :: string
  it_model_type :: string

text \<open>The answer to a HEAD request: its status and its content length.\<close>

type_synonym head_reply = "(nat \<times> u64 option) option"

definition on_disk :: "model_info list \<Rightarrow> string \<Rightarrow> model_info option" where
  "on_disk downloaded model_id = List.find (\<lambda>m. mi_id m = model_id) downloaded"

text \<open>The expected size of a model on disk; the status of the answer is not looked at.\<close>

definition cdn_size :: "(string \<Rightarrow> head_reply) \<Rightarrow> model_info list \<Rightarrow> catalog_model \<Rightarrow> (string \<times> u64) option" where
  "cdn_size head downloaded c =
     (case on_disk downloaded (cm_id c) of
        None \<Rightarrow> None
      | Some _ \<Rightarrow> (case head (default_r2_cdn_url @ ''/'' @ cm_s3_name c @ ''/model.safetensors'') of
            Some (_, Some len) \<Rightarrow> Some (cm_id c, len)
          | _ \<Rightarrow> None))"

definition cdn_sizes :: "(string \<Rightarrow> head_reply) \<Rightarrow> model_info list \<Rightarrow> catalog_model list \<Rightarrow> (string \<times> u64) list" where
  "cdn_sizes head downloaded catalog = rev (List.map_filter (cdn_size head downloaded) catalog)"

definition is_downloaded :: "(string \<times> u64) list \<Rightarrow> model_info list \<Rightarrow> catalog_model \<Rightarrow> bool" where
  "is_downloaded sizes downloaded c =
     (case on_disk downloaded (cm_id c) of
        None \<Rightarrow> False
      | Some m \<Rightarrow> (case map_of sizes (cm_id c) of
            Some expected \<Rightarrow> mi_size_bytes m \<ge> expected
          | None \<Rightarrow> mi_size_bytes m > 500000000))"

definition picker_item_of :: "(string \<times> u64) list \<Rightarrow> model_info list \<Rightarrow> catalog_model \<Rightarrow> picker_item" where
  "picker_item_of sizes downloaded c =
     (let d = is_downloaded sizes downloaded c in
      \<lparr>it_id = cm_id c, it_display = cm_display_name c,
       it_size_gb = (if d then (case on_disk downloaded (cm_id c) of Some m \<Rightarrow> mi_estimated_memory_gb m | None \<Rightarrow> cm_size_gb c)
                     else cm_size_gb c),
       it_downloaded = d, it_s3_name = cm_s3_name c, it_model_type = cm_model_type c\<rparr>)"

definition fits_machine :: "hardware_info \<Rightarrow> catalog_model \<Rightarrow> bool" where
  "fits_machine hw c \<longleftrightarrow> f64_le (f64_of_int (sint (cm_min_ram_gb c))) (f64_of_nat (unat (memory_gb hw)))"

definition f64_partial_cmp :: "f64 \<Rightarrow> f64 \<Rightarrow> ordering option" where
  "f64_partial_cmp x y = (if f64_is_nan x \<or> f64_is_nan y then None else Some (ord_cmp (f64_key x) (f64_key y)))"

definition item_cmp :: "picker_item \<Rightarrow> picker_item \<Rightarrow> ordering" where
  "item_cmp a b =
     then_with (ord_cmp (it_downloaded b) (it_downloaded a))
       (case f64_partial_cmp (it_size_gb b) (it_size_gb a) of Some o1 \<Rightarrow> o1 | None \<Rightarrow> OEqual)"

definition picker_items ::
  "hardware_info \<Rightarrow> (string \<times> u64) list \<Rightarrow> model_info list \<Rightarrow> catalog_model list \<Rightarrow> picker_item list" where
  "picker_items hw sizes downloaded catalog =
     sort_by item_cmp (map (picker_item_of sizes downloaded)
       (filter (fits_machine hw) (filter (\<lambda>c. cm_model_type c = ''text'') catalog)))"

definition entry_of_item :: "picker_item \<Rightarrow> picker_entry" where
  "entry_of_item i = \<lparr>pe_display = it_display i, pe_size_gb = it_size_gb i, pe_downloaded = it_downloaded i\<rparr>"

section \<open>Starting\<close>

record start_obs =
  ts_stop :: stop_obs
  ts_hardware :: "hardware_info result"
  ts_sha256 :: "bytes \<Rightarrow> bytes"
  ts_from_str :: json_parser
  ts_models :: model_fs
  ts_get :: "string \<Rightarrow> http_json"
  ts_head :: "string \<Rightarrow> head_reply"
  ts_events :: "pick_event list"
  ts_cdn :: cdn_env
  ts_home :: "string option"
  ts_mkdir_ok :: "string \<Rightarrow> bool"

record start_state =
  tt_stop :: stop_state
  tt_files :: files

datatype start_outcome = Started "string list" | StartErr string | StartPanic | StartWaiting

text \<open>The chosen models that are not on disk are downloaded, in order; the first failure ends the start.\<close>

fun download_chosen :: "start_obs \<Rightarrow> picker_item list \<Rightarrow> files \<Rightarrow> unit result \<times> files" where
  "download_chosen ob [] fs = (Ok (), fs)"
| "download_chosen ob (item # items) fs =
     (if it_downloaded item then download_chosen ob items fs
      else
        let dir = model_cache_dir (ts_home ob) (it_id item) in
        if \<not> ts_mkdir_ok ob dir then (Err ''cannot create the cache directory'', fs)
        else case download_model_from_cdn (ts_cdn ob) (it_s3_name item) dir fs of
          (False, fs1) \<Rightarrow> (Err (''Failed to download '' @ it_display item), fs1)
        | (True, fs1) \<Rightarrow> download_chosen ob items fs1)"

definition downloaded_models :: "start_obs \<Rightarrow> model_info list" where
  "downloaded_models ob =
     (case default_hf_cache_dir (ts_models ob) of
        Some d \<Rightarrow> scan_models_in_dir (ts_sha256 ob) (ts_from_str ob) (ts_models ob) d (- 1)
      | None \<Rightarrow> [])"

definition choose_models ::
  "start_obs \<Rightarrow> hardware_info \<Rightarrow> catalog_model list \<Rightarrow> files \<Rightarrow> start_outcome \<times> files" where
  "choose_models ob hw catalog fs =
     (let downloaded = downloaded_models ob;
          items = picker_items hw (cdn_sizes (ts_head ob) downloaded catalog) downloaded catalog
      in if items = [] then (StartErr ''No supported models fit in RAM'', fs)
         else case fst (run_model_picker (map entry_of_item items) (f64_of_nat (unat (memory_gb hw))) (ts_events ob)) of
           PickErr e \<Rightarrow> (StartErr e, fs)
         | PickPanic \<Rightarrow> (StartPanic, fs)
         | PickWaiting \<Rightarrow> (StartWaiting, fs)
         | Picked is \<Rightarrow>
             (case download_chosen ob (map ((!) items) is) fs of
                (Inl e, fs1) \<Rightarrow> (StartErr e, fs1)
              | (Inr _, fs1) \<Rightarrow> (Started (map (\<lambda>i. it_id (items ! i)) is), fs1)))"

definition start_service ::
  "start_obs \<Rightarrow> string \<Rightarrow> string list \<Rightarrow> u64 option \<Rightarrow> start_state \<Rightarrow> start_outcome \<times> start_state" where
  "start_service ob coordinator_url models idle_timeout st =
     (if models = [] then (StartErr ''No models selected'', st)
      else case install_and_start (sp_env (ts_stop ob)) coordinator_url models idle_timeout (ss_service (tt_stop st)) of
        (Inl e, r) \<Rightarrow> (StartErr e, st\<lparr>tt_stop := (tt_stop st)\<lparr>ss_service := r\<rparr>\<rparr>)
      | (Inr _, r) \<Rightarrow> (Started models, st\<lparr>tt_stop := (tt_stop st)\<lparr>ss_service := r\<rparr>\<rparr>))"

definition cmd_start ::
  "start_obs \<Rightarrow> string \<Rightarrow> string option \<Rightarrow> u64 option \<Rightarrow> start_state \<Rightarrow> start_outcome \<times> start_state" where
  "cmd_start ob coordinator_url model_override idle_timeout st0 =
     (case cmd_stop (ts_stop ob) (tt_stop st0) of
        (Inl e, s) \<Rightarrow> (StartErr e, st0\<lparr>tt_stop := s\<rparr>)
      | (Inr _, s) \<Rightarrow>
          let st1 = st0\<lparr>tt_stop := s\<rparr> in
          case ts_hardware ob of
            Inl e \<Rightarrow> (StartErr e, st1)
          | Inr hw \<Rightarrow>
              let catalog = fetch_catalog (ts_get ob) coordinator_url in
              if catalog = [] then (StartErr ''Could not fetch model catalog from coordinator'', st1)
              else case (case model_override of
                    Some m \<Rightarrow> (Started [m], tt_files st1)
                  | None \<Rightarrow> choose_models ob hw catalog (tt_files st1)) of
                (Started models, fs) \<Rightarrow> start_service ob coordinator_url models idle_timeout (st1\<lparr>tt_files := fs\<rparr>)
              | (out, fs) \<Rightarrow> (out, st1\<lparr>tt_files := fs\<rparr>))"

section \<open>Lemmas\<close>

lemma set_insert_by: "set (insert_by cmp x ys) = insert x (set ys)"
  by (induction ys) auto

lemma set_sort_by: "set (sort_by cmp xs) = set xs"
  by (induction xs) (simp_all add: sort_by_def set_insert_by)

lemma insert_by_key_sorted:
  fixes f :: "'a \<Rightarrow> 'b::linorder"
  assumes "\<And>a b. cmp a b = then_with (ord_cmp (f a) (f b)) (g a b)" and "sorted (map f ys)"
  shows "sorted (map f (insert_by cmp x ys))"
  using assms(2)
proof (induction ys)
  case (Cons y ys)
  have "cmp x y = OGreater \<Longrightarrow> f y \<le> f x" "cmp x y \<noteq> OGreater \<Longrightarrow> f x \<le> f y"
    unfolding assms(1) by (auto simp: then_with_def split: if_splits ordering.splits)
  with Cons show ?case by (force simp: set_insert_by)
qed simp

lemma sort_by_key_sorted:
  fixes f :: "'a \<Rightarrow> 'b::linorder"
  assumes "\<And>a b. cmp a b = then_with (ord_cmp (f a) (f b)) (g a b)"
  shows "sorted (map f (sort_by cmp xs))"
  by (induction xs) (simp_all add: sort_by_def insert_by_key_sorted[OF assms])

lemma items_downloaded_first:
  "sorted (map (\<lambda>e. \<not> pe_downloaded e) (map entry_of_item (picker_items hw sizes downloaded catalog)))"
proof -
  have "item_cmp a b = then_with (ord_cmp (\<not> it_downloaded a) (\<not> it_downloaded b))
      (case f64_partial_cmp (it_size_gb b) (it_size_gb a) of Some o1 \<Rightarrow> o1 | None \<Rightarrow> OEqual)" for a b
    by (auto simp: item_cmp_def ord_cmp_def)
  from sort_by_key_sorted[of item_cmp "\<lambda>i. \<not> it_downloaded i", OF this] show ?thesis
    by (simp add: picker_items_def entry_of_item_def comp_def)
qed

lemma items_from_catalog:
  assumes "i \<in> set (picker_items hw sizes downloaded catalog)"
  obtains c where "c \<in> set catalog" "i = picker_item_of sizes downloaded c" "cm_model_type c = ''text''" "fits_machine hw c"
  using assms by (auto simp: picker_items_def set_sort_by)

lemma download_chosen_split:
  assumes "download_chosen ob items fs = (Ok (), fs')" and "item \<in> set items" and "\<not> it_downloaded item"
  shows "\<exists>before after fs1 fs2. items = before @ item # after \<and> download_chosen ob before fs = (Ok (), fs1) \<and>
    download_model_from_cdn (ts_cdn ob) (it_s3_name item) (model_cache_dir (ts_home ob) (it_id item)) fs1 = (True, fs2) \<and>
    download_chosen ob after fs2 = (Ok (), fs')"
  using assms
proof (induction items arbitrary: fs)
  case (Cons x xs)
  obtain fs1 where step: "download_chosen ob [x] fs = (Ok (), fs1)" and rest: "download_chosen ob xs fs1 = (Ok (), fs')"
    using Cons.prems(1) by (auto simp: Let_def split: if_splits prod.splits bool.splits)
  have one: "x = item \<Longrightarrow>
      download_model_from_cdn (ts_cdn ob) (it_s3_name item) (model_cache_dir (ts_home ob) (it_id item)) fs = (True, fs1)"
    using step Cons.prems(3) by (auto simp: Let_def split: if_splits prod.splits bool.splits)
  have more: "download_chosen ob (x # ys) fs = download_chosen ob ys fs1" for ys
    using step by (auto simp: Let_def split: if_splits prod.splits bool.splits)
  show ?case
  proof (cases "x = item")
    case True
    with one rest show ?thesis by (intro exI[of _ "[]"] exI[of _ xs] exI[of _ fs] exI[of _ fs1]) simp
  next
    case False
    with Cons.IH[OF rest _ Cons.prems(3)] Cons.prems(2) obtain before after fs2 fs3 where
      "xs = before @ item # after" "download_chosen ob before fs1 = (Ok (), fs2)"
      "download_model_from_cdn (ts_cdn ob) (it_s3_name item) (model_cache_dir (ts_home ob) (it_id item)) fs2 = (True, fs3)"
      "download_chosen ob after fs3 = (Ok (), fs')"
      by auto
    then show ?thesis using more
      by (intro exI[of _ "x # before"] exI[of _ after] exI[of _ fs2] exI[of _ fs3]) simp
  qed
qed simp

lemma stop_probes_le: "stop_probes alive n k \<le> n"
  by (induction alive n k rule: stop_probes.induct) auto

lemma start_service_ok:
  assumes "start_service ob url models idle st = (Started models', st')"
  shows "models' = models \<and> models \<noteq> [] \<and> tt_files st' = tt_files st \<and>
    (\<exists>r. install_and_start (sp_env (ts_stop ob)) url models idle (ss_service (tt_stop st)) = (Ok (), r) \<and> ss_service (tt_stop st') = r)"
  using assms by (auto simp: start_service_def split: if_splits prod.splits sum.splits)

text \<open>A start that succeeds ends with the installation of the service for the models it reports.\<close>

lemma cmd_start_installs:
  assumes "cmd_start ob url override idle st0 = (Started models, st)"
  shows "models \<noteq> [] \<and> (\<exists>log. sr_plist (ss_service (tt_stop st)) = Some (plist_text (service_binary (sp_env (ts_stop ob))) log url models idle))"
proof -
  obtain ms st1 where "start_service ob url ms idle st1 = (Started models, st)"
    using assms by (auto simp: cmd_start_def Let_def split: prod.splits sum.splits if_splits start_outcome.splits)
  then show ?thesis using start_service_ok install_and_start_ok by metis
qed

section \<open>Properties\<close>


text \<open>A stop that succeeds sends at most two terminations and ten probes, ends with the two calls of
  \<open>pkill\<close>, and signals no process but those the two PID files name.\<close>

theorem stop_signals_recorded:
  assumes "cmd_stop ob st = (Ok (), st')" and "ss_signals st = []"
  shows "\<exists>sigs. ss_signals st' = sigs @ [PkillMatching ''mlx_lm.server'', PkillMatching ''vllm_mlx''] \<and> length sigs \<le> 12 \<and>
    (\<forall>s \<in> set sigs. case s of
        TermPid pid \<Rightarrow> (\<exists>text. (ss_caffeinate st = Some text \<or> ss_pid st = Some text) \<and> parse_i32 (trim text) = Some pid)
      | ProbePid pid \<Rightarrow> TermPid pid \<in> set sigs \<and> sp_kill ob pid
      | PkillMatching _ \<Rightarrow> False)"
proof -
  obtain r2 where leg: "\<exists>st3. stop_legacy ob (stop_caffeinate ob (st\<lparr>ss_service := r2\<rparr>)) = (Ok (), st3) \<and>
      st' = emit_signals [PkillMatching ''mlx_lm.server'', PkillMatching ''vllm_mlx''] st3"
    using assms(1) by (auto simp: cmd_stop_def split: prod.splits sum.splits if_splits)
  then obtain st3 where st3: "stop_legacy ob (stop_caffeinate ob (st\<lparr>ss_service := r2\<rparr>)) = (Ok (), st3)"
      "st' = emit_signals [PkillMatching ''mlx_lm.server'', PkillMatching ''vllm_mlx''] st3" by blast
  let ?caf = "case ss_caffeinate st of None \<Rightarrow> [] | Some text \<Rightarrow>
    if sp_read_caffeinate ob then (case parse_i32 (trim text) of Some pid \<Rightarrow> [TermPid pid] | None \<Rightarrow> []) else []"
  let ?leg = "case ss_pid st of None \<Rightarrow> [] | Some text \<Rightarrow> (case parse_i32 (trim text) of None \<Rightarrow> [] | Some pid \<Rightarrow>
    TermPid pid # (if sp_kill ob pid then replicate (stop_probes (sp_alive ob) 10 0) (ProbePid pid) else []))"
  have "ss_signals st3 = ?caf @ ?leg"
    using st3(1) assms(2)
    by (auto simp: stop_legacy_def stop_caffeinate_def emit_signals_def Let_def split: option.splits if_splits)
  then have "ss_signals st' = (?caf @ ?leg) @ [PkillMatching ''mlx_lm.server'', PkillMatching ''vllm_mlx'']"
    by (simp add: st3(2) emit_signals_def)
  moreover have "length ?caf \<le> 1" "length ?leg \<le> 11"
    using stop_probes_le[of "sp_alive ob" 10 0] by (auto split: option.splits)
  then have "length (?caf @ ?leg) \<le> 12" by simp
  moreover have "case s of
        TermPid pid \<Rightarrow> (\<exists>text. (ss_caffeinate st = Some text \<or> ss_pid st = Some text) \<and> parse_i32 (trim text) = Some pid)
      | ProbePid pid \<Rightarrow> TermPid pid \<in> set (?caf @ ?leg) \<and> sp_kill ob pid
      | PkillMatching _ \<Rightarrow> False" if "s \<in> set (?caf @ ?leg)" for s
    using that by (cases s) (auto split: option.splits if_splits)
  ultimately show ?thesis by blast
qed

section \<open>Witnesses and observations\<close>

definition working_service :: service_env where
  "working_service = \<lparr>se_run = (\<lambda>_ _. Some \<lparr>co_success = True, co_stdout = [], co_stderr = []\<rparr>), se_uid = 501, se_home = Some ''/h'',
     se_exe = Some ''/b'', se_mkdir_ok = True, se_write_ok = True, se_remove_ok = True\<rparr>"

definition sample_stop :: stop_obs where
  "sample_stop = \<lparr>sp_env = working_service, sp_read_caffeinate = True, sp_read_pid = True, sp_remove_caffeinate = True,
     sp_remove_pid = True, sp_kill = (\<lambda>_. True), sp_alive = (\<lambda>_. False)\<rparr>"

definition sample_stop_state :: "string option \<Rightarrow> stop_state" where
  "sample_stop_state pid =
     \<lparr>ss_service = \<lparr>sr_launchctl = [], sr_plist = None\<rparr>, ss_caffeinate = None, ss_pid = pid, ss_signals = []\<rparr>"

lemma sample_stops:
  "\<exists>st. cmd_stop sample_stop (sample_stop_state pid) = (Ok (), st) \<and>
     ss_signals st = (case Option.bind pid (parse_i32 \<circ> trim) of None \<Rightarrow> [] | Some p \<Rightarrow> [TermPid p, ProbePid p]) @
       [PkillMatching ''mlx_lm.server'', PkillMatching ''vllm_mlx'']"
  by (simp add: cmd_stop_def sample_stop_def sample_stop_state_def is_loaded_def launchctl_def working_service_def
      service_stop_def unload_service_def stop_caffeinate_def stop_legacy_def emit_signals_def Let_def eval_nat_numeral
      split: option.split)

theorem stop_signals_recorded_witness:
  "\<exists>st sigs. cmd_stop sample_stop (sample_stop_state (Some ''42'')) = (Ok (), st) \<and>
     ss_signals st = sigs @ [PkillMatching ''mlx_lm.server'', PkillMatching ''vllm_mlx''] \<and> length sigs \<le> 12"
proof -
  obtain st where "cmd_stop sample_stop (sample_stop_state (Some ''42'')) = (Ok (), st)"
    using sample_stops by blast
  from stop_signals_recorded[OF this] this show ?thesis by (auto simp: sample_stop_state_def)
qed

text \<open>Every number is signalled: a PID file that holds \<open>-1\<close> terminates every process of the user.\<close>

lemma stop_signals_any_pid:
  "\<exists>st. cmd_stop sample_stop (sample_stop_state (Some ''-1'')) = (Ok (), st) \<and> TermPid (- 1) \<in> set (ss_signals st)"
proof -
  have "parse_i32 (trim ''-1'') = Some (- 1)" by code_simp
  with sample_stops[of "Some ''-1''"] show ?thesis by auto
qed

text \<open>The status of the answer about the size is not looked at: the length of an error page passes a
  fragment of a model for the whole model.\<close>

lemma error_page_completes_model:
  assumes "on_disk downloaded (cm_id c) = Some m" and "head (default_r2_cdn_url @ ''/'' @ cm_s3_name c @ ''/model.safetensors'') = Some (404, Some len)"
    and "len \<le> mi_size_bytes m"
  shows "is_downloaded (cdn_sizes head downloaded [c]) downloaded c"
  using assms by (simp add: is_downloaded_def cdn_sizes_def cdn_size_def List.map_filter_simps)

text \<open>The catalog is never empty, so an unreachable coordinator does not end the start.\<close>

lemma catalog_never_empty: "fetch_catalog get url \<noteq> []"
proof -
  have "fallback_catalog \<noteq> []" unfolding fallback_catalog_builtin by (simp add: builtin_catalog_def)
  then show ?thesis by (simp add: fetch_catalog_def Let_def split: option.split)
qed

definition tiny_model :: json where
  "tiny_model = JObj [(''id'', JStr ''m''), (''s3_name'', JStr ''m''), (''display_name'', JStr ''M''), (''model_type'', JStr ''text''),
     (''size_gb'', JNum (PosInt 1)), (''architecture'', JStr []), (''description'', JStr []), (''min_ram_gb'', JNum (PosInt 1))]"

definition sample_machine :: hardware_info where
  "sample_machine = \<lparr>machine_model = ''Mac'', chip_name = ''M4'', hw_chip_family = M4, hw_chip_tier = Base, memory_gb = 16,
     memory_available_gb = 12, hw_cpu_cores = \<lparr>cores_total = 8, cores_performance = 4, cores_efficiency = 4\<rparr>, gpu_cores = 10, memory_bandwidth_gbs = 120\<rparr>"

definition sample_start :: start_obs where
  "sample_start = \<lparr>ts_stop = sample_stop, ts_hardware = Ok sample_machine, ts_sha256 = (\<lambda>b. b), ts_from_str = (\<lambda>_. None),
     ts_models = \<lparr>mf_home = None, mf_exists = (\<lambda>_. False), mf_read_dir = (\<lambda>_. None), mf_read_to_string = (\<lambda>_. None), mf_read_bytes = (\<lambda>_. None)\<rparr>,
     ts_get = (\<lambda>_. Some (200, Some (JObj [(''models'', JArr [tiny_model])]))), ts_head = (\<lambda>_. None),
     ts_events = [Press KeySpace, Press KeyEnter], ts_cdn = demo_cdn, ts_home = Some ''/h'', ts_mkdir_ok = (\<lambda>_. True)\<rparr>"

definition tiny_entry :: catalog_model where
  "tiny_entry = \<lparr>cm_id = ''m'', cm_s3_name = ''m'', cm_display_name = ''M'', cm_model_type = ''text'', cm_size_gb = f64_of_nat 1,
     cm_architecture = [], cm_description = [], cm_min_ram_gb = 1\<rparr>"

lemma sample_catalog: "fetch_catalog (ts_get sample_start) url = [tiny_entry]"
proof -
  have "dec_catalog_response (JObj [(''models'', JArr [tiny_model])]) = Some [tiny_entry]"
    by (simp add: dec_catalog_response_def dec_catalog_model_def tiny_model_def tiny_entry_def field_req_def field_default_def
        obj_entries_def)
  moreover have "\<not> contains_retired_provider_model_token ''m''" "\<not> contains_retired_provider_model_token ''M''"
    by code_simp+
  then have "filter_provider_catalog [tiny_entry] = [tiny_entry]"
    by (simp add: filter_provider_catalog_def is_retired_provider_model_def tiny_entry_def)
  ultimately show ?thesis by (simp add: fetch_catalog_def sample_start_def http_ok_status_def)
qed

lemma sample_items:
  "picker_items sample_machine [] [] [tiny_entry] = [picker_item_of [] [] tiny_entry]"
proof -
  have "fits_machine sample_machine tiny_entry"
    by (simp add: fits_machine_def tiny_entry_def sample_machine_def f64_of_int_def f64_le_whole)
  then show ?thesis by (simp add: picker_items_def tiny_entry_def sort_by_def)
qed

lemma sample_picks:
  "fst (run_model_picker [entry_of_item (picker_item_of [] [] tiny_entry)] (f64_of_nat 16) [Press KeySpace, Press KeyEnter]) = Picked [0]"
proof -
  let ?e = "\<lparr>pe_display = ''M'', pe_size_gb = f64_of_nat 1, pe_downloaded = False\<rparr>"
  have e: "entry_of_item (picker_item_of [] [] tiny_entry) = \<lparr>pe_display = ''M'', pe_size_gb = f64_of_nat 1, pe_downloaded = False\<rparr>"
    by (simp add: entry_of_item_def picker_item_of_def tiny_entry_def is_downloaded_def on_disk_def Let_def)
  have b: "f64_le (f64_add (used_gb [?e] [False]) (pe_size_gb ?e)) (picker_budget (f64_of_nat 16))"
    by (simp add: used_gb_def selected_indices_def f64_sum_def f64_add_from_zero picker_budget_def os_reserve_def f64_sub_whole f64_le_whole)
  have t: "toggle [?e] (picker_budget (f64_of_nat 16)) \<lparr>pk_cursor = 0, pk_selected = [False], pk_raw_mode = True\<rparr> =
      Some \<lparr>pk_cursor = 0, pk_selected = [True], pk_raw_mode = True\<rparr>"
    using b by (simp add: toggle_def Let_def)
  have i: "picker_init [?e] = \<lparr>pk_cursor = 0, pk_selected = [False], pk_raw_mode = True\<rparr>"
    by (simp add: picker_init_def first_downloaded_def Let_def)
  show ?thesis
    unfolding run_model_picker_def e i by (simp add: t[simplified] selected_indices_def)
qed

lemma sample_downloads:
  "\<exists>fs. download_chosen sample_start [picker_item_of [] [] tiny_entry] (\<lambda>_. None) = (Ok (), fs)"
proof -
  have sh: "index_shards (JObj [(''weight_map'', JObj [(''w'', JStr ''a''), (''x'', JStr ''a'')])]) = [''a'']"
    by code_simp
  have u: "utf8_valid []" by (subst utf8_valid.simps) simp
  have d: "model_cache_dir (Some ''/h'') ''m'' = ''/h/.cache/huggingface/hub/models--m/snapshots/main''" by code_simp
  have "fst (download_model_from_cdn demo_cdn ''m'' (model_cache_dir (Some ''/h'') ''m'') (\<lambda>_. None))"
    unfolding d using u
    by (simp add: download_model_from_cdn_def sharded_model_def curl_to_def demo_cdn_def sh bytes_str_def path_push_def starts_with_def Let_def
        download_file_with_progress_def download_file_async_def max_retries_def upt_rec resume_from_def http_ok_status_def demo_files_def
        tokenizer_files_def)
  then obtain fs where "download_model_from_cdn demo_cdn ''m'' (model_cache_dir (Some ''/h'') ''m'') (\<lambda>_. None) = (True, fs)"
    by (metis (full_types) prod.collapse)
  then show ?thesis
    by (simp add: sample_start_def picker_item_of_def tiny_entry_def is_downloaded_def on_disk_def)
qed

lemma sample_starts_service:
  "\<exists>st. cmd_start sample_start url None None \<lparr>tt_stop = sample_stop_state None, tt_files = (\<lambda>_. None)\<rparr> = (Started [''m''], st)"
proof -
  obtain s where s: "cmd_stop sample_stop (sample_stop_state None) = (Ok (), s)" using sample_stops by blast
  obtain fs where d: "download_chosen sample_start [picker_item_of [] [] tiny_entry] (\<lambda>_. None) = (Ok (), fs)"
    using sample_downloads by blast
  have m: "downloaded_models sample_start = []" "unat (memory_gb sample_machine) = 16"
      "ts_events sample_start = [Press KeySpace, Press KeyEnter]"
    by (simp_all add: downloaded_models_def default_hf_cache_dir_def sample_start_def sample_machine_def)
  have z: "cdn_sizes (ts_head sample_start) [] [tiny_entry] = []"
    by (simp add: cdn_sizes_def cdn_size_def on_disk_def List.map_filter_simps)
  have f: "ts_stop sample_start = sample_stop" "ts_hardware sample_start = Ok sample_machine" "sp_env sample_stop = working_service"
    by (simp_all add: sample_start_def sample_stop_def)
  have tiny_id: "it_id (picker_item_of [] [] tiny_entry) = ''m''"
    by (simp add: picker_item_of_def tiny_entry_def Let_def)
  have c: "choose_models sample_start sample_machine [tiny_entry] (\<lambda>_. None) = (Started [''m''], fs)"
    using sample_picks d by (simp add: choose_models_def m z sample_items tiny_id)
  have i: "\<exists>r'. install_and_start working_service url [''m''] None r = (Ok (), r')" for r
    by (simp add: install_and_start_def is_loaded_def launchctl_def unload_service_def write_plist_def load_service_def working_service_def)
  show ?thesis
    using s c i[of "ss_service s"] by (auto simp: cmd_start_def sample_catalog f start_service_def Let_def)
qed


end
