(* ===== verification/Install.thy ===== *)
theory Install
  imports Start Config Security SecureEnclave Account Update TelemetryEvent Crypto
begin

text \<open>
  Setting a machine up and clearing it (\<open>cmd_init\<close>, \<open>cmd_install\<close>, \<open>cmd_enroll\<close>,
  \<open>cmd_unenroll\<close> and \<open>check_for_update_alert\<close> in \<open>provider/src/main.rs\<close>). The user's answers
  are the lines of the standard input, the programs opened are recorded, and files outside the
  property list are a map from paths to contents. Printed text is left out, except for the
  update alert, whose lines are its result.
\<close>

section \<open>The machine\<close>

text \<open>\<open>nth(3)\<close> of the pieces between quotes on the line of the serial number.\<close>

definition serial_of_line :: "string \<Rightarrow> string option" where
  "serial_of_line line =
     (let parts = str_split (CHR 0x22) line in
      if str_contains line ''IOPlatformSerialNumber'' \<and> length parts > 3 then Some (parts ! 3) else None)"

definition get_serial_number :: "cmd_env \<Rightarrow> string result" where
  "get_serial_number run =
     (case run ''ioreg'' [''-c'', ''IOPlatformExpertDevice'', ''-d'', ''2''] of
        None \<Rightarrow> Err ''failed to run ioreg''
      | Some out \<Rightarrow> (case first_some serial_of_line (str_lines (co_stdout out)) of
            Some serial \<Rightarrow> Ok serial
          | None \<Rightarrow> Err ''could not read serial number from ioreg''))"

text \<open>The blocks available and their size, as \<open>statvfs\<close> reports them.\<close>

definition get_available_disk_gb :: "(u64 \<times> u64) option \<Rightarrow> f64" where
  "get_available_disk_gb stat =
     (case stat of
        Some (bavail, frsize) \<Rightarrow>
          f64_div (f64_mul (f64_of_nat (unat bavail)) (f64_of_nat (unat frsize))) (f64_of_nat (1024 * 1024 * 1024))
      | None \<Rightarrow> f64_zero)"

section \<open>Observations and state\<close>

datatype profile_request = GetProfile string | PostEnroll string string

record install_obs =
  io_hardware :: "hardware_info result"
  io_config :: config_env
  io_run :: cmd_env
  io_exe :: "path result"
  io_mdm_marker :: bool
  io_profile :: "profile_request \<Rightarrow> (nat \<times> bytes option) option"
  io_temp_dir :: string
  io_write_ok :: "string \<Rightarrow> bool"
  io_remove_ok :: "string \<Rightarrow> bool"
  io_get :: "string \<Rightarrow> http_json"
  io_sha256 :: "bytes \<Rightarrow> bytes"
  io_from_str :: json_parser
  io_models :: model_fs
  io_statvfs :: "(u64 \<times> u64) option"
  io_cdn :: cdn_env
  io_home :: "string option"
  io_mkdir_ok :: bool
  io_service :: service_env

record install_state =
  is_config :: "string option"
  is_files :: files
  is_opened :: "string list"
  is_service :: service_run
  is_stdin :: "string result list"

text \<open>\<open>read_line\<close>; at the end of the input it reads an empty line.\<close>

definition read_line :: "install_state \<Rightarrow> string result \<times> install_state" where
  "read_line st =
     (case is_stdin st of
        [] \<Rightarrow> (Ok [], st)
      | l # ls \<Rightarrow> (l, st\<lparr>is_stdin := ls\<rparr>))"

definition enrolled :: "install_obs \<Rightarrow> bool" where
  "enrolled ob = check_mdm_enrolled (io_run ob) (io_mdm_marker ob)"

definition ensure_config :: "install_obs \<Rightarrow> hardware_info \<Rightarrow> install_state \<Rightarrow> unit result \<times> install_state" where
  "ensure_config ob hw st =
     (case default_config_path (io_config ob) of
        Inl e \<Rightarrow> (Err e, st)
      | Inr _ \<Rightarrow>
          if is_config st \<noteq> None then (Ok (), st)
          else (case config_save (io_config ob) (default_for_hardware hw) None of
             (Inl e, f) \<Rightarrow> (Err e, st\<lparr>is_config := f\<rparr>)
           | (Inr _, f) \<Rightarrow> (Ok (), st\<lparr>is_config := f\<rparr>)))"

text \<open>\<open>darkbloom init\<close>; the public key it prints belongs to a key pair that is dropped.\<close>

definition cmd_init :: "install_obs \<Rightarrow> crypto_box \<Rightarrow> bytes \<Rightarrow> (bytes \<Rightarrow> string) \<Rightarrow> install_state \<Rightarrow> string result \<times> install_state" where
  "cmd_init ob box random b64 st =
     (case io_hardware ob of
        Inl e \<Rightarrow> (Err e, st)
      | Inr hw \<Rightarrow> (case ensure_config ob hw st of
            (Inl e, st1) \<Rightarrow> (Err e, st1)
          | (Inr _, st1) \<Rightarrow> (Ok (public_key_base64 b64 (kp_generate box random)), st1)))"

section \<open>Enrollment\<close>

definition profile_path :: "install_obs \<Rightarrow> string \<Rightarrow> string" where
  "profile_path ob serial = io_temp_dir ob @ ''/EigenInference-Enroll-'' @ serial @ ''.mobileconfig''"

definition write_profile :: "install_obs \<Rightarrow> string \<Rightarrow> bytes \<Rightarrow> install_state \<Rightarrow> unit result \<times> install_state" where
  "write_profile ob path content st =
     (if io_write_ok ob path then (Ok (), st\<lparr>is_files := (is_files st)(path \<mapsto> content), is_opened := is_opened st @ [path]\<rparr>)
      else (Err ''cannot write the profile'', st))"

definition install_enroll :: "install_obs \<Rightarrow> string \<Rightarrow> string option \<Rightarrow> install_state \<Rightarrow> unit result \<times> install_state" where
  "install_enroll ob coordinator_url profile_url st =
     (if enrolled ob then (Ok (), st)
      else case get_serial_number (io_run ob) of
        Inl e \<Rightarrow> (Ok (), st)
      | Inr serial \<Rightarrow>
          (case io_profile ob (case profile_url of
                Some url \<Rightarrow> GetProfile url
              | None \<Rightarrow> PostEnroll (coordinator_http_base coordinator_url @ ''/v1/enroll'') serial) of
             None \<Rightarrow> (Err ''request failed'', st)
           | Some (status, body) \<Rightarrow>
               if \<not> http_ok_status status then (Ok (), st)
               else (case body of
                  None \<Rightarrow> (Err ''cannot read the profile'', st)
                | Some content \<Rightarrow>
                    (case write_profile ob (profile_path ob serial) content st of
                       (Inl e, st1) \<Rightarrow> (Err e, st1)
                     | (Inr _, st1) \<Rightarrow>
                         (case read_line st1 of
                            (Inl e, st2) \<Rightarrow> (Err e, st2)
                          | (Inr _, st2) \<Rightarrow> (Ok (), st2))))))"

definition cmd_enroll :: "install_obs \<Rightarrow> string \<Rightarrow> install_state \<Rightarrow> unit result \<times> install_state" where
  "cmd_enroll ob coordinator_url st =
     (if enrolled ob then (Ok (), st)
      else case get_serial_number (io_run ob) of
        Inl e \<Rightarrow> (Err e, st)
      | Inr serial \<Rightarrow>
          (case io_profile ob (PostEnroll (coordinator_url @ ''/v1/enroll'') serial) of
             None \<Rightarrow> (Err ''request failed'', st)
           | Some (status, body) \<Rightarrow>
               if \<not> http_ok_status status then (Err ''Failed to get enrollment profile'', st)
               else (case body of
                  None \<Rightarrow> (Err ''cannot read the profile'', st)
                | Some content \<Rightarrow>
                    (case write_profile ob (profile_path ob serial) content st of
                       (Inl e, st1) \<Rightarrow> (Err e, st1)
                     | (Inr _, st1) \<Rightarrow>
                         (Ok (), st1\<lparr>is_opened := is_opened st1 @
                            [''x-apple.systempreferences:com.apple.Profiles-Settings.extension'']\<rparr>)))))"

text \<open>Removing a directory removes everything below it; removing may fail for each path.\<close>

definition remove_dir_all :: "(string \<Rightarrow> bool) \<Rightarrow> string \<Rightarrow> files \<Rightarrow> files" where
  "remove_dir_all remove_ok dir fs = (\<lambda>p. if starts_with p (dir @ ''/'') \<and> remove_ok p then None else fs p)"

definition remove_path :: "(string \<Rightarrow> bool) \<Rightarrow> string \<Rightarrow> files \<Rightarrow> files" where
  "remove_path remove_ok p fs = (if remove_ok p then fs(p := None) else fs)"

definition cleanup_local_data :: "install_obs \<Rightarrow> files \<Rightarrow> files" where
  "cleanup_local_data ob fs =
     (let home = (case io_home ob of None \<Rightarrow> [] | Some h \<Rightarrow> h @ ''/'');
          fs1 = remove_dir_all (io_remove_ok ob) (home @ ''.config/eigeninference'') fs;
          fs2 = cleanup_legacy_key_files (io_remove_ok ob) (io_home ob) fs1
      in remove_path (io_remove_ok ob) (home @ ''.darkbloom/auth_token'')
           (remove_path (io_remove_ok ob) (home @ ''.darkbloom/wallet_key'') fs2))"

definition cmd_unenroll :: "install_obs \<Rightarrow> install_state \<Rightarrow> unit result \<times> install_state" where
  "cmd_unenroll ob st =
     (let st1 = (if enrolled ob
            then st\<lparr>is_opened := is_opened st @ [''x-apple.systempreferences:com.apple.preferences.configurationprofiles'']\<rparr>
            else st)
      in case read_line st1 of
           (Inl e, st2) \<Rightarrow> (Err e, st2)
         | (Inr input, st2) \<Rightarrow>
             if trim input = ''yes'' then (Ok (), st2\<lparr>is_files := cleanup_local_data ob (is_files st2)\<rparr>)
             else (Ok (), st2))"

section \<open>Installation\<close>

definition find_model :: "catalog_model list \<Rightarrow> string \<Rightarrow> catalog_model option" where
  "find_model catalog id_contains = List.find (\<lambda>m. str_contains (cm_id m) id_contains) catalog"

definition default_models :: "u64 \<Rightarrow> catalog_model list \<Rightarrow> catalog_model list" where
  "default_models ram catalog =
     (case (if ram \<ge> 256 then find_model catalog ''MiniMax-M2.5''
            else if ram \<ge> 128 then find_model catalog ''Qwen3.5-122B''
            else if ram \<ge> 48 then find_model catalog ''qwen3.5-27b-claude-opus''
            else if ram \<ge> 36 then find_model catalog ''qwen3.5-27b-claude-opus''
            else None) of
        Some m \<Rightarrow> [m] | None \<Rightarrow> [])"

definition optional_models :: "u64 \<Rightarrow> catalog_model list \<Rightarrow> catalog_model list \<Rightarrow> catalog_model list" where
  "optional_models ram defaults catalog =
     filter (\<lambda>m. cm_id m \<notin> cm_id ` set defaults) (filter (\<lambda>m. sint (cm_min_ram_gb m) \<le> sint (ucast ram :: 32 word)) catalog)"

definition have_model :: "model_info list \<Rightarrow> catalog_model \<Rightarrow> bool" where
  "have_model available m = list_ex (\<lambda>a. mi_id a = cm_id m) available"

definition total_default_size :: "model_info list \<Rightarrow> catalog_model list \<Rightarrow> f64" where
  "total_default_size available defaults =
     foldl f64_add f64_zero (map cm_size_gb (filter (\<lambda>m. \<not> have_model available m) defaults))"

definition default_downloads ::
  "model_info list \<Rightarrow> f64 \<Rightarrow> catalog_model list \<Rightarrow> install_state \<Rightarrow> string list result \<times> install_state" where
  "default_downloads available disk defaults st =
     (let total_size = total_default_size available defaults in
      if f64_gt total_size f64_zero then
        (if f64_gt total_size disk then (Ok [], st)
         else case read_line st of
           (Inl e, st1) \<Rightarrow> (Err e, st1)
         | (Inr line, st1) \<Rightarrow>
             let input = to_lowercase (trim line) in
             if input = [] \<or> input = ''y'' \<or> input = ''yes''
             then (Ok (map cm_id (filter (\<lambda>m. \<not> have_model available m) defaults)), st1)
             else (Ok [], st1))
      else (Ok [], st))"

definition optional_choice :: "model_info list \<Rightarrow> catalog_model list \<Rightarrow> string \<Rightarrow> string option" where
  "optional_choice available optionals part =
     (case parse_u64 (trim part) of
        None \<Rightarrow> None
      | Some n \<Rightarrow>
          if n \<ge> 1 \<and> unat n \<le> length optionals
          then (let m = optionals ! (unat n - 1) in if have_model available m then None else Some (cm_id m))
          else None)"

definition optional_downloads ::
  "model_info list \<Rightarrow> catalog_model list \<Rightarrow> install_state \<Rightarrow> string list result \<times> install_state" where
  "optional_downloads available optionals st =
     (if optionals = [] then (Ok [], st)
      else case read_line st of
        (Inl e, st1) \<Rightarrow> (Err e, st1)
      | (Inr line, st1) \<Rightarrow>
          let input = trim line in
          (Ok (if input = [] then [] else List.map_filter (optional_choice available optionals) (str_split (CHR '','') input)), st1))"

fun download_ids ::
  "install_obs \<Rightarrow> catalog_model list \<Rightarrow> string \<Rightarrow> string list \<Rightarrow> install_state \<Rightarrow> unit result \<times> install_state" where
  "download_ids ob catalog base_url [] st = (Ok (), st)"
| "download_ids ob catalog base_url (model_id # ids) st =
     (case List.find (\<lambda>cm. cm_id cm = model_id) catalog of
        None \<Rightarrow> (Err ''model is not in the supported catalog'', st)
      | Some model \<Rightarrow>
          (case download_catalog_model (io_cdn ob) (io_home ob) (io_mkdir_ok ob) model base_url (is_files st) of
             (Inl e, fs) \<Rightarrow> (Err e, st\<lparr>is_files := fs\<rparr>)
           | (Inr _, fs) \<Rightarrow> download_ids ob catalog base_url ids (st\<lparr>is_files := fs\<rparr>)))"

definition primary_model :: "hardware_info \<Rightarrow> catalog_model list \<Rightarrow> catalog_model list \<Rightarrow> string" where
  "primary_model hw defaults catalog =
     (case defaults of
        m # _ \<Rightarrow> cm_id m
      | [] \<Rightarrow>
          (case rev (filter (\<lambda>m. f64_le (cm_size_gb m) (f64_of_nat (unat (memory_available_gb hw)))) catalog) of
             m # _ \<Rightarrow> cm_id m
           | [] \<Rightarrow> []))"

text \<open>Step 4: the model that will be served, after the downloads the user asked for.\<close>

definition install_models ::
  "install_obs \<Rightarrow> string \<Rightarrow> string option \<Rightarrow> hardware_info \<Rightarrow> install_state \<Rightarrow> string result \<times> install_state" where
  "install_models ob coordinator_url model_override hw st =
     (let catalog = fetch_catalog (io_get ob) coordinator_url;
          available = scan_models (io_sha256 ob) (io_from_str ob) (io_models ob) hw;
          disk = get_available_disk_gb (io_statvfs ob);
          ram = memory_gb hw;
          defaults = default_models ram catalog;
          optionals = optional_models ram defaults catalog
      in case model_override of
           Some m \<Rightarrow> (Ok m, st)
         | None \<Rightarrow>
             (case default_downloads available disk defaults st of
                (Inl e, st1) \<Rightarrow> (Err e, st1)
              | (Inr ids1, st1) \<Rightarrow>
                  (case optional_downloads available optionals st1 of
                     (Inl e, st2) \<Rightarrow> (Err e, st2)
                   | (Inr ids2, st2) \<Rightarrow>
                       (case download_ids ob catalog (coordinator_http_base coordinator_url) (ids1 @ ids2) st2 of
                          (Inl e, st3) \<Rightarrow> (Err e, st3)
                        | (Inr _, st3) \<Rightarrow> (Ok (primary_model hw defaults catalog), st3)))))"

definition cmd_install ::
  "install_obs \<Rightarrow> string \<Rightarrow> string option \<Rightarrow> string option \<Rightarrow> install_state \<Rightarrow> string result \<times> install_state" where
  "cmd_install ob coordinator_url profile_url model_override st =
     (case io_hardware ob of
        Inl e \<Rightarrow> (Err e, st)
      | Inr hw \<Rightarrow>
          (case ensure_config ob hw st of
             (Inl e, st1) \<Rightarrow> (Err e, st1)
           | (Inr _, st1) \<Rightarrow>
               (case install_enroll ob coordinator_url profile_url st1 of
                  (Inl e, st2) \<Rightarrow> (Err e, st2)
                | (Inr _, st2) \<Rightarrow>
                    (case install_models ob coordinator_url model_override hw st2 of
                       (Inl e, st3) \<Rightarrow> (Err e, st3)
                     | (Inr model, st3) \<Rightarrow>
                         (case verify_security_posture (io_run ob) (io_exe ob) False [] [] of
                            Inl e \<Rightarrow> (Err (''Cannot serve with security checks failing: '' @ e), st3)
                          | Inr _ \<Rightarrow>
                              (case install_and_start (io_service ob) coordinator_url [model] None (is_service st3) of
                                 (Inl e, r) \<Rightarrow> (Err e, st3\<lparr>is_service := r\<rparr>)
                               | (Inr _, r) \<Rightarrow> (Ok model, st3\<lparr>is_service := r\<rparr>)))))))"

section \<open>The update alert\<close>

datatype update_alert = NoAlert | Alert string "string list" | AlertPanic

text \<open>Cutting a line at byte 39 inside a character stops the program.\<close>

definition truncate_alert_line :: "string \<Rightarrow> string option" where
  "truncate_alert_line line =
     (if length line > 42 then (if is_char_boundary line 39 then Some (take 39 line @ ''...'') else None) else Some line)"

definition alert_base_url :: "config_env \<Rightarrow> string option \<Rightarrow> string \<Rightarrow> string" where
  "alert_base_url env config_file default_url =
     (case (case default_config_path env of Inl e \<Rightarrow> Err ''failed to read config'' | Inr _ \<Rightarrow> config_load env config_file) of
        Inr c \<Rightarrow> str_replace (str_replace (str_replace (cs_url (pc_coordinator c)) ''ws://'' ''http://'') ''wss://'' ''https://'') ''/ws/provider'' []
      | Inl _ \<Rightarrow> default_url)"

definition check_for_update_alert :: "(string \<Rightarrow> http_json) \<Rightarrow> string \<Rightarrow> string \<Rightarrow> update_alert" where
  "check_for_update_alert get base_url current =
     (case get (base_url @ ''/api/version'') of
        Some (status, Some info) \<Rightarrow>
          if \<not> http_ok_status status then NoAlert
          else (case json_get_as json_as_str ''version'' info of
             None \<Rightarrow> NoAlert
           | Some latest \<Rightarrow>
               if latest \<noteq> current \<and> is_newer_version current latest
               then (case those (map truncate_alert_line (take 2 (str_lines (release_string info ''changelog'')))) of
                       Some lines \<Rightarrow> Alert latest lines
                     | None \<Rightarrow> AlertPanic)
               else NoAlert)
      | _ \<Rightarrow> NoAlert)"

section \<open>Lemmas\<close>

lemma ensure_config_ok:
  assumes "ensure_config ob hw st = (Ok (), st')"
  shows "is_config st' \<noteq> None \<and> (is_config st \<noteq> None \<longrightarrow> st' = st) \<and> is_service st' = is_service st"
  using assms
  by (auto simp: ensure_config_def config_save_def split: sum.splits if_splits prod.splits option.splits)

lemma read_line_keeps:
  "read_line st = (r, st') \<Longrightarrow> is_config st' = is_config st \<and> is_service st' = is_service st \<and> is_files st' = is_files st"
  by (auto simp: read_line_def split: list.splits)

lemma install_enroll_keeps:
  "install_enroll ob url profile st = (r, st') \<Longrightarrow> is_config st' = is_config st \<and> is_service st' = is_service st"
  by (auto simp: install_enroll_def write_profile_def dest!: read_line_keeps split: if_splits sum.splits option.splits prod.splits)

lemma download_ids_keeps:
  "download_ids ob catalog base ids st = (r, st') \<Longrightarrow> is_config st' = is_config st \<and> is_service st' = is_service st"
  by (induction ob catalog base ids st rule: download_ids.induct) (auto split: option.splits prod.splits sum.splits)

lemma default_downloads_keeps:
  "default_downloads available disk defaults st = (r, st') \<Longrightarrow> is_config st' = is_config st \<and> is_service st' = is_service st"
  by (auto simp: default_downloads_def Let_def dest!: read_line_keeps split: if_splits prod.splits sum.splits)

lemma optional_downloads_keeps:
  "optional_downloads available optionals st = (r, st') \<Longrightarrow> is_config st' = is_config st \<and> is_service st' = is_service st"
  by (auto simp: optional_downloads_def Let_def dest!: read_line_keeps split: if_splits prod.splits sum.splits)

lemma install_models_ok:
  assumes "install_models ob url model_override hw st = (Ok model, st')"
  shows "model = (case model_override of
      Some m \<Rightarrow> m
    | None \<Rightarrow> let catalog = fetch_catalog (io_get ob) url in primary_model hw (default_models (memory_gb hw) catalog) catalog)"
    and "is_config st' = is_config st \<and> is_service st' = is_service st"
  using assms
  by (auto simp: install_models_def Let_def dest!: default_downloads_keeps optional_downloads_keeps download_ids_keeps
      split: option.splits prod.splits sum.splits)

text \<open>What the built-in catalog offers for each tier.\<close>

lemma builtin_tier_names:
  "\<not> str_contains ''qwen3.5-27b-claude-opus-8bit'' ''MiniMax-M2.5''" "\<not> str_contains ''mlx-community/Trinity-Mini-8bit'' ''MiniMax-M2.5''"
  "\<not> str_contains ''mlx-community/gemma-4-26b-a4b-it-8bit'' ''MiniMax-M2.5''" "\<not> str_contains ''mlx-community/Qwen3.5-122B-A10B-8bit'' ''MiniMax-M2.5''"
  "str_contains ''mlx-community/MiniMax-M2.5-8bit'' ''MiniMax-M2.5''"
  "\<not> str_contains ''qwen3.5-27b-claude-opus-8bit'' ''Qwen3.5-122B''" "\<not> str_contains ''mlx-community/Trinity-Mini-8bit'' ''Qwen3.5-122B''"
  "\<not> str_contains ''mlx-community/gemma-4-26b-a4b-it-8bit'' ''Qwen3.5-122B''" "str_contains ''mlx-community/Qwen3.5-122B-A10B-8bit'' ''Qwen3.5-122B''"
  "str_contains ''qwen3.5-27b-claude-opus-8bit'' ''qwen3.5-27b-claude-opus''"
  by code_simp+

lemma default_models_builtin:
  "map cm_id (default_models ram fallback_catalog) =
     (if ram \<ge> 256 then [''mlx-community/MiniMax-M2.5-8bit'']
      else if ram \<ge> 128 then [''mlx-community/Qwen3.5-122B-A10B-8bit'']
      else if ram \<ge> 36 then [''qwen3.5-27b-claude-opus-8bit''] else [])"
  "list_all (\<lambda>m. sint (cm_min_ram_gb m) \<le> int (unat ram)) (default_models ram fallback_catalog)"
proof -
  have le: "a \<le> ram \<longleftrightarrow> uint a \<le> uint ram" for a by (simp add: word_le_def)
  show "map cm_id (default_models ram fallback_catalog) =
     (if ram \<ge> 256 then [''mlx-community/MiniMax-M2.5-8bit'']
      else if ram \<ge> 128 then [''mlx-community/Qwen3.5-122B-A10B-8bit'']
      else if ram \<ge> 36 then [''qwen3.5-27b-claude-opus-8bit''] else [])"
    "list_all (\<lambda>m. sint (cm_min_ram_gb m) \<le> int (unat ram)) (default_models ram fallback_catalog)"
    unfolding le by (auto simp: default_models_def fallback_catalog_builtin builtin_catalog_def find_model_def builtin_tier_names le)
qed

lemma cleanup_local_data_spec:
  assumes "io_home ob = Some h" and "\<And>p. io_remove_ok ob p"
  shows "cleanup_local_data ob fs p =
    (if starts_with p (h @ ''/.config/eigeninference/'') \<or> p \<in> set (map (in_home h) legacy_key_files) \<or>
        p = h @ ''/.darkbloom/wallet_key'' \<or> p = h @ ''/.darkbloom/auth_token''
     then None else fs p)"
proof -
  have "fold (remove_legacy (io_remove_ok ob) h) names fs p = (if p \<in> set (map (in_home h) names) then None else fs p)" for names fs
    using assms(2) by (induction names arbitrary: fs) (auto simp: remove_legacy_def Let_def)
  then show ?thesis
    using assms by (auto simp: cleanup_local_data_def cleanup_legacy_key_files_def remove_path_def remove_dir_all_def Let_def)
qed

section \<open>Properties\<close>

text \<open>An installation that succeeds: the security posture was verified, a configuration is in place and an
  existing one untouched, and the service is installed for one model: the one asked for, else the
  one of the machine's tier.\<close>

theorem install_serves_model:
  assumes "cmd_install ob url profile model_override st = (Ok model, st')"
  shows "verify_security_posture (io_run ob) (io_exe ob) False [] [] = Ok () \<and>
    is_config st' \<noteq> None \<and> (is_config st \<noteq> None \<longrightarrow> is_config st' = is_config st) \<and>
    (\<exists>binary log. sr_plist (is_service st') = Some (plist_text binary log url [model] None)) \<and>
    (\<exists>hw. io_hardware ob = Ok hw \<and> model = (case model_override of
        Some m \<Rightarrow> m
      | None \<Rightarrow> let catalog = fetch_catalog (io_get ob) url in primary_model hw (default_models (memory_gb hw) catalog) catalog))"
proof -
  obtain hw st1 st2 st3 r where hw: "io_hardware ob = Ok hw" and c: "ensure_config ob hw st = (Ok (), st1)"
      and e: "install_enroll ob url profile st1 = (Ok (), st2)" and m: "install_models ob url model_override hw st2 = (Ok model, st3)"
      and p: "verify_security_posture (io_run ob) (io_exe ob) False [] [] = Ok ()"
      and i: "install_and_start (io_service ob) url [model] None (is_service st3) = (Ok (), r)" and st': "st' = st3\<lparr>is_service := r\<rparr>"
    using assms by (auto simp: cmd_install_def split: sum.splits prod.splits)
  show ?thesis
    using ensure_config_ok[OF c] install_enroll_keeps[OF e] install_models_ok[OF m] install_and_start_ok[OF i] hw p st'
    by auto
qed

text \<open>The tiers are right for the built-in catalog: a machine of 36 gigabytes or more has exactly one default
  model, it is a text model and needs no more memory than the machine has; a smaller one has none.\<close>

theorem default_model_fits:
  "(length (default_models ram fallback_catalog) = (if ram \<ge> 36 then 1 else 0)) \<and>
   list_all (\<lambda>m. sint (cm_min_ram_gb m) \<le> int (unat ram)) (default_models ram fallback_catalog)"
proof -
  have "length (default_models ram fallback_catalog) = length (map cm_id (default_models ram fallback_catalog))" by simp
  moreover have "ram \<ge> 256 \<Longrightarrow> ram \<ge> 36" "ram \<ge> 128 \<Longrightarrow> ram \<ge> 36" by (simp_all add: word_le_nat_alt)
  ultimately show ?thesis
    unfolding default_models_builtin(1) using default_models_builtin(2) by auto
qed

text \<open>Clearing the local data removes exactly the directory \<open>.config/eigeninference\<close>, the legacy keys, the
  wallet key and \<open>.darkbloom/auth_token\<close>, when files can be removed; every other file stays.\<close>

theorem unenroll_removes:
  assumes "is_stdin st = Ok input # rest" and "trim input = ''yes''" and "io_home ob = Some h" and "\<And>p. io_remove_ok ob p"
    and "cmd_unenroll ob st = (r, st')"
  shows "r = Ok () \<and> is_files st' p =
    (if starts_with p (h @ ''/.config/eigeninference/'') \<or> p \<in> set (map (in_home h) legacy_key_files) \<or>
        p = h @ ''/.darkbloom/wallet_key'' \<or> p = h @ ''/.darkbloom/auth_token''
     then None else is_files st p)"
  using assms(5) unfolding cmd_unenroll_def Let_def
  by (cases "enrolled ob") (auto simp: read_line_def assms(1,2) cleanup_local_data_spec[OF assms(3,4)])

section \<open>Witnesses and observations\<close>

definition demo_install :: install_obs where
  "demo_install = \<lparr>io_hardware = Ok sample_machine, io_config = sample_config_env,
     io_run = (\<lambda>cmd _. if cmd = ''/usr/bin/csrutil'' then Some \<lparr>co_success = True, co_stdout = ''System Integrity Protection status: enabled.'', co_stderr = []\<rparr> else None),
     io_exe = Ok [''usr'', ''darkbloom''], io_mdm_marker = True, io_profile = (\<lambda>_. None), io_temp_dir = ''/tmp'', io_write_ok = (\<lambda>_. True),
     io_remove_ok = (\<lambda>_. True), io_get = (\<lambda>_. None), io_sha256 = (\<lambda>b. b), io_from_str = (\<lambda>_. None),
     io_models = \<lparr>mf_home = None, mf_exists = (\<lambda>_. False), mf_read_dir = (\<lambda>_. None), mf_read_to_string = (\<lambda>_. None), mf_read_bytes = (\<lambda>_. None)\<rparr>,
     io_statvfs = None, io_cdn = demo_cdn, io_home = Some ''/h'', io_mkdir_ok = True, io_service = working_service\<rparr>"

definition sample_install_state :: "string result list \<Rightarrow> install_state" where
  "sample_install_state lines = \<lparr>is_config = Some ''toml'', is_files = (\<lambda>_. Some []), is_opened = [],
     is_service = \<lparr>sr_launchctl = [], sr_plist = None\<rparr>, is_stdin = lines\<rparr>"

lemma sample_install_posture: "verify_security_posture (io_run demo_install) (io_exe demo_install) b [] [] = Ok ()"
  by (simp add: verify_security_posture_def check_sip_enabled_def check_rdma_disabled_def verify_bundle_signature_def
      demo_install_def path_extension_def) code_simp

lemma sample_installs:
  assumes "\<exists>st'. install_models demo_install url m sample_machine (sample_install_state lines) = (Ok model, st')"
  shows "\<exists>st'. cmd_install demo_install url None m (sample_install_state lines) = (Ok model, st')"
proof -
  obtain st' where m: "install_models demo_install url m sample_machine (sample_install_state lines) = (Ok model, st')"
    using assms by blast
  have c: "ensure_config demo_install sample_machine (sample_install_state lines) = (Ok (), sample_install_state lines)"
    by (simp add: ensure_config_def default_config_path_def demo_install_def sample_config_env_def sample_install_state_def)
  have e: "install_enroll demo_install url None (sample_install_state lines) = (Ok (), sample_install_state lines)"
    by (simp add: install_enroll_def enrolled_def check_mdm_enrolled_def demo_install_def)
  have i: "\<exists>r'. install_and_start (io_service demo_install) url [model] None r = (Ok (), r')" for r
    by (simp add: install_and_start_def is_loaded_def launchctl_def unload_service_def write_plist_def load_service_def
        working_service_def demo_install_def)
  have h: "io_hardware demo_install = Ok sample_machine" by (simp add: demo_install_def)
  show ?thesis
    using i[of "is_service st'"] by (auto simp: cmd_install_def h c e m sample_install_posture)
qed

theorem install_serves_model_witness:
  "\<exists>st'. cmd_install demo_install ''wss://c'' None (Some ''m'') (sample_install_state []) = (Ok ''m'', st') \<and>
     (\<exists>binary log. sr_plist (is_service st') = Some (plist_text binary log ''wss://c'' [''m''] None))"
proof -
  obtain st' where s: "cmd_install demo_install ''wss://c'' None (Some ''m'') (sample_install_state []) = (Ok ''m'', st')"
    using sample_installs[of "''wss://c''" "Some ''m''" "[]" "''m''"] by (auto simp: install_models_def)
  from install_serves_model[OF s] s show ?thesis by blast
qed

theorem unenroll_removes_witness:
  "\<exists>st'. cmd_unenroll demo_install (sample_install_state [Ok ''yes'']) = (Ok (), st') \<and> is_files st' ''/h/.darkbloom/node_key'' = None"
proof -
  obtain r st' where u: "cmd_unenroll demo_install (sample_install_state [Ok ''yes'']) = (r, st')" by fastforce
  have a: "is_stdin (sample_install_state [Ok ''yes'']) = Ok ''yes'' # []" "trim ''yes'' = ''yes''"
      "io_home demo_install = Some ''/h''" "io_remove_ok demo_install p" for p
    by (simp_all add: sample_install_state_def demo_install_def trim_def trim_start_def is_ascii_space_def)
  have "''/h/.darkbloom/node_key'' \<in> set (map (in_home ''/h'') legacy_key_files)"
    by (simp add: legacy_key_files_def in_home_def)
  with unenroll_removes[OF a u, of "''/h/.darkbloom/node_key''"] u show ?thesis by auto
qed

text \<open>On macOS the token lives under \<open>Library/Application Support\<close>, which is not cleared: after
  \<open>unenroll\<close> with \<open>yes\<close> the machine is still linked.\<close>

lemma unenroll_keeps_token:
  assumes "is_stdin st = Ok input # rest" and "trim input = ''yes''" and "io_home ob = Some h" and "\<And>p. io_remove_ok ob p"
    and "cmd_unenroll ob st = (r, st')"
  shows "is_files st' (h @ ''/Library/Application Support/eigeninference/auth_token'') =
    is_files st (h @ ''/Library/Application Support/eigeninference/auth_token'')"
proof -
  have "\<not> starts_with (h @ ''/Library/Application Support/eigeninference/auth_token'') (h @ ''/.config/eigeninference/'')"
    by (induction h) (simp_all add: starts_with_def)
  moreover have "h @ ''/Library/Application Support/eigeninference/auth_token'' \<notin> set (map (in_home h) legacy_key_files)"
    by (simp add: legacy_key_files_def in_home_def)
  ultimately show ?thesis
    using assms(5) unfolding cmd_unenroll_def Let_def
    by (cases "enrolled ob") (auto simp: read_line_def assms(1,2) cleanup_local_data_spec[OF assms(3,4)])
qed

text \<open>A machine on which nothing fits gets a service for the model without a name.\<close>

lemma install_without_model:
  "primary_model sample_machine (default_models (memory_gb sample_machine) fallback_catalog) fallback_catalog = []"
proof -
  have "default_models (memory_gb sample_machine) fallback_catalog = []"
    by (simp add: default_models_def sample_machine_def)
  then show ?thesis
    by (simp add: primary_model_def fallback_catalog_builtin builtin_catalog_def sample_machine_def f64_of_int_def f64_le_whole)
qed

text \<open>Declining the download does not change what is served.\<close>

lemma install_declined:
  assumes "is_stdin st = [Ok ''n'', Ok []]" and "default_downloads available disk defaults st = (Ok ids, st1)"
    and "f64_gt (total_default_size available defaults) f64_zero" and "\<not> f64_gt (total_default_size available defaults) disk"
  shows "ids = [] \<and> (defaults \<noteq> [] \<longrightarrow> primary_model hw defaults catalog = cm_id (hd defaults))"
proof -
  have "to_lowercase (trim ''n'') = ''n''" by code_simp
  with assms show ?thesis
    by (auto simp: default_downloads_def read_line_def primary_model_def Let_def split: list.splits if_splits)
qed

text \<open>A machine with RDMA enabled is refused, even where \<open>serve\<close> would accept it because it makes a
  virtual machine first.\<close>

lemma install_refuses_rdma:
  assumes "\<not> check_rdma_disabled (io_run ob)"
  shows "\<exists>e st'. cmd_install ob url profile m st = (Err e, st')"
  using assms
  by (auto simp: cmd_install_def verify_security_posture_def split: sum.splits prod.splits)

text \<open>A line of the changelog with a character across byte 39 stops every command.\<close>

lemma alert_panics:
  "truncate_alert_line (replicate 38 (CHR ''a'') @ [CHR 0xC3, CHR 0xA9] @ replicate 10 (CHR ''a'')) = None"
  by code_simp

end
