(* ===== verification/Commands.thy ===== *)
theory Commands
  imports Install
begin

text \<open>
  The remaining commands of \<open>provider/src/main.rs\<close>: \<open>status\<close>, \<open>models\<close>, \<open>benchmark\<close> (up to the
  choice of the model), \<open>earnings\<close>, \<open>doctor\<close>, \<open>logs\<close> and \<open>hash-runtime\<close>. What a command prints is
  modelled as the data it prints. The observations and the state are those of the installation.
\<close>

section \<open>Diagnosis\<close>

definition unknown_hardware :: hardware_info where
  "unknown_hardware =
     \<lparr>machine_model = ''unknown'', chip_name = ''unknown'', hw_chip_family = UnknownFamily, hw_chip_tier = UnknownTier,
      memory_gb = 0, memory_available_gb = 0, hw_cpu_cores = \<lparr>cores_total = 0, cores_performance = 0, cores_efficiency = 0\<rparr>,
      gpu_cores = 0, memory_bandwidth_gbs = 0\<rparr>"

definition scan_available :: "install_obs \<Rightarrow> hardware_info \<Rightarrow> model_info list" where
  "scan_available ob hw = scan_models (io_sha256 ob) (io_from_str ob) (io_models ob) hw"

definition home_path :: "install_obs \<Rightarrow> string \<Rightarrow> string" where
  "home_path ob name = (case io_home ob of None \<Rightarrow> [] | Some h \<Rightarrow> h @ ''/'') @ name"

definition enclave_ok :: "install_obs \<Rightarrow> bool" where
  "enclave_ok ob =
     (case (case io_run ob ''eigeninference-enclave'' [''info''] of
              Some out \<Rightarrow> Some out
            | None \<Rightarrow> io_run ob (home_path ob ''.darkbloom/bin/eigeninference-enclave'') [''info'']) of
        Some out \<Rightarrow> co_success out
      | None \<Rightarrow> False)"

definition python_command :: "install_obs \<Rightarrow> (string \<Rightarrow> bool) \<Rightarrow> string" where
  "python_command ob ex =
     (let bundled = home_path ob ''.darkbloom/python/bin/python3.12'' in if ex bundled then bundled else ''python3'')"

definition runtime_ok :: "install_obs \<Rightarrow> (string \<Rightarrow> bool) \<Rightarrow> bool" where
  "runtime_ok ob ex =
     (let python = python_command ob ex;
          succeeds = (\<lambda>script. case io_run ob python [''-c'', script] of Some out \<Rightarrow> co_success out | None \<Rightarrow> False)
      in succeeds ''import vllm_mlx; print(f'vllm-mlx {vllm_mlx.__version__}')'' \<or>
         succeeds ''import mlx_lm; print(f'mlx-lm {mlx_lm.__version__}')'')"

text \<open>The verdict of a check: nothing, or the issue to fix.\<close>

definition issue_unless :: "string \<Rightarrow> bool \<Rightarrow> string option" where
  "issue_unless issue ok = (if ok then None else Some issue)"

definition coordinator_issue :: "install_obs \<Rightarrow> string \<Rightarrow> string option" where
  "coordinator_issue ob url =
     (case io_get ob (url @ ''/health'') of
        Some (status, _) \<Rightarrow> issue_unless ''Coordinator returned HTTP error'' (http_ok_status status)
      | None \<Rightarrow> Some (''Cannot reach coordinator at '' @ url))"

definition trust_issue :: "install_obs \<Rightarrow> string \<Rightarrow> string option" where
  "trust_issue ob url =
     (case get_serial_number (io_run ob) of
        Inl _ \<Rightarrow> Some ''Could not read Mac serial number for coordinator trust lookup''
      | Inr serial \<Rightarrow>
          (case fetch_coordinator_provider_trust (io_get ob) url serial of
             Inl _ \<Rightarrow> Some (''Could not check coordinator hardware trust for serial '' @ serial)
           | Inr [] \<Rightarrow> Some ''Coordinator has no provider record for this serial.''
           | Inr (rec # _) \<Rightarrow>
               issue_unless (if enrolled ob
                   then ''Local MDM profile is present, but the coordinator has not verified this serial through MDM.''
                   else ''Coordinator trust is self-signed because no local MDM profile is detected.'')
                 (is_hardware_verified rec)))"

definition doctor_verdicts :: "install_obs \<Rightarrow> (string \<Rightarrow> bool) \<Rightarrow> string \<Rightarrow> string option list" where
  "doctor_verdicts ob ex url =
     [issue_unless ''Hardware detection failed'' (case io_hardware ob of Inr _ \<Rightarrow> True | Inl _ \<Rightarrow> False),
      issue_unless ''SIP is disabled.'' (check_sip_enabled (io_run ob)),
      issue_unless ''Install eigeninference-enclave binary'' (enclave_ok ob),
      issue_unless ''Install the MDM profile: darkbloom enroll'' (enrolled ob),
      issue_unless ''Inference runtime not found.'' (runtime_ok ob ex),
      issue_unless ''Download a model: darkbloom models download''
        (scan_available ob (case io_hardware ob of Inr hw \<Rightarrow> hw | Inl _ \<Rightarrow> unknown_hardware) \<noteq> []),
      None,
      coordinator_issue ob url,
      trust_issue ob url]"

definition record_verdict :: "string option \<Rightarrow> nat \<times> string list \<Rightarrow> nat \<times> string list" where
  "record_verdict v acc =
     (case acc of (passed, issues) \<Rightarrow> (case v of None \<Rightarrow> (passed + 1, issues) | Some issue \<Rightarrow> (passed, issues @ [issue])))"

definition cmd_doctor :: "install_obs \<Rightarrow> (string \<Rightarrow> bool) \<Rightarrow> string \<Rightarrow> nat \<times> string list" where
  "cmd_doctor ob ex url = fold record_verdict (doctor_verdicts ob ex url) (0, [])"

definition support_command_output :: "cmd_env \<Rightarrow> string \<Rightarrow> string list \<Rightarrow> string" where
  "support_command_output run program args =
     (case run program args of
        Some out \<Rightarrow>
          let trimmed = trim (co_stdout out @ co_stderr out) in
          if trimmed = [] then ''<no output>'' else str_join (newline # ''    '') (take 12 (str_lines trimmed))
      | None \<Rightarrow> ''<failed to run>'')"

text \<open>What \<open>--support\<close> adds to the report, line by line.\<close>

definition show_bool :: "bool \<Rightarrow> string" where
  "show_bool b = (if b then ''true'' else ''false'')"

definition support_record :: "coordinator_provider_trust \<Rightarrow> string" where
  "support_record r =
     ''    '' @ pt_provider_id r @ '' status='' @ pt_status r @ '' trust='' @ pt_trust_level r @
     '' mdm='' @ show_bool (pt_mdm_verified r) @ '' mda='' @ show_bool (pt_mda_verified r) @
     '' acme='' @ show_bool (pt_acme_verified r) @ '' se='' @ show_bool (pt_secure_enclave r) @
     '' sip='' @ show_bool (pt_sip_enabled r) @ '' secure_boot='' @ show_bool (pt_secure_boot_enabled r) @
     '' root='' @ show_bool (pt_authenticated_root_enabled r)"

definition print_doctor_support_info ::
  "cmd_env \<Rightarrow> string \<Rightarrow> string option \<Rightarrow> bool \<Rightarrow> coordinator_provider_trust list \<Rightarrow> string option \<Rightarrow> string list" where
  "print_doctor_support_info run coordinator_url serial_number local_mdm_profile provider_records trust_error =
     [[], ''Support info'', ''  Coordinator: '' @ coordinator_http_base coordinator_url,
      ''  Serial: '' @ option_unwrap_or ''<unavailable>'' serial_number,
      ''  Local MDM profile: '' @ (if local_mdm_profile then ''present'' else ''not detected'')] @
     (if provider_records = [] then [''  Coordinator provider records: none for this serial'']
      else ''  Coordinator provider records:'' # map support_record provider_records) @
     (case trust_error of None \<Rightarrow> [] | Some e \<Rightarrow> [''  Coordinator trust lookup error: '' @ e]) @
     [''  profiles status -type enrollment:'',
      ''    '' @ support_command_output run ''profiles'' [''status'', ''-type'', ''enrollment'']]"

section \<open>Status\<close>

datatype trust_status =
    SerialUnreadable
  | TrustUnchecked string
  | NoProviderRecord string
  | ProviderTrust string coordinator_provider_trust bool

definition is_running :: "(int \<Rightarrow> bool) \<Rightarrow> string option \<Rightarrow> bool" where
  "is_running alive pid_file =
     (case Option.bind pid_file (\<lambda>t. parse_i32 (trim t)) of Some pid \<Rightarrow> alive pid | None \<Rightarrow> False)"

text \<open>\<open>split(pat).nth(1)\<close>.\<close>

definition second_piece :: "string \<Rightarrow> string \<Rightarrow> string option" where
  "second_piece pat s =
     (case str_find s pat of
        None \<Rightarrow> None
      | Some i \<Rightarrow>
          let rest = drop (i + length pat) s in
          Some (case str_find rest pat of None \<Rightarrow> rest | Some j \<Rightarrow> take j rest))"

definition serving_model :: "bool \<Rightarrow> string option \<Rightarrow> string option" where
  "serving_model running log =
     (if running then Option.bind log (\<lambda>l.
        map_option (\<lambda>line. trim (case second_piece ''Primary model:'' line of Some p \<Rightarrow> p | None \<Rightarrow> []))
          (List.find (\<lambda>line. str_contains line ''Primary model:'') (rev (str_lines l))))
      else None)"

definition status_trust :: "install_obs \<Rightarrow> string \<Rightarrow> trust_status" where
  "status_trust ob url =
     (case get_serial_number (io_run ob) of
        Inl _ \<Rightarrow> SerialUnreadable
      | Inr serial \<Rightarrow>
          (case fetch_coordinator_provider_trust (io_get ob) url serial of
             Inl _ \<Rightarrow> TrustUnchecked serial
           | Inr [] \<Rightarrow> NoProviderRecord serial
           | Inr (rec # _) \<Rightarrow> ProviderTrust serial rec (is_hardware_verified rec)))"

record status_report =
  rp_running :: bool
  rp_serving :: "string option"
  rp_sip :: bool
  rp_mdm :: bool
  rp_linked :: bool
  rp_trust :: trust_status
  rp_servable :: "(bool \<times> string \<times> f64) list"
  rp_extra :: nat

definition servable_models :: "catalog_model list \<Rightarrow> model_info list \<Rightarrow> model_info list" where
  "servable_models catalog ms = filter (\<lambda>m. mi_id m \<in> cm_id ` set catalog) ms"

definition display_name_of :: "catalog_model list \<Rightarrow> model_info \<Rightarrow> string" where
  "display_name_of catalog m =
     (case List.find (\<lambda>c. cm_id c = mi_id m) catalog of Some c \<Rightarrow> cm_display_name c | None \<Rightarrow> mi_id m)"

definition cmd_status ::
  "install_obs \<Rightarrow> string \<Rightarrow> (int \<Rightarrow> bool) \<Rightarrow> string option \<Rightarrow> string option \<Rightarrow> string option \<Rightarrow> status_report result" where
  "cmd_status ob default_url alive pid_file log token_file =
     (case io_hardware ob of
        Inl e \<Rightarrow> Err e
      | Inr hw \<Rightarrow>
          let running = is_running alive pid_file; serving = serving_model running log;
              ms = scan_available ob hw; catalog = fetch_catalog (io_get ob) default_url
          in Ok \<lparr>rp_running = running, rp_serving = serving, rp_sip = check_sip_enabled (io_run ob), rp_mdm = enrolled ob,
                 rp_linked = (load_auth_token token_file \<noteq> None), rp_trust = status_trust ob default_url,
                 rp_servable = map (\<lambda>m. (serving = Some (mi_id m), display_name_of catalog m, mi_estimated_memory_gb m)) (servable_models catalog ms),
                 rp_extra = length (filter (\<lambda>m. mi_id m \<notin> cm_id ` set catalog) ms)\<rparr>)"

section \<open>Models\<close>

definition selections :: "string \<Rightarrow> u64 list" where
  "selections input = List.map_filter (\<lambda>s. parse_u64 (trim s)) (str_split (CHR '','') (trim input))"

definition fits_available :: "hardware_info \<Rightarrow> catalog_model \<Rightarrow> bool" where
  "fits_available hw cm = f64_le (cm_size_gb cm) (f64_of_nat (unat (memory_available_gb hw)))"

datatype model_label = LDownloaded | LAvailable | LTooLarge

definition catalog_label :: "hardware_info \<Rightarrow> model_info list \<Rightarrow> catalog_model \<Rightarrow> model_label" where
  "catalog_label hw downloaded cm =
     (if have_model downloaded cm then LDownloaded else if fits_available hw cm then LAvailable else LTooLarge)"

text \<open>The numbered list of what can be downloaded.\<close>

definition downloadable :: "hardware_info \<Rightarrow> model_info list \<Rightarrow> catalog_model list \<Rightarrow> (nat \<times> catalog_model) list" where
  "downloadable hw downloaded catalog = enumerate 1 (filter (\<lambda>cm. catalog_label hw downloaded cm = LAvailable) catalog)"

fun download_selected ::
  "install_obs \<Rightarrow> string \<Rightarrow> (nat \<times> catalog_model) list \<Rightarrow> u64 list \<Rightarrow> install_state \<Rightarrow> unit result \<times> install_state" where
  "download_selected ob base_url choices [] st = (Ok (), st)"
| "download_selected ob base_url choices (sel # sels) st =
     (case List.find (\<lambda>ic. fst ic = unat sel) choices of
        None \<Rightarrow> download_selected ob base_url choices sels st
      | Some (_, cm) \<Rightarrow>
          (case download_catalog_model (io_cdn ob) (io_home ob) (io_mkdir_ok ob) cm base_url (is_files st) of
             (Inl e, fs) \<Rightarrow> (Err e, st\<lparr>is_files := fs\<rparr>)
           | (Inr _, fs) \<Rightarrow> download_selected ob base_url choices sels (st\<lparr>is_files := fs\<rparr>)))"

definition models_download ::
  "install_obs \<Rightarrow> string \<Rightarrow> string option \<Rightarrow> hardware_info \<Rightarrow> catalog_model list \<Rightarrow> model_info list \<Rightarrow> install_state
   \<Rightarrow> unit result \<times> install_state" where
  "models_download ob url model_override hw catalog downloaded st =
     (let base_url = coordinator_http_base url in
      case model_override of
        Some selector \<Rightarrow>
          (case List.find (\<lambda>cm. catalog_model_matches cm selector) catalog of
             None \<Rightarrow> (Err ''model is not in the supported catalog'', st)
           | Some cm \<Rightarrow>
               if have_model downloaded cm then (Ok (), st)
               else (case download_catalog_model (io_cdn ob) (io_home ob) (io_mkdir_ok ob) cm base_url (is_files st) of
                  (r, fs) \<Rightarrow> (r, st\<lparr>is_files := fs\<rparr>)))
      | None \<Rightarrow>
          (let choices = downloadable hw downloaded catalog in
           if choices = [] then (Ok (), st)
           else case read_line st of
             (Inl e, st1) \<Rightarrow> (Err e, st1)
           | (Inr input, st1) \<Rightarrow> download_selected ob base_url choices (selections input) st1))"

definition model_dir :: "install_obs \<Rightarrow> string \<Rightarrow> string" where
  "model_dir ob model_id = home_path ob (''.cache/huggingface/hub/models--'' @ str_replace model_id ''/'' ''--'')"

text \<open>\<open>sel.saturating_sub(1)\<close> as an index into the list.\<close>

definition selected_download :: "model_info list \<Rightarrow> u64 \<Rightarrow> model_info option" where
  "selected_download downloaded sel =
     (let i = unat sel - 1 in if i < length downloaded then Some (downloaded ! i) else None)"

fun remove_selected ::
  "install_obs \<Rightarrow> (files \<Rightarrow> string \<Rightarrow> bool) \<Rightarrow> model_info list \<Rightarrow> u64 list \<Rightarrow> install_state \<Rightarrow> unit result \<times> install_state" where
  "remove_selected ob dir_exists downloaded [] st = (Ok (), st)"
| "remove_selected ob dir_exists downloaded (sel # sels) st =
     (case selected_download downloaded sel of
        None \<Rightarrow> remove_selected ob dir_exists downloaded sels st
      | Some m \<Rightarrow>
          let dir = model_dir ob (mi_id m) in
          if \<not> dir_exists (is_files st) dir then remove_selected ob dir_exists downloaded sels st
          else if io_remove_ok ob dir
          then remove_selected ob dir_exists downloaded sels (st\<lparr>is_files := remove_dir_all (\<lambda>_. True) dir (is_files st)\<rparr>)
          else (Err ''cannot remove'', st))"

definition models_remove ::
  "install_obs \<Rightarrow> (files \<Rightarrow> string \<Rightarrow> bool) \<Rightarrow> model_info list \<Rightarrow> install_state \<Rightarrow> unit result \<times> install_state" where
  "models_remove ob dir_exists downloaded st =
     (if downloaded = [] then (Ok (), st)
      else case read_line st of
        (Inl e, st1) \<Rightarrow> (Err e, st1)
      | (Inr input, st1) \<Rightarrow> remove_selected ob dir_exists downloaded (selections input) st1)"

text \<open>The action asked for, or the answer to the overview; \<open>None\<close> ends the command.\<close>

definition effective_action :: "string \<Rightarrow> install_state \<Rightarrow> string option result \<times> install_state" where
  "effective_action action st =
     (if action \<noteq> ''list'' then (Ok (Some action), st)
      else case read_line st of
        (Inl e, st1) \<Rightarrow> (Err e, st1)
      | (Inr input, st1) \<Rightarrow>
          (Ok (if trim input = ''1'' then Some ''download'' else if trim input = ''2'' then Some ''remove'' else None), st1))"

definition cmd_models ::
  "install_obs \<Rightarrow> (files \<Rightarrow> string \<Rightarrow> bool) \<Rightarrow> string \<Rightarrow> string \<Rightarrow> string option \<Rightarrow> install_state \<Rightarrow> unit result \<times> install_state" where
  "cmd_models ob dir_exists action url model_override st =
     (case io_hardware ob of
        Inl e \<Rightarrow> (Err e, st)
      | Inr hw \<Rightarrow>
          let downloaded = scan_available ob hw; catalog = fetch_catalog (io_get ob) url in
          case effective_action action st of
            (Inl e, st1) \<Rightarrow> (Err e, st1)
          | (Inr None, st1) \<Rightarrow> (Ok (), st1)
          | (Inr (Some a), st1) \<Rightarrow>
              if a \<in> {''download'', ''download-s3'', ''add''} then models_download ob url model_override hw catalog downloaded st1
              else if a \<in> {''remove'', ''rm'', ''delete''} then models_remove ob dir_exists downloaded st1
              else (Ok (), st1))"

section \<open>Benchmark, earnings, logs and hashes\<close>

definition benchmark_index :: "string \<Rightarrow> nat \<Rightarrow> nat" where
  "benchmark_index input n =
     min ((case parse_u64 (trim input) of Some i \<Rightarrow> unat i | None \<Rightarrow> 1) - 1) (n - 1)"

text \<open>The model that is measured and where it is; the measurement itself is run by Python.\<close>

definition benchmark_model ::
  "install_obs \<Rightarrow> (string \<Rightarrow> bool) \<Rightarrow> string \<Rightarrow> install_state \<Rightarrow> (string \<times> path) result \<times> install_state" where
  "benchmark_model ob ex default_url st =
     (case io_hardware ob of
        Inl e \<Rightarrow> (Err e, st)
      | Inr hw \<Rightarrow>
          if \<not> (case io_run ob (python_command ob ex) [''-c'', ''import vllm_mlx; print('ok')''] of Some out \<Rightarrow> co_success out | None \<Rightarrow> False)
          then (Err ''vllm-mlx not found. Run: darkbloom install'', st)
          else
            let servable = servable_models (fetch_catalog (io_get ob) default_url) (scan_available ob hw) in
            if servable = [] then (Err ''No catalog models downloaded. Run: darkbloom models download'', st)
            else case read_line st of
              (Inl e, st1) \<Rightarrow> (Err e, st1)
            | (Inr input, st1) \<Rightarrow>
                let m = servable ! benchmark_index input (length servable) in
                (case resolve_local_path (io_models ob) (mi_id m) of
                   None \<Rightarrow> (Err (''Could not find model on disk: '' @ mi_id m), st1)
                 | Some p \<Rightarrow> (Ok (mi_id m, p), st1)))"

datatype earnings_report =
    CoordinatorOffline
  | EarningsShown string string u64 "(u64 \<times> string) list"
  | EarningsRefused nat
  | EarningsUnavailable

definition payout_of :: "json \<Rightarrow> u64 \<times> string" where
  "payout_of p =
     (option_unwrap_or 0 (json_get_as json_as_i64 ''amount_micro_usd'' p), option_unwrap_or ''unknown'' (json_get_as json_as_str ''model'' p))"

definition cmd_earnings :: "(string \<Rightarrow> http_json) \<Rightarrow> string \<Rightarrow> earnings_report result" where
  "cmd_earnings get url =
     (case get (url @ ''/health'') of
        None \<Rightarrow> Ok CoordinatorOffline
      | Some (status, body) \<Rightarrow>
          if \<not> http_ok_status status then Ok CoordinatorOffline
          else if body = None then Err ''invalid JSON''
          else (case get (url @ ''/v1/provider/earnings'') of
             None \<Rightarrow> Ok EarningsUnavailable
           | Some (status, reply) \<Rightarrow>
               if \<not> http_ok_status status then Ok (EarningsRefused status)
               else (case reply of
                  None \<Rightarrow> Err ''invalid JSON''
                | Some doc \<Rightarrow>
                    Ok (EarningsShown (option_unwrap_or ''0.000000'' (json_get_as json_as_str ''balance_usd'' doc))
                          (option_unwrap_or ''0.000000'' (json_get_as json_as_str ''total_earned_usd'' doc))
                          (option_unwrap_or 0 (json_get_as json_as_i64 ''total_jobs'' doc))
                          (map payout_of (take 5 (rev (option_unwrap_or [] (json_get_as json_as_array ''payouts'' doc)))))))))"

text \<open>The last lines of the log; with \<open>--watch\<close> it is left to \<open>tail\<close>. A log file may exist and not be readable as
  text.\<close>

definition log_tail :: "nat \<Rightarrow> string \<Rightarrow> string list" where
  "log_tail n content = (let ls = str_lines content in drop (length ls - n) ls)"

definition cmd_logs :: "cmd_env \<Rightarrow> string option \<Rightarrow> (string \<Rightarrow> string option option) \<Rightarrow> nat \<Rightarrow> bool \<Rightarrow> string list result" where
  "cmd_logs run home log_file n watching =
     (let log_path = (case home of None \<Rightarrow> [] | Some h \<Rightarrow> h @ ''/'') @ ''.darkbloom/provider.log'' in
      case log_file log_path of
        None \<Rightarrow> Ok [''No log file found at '' @ log_path, ''Start the provider first: darkbloom start'']
      | Some content \<Rightarrow>
          if watching then
            (case run ''tail'' [''-f'', ''-n'', show_nat n, log_path] of
               None \<Rightarrow> Err ''failed to run tail''
             | Some status \<Rightarrow> if co_success status then Ok [] else Err ''tail exited with an error'')
          else (case content of
                  None \<Rightarrow> Err ''cannot read the log''
                | Some text \<Rightarrow> Ok (log_tail n text)))"

definition cmd_hash_runtime :: "(bytes \<Rightarrow> bytes) \<Rightarrow> (path \<Rightarrow> bool) \<Rightarrow> fnode option \<Rightarrow> string result" where
  "cmd_hash_runtime sha256 rm lib_dir =
     (case lib_dir of
        None \<Rightarrow> Err ''directory does not exist''
      | Some lib \<Rightarrow>
          let lib' = purge_pycache rm [] lib; files = sort_key path_string (collect_runtime_files [] lib') in
          (case hash_files_sorted sha256 (read_file lib') files of
             Some hash \<Rightarrow> Ok hash
           | None \<Rightarrow> Err ''failed to hash runtime''))"

section \<open>Lemmas\<close>

lemma fold_verdicts:
  "fold record_verdict vs (n, is) = (n + length (filter (\<lambda>v. v = None) vs), is @ List.map_filter id vs)"
  by (induction vs arbitrary: n "is") (auto simp: record_verdict_def List.map_filter_simps split: option.split)

lemma verdict_split: "length (filter (\<lambda>v. v = None) vs) + length (List.map_filter id vs) = length vs"
  by (induction vs) (auto simp: List.map_filter_simps split: option.split)

lemma issue_unless_none [simp]: "issue_unless issue ok = None \<longleftrightarrow> ok"
  by (simp add: issue_unless_def)

lemma map_filter_nil: "List.map_filter id vs = [] \<longleftrightarrow> (\<forall>v \<in> set vs. v = None)"
  by (induction vs) (auto simp: List.map_filter_simps split: option.split)

text \<open>The coordinator's records come with the hardware verified ones first.\<close>

lemma verified_record_first:
  assumes "fetch_coordinator_provider_trust get url serial = Ok (r # rs)" "p \<in> set (r # rs)" "is_hardware_verified p"
  shows "is_hardware_verified r"
proof -
  obtain ps where ps: "r # rs = sort_by prefer_provider_record ps"
    using assms(1)
    by (auto simp: fetch_coordinator_provider_trust_def eq_commute[of _ "r # rs"] split: option.splits if_splits prod.splits)
  have "sorted (map (\<lambda>p. \<not> is_hardware_verified p) (sort_by prefer_provider_record ps))"
    by (rule sort_by_key_sorted) (simp only: prefer_provider_record_unfold)
  with assms(2,3) show ?thesis unfolding ps[symmetric] by auto
qed

lemma trust_issue_none:
  "trust_issue ob url = None \<longleftrightarrow>
     (\<exists>serial rs p. get_serial_number (io_run ob) = Ok serial \<and> fetch_coordinator_provider_trust (io_get ob) url serial = Ok rs \<and>
        p \<in> set rs \<and> is_hardware_verified p)"
proof
  assume "trust_issue ob url = None"
  then obtain serial r rs where "get_serial_number (io_run ob) = Ok serial"
      "fetch_coordinator_provider_trust (io_get ob) url serial = Ok (r # rs)" "is_hardware_verified r"
    by (auto simp: trust_issue_def split: sum.splits list.splits)
  then show "\<exists>serial rs p. get_serial_number (io_run ob) = Ok serial \<and> fetch_coordinator_provider_trust (io_get ob) url serial = Ok rs \<and>
        p \<in> set rs \<and> is_hardware_verified p"
    by fastforce
next
  assume "\<exists>serial rs p. get_serial_number (io_run ob) = Ok serial \<and> fetch_coordinator_provider_trust (io_get ob) url serial = Ok rs \<and>
        p \<in> set rs \<and> is_hardware_verified p"
  then obtain serial rs p where a: "get_serial_number (io_run ob) = Ok serial" "fetch_coordinator_provider_trust (io_get ob) url serial = Ok rs"
      "p \<in> set rs" "is_hardware_verified p" by blast
  then obtain r rs' where "rs = r # rs'" by (cases rs) auto
  with a verified_record_first[of "io_get ob" url serial r rs' p] show "trust_issue ob url = None"
    by (simp add: trust_issue_def)
qed

lemma find_enumerated:
  "List.find (\<lambda>ic. fst ic = k) (enumerate n xs) = (if n \<le> k \<and> k < n + length xs then Some (k, xs ! (k - n)) else None)"
proof (induction xs arbitrary: n)
  case (Cons x xs)
  show ?case
    by (cases "k = n") (auto simp: Cons.IH Suc_diff_le nth_Cons' le_Suc_eq)
qed simp

lemma remove_selected_files:
  assumes "remove_selected ob dir_exists downloaded sels st = (Ok (), st')"
    and "\<And>fs d. dir_exists fs d \<longleftrightarrow> (\<exists>q. starts_with q (d @ ''/'') \<and> fs q \<noteq> None)"
  shows "is_files st' p =
    (if \<exists>sel \<in> set sels. \<exists>m. selected_download downloaded sel = Some m \<and> starts_with p (model_dir ob (mi_id m) @ ''/'')
     then None else is_files st p)"
  using assms(1)
proof (induction sels arbitrary: st)
  case (Cons sel sels)
  show ?case
  proof (cases "selected_download downloaded sel")
    case None
    with Cons show ?thesis by simp
  next
    case (Some m)
    let ?dir = "model_dir ob (mi_id m)"
    show ?thesis
    proof (cases "dir_exists (is_files st) ?dir")
      case True
      with Some Cons.prems have r: "remove_selected ob dir_exists downloaded sels
          (st\<lparr>is_files := remove_dir_all (\<lambda>_. True) ?dir (is_files st)\<rparr>) = (Ok (), st')"
        by (simp add: Let_def split: if_splits)
      show ?thesis using Cons.IH[OF r] Some by (auto simp: remove_dir_all_def)
    next
      case False
      with Some Cons.prems have r: "remove_selected ob dir_exists downloaded sels st = (Ok (), st')"
        by (simp add: Let_def)
      have "starts_with p (?dir @ ''/'') \<Longrightarrow> is_files st p = None"
        using False assms(2)[of "is_files st" ?dir] by blast
      then show ?thesis using Cons.IH[OF r] Some by auto
    qed
  qed
qed simp

section \<open>Properties\<close>

text \<open>The doctor's nine checks are counted once each, and it reports no issue exactly when the hardware is
  detected, system integrity protection is on, the enclave helper answers, a management profile is
  installed, the inference runtime imports, a model is on disk, the coordinator is healthy, and the
  coordinator has some record of this machine with hardware trust.\<close>

theorem doctor_all_good:
  "fst (cmd_doctor ob ex url) + length (snd (cmd_doctor ob ex url)) = 9 \<and>
   (snd (cmd_doctor ob ex url) = [] \<longleftrightarrow>
     (\<exists>hw. io_hardware ob = Ok hw \<and> scan_available ob hw \<noteq> []) \<and> check_sip_enabled (io_run ob) \<and> enclave_ok ob \<and>
     enrolled ob \<and> runtime_ok ob ex \<and> (\<exists>status body. io_get ob (url @ ''/health'') = Some (status, body) \<and> http_ok_status status) \<and>
     (\<exists>serial rs p. get_serial_number (io_run ob) = Ok serial \<and> fetch_coordinator_provider_trust (io_get ob) url serial = Ok rs \<and>
        p \<in> set rs \<and> is_hardware_verified p))"
proof -
  have "length (doctor_verdicts ob ex url) = 9" by (simp add: doctor_verdicts_def)
  then have n: "fst (cmd_doctor ob ex url) + length (snd (cmd_doctor ob ex url)) = 9"
    using verdict_split[of "doctor_verdicts ob ex url"] by (simp add: cmd_doctor_def fold_verdicts)
  have c: "coordinator_issue ob url = None \<longleftrightarrow> (\<exists>status body. io_get ob (url @ ''/health'') = Some (status, body) \<and> http_ok_status status)"
    by (auto simp: coordinator_issue_def split: option.split)
  have "snd (cmd_doctor ob ex url) = [] \<longleftrightarrow> (\<forall>v \<in> set (doctor_verdicts ob ex url). v = None)"
    by (simp add: cmd_doctor_def fold_verdicts map_filter_nil)
  also have "\<dots> \<longleftrightarrow> (\<exists>hw. io_hardware ob = Ok hw \<and> scan_available ob hw \<noteq> []) \<and> check_sip_enabled (io_run ob) \<and> enclave_ok ob \<and>
     enrolled ob \<and> runtime_ok ob ex \<and> coordinator_issue ob url = None \<and> trust_issue ob url = None"
    by (cases "io_hardware ob") (auto simp: doctor_verdicts_def)
  finally show ?thesis using n unfolding c trust_issue_none by blast
qed

text \<open>Removing models deletes exactly the files below the directories of the models the numbers select.\<close>

theorem models_remove_exact:
  assumes "models_remove ob dir_exists downloaded st = (Ok (), st')" and "is_stdin st = Ok input # rest" and "downloaded \<noteq> []"
    and "\<And>fs d. dir_exists fs d \<longleftrightarrow> (\<exists>q. starts_with q (d @ ''/'') \<and> fs q \<noteq> None)"
  shows "is_files st' p =
    (if \<exists>sel \<in> set (selections input). \<exists>m. selected_download downloaded sel = Some m \<and> starts_with p (model_dir ob (mi_id m) @ ''/'')
     then None else is_files st p)"
  using assms(1-3) remove_selected_files[OF _ assms(4), of ob downloaded "selections input" _ st' p]
  by (fastforce simp: models_remove_def read_line_def)

text \<open>A number of the download list selects the model shown next to it, and no other number selects
  anything.\<close>

theorem download_number_selects:
  "List.find (\<lambda>ic. fst ic = unat sel) (downloadable hw downloaded catalog) =
     (let available = filter (\<lambda>cm. \<not> have_model downloaded cm \<and> fits_available hw cm) catalog in
      if 1 \<le> unat sel \<and> unat sel \<le> length available then Some (unat sel, available ! (unat sel - 1)) else None)"
proof -
  have "(\<lambda>cm. catalog_label hw downloaded cm = LAvailable) = (\<lambda>cm. \<not> have_model downloaded cm \<and> fits_available hw cm)"
    by (auto simp: catalog_label_def)
  then show ?thesis by (auto simp: downloadable_def find_enumerated Let_def)
qed

text \<open>The hash the release process prints for a runtime is the hash the provider reports for it.\<close>

theorem hash_runtime_agrees:
  "cmd_hash_runtime sha256 rm (Some lib) =
     (case rh_runtime_hash (compute_runtime_hashes sha256 rm python (Some lib) templates) of
        Some h \<Rightarrow> Ok h | None \<Rightarrow> Err ''failed to hash runtime'')"
  by (simp add: cmd_hash_runtime_def compute_runtime_hashes_def runtime_tree_hash_def Let_def)

text \<open>The index of a benchmark is in range whatever is typed.\<close>

lemma benchmark_index_in_range: "n > 0 \<Longrightarrow> benchmark_index input n < n"
  by (simp add: benchmark_index_def)

lemma log_tail_length: "length (log_tail n content) = min n (length (str_lines content))"
  by (simp add: log_tail_def Let_def)

section \<open>Witnesses and observations\<close>

definition any_below :: "files \<Rightarrow> string \<Rightarrow> bool" where
  "any_below fs d \<longleftrightarrow> (\<exists>q. starts_with q (d @ ''/'') \<and> fs q \<noteq> None)"

definition small_model :: model_info where
  "small_model = \<lparr>mi_id = ''a/b'', mi_model_type = None, mi_parameters = None, mi_quantization = None, mi_size_bytes = 1,
     mi_estimated_memory_gb = f64_of_nat 1, mi_weight_hash = None\<rparr>"

lemma sample_removes:
  assumes "selections input = [sel]" "unat sel \<le> 1"
  shows "\<exists>st'. models_remove demo_install any_below [small_model] (sample_install_state [Ok input]) = (Ok (), st')"
proof -
  have "io_remove_ok demo_install d" for d by (simp add: demo_install_def)
  then show ?thesis
    using assms by (auto simp: models_remove_def read_line_def sample_install_state_def selected_download_def Let_def)
qed

theorem models_remove_exact_witness:
  "\<exists>st'. models_remove demo_install any_below [small_model] (sample_install_state [Ok ''1'']) = (Ok (), st') \<and>
     is_files st' ''/h/.cache/huggingface/hub/models--a--b/x'' = None \<and> is_files st' ''/h/other'' \<noteq> None"
proof -
  have s: "selections ''1'' = [1]"
    by (simp add: selections_def trim_def trim_start_def is_ascii_space_def parse_u64_def parse_nat_def digit_val_def List.map_filter_simps)
  then obtain st' where r: "models_remove demo_install any_below [small_model] (sample_install_state [Ok ''1'']) = (Ok (), st')"
    using sample_removes[of "''1''" 1] by auto
  have i: "is_stdin (sample_install_state [Ok ''1'']) = Ok ''1'' # []" by (simp add: sample_install_state_def)
  have d: "model_dir demo_install ''a/b'' = ''/h/.cache/huggingface/hub/models--a--b''"
  proof -
    have "str_replace ''a/b'' ''/'' ''--'' = ''a--b''" by code_simp
    then show ?thesis by (simp add: model_dir_def home_path_def demo_install_def)
  qed
  note exact = models_remove_exact[OF r i _ any_below_def]
  show ?thesis
    using exact[of "''/h/.cache/huggingface/hub/models--a--b/x''"] exact[of "''/h/other''"] r
    by (simp add: s selected_download_def small_model_def d starts_with_def sample_install_state_def)
qed

text \<open>The number 0, which is not in the list, removes the first model.\<close>

lemma zero_removes_first: "selected_download (m # ms) 0 = Some m"
  by (simp add: selected_download_def)

text \<open>The doctor does not look at RDMA: a machine with nothing to fix still has nothing to fix when RDMA is
  switched on, while the security posture that \<open>install\<close> verifies fails.\<close>

definition rdma_on :: "install_obs \<Rightarrow> install_obs" where
  "rdma_on ob = ob\<lparr>io_run := (\<lambda>cmd args. if cmd = ''/usr/bin/rdma_ctl''
     then Some \<lparr>co_success = True, co_stdout = ''enabled'', co_stderr = []\<rparr> else io_run ob cmd args)\<rparr>"

lemma doctor_misses_rdma:
  "cmd_doctor (rdma_on ob) ex url = cmd_doctor ob ex url"
  "\<exists>e. verify_security_posture (io_run (rdma_on ob)) (io_exe ob) False [] [] = Err e"
proof -
  have h: "home_path ob name = ''/usr/bin/rdma_ctl'' \<Longrightarrow> name \<noteq> [] \<Longrightarrow> last name = CHR ''l''" for name
  proof -
    assume "home_path ob name = ''/usr/bin/rdma_ctl''" "name \<noteq> []"
    then have "last (home_path ob name) = CHR ''l''" by simp
    with \<open>name \<noteq> []\<close> show "last name = CHR ''l''" by (auto simp: home_path_def split: option.splits)
  qed
  have n: "home_path ob ''.darkbloom/bin/eigeninference-enclave'' \<noteq> ''/usr/bin/rdma_ctl''"
      "home_path ob ''.darkbloom/python/bin/python3.12'' \<noteq> ''/usr/bin/rdma_ctl''"
    using h[of "''.darkbloom/bin/eigeninference-enclave''"] h[of "''.darkbloom/python/bin/python3.12''"] by auto
  have hp: "home_path (rdma_on ob) = home_path ob" by (simp add: fun_eq_iff home_path_def rdma_on_def)
  have "python_command ob ex \<noteq> ''/usr/bin/rdma_ctl''" using n(2) by (simp add: python_command_def Let_def)
  moreover have "python_command (rdma_on ob) ex = python_command ob ex" by (simp add: python_command_def hp)
  ultimately have r: "runtime_ok (rdma_on ob) ex = runtime_ok ob ex" by (simp add: runtime_ok_def rdma_on_def)
  have e: "enclave_ok (rdma_on ob) = enclave_ok ob" using n(1) unfolding enclave_ok_def hp by (simp add: rdma_on_def split: option.split)
  have m: "enrolled (rdma_on ob) = enrolled ob"
    by (simp add: enrolled_def check_mdm_enrolled_def profiles_enrolled_def rdma_on_def)
  have g: "get_serial_number (io_run (rdma_on ob)) = get_serial_number (io_run ob)" "io_get (rdma_on ob) = io_get ob"
      "io_hardware (rdma_on ob) = io_hardware ob" "check_sip_enabled (io_run (rdma_on ob)) = check_sip_enabled (io_run ob)"
      "scan_available (rdma_on ob) = scan_available ob"
    by (simp_all add: get_serial_number_def check_sip_enabled_def scan_available_def fun_eq_iff rdma_on_def)
  show "cmd_doctor (rdma_on ob) ex url = cmd_doctor ob ex url"
    unfolding cmd_doctor_def doctor_verdicts_def coordinator_issue_def trust_issue_def r e m g ..
  have "trim ''enabled'' = ''enabled''" by code_simp
  then have "\<not> check_rdma_disabled (io_run (rdma_on ob))" by (simp add: check_rdma_disabled_def rdma_on_def)
  then show "\<exists>e. verify_security_posture (io_run (rdma_on ob)) (io_exe ob) False [] [] = Err e"
    by (simp add: verify_security_posture_def)
qed

end
