(* ===== verification/BuildTools.thy ===== *)
theory BuildTools
  imports Coordinator Catalog Telemetry "HOL-Library.Monad_Syntax"
begin

text \<open>
  The two small programs beside the provider. \<open>build.rs\<close> derives the addresses that are compiled
  into the binary from the environment of the build; the constants at the top of \<open>main.rs\<close> read
  them; for macOS it first builds the enclave library and tells the linker about it. The decryptor under
  \<open>coordinator/internal/e2e/testdata\<close> is the reference against which the coordinator's encryption is
  tested.
\<close>

section \<open>The build script\<close>

text \<open>What the script prints for cargo.\<close>

datatype cargo_line =
    RerunIfEnvChanged string
  | RerunIfChanged string
  | RustcEnv string string
  | LinkSearch string
  | LinkLib string
  | LinkArg string

text \<open>The addresses of the coordinator; \<open>None\<close> is the panic for another scheme.\<close>

definition coordinator_lines :: "string option \<Rightarrow> cargo_line list option" where
  "coordinator_lines v =
     (case v of
        None \<Rightarrow> Some []
      | Some v \<Rightarrow>
          let base = trim_end_matches (CHR ''/'') v;
              ws_base = (case strip_prefix base ''https://'' of
                           Some rest \<Rightarrow> Some (''wss://'' @ rest)
                         | None \<Rightarrow> (case strip_prefix base ''http://'' of
                                      Some rest \<Rightarrow> Some (''ws://'' @ rest)
                                    | None \<Rightarrow> None))
          in map_option (\<lambda>ws_base.
               [RustcEnv ''DARKBLOOM_COORDINATOR_HTTP_URL'' base,
                RustcEnv ''DARKBLOOM_COORDINATOR_WS_URL'' (ws_base @ ''/ws/provider''),
                RustcEnv ''DARKBLOOM_ENROLL_PROFILE_URL'' (base @ ''/enroll.mobileconfig''),
                RustcEnv ''DARKBLOOM_INSTALL_URL'' (base @ ''/install.sh'')]) ws_base)"

definition cdn_lines :: "string option \<Rightarrow> string option \<Rightarrow> cargo_line list" where
  "cdn_lines cdn spk =
     (case cdn of
        None \<Rightarrow> []
      | Some cdn \<Rightarrow>
          RustcEnv ''DARKBLOOM_R2_CDN_URL'' (trim_end_matches (CHR ''/'') cdn) #
          (if spk = None then [RustcEnv ''DARKBLOOM_R2_SITE_PACKAGES_CDN_URL'' (trim_end_matches (CHR ''/'') cdn)] else [])) @
     (case spk of
        None \<Rightarrow> []
      | Some spk \<Rightarrow> [RustcEnv ''DARKBLOOM_R2_SITE_PACKAGES_CDN_URL'' (trim_end_matches (CHR ''/'') spk)])"

text \<open>The enclave library: the directory of the manifest, the outcome of \<open>swift build\<close>, and the answers of
  \<open>xcrun\<close>; \<open>None\<close> is a panic. The parent of a path given as text: its components without the last one;
  repeated slashes are one.\<close>

record link_obs =
  lo_manifest_dir :: "string option"
  lo_swift_build :: "bool option"
  lo_run :: "string \<Rightarrow> string list \<Rightarrow> (bool \<times> string) option"

definition command_output :: "link_obs \<Rightarrow> string \<Rightarrow> string list \<Rightarrow> string option" where
  "command_output ob binary args =
     (case lo_run ob binary args of
        Some (True, out) \<Rightarrow> if utf8_valid out then Some (trim out) else None
      | _ \<Rightarrow> None)"

definition text_components :: "string \<Rightarrow> string list" where
  "text_components s =
     (case str_split (CHR ''/'') s of
        [] \<Rightarrow> []
      | c # cs \<Rightarrow> (if c = [] then [] else [c]) @ filter (\<lambda>d. d \<noteq> [] \<and> d \<noteq> ''.'') cs)"

definition text_parent :: "string \<Rightarrow> string option" where
  "text_parent s =
     (if text_components s = [] then None
      else Some ((if prefix ''/'' s then ''/'' else []) @ str_join ''/'' (butlast (text_components s))))"

definition text_join :: "string \<Rightarrow> string \<Rightarrow> string" where
  "text_join p n = (if p = [] \<or> last p = CHR ''/'' then p @ n else p @ ''/'' @ n)"

definition link_enclave_library :: "link_obs \<Rightarrow> cargo_line list option" where
  "link_enclave_library ob =
     do {
       manifest_dir \<leftarrow> lo_manifest_dir ob;
       let enclave_dir = text_join manifest_dir ''../enclave'';
       (if lo_swift_build ob = Some True then Some () else None);
       sdk_path \<leftarrow> command_output ob ''xcrun'' [''--sdk'', ''macosx'', ''--show-sdk-path''];
       swiftc_path \<leftarrow> command_output ob ''xcrun'' [''--toolchain'', ''swift'', ''--find'', ''swiftc''];
       bin \<leftarrow> text_parent swiftc_path;
       toolchain \<leftarrow> text_parent bin;
       Some
         [RerunIfChanged (text_join enclave_dir ''Package.swift''),
          RerunIfChanged (text_join enclave_dir ''Sources/EigenInferenceEnclave''),
          RerunIfChanged (text_join enclave_dir ''include/eigeninference_enclave.h''),
          LinkSearch (text_join enclave_dir ''.build/arm64-apple-macosx/release''),
          LinkSearch (sdk_path @ ''/usr/lib/swift''),
          LinkSearch (text_join toolchain ''lib/swift/macosx''),
          LinkLib ''static=EigenInferenceEnclave'', LinkLib ''framework=Foundation'', LinkLib ''framework=Security'',
          LinkLib ''framework=CryptoKit'', LinkArg ''-Wl,-rpath,/usr/lib/swift'']
     }"

definition build_main :: "link_obs option \<Rightarrow> (string \<Rightarrow> string option) \<Rightarrow> cargo_line list option" where
  "build_main macos var =
     (case (case macos of None \<Rightarrow> Some [] | Some ob \<Rightarrow> link_enclave_library ob) of
        None \<Rightarrow> None
      | Some link \<Rightarrow>
          (case coordinator_lines (var ''DARKBLOOM_COORDINATOR_URL'') of
             None \<Rightarrow> None
           | Some urls \<Rightarrow> Some (link @
               [RerunIfEnvChanged ''DARKBLOOM_COORDINATOR_URL'', RerunIfEnvChanged ''DARKBLOOM_R2_CDN_URL'',
                RerunIfEnvChanged ''DARKBLOOM_R2_SITE_PACKAGES_CDN_URL''] @
               urls @ cdn_lines (var ''DARKBLOOM_R2_CDN_URL'') (var ''DARKBLOOM_R2_SITE_PACKAGES_CDN_URL''))))"

section \<open>The constants of the binary\<close>

text \<open>\<open>option_env!\<close> sees the variables the script printed.\<close>

fun rustc_vars :: "cargo_line list \<Rightarrow> (string \<times> string) list" where
  "rustc_vars [] = []"
| "rustc_vars (RustcEnv k v # ls) = (k, v) # rustc_vars ls"
| "rustc_vars (_ # ls) = rustc_vars ls"

definition option_env :: "cargo_line list \<Rightarrow> string \<Rightarrow> string \<Rightarrow> string" where
  "option_env ls k fallback = (case map_of (rustc_vars ls) k of Some v \<Rightarrow> v | None \<Rightarrow> fallback)"

definition default_coordinator_http_url :: "cargo_line list \<Rightarrow> string" where
  "default_coordinator_http_url ls = option_env ls ''DARKBLOOM_COORDINATOR_HTTP_URL'' ''https://api.darkbloom.dev''"

definition default_coordinator_ws_url :: "cargo_line list \<Rightarrow> string" where
  "default_coordinator_ws_url ls = option_env ls ''DARKBLOOM_COORDINATOR_WS_URL'' ''wss://api.darkbloom.dev/ws/provider''"

definition default_install_url :: "cargo_line list \<Rightarrow> string" where
  "default_install_url ls = option_env ls ''DARKBLOOM_INSTALL_URL'' ''https://api.darkbloom.dev/install.sh''"

definition build_r2_cdn_url :: "cargo_line list \<Rightarrow> string" where
  "build_r2_cdn_url ls = option_env ls ''DARKBLOOM_R2_CDN_URL'' ''https://pub-7cbee059c80c46ec9c071dbee2726f8a.r2.dev''"

definition build_site_packages_cdn_url :: "cargo_line list \<Rightarrow> string" where
  "build_site_packages_cdn_url ls =
     option_env ls ''DARKBLOOM_R2_SITE_PACKAGES_CDN_URL'' ''https://pub-3d1cb668259340eeb2276e1d375c846d.r2.dev''"

section \<open>The reference decryptor\<close>

text \<open>Every failure exits with code 1; otherwise the text is printed.\<close>

definition decrypt_main :: "(string \<Rightarrow> bytes option) \<Rightarrow> crypto_box \<Rightarrow> string list \<Rightarrow> string result" where
  "decrypt_main decode cb args =
     (case args of
        [_, eph_arg, cipher_arg, priv_arg] \<Rightarrow>
          (case decode eph_arg of
             None \<Rightarrow> Err ''failed to decode ephemeral public key''
           | Some eph_pub \<Rightarrow>
               (case decode cipher_arg of
                  None \<Rightarrow> Err ''failed to decode ciphertext''
                | Some cipher \<Rightarrow>
                    (case decode priv_arg of
                       None \<Rightarrow> Err ''failed to decode provider private key''
                     | Some priv \<Rightarrow>
                         if length eph_pub \<noteq> 32 then Err ''ephemeral public key must be 32 bytes''
                         else if length priv \<noteq> 32 then Err ''provider private key must be 32 bytes''
                         else if length cipher < 24 then Err ''ciphertext too short''
                         else case cb_open cb eph_pub priv (take 24 cipher) (drop 24 cipher) of
                           None \<Rightarrow> Err ''decryption failed''
                         | Some plaintext \<Rightarrow>
                             if utf8_valid (bytes_str plaintext) then Ok (bytes_str plaintext)
                             else Err ''plaintext is not valid UTF-8'')))
      | _ \<Rightarrow> Err ''usage'')"

section \<open>Lemmas\<close>

lemma bytes_str_str_bytes [simp]: "bytes_str (str_bytes s) = s"
  by (simp flip: str_bytes_inject)

lemma prefix_same_mark:
  "x \<notin> set u \<Longrightarrow> x \<notin> set q \<Longrightarrow> prefix (q @ x # p) (u @ x # t) \<longleftrightarrow> u = q \<and> prefix p t"
proof (induction q arbitrary: u)
  case Nil
  then show ?case by (cases u) auto
next
  case (Cons a q)
  then show ?case by (cases u) auto
qed

lemma str_replace_before:
  assumes "\<And>u. suffix u h \<Longrightarrow> u \<noteq> [] \<Longrightarrow> \<not> prefix p (u @ t)"
  shows "str_replace (h @ t) p r = h @ str_replace t p r"
  using assms
proof (induction h)
  case (Cons a h)
  from Cons.prems[of "a # h"] have "\<not> prefix p (a # h @ t)" by simp
  moreover have "str_replace (h @ t) p r = h @ str_replace t p r"
    using Cons.prems by (intro Cons.IH) (simp add: suffix_ConsI)
  ultimately show ?case by (simp add: str_replace_Cons)
qed simp

text \<open>A pattern with a slash after a part without one is not found in a part without slashes that is
  followed by a slash.\<close>

lemma str_replace_host:
  assumes "CHR ''/'' \<notin> set h" and "CHR ''/'' \<notin> set q" and "q = [] \<or> \<not> prefix p t"
  shows "str_replace (h @ CHR ''/'' # t) (q @ CHR ''/'' # p) r = h @ str_replace (CHR ''/'' # t) (q @ CHR ''/'' # p) r"
proof (rule str_replace_before)
  fix u assume "suffix u h" "u \<noteq> []"
  then have "CHR ''/'' \<notin> set u" using assms(1) by (auto simp: suffix_def)
  then show "\<not> prefix (q @ CHR ''/'' # p) (u @ CHR ''/'' # t)"
    using prefix_same_mark[of "CHR ''/''" u q p t] assms(2,3) \<open>u \<noteq> []\<close> by auto
qed

lemma ws_to_http_host:
  assumes "CHR ''/'' \<notin> set h"
  shows "ws_to_http (''wss://'' @ h @ ''/ws/provider'') = ''https://'' @ h"
    and "ws_to_http (''ws://'' @ h @ ''/ws/provider'') = ''http://'' @ h"
  using str_replace_host[OF assms, of "''wss:''" "''/''" "''ws/provider''" "''https://''"]
    str_replace_host[OF assms, of "''ws:''" "''/''" "''ws/provider''" "''http://''"]
    str_replace_host[OF assms, of "[]" "''ws/provider''" "''ws/provider''" "[]"]
    prefix_same_mark[OF assms, of "''ws''" "''provider''" "''ws/provider''"]
  by (simp_all add: ws_to_http_def str_replace_Cons)

lemma trim_end_slash_id: "s \<noteq> [] \<Longrightarrow> last s \<noteq> c \<Longrightarrow> trim_end_matches c s = s"
  by (cases s rule: rev_cases) (simp_all add: trim_end_matches_def)

lemma telemetry_endpoint_host:
  assumes "CHR ''/'' \<notin> set h" and "h \<noteq> []"
  shows "telemetry_ingest_endpoint (''wss://'' @ h @ ''/ws/provider'') = ''https://'' @ h @ ''/v1/telemetry/events''"
    and "telemetry_ingest_endpoint (''ws://'' @ h @ ''/ws/provider'') = ''http://'' @ h @ ''/v1/telemetry/events''"
proof -
  have "last h \<noteq> CHR ''/''" using assms by (metis last_in_set)
  then have t: "trim_end_matches (CHR ''/'') (scheme @ h) = scheme @ h" for scheme
    using assms(2) by (intro trim_end_slash_id) auto
  have w: "trim_end_matches (CHR ''/'') (s @ ''/ws/provider'') = s @ ''/ws/provider''" for s
    by (rule trim_end_slash_id) auto
  have e: "strip_suffix (s @ ''/ws/provider'') ''/ws/provider'' = Some s" for s
    by (simp add: strip_suffix_def ends_with_def)
  show "telemetry_ingest_endpoint (''wss://'' @ h @ ''/ws/provider'') = ''https://'' @ h @ ''/v1/telemetry/events''"
    using t[of "''https://''"] w[of "''wss://'' @ h"] e[of "''https://'' @ h"]
    by (simp add: telemetry_ingest_endpoint_def strip_prefix_def)
  show "telemetry_ingest_endpoint (''ws://'' @ h @ ''/ws/provider'') = ''http://'' @ h @ ''/v1/telemetry/events''"
    using t[of "''http://''"] w[of "''ws://'' @ h"] e[of "''http://'' @ h"]
    by (simp add: telemetry_ingest_endpoint_def strip_prefix_def)
qed

lemma toolchain_of_swiftc:
  "Option.bind (text_parent ''/T/usr/bin/swiftc'') text_parent = Some ''/T/usr'' \<and> Option.bind (text_parent ''swiftc'') text_parent = None"
  by code_simp

lemma rustc_vars_append [simp]: "rustc_vars (ls @ ls') = rustc_vars ls @ rustc_vars ls'"
  by (induction ls rule: rustc_vars.induct) simp_all

lemma link_lines_no_vars: "link_enclave_library ob = Some ls \<Longrightarrow> rustc_vars ls = []"
  by (auto simp: link_enclave_library_def Let_def split: bind_splits if_splits)

section \<open>Properties\<close>

text \<open>The compiled-in addresses belong together. When the build is given a coordinator, by a host with
  one of the two schemes, and the enclave library is built where it is needed, it succeeds; turning the WebSocket address of the binary back into an HTTP
  address, as the catalog and the telemetry do, gives the HTTP address of the binary; and the
  packages come from the bucket that was named for them, else from the general bucket that was
  named.\<close>

theorem build_addresses_agree:
  assumes "var ''DARKBLOOM_COORDINATOR_URL'' = Some v" and "trim_end_matches (CHR ''/'') v = scheme @ h"
    and "scheme \<in> {''https://'', ''http://''}" and "CHR ''/'' \<notin> set h" and "h \<noteq> []"
    and "pred_option (\<lambda>ob. link_enclave_library ob \<noteq> None) macos"
  shows "\<exists>ls. build_main macos var = Some ls \<and> distinct (map fst (rustc_vars ls)) \<and>
    default_coordinator_http_url ls = scheme @ h \<and> default_install_url ls = scheme @ h @ ''/install.sh'' \<and>
    ws_to_http (default_coordinator_ws_url ls) = default_coordinator_http_url ls \<and>
    telemetry_ingest_endpoint (default_coordinator_ws_url ls) = default_coordinator_http_url ls @ ''/v1/telemetry/events'' \<and>
    build_site_packages_cdn_url ls =
      (case (var ''DARKBLOOM_R2_SITE_PACKAGES_CDN_URL'', var ''DARKBLOOM_R2_CDN_URL'') of
         (Some spk, _) \<Rightarrow> trim_end_matches (CHR ''/'') spk
       | (None, Some cdn) \<Rightarrow> trim_end_matches (CHR ''/'') cdn
       | (None, None) \<Rightarrow> ''https://pub-3d1cb668259340eeb2276e1d375c846d.r2.dev'')"
proof -
  let ?ws = "(if scheme = ''https://'' then ''wss://'' else ''ws://'') @ h @ ''/ws/provider''"
  let ?urls = "[RustcEnv ''DARKBLOOM_COORDINATOR_HTTP_URL'' (scheme @ h), RustcEnv ''DARKBLOOM_COORDINATOR_WS_URL'' ?ws,
    RustcEnv ''DARKBLOOM_ENROLL_PROFILE_URL'' ((scheme @ h) @ ''/enroll.mobileconfig''),
    RustcEnv ''DARKBLOOM_INSTALL_URL'' ((scheme @ h) @ ''/install.sh'')]"
  have u: "coordinator_lines (Some v) = Some ?urls"
    using assms(2,3) by (auto simp: coordinator_lines_def strip_prefix_def)
  have rev: "ws_to_http ?ws = scheme @ h" "telemetry_ingest_endpoint ?ws = scheme @ h @ ''/v1/telemetry/events''"
    using assms(3) ws_to_http_host[OF assms(4)] telemetry_endpoint_host[OF assms(4,5)] by auto
  obtain link where link: "(case macos of None \<Rightarrow> Some [] | Some ob \<Rightarrow> link_enclave_library ob) = Some link" "rustc_vars link = []"
    using assms(6) link_lines_no_vars by (cases macos) auto
  show ?thesis
    by (cases "var ''DARKBLOOM_R2_SITE_PACKAGES_CDN_URL''"; cases "var ''DARKBLOOM_R2_CDN_URL''")
      (simp_all add: build_main_def link assms(1) u cdn_lines_def default_coordinator_http_url_def default_coordinator_ws_url_def
        default_install_url_def build_site_packages_cdn_url_def option_env_def rev del: append_assoc)
qed

theorem build_addresses_agree_witness:
  "\<exists>ls. build_main None [''DARKBLOOM_COORDINATOR_URL'' \<mapsto> ''https://api.dev:8443/''] = Some ls \<and>
     ws_to_http (default_coordinator_ws_url ls) = ''https://api.dev:8443''"
  using build_addresses_agree[of "[''DARKBLOOM_COORDINATOR_URL'' \<mapsto> ''https://api.dev:8443/'']" "''https://api.dev:8443/''"
      "''https://''" "''api.dev:8443''" None]
  by (auto simp: trim_end_matches_def)

text \<open>C39: The reference decryptor and the provider agree. The decryptor prints a text for a key, a
  ciphertext and the provider's secret exactly when the provider's own decryption gives the bytes of
  that text and they are UTF-8; and as JSON is UTF-8, the body the provider hands on is then the
  reading of the printed text, and no other body is handed on.\<close>

theorem decryptor_agrees:
  assumes "ce_b64_decode env priv = Some (kp_secret kp)" and "length (kp_secret kp) = 32"
    and "\<And>bs v. ce_from_slice env bs = Some v \<Longrightarrow> utf8_valid (bytes_str bs)"
  shows "decrypt_request_body env \<lparr>ephemeral_public_key = eph, ciphertext = ct\<rparr> kp = Ok (body, pk) \<longleftrightarrow>
    (\<exists>t e. decrypt_main (ce_b64_decode env) (ce_box env) [prog, eph, ct, priv] = Ok t \<and>
      ce_from_slice env (str_bytes t) = Some body \<and> ce_b64_decode env eph = Some e \<and> pk = Some e)"
proof -
  have tool: "decrypt_main (ce_b64_decode env) (ce_box env) [prog, eph, ct, priv] = Ok t \<longleftrightarrow>
      (\<exists>e c. ce_b64_decode env eph = Some e \<and> length e = 32 \<and> ce_b64_decode env ct = Some c \<and>
        kp_decrypt (ce_box env) kp e c = Ok (str_bytes t) \<and> utf8_valid t)" for t
    using assms(1,2)
    by (auto simp: decrypt_main_def kp_decrypt_def str_bytes_bytes_str split: option.splits if_splits)
  have prov: "decrypt_request_body env \<lparr>ephemeral_public_key = eph, ciphertext = ct\<rparr> kp = Ok (body, pk) \<longleftrightarrow>
      (\<exists>e c t. ce_b64_decode env eph = Some e \<and> length e = 32 \<and> ce_b64_decode env ct = Some c \<and>
        kp_decrypt (ce_box env) kp e c = Ok (str_bytes t) \<and> ce_from_slice env (str_bytes t) = Some body \<and> pk = Some e)"
    by (auto simp: decrypt_request_body_def split: option.splits sum.splits if_splits)
      (metis str_bytes_bytes_str)
  have utf: "ce_from_slice env (str_bytes t) = Some body \<Longrightarrow> utf8_valid t" for t
    using assms(3)[of "str_bytes t"] by simp
  show ?thesis unfolding prov tool using utf by auto
qed

theorem decryptor_agrees_witness:
  "\<exists>t. decrypt_main (\<lambda>s. Some (str_bytes s)) plain_box
       [''decrypt'', bytes_str (replicate 32 1), bytes_str demo_sealed, bytes_str (replicate 32 7)] = Ok t \<and> str_bytes t = [123, 125]"
proof -
  let ?kp = "kp_generate plain_box (replicate 32 7)" and ?env = "demo_env demo_message"
  have "kp_decrypt plain_box ?kp (replicate 32 1) demo_sealed = Ok [123, 125]"
    by (simp add: kp_decrypt_def kp_generate_def plain_box_def demo_sealed_def Let_def)
  then have "decrypt_request_body ?env \<lparr>ephemeral_public_key = bytes_str (replicate 32 1), ciphertext = bytes_str demo_sealed\<rparr> ?kp
      = Ok (JObj [], Some (replicate 32 1))"
    by (simp add: decrypt_request_body_def demo_env_def)
  moreover have "ce_b64_decode ?env (bytes_str (replicate 32 7)) = Some (kp_secret ?kp)" "length (kp_secret ?kp) = 32"
    by (simp_all add: demo_env_def kp_generate_def)
  moreover have "utf8_valid (bytes_str [123, 125])" by code_simp
  then have "ce_from_slice ?env bs = Some v \<Longrightarrow> utf8_valid (bytes_str bs)" for bs v
    by (auto simp: demo_env_def split: if_splits)
  ultimately obtain t where "decrypt_main (ce_b64_decode ?env) (ce_box ?env)
      [''decrypt'', bytes_str (replicate 32 1), bytes_str demo_sealed, bytes_str (replicate 32 7)] = Ok t"
      "ce_from_slice ?env (str_bytes t) = Some (JObj [])"
    using decryptor_agrees[of ?env "bytes_str (replicate 32 7)" ?kp] by metis
  then show ?thesis by (auto simp: demo_env_def split: if_splits)
qed

end
