(* ===== verification/Session.thy ===== *)
theory Session
  imports Serve
begin

text \<open>
  The connection and the event loop together. The client of \<open>coordinator.rs\<close> puts events into a
  channel over any number of connections; the event loop of \<open>cmd_serve\<close> takes them from the channel, in
  order, between its own steps (tasks that end, completion notices, the idle timer). What is still in
  the channel is part of the statements.
\<close>

section \<open>Runs of the event loop\<close>

text \<open>Iterated steps with their trace.\<close>

inductive serve_steps :: "serve_config \<Rightarrow> serve_state \<Rightarrow> serve_event list \<Rightarrow> serve_state \<Rightarrow> bool" for cfg st0 where
  no_step: "serve_steps cfg st0 [] st0"
| one_more: "serve_steps cfg st0 (tr @ [ev]) st'" if "serve_steps cfg st0 tr st" and "serve_step cfg st ev st'"

inductive_cases coordinator_stepE: "serve_step cfg st (SvCoordinator ev) st'"
inductive_cases serve_stepE: "serve_step cfg st ev st'"

definition coordinator_part :: "serve_event list \<Rightarrow> coordinator_event list" where
  "coordinator_part = List.map_filter (\<lambda>ev. case ev of SvCoordinator e \<Rightarrow> Some e | _ \<Rightarrow> None)"

lemma coordinator_part_simps [simp]:
  "coordinator_part [] = []"
  "coordinator_part (tr @ [SvCoordinator e]) = coordinator_part tr @ [e]"
  "(\<And>e. ev \<noteq> SvCoordinator e) \<Longrightarrow> coordinator_part (tr @ [ev]) = coordinator_part tr"
  by (auto simp: coordinator_part_def List.map_filter_def split: serve_event.split)

lemma serve_steps_reach: "serve_steps cfg st0 tr st \<Longrightarrow> serve_reach cfg st0 st"
  by (induction rule: serve_steps.induct) (auto intro: serve_reach.intros)

section \<open>Acknowledgements and refusals\<close>

definition accepted :: "provider_message list \<Rightarrow> string list" where
  "accepted = List.map_filter (\<lambda>m. case m of InferenceAccepted rid \<Rightarrow> Some rid | _ \<Rightarrow> None)"

definition refused :: "provider_message list \<Rightarrow> string list" where
  "refused = List.map_filter (\<lambda>m. case m of InferenceError rid _ _ \<Rightarrow> Some rid | _ \<Rightarrow> None)"

definition request_ids :: "coordinator_event list \<Rightarrow> string list" where
  "request_ids evs = map fst (List.map_filter request_event evs)"

lemma map_filter_append: "List.map_filter f (xs @ ys) = List.map_filter f xs @ List.map_filter f ys"
  by (simp add: List.map_filter_def)

lemma accepted_simps [simp]:
  "accepted (ms @ ms') = accepted ms @ accepted ms'"
  "accepted [InferenceAccepted rid] = [rid]" "accepted [InferenceError rid e code] = []" "accepted [] = []"
  "accepted [InferenceAccepted rid, InferenceError rid' e code] = [rid]"
  by (simp_all add: accepted_def List.map_filter_def)

lemma refused_simps [simp]:
  "refused (ms @ ms') = refused ms @ refused ms'"
  "refused [InferenceAccepted rid] = []" "refused [InferenceError rid e code] = [rid]" "refused [] = []"
  "refused [InferenceAccepted rid, InferenceError rid' e code] = [rid']"
  by (simp_all add: refused_def List.map_filter_def)

lemma request_ids_simps [simp]:
  "request_ids [] = []" "request_ids (evs @ evs') = request_ids evs @ request_ids evs'"
  "request_ids [EvInferenceRequest rid body k] = [rid]"
  "(\<And>rid body k. e \<noteq> EvInferenceRequest rid body k) \<Longrightarrow> request_ids [e] = []"
  by (auto simp: request_ids_def List.map_filter_def request_event_def split: coordinator_event.split)

text \<open>All requests among the events carry a response key.\<close>

definition keyed :: "coordinator_event list \<Rightarrow> bool" where
  "keyed evs \<longleftrightarrow> list_all (\<lambda>ev. case ev of EvInferenceRequest _ _ k \<Rightarrow> k \<noteq> None | _ \<Rightarrow> True) evs"

text \<open>The accounts of the event loop: the acknowledgements are the requests it took from the channel, in
  order, and each of them became a task or was answered by one error.\<close>

definition accounts :: "coordinator_event list \<Rightarrow> serve_state \<Rightarrow> serve_state \<Rightarrow> bool" where
  "accounts evs st0 st \<longleftrightarrow>
     (\<exists>ms. sv_outbound st = sv_outbound st0 @ ms \<and> accepted ms = request_ids evs \<and>
        length (accepted ms) = (sv_next_task st - sv_next_task st0) + length (refused ms)) \<and>
     sv_next_task st0 \<le> sv_next_task st"

lemma other_events_frame:
  assumes "\<And>rid body k. ev \<noteq> EvInferenceRequest rid body k"
  shows "sv_outbound (on_coordinator_event cfg ob ev st) = sv_outbound st"
    and "sv_next_task (on_coordinator_event cfg ob ev st) = sv_next_task st"
  using assms
  by (cases ev; simp add: on_disconnected_def on_cancel_def untrack_def on_runtime_outdated_def Let_def split: option.split)+

lemma other_steps_frame:
  assumes "serve_step cfg st ev st'" and "\<And>rid body k. ev \<noteq> SvCoordinator (EvInferenceRequest rid body k)"
  shows "sv_outbound st' = sv_outbound st" and "sv_next_task st' = sv_next_task st"
  using assms
  by (auto elim!: serve_stepE simp: other_events_frame on_done_def on_idle_def untrack_def Let_def split: option.splits)

text \<open>One step keeps the accounts.\<close>

lemma accounts_step:
  assumes "accounts evs st0 st" and "serve_inv st" and "serve_step cfg st ev st'" and "keyed (coordinator_part [ev])"
  shows "accounts (evs @ coordinator_part [ev]) st0 st'"
proof (cases "\<exists>rid body k. ev = SvCoordinator (EvInferenceRequest rid body k)")
  case True
  then obtain rid body k where ev: "ev = SvCoordinator (EvInferenceRequest rid body k)" by blast
  with assms(4) obtain pk where k: "k = Some pk" using coordinator_part_simps(2)[of "[]"] by (auto simp: keyed_def)
  obtain ob where st': "st' = on_inference_request cfg ob rid body (Some pk) st"
    using assms(3) by (auto simp: ev k elim!: coordinator_stepE)
  have part: "coordinator_part [ev] = [EvInferenceRequest rid body k]"
    using coordinator_part_simps(2)[of "[]"] by (simp add: ev)
  from assms(1) obtain ms where ms: "sv_outbound st = sv_outbound st0 @ ms" "accepted ms = request_ids evs"
      "length (accepted ms) = (sv_next_task st - sv_next_task st0) + length (refused ms)" "sv_next_task st0 \<le> sv_next_task st"
    by (auto simp: accounts_def)
  from on_inference_request_effect[OF assms(2) st'] show ?thesis
  proof (elim disjE conjE exE)
    assume "sv_outbound st' = sv_outbound st @ [InferenceAccepted rid]" "sv_next_task st' = Suc (sv_next_task st)"
    with ms part show ?thesis
      unfolding accounts_def by (intro conjI exI[of _ "ms @ [InferenceAccepted rid]"]) auto
  next
    fix err code
    assume "sv_outbound st' = sv_outbound st @ [InferenceAccepted rid, InferenceError rid err code]"
      "sv_next_task st' = sv_next_task st"
    with ms part show ?thesis
      unfolding accounts_def by (intro conjI exI[of _ "ms @ [InferenceAccepted rid, InferenceError rid err code]"]) auto
  qed
next
  case False
  then have "request_ids (coordinator_part [ev]) = []"
    by (cases ev) (auto simp: coordinator_part_def List.map_filter_def request_ids_def request_event_def split: coordinator_event.splits)
  with False other_steps_frame[OF assms(3)] assms(1) show ?thesis
    unfolding accounts_def by auto
qed

lemma serve_steps_accounts:
  assumes "serve_steps cfg st0 tr st" and "serve_inv st0" and "keyed (coordinator_part tr)"
  shows "accounts (coordinator_part tr) st0 st"
  using assms
proof (induction rule: serve_steps.induct)
  case no_step
  then show ?case by (simp add: accounts_def)
next
  case (one_more tr st ev st')
  have split: "coordinator_part (tr @ [ev]) = coordinator_part tr @ coordinator_part [ev]"
    by (simp add: coordinator_part_def map_filter_append)
  with one_more have "accounts (coordinator_part tr) st0 st" "keyed (coordinator_part [ev])"
    by (auto simp: keyed_def)
  from accounts_step[OF this(1) serve_reach_inv[OF serve_steps_reach one_more.prems(1)] one_more.hyps(2) this(2)]
    one_more.hyps(1) show ?case
    by (simp add: split)
qed

section \<open>The requests of the whole life of the client\<close>

definition opened_ids :: "coordinator_client \<Rightarrow> attempt \<Rightarrow> nat \<Rightarrow> string list" where
  "opened_ids c a n = map fst (List.map_filter (opened_request (at_env a) (cc_node_keypair c)) (take n (at_inputs a)))"

lemma attempt_requests:
  "\<exists>n \<le> length (at_inputs a). request_ids (attempt_events c a) = opened_ids c a n"
proof (cases "at_connected a \<and> at_register_ok a")
  case True
  then have "connect_and_run (at_env a) c True True (at_start a) (at_inputs a) = attempt_result c a"
    by (simp add: attempt_result_def)
  from connection_requests[OF this] show ?thesis by (auto simp: request_ids_def opened_ids_def attempt_events_def)
next
  case False
  then have "attempt_events c a = []" by (auto simp: attempt_events_def attempt_result_def connect_and_run_def Let_def)
  then show ?thesis by (intro exI[of _ 0]) (simp add: opened_ids_def List.map_filter_def)
qed

lemma run_turn_requests:
  "\<exists>n \<le> length (at_inputs a). request_ids (rs_events (fst (run_turn c a rs))) = request_ids (rs_events rs) @ opened_ids c a n"
proof (cases "at_shutdown a")
  case True
  then show ?thesis by (intro exI[of _ 0]) (simp add: run_turn_def opened_ids_def List.map_filter_def)
next
  case False
  then have "request_ids (rs_events (fst (run_turn c a rs))) = request_ids (rs_events rs) @ request_ids (attempt_events c a)"
    by (auto simp: run_turn_def attempt_events_def Let_def next_delay_def split: conn_result.split)
  with attempt_requests[of a c] show ?thesis by auto
qed

lemma run_loop_requests:
  "\<exists>ns. length ns = length as \<and> list_all2 (\<lambda>a n. n \<le> length (at_inputs a)) as ns \<and>
     request_ids (rs_events (run_loop c as rs)) = request_ids (rs_events rs) @ concat (map2 (opened_ids c) as ns)"
proof (induction as arbitrary: rs)
  case (Cons a as)
  obtain rs' go_on where t: "run_turn c a rs = (rs', go_on)" by fastforce
  obtain n where n: "n \<le> length (at_inputs a)" "request_ids (rs_events rs') = request_ids (rs_events rs) @ opened_ids c a n"
    using run_turn_requests[of a c rs] t by auto
  obtain ns where ns: "length ns = length as" "list_all2 (\<lambda>a n. n \<le> length (at_inputs a)) as ns"
      "request_ids (rs_events (run_loop c as rs')) = request_ids (rs_events rs') @ concat (map2 (opened_ids c) as ns)"
    using Cons by blast
  show ?case
  proof (cases go_on)
    case True
    with t n ns show ?thesis by (intro exI[of _ "n # ns"]) simp
  next
    case False
    have "concat (map2 (opened_ids c) as (replicate (length as) 0)) = []"
      by (induction as) (simp_all add: opened_ids_def List.map_filter_def)
    moreover have "list_all2 (\<lambda>a n. n \<le> length (at_inputs a)) as (replicate (length as) 0)"
      by (simp add: list_all2_conv_all_nth)
    ultimately show ?thesis
      using False t n by (intro exI[of _ "n # replicate (length as) 0"]) simp
  qed
qed simp

lemma run_keyed: "keyed (rs_events (run_loop c attempts run_init))"
  using run_request_key by (fastforce simp: keyed_def list_all_iff split: coordinator_event.split)

section \<open>Properties\<close>


lemma demo_run_events:
  "rs_events (run_loop demo_client [demo_attempt] run_init) =
     [EvConnected, EvInferenceRequest ''r1'' (JObj []) (Some (replicate 32 1))]"
  by (simp add: run_turn_def attempt_result_def demo_attempt_def demo_input_def connect_and_run_def Let_def conn_step_def
      pong_timeout_def demo_handle_text emit_event_def run_init_def)


end
