(* ===== verification/Keychain.thy ===== *)
theory Keychain
  imports SecureEnclave
begin

text \<open>
  How the encryption key is made and found again: \<open>create_secure_enclave_key\<close> and
  \<open>find_secure_enclave_key\<close> of \<open>secure_enclave_key.rs\<close> with the dictionaries they hand to the Security
  framework. The framework is a parameter; that a permanent item is found by a search whose class, label
  and access group it carries is its documented behaviour and a hypothesis. \<open>SecureEnclave\<close> keeps the key
  as an option; here that is shown to be right as long as the access group stays the same.
\<close>

section \<open>Dictionaries\<close>

datatype cf_value =
    CFBool bool
  | CFString string
  | CFNumber int
  | CFAccessControl string string
  | CFDict "(string \<times> cf_value) list"

definition e2e_key_label :: string where
  "e2e_key_label = ''io.darkbloom.provider.e2e-key-agreement.v2''"

definition access_control :: cf_value where
  "access_control = CFAccessControl ''AccessibleWhenUnlockedThisDeviceOnly'' ''PRIVATE_KEY_USAGE''"

definition private_attrs :: "string \<Rightarrow> (string \<times> cf_value) list" where
  "private_attrs access_group =
     [(''kSecAttrIsPermanent'', CFBool True), (''kSecAttrAccessControl'', access_control),
      (''kSecAttrAccessGroup'', CFString access_group), (''kSecAttrLabel'', CFString e2e_key_label)]"

definition public_attrs :: "string \<Rightarrow> (string \<times> cf_value) list" where
  "public_attrs access_group =
     [(''kSecAttrIsPermanent'', CFBool True),
      (''kSecAttrAccessGroup'', CFString access_group), (''kSecAttrLabel'', CFString e2e_key_label)]"

definition key_attrs :: "string \<Rightarrow> (string \<times> cf_value) list" where
  "key_attrs access_group =
     [(''kSecAttrKeyType'', CFString ''kSecAttrKeyTypeECSECPrimeRandom''), (''kSecAttrKeySizeInBits'', CFNumber 256),
      (''kSecAttrTokenID'', CFString ''kSecAttrTokenIDSecureEnclave''),
      (''kSecPrivateKeyAttrs'', CFDict (private_attrs access_group)),
      (''kSecPublicKeyAttrs'', CFDict (public_attrs access_group))]"

record key_search =
  ks_class :: string
  ks_key_class :: string
  ks_label :: string
  ks_access_group :: string
  ks_load_refs :: bool
  ks_limit :: nat

definition e2e_search :: "string \<Rightarrow> key_search" where
  "e2e_search access_group =
     \<lparr>ks_class = ''key'', ks_key_class = ''private'', ks_label = e2e_key_label, ks_access_group = access_group,
      ks_load_refs = True, ks_limit = 1\<rparr>"

section \<open>Creating and finding\<close>

text \<open>What the framework does with its keychain \<open>'s\<close>: a creation returns an error reference and a key
  reference, either of which may be null.\<close>

record ('s, 'k) sec_framework =
  sf_access_control_ok :: bool
  sf_create_random_key :: "(string \<times> cf_value) list \<Rightarrow> 's \<Rightarrow> (string option \<times> 'k option) \<times> 's"
  sf_search :: "key_search \<Rightarrow> 's \<Rightarrow> 'k search_answer"

definition create_secure_enclave_key ::
  "('s, 'k) sec_framework \<Rightarrow> string option \<Rightarrow> 's \<Rightarrow> 'k result \<times> 's" where
  "create_secure_enclave_key fw group_var kc =
     (if \<not> sf_access_control_ok fw then (Err ''failed to create Secure Enclave access control'', kc)
      else case sf_create_random_key fw (key_attrs (keychain_access_group group_var)) kc of
        ((Some error, _), kc') \<Rightarrow>
          (Err ''failed to create Secure Enclave E2E key; signed release build with keychain entitlement required'', kc')
      | ((None, None), kc') \<Rightarrow>
          (Err ''failed to create Secure Enclave E2E key: Security.framework returned null'', kc')
      | ((None, Some k), kc') \<Rightarrow> (Ok k, kc'))"

definition search_secure_enclave_key :: "('s, 'k) sec_framework \<Rightarrow> string option \<Rightarrow> 's \<Rightarrow> 'k option result" where
  "search_secure_enclave_key fw group_var kc =
     (case sf_search fw (e2e_search (keychain_access_group group_var)) kc of
        Results rs \<Rightarrow> Ok (first_key rs)
      | ItemNotFound \<Rightarrow> Ok None
      | SearchFailed \<Rightarrow> Err ''failed to query Secure Enclave E2E key from keychain'')"

definition obtain_secure_enclave_key :: "('s, 'k) sec_framework \<Rightarrow> string option \<Rightarrow> 's \<Rightarrow> 'k result \<times> 's" where
  "obtain_secure_enclave_key fw group_var kc =
     (case search_secure_enclave_key fw group_var kc of
        Inl e \<Rightarrow> (Err e, kc)
      | Inr (Some existing) \<Rightarrow> (Ok existing, kc)
      | Inr None \<Rightarrow> create_secure_enclave_key fw group_var kc)"

section \<open>What the framework promises\<close>

text \<open>Whether a search finds an item that was created with given attributes: it looks for private keys, by
  label and access group, and only permanent ones are kept.\<close>

definition sub_dict :: "string \<Rightarrow> (string \<times> cf_value) list \<Rightarrow> (string \<times> cf_value) list" where
  "sub_dict k d = (case map_of d k of Some (CFDict e) \<Rightarrow> e | _ \<Rightarrow> [])"

definition finds :: "key_search \<Rightarrow> (string \<times> cf_value) list \<Rightarrow> bool" where
  "finds q attrs =
     (let part = sub_dict (if ks_key_class q = ''private'' then ''kSecPrivateKeyAttrs'' else ''kSecPublicKeyAttrs'') attrs
      in ks_class q = ''key'' \<and> ks_load_refs q \<and> 0 < ks_limit q \<and>
         map_of part ''kSecAttrIsPermanent'' = Some (CFBool True) \<and>
         map_of part ''kSecAttrLabel'' = Some (CFString (ks_label q)) \<and>
         map_of part ''kSecAttrAccessGroup'' = Some (CFString (ks_access_group q)))"

definition framework_ok :: "('s, 'k) sec_framework \<Rightarrow> bool" where
  "framework_ok fw \<longleftrightarrow>
     (\<forall>attrs kc k kc' q. sf_create_random_key fw attrs kc = ((None, Some k), kc') \<longrightarrow>
        sf_search fw q kc = ItemNotFound \<longrightarrow>
        sf_search fw q kc' = (if finds q attrs then Results [KeyRef k] else ItemNotFound))"

section \<open>Properties\<close>

lemma finds_created: "finds (e2e_search g) (key_attrs g') \<longleftrightarrow> g = g'"
  by (auto simp: finds_def e2e_search_def key_attrs_def private_attrs_def sub_dict_def Let_def)

text \<open>The key that is made is the key that is found: in a keychain without it, a successful creation is
  followed by searches that return exactly that key while the access group is the same, so a second
  request makes no second key; under another access group it is not found and the search reports
  nothing.\<close>

theorem created_key_found:
  assumes "framework_ok fw" and "sf_search fw (e2e_search (keychain_access_group v)) kc = ItemNotFound"
    and "sf_search fw (e2e_search (keychain_access_group v')) kc = ItemNotFound"
    and "obtain_secure_enclave_key fw v kc = (Ok k, kc')"
  shows "(if keychain_access_group v = keychain_access_group v'
          then search_secure_enclave_key fw v' kc' = Ok (Some k) \<and> obtain_secure_enclave_key fw v' kc' = (Ok k, kc')
          else search_secure_enclave_key fw v' kc' = Ok None)"
proof -
  have "sf_create_random_key fw (key_attrs (keychain_access_group v)) kc = ((None, Some k), kc')"
    using assms(2,4)
    by (auto simp: obtain_secure_enclave_key_def search_secure_enclave_key_def create_secure_enclave_key_def
        split: if_splits prod.splits option.splits)
  with assms(1,3) have "sf_search fw (e2e_search (keychain_access_group v')) kc' =
      (if keychain_access_group v' = keychain_access_group v then Results [KeyRef k] else ItemNotFound)"
    unfolding framework_ok_def finds_created[symmetric] by blast
  then show ?thesis by (simp add: search_secure_enclave_key_def obtain_secure_enclave_key_def)
qed

text \<open>A keychain as a list of items, for which the promise holds.\<close>

definition list_framework :: "(((string \<times> cf_value) list \<times> nat) list, nat) sec_framework" where
  "list_framework = \<lparr>sf_access_control_ok = True,
     sf_create_random_key = (\<lambda>attrs kc. ((None, Some (length kc)), kc @ [(attrs, length kc)])),
     sf_search = (\<lambda>q kc. case filter (\<lambda>(attrs, _). finds q attrs) kc of
        [] \<Rightarrow> ItemNotFound
      | (_, k) # _ \<Rightarrow> Results [KeyRef k])\<rparr>"

lemma list_framework_ok: "framework_ok list_framework"
  by (auto simp: framework_ok_def list_framework_def split: list.splits)

theorem created_key_found_witness:
  "obtain_secure_enclave_key list_framework None [] = (Ok 0, [(key_attrs ''SLDQ2GJ6TL.io.darkbloom.provider'', 0)]) \<and>
   obtain_secure_enclave_key list_framework (Some '' '') [(key_attrs ''SLDQ2GJ6TL.io.darkbloom.provider'', 0)] =
     (Ok 0, [(key_attrs ''SLDQ2GJ6TL.io.darkbloom.provider'', 0)])"
proof -
  have r: "obtain_secure_enclave_key list_framework None [] = (Ok 0, [(key_attrs ''SLDQ2GJ6TL.io.darkbloom.provider'', 0)])"
    by (simp add: obtain_secure_enclave_key_def search_secure_enclave_key_def create_secure_enclave_key_def list_framework_def
        keychain_access_group_def)
  have g: "keychain_access_group None = keychain_access_group (Some '' '')"
    by (simp add: keychain_access_group_def trim_def is_ascii_space_def)
  have "sf_search list_framework q [] = ItemNotFound" for q by (simp add: list_framework_def)
  from created_key_found[OF list_framework_ok this this r, of "Some '' ''"] r g show ?thesis by simp
qed

end
