(* ===== verification/Manager.thy ===== *)
theory Manager
  imports EngineChat Backend
begin

text \<open>
  \<open>BackendManager\<close> of \<open>backend/mod.rs\<close> as interleaved steps, for any implementation of the trait
  \<open>Backend\<close>, and the implementation of that trait by \<open>SharedEngine\<close> (\<open>inference.rs\<close>). A monitor holds the
  lock of the backend while it checks and while it restarts, but not while it waits between the two; the
  steps here are the stretches under the lock, in any order.
\<close>

section \<open>The trait for the embedded engine\<close>

definition engine_start :: "py_env \<times> vllm_env \<Rightarrow> worker option \<Rightarrow> worker option \<times> unit result" where
  "engine_start ob w = (case shared_load (fst ob) (snd ob) w of (r, w') \<Rightarrow> (w', r))"

definition engine_stop :: "py_env \<times> vllm_env \<Rightarrow> worker option \<Rightarrow> worker option \<times> unit result" where
  "engine_stop ob w = (case shared_unload (fst ob) (snd ob) w of (r, w') \<Rightarrow> (w', r))"

definition engine_health :: "py_env \<times> vllm_env \<Rightarrow> worker option \<Rightarrow> bool" where
  "engine_health ob w = shared_is_loaded (fst ob) (snd ob) w"

definition engine_base_url :: string where
  "engine_base_url = ''inprocess://localhost''"

definition engine_name :: string where
  "engine_name = ''inprocess-mlx''"

section \<open>The manager\<close>

datatype monitor_phase = Watching | Restarting | MonitorEnded

record spawned_monitor =
  sm_backoff :: exponential_backoff
  sm_phase :: monitor_phase

record 'b manager =
  mg_backend :: 'b
  mg_shutdown :: bool
  mg_monitors :: "spawned_monitor list"
  mg_slept :: "nat list"
  mg_reports :: "string list"

definition manager_new :: "'b \<Rightarrow> 'b manager" where
  "manager_new b = \<lparr>mg_backend = b, mg_shutdown = False, mg_monitors = [], mg_slept = [], mg_reports = []\<rparr>"

text \<open>\<open>start\<close>: a backend that does not start has no monitor.\<close>

definition manager_start :: "('b \<Rightarrow> 'b \<times> unit result) \<Rightarrow> 'b manager \<Rightarrow> unit result \<times> 'b manager" where
  "manager_start start m =
     (case start (mg_backend m) of
        (b, Inl e) \<Rightarrow> (Err e, m\<lparr>mg_backend := b\<rparr>)
      | (b, Inr _) \<Rightarrow>
          (Ok (), m\<lparr>mg_backend := b, mg_monitors := mg_monitors m @ [\<lparr>sm_backoff = backoff_new, sm_phase = Watching\<rparr>]\<rparr>))"

definition manager_stop :: "('b \<Rightarrow> 'b \<times> 's) \<Rightarrow> 'b manager \<Rightarrow> 's \<times> 'b manager" where
  "manager_stop stop m =
     (case stop (mg_backend m) of (b, r) \<Rightarrow> (r, m\<lparr>mg_shutdown := True, mg_backend := b\<rparr>))"

text \<open>The two branches of the select of monitor \<open>i\<close>, and the restart after the wait.\<close>

definition monitor_ends :: "nat \<Rightarrow> 'b manager \<Rightarrow> 'b manager" where
  "monitor_ends i m = m\<lparr>mg_monitors := (mg_monitors m)[i := (mg_monitors m ! i)\<lparr>sm_phase := MonitorEnded\<rparr>]\<rparr>"

definition monitor_check :: "('b \<Rightarrow> bool) \<Rightarrow> string \<Rightarrow> nat \<Rightarrow> 'b manager \<Rightarrow> 'b manager" where
  "monitor_check health name i m =
     (let s = mg_monitors m ! i in
      if health (mg_backend m)
      then m\<lparr>mg_monitors := (mg_monitors m)[i := s\<lparr>sm_backoff := backoff_reset (sm_backoff s)\<rparr>]\<rparr>
      else
        let (delay, backoff) = next_delay (sm_backoff s)
        in m\<lparr>mg_monitors := (mg_monitors m)[i := \<lparr>sm_backoff = backoff, sm_phase = Restarting\<rparr>],
             mg_slept := mg_slept m @ [delay],
             mg_reports := mg_reports m @ [''backend health check failed: '' @ name]\<rparr>)"

definition monitor_restart :: "('b \<Rightarrow> 'b \<times> 's) \<Rightarrow> ('b \<Rightarrow> 'b \<times> unit result) \<Rightarrow> nat \<Rightarrow> 'b manager \<Rightarrow> 'b manager" where
  "monitor_restart stop start i m =
     (let s = mg_monitors m ! i in
      case start (fst (stop (mg_backend m))) of
        (b, Inr _) \<Rightarrow>
          m\<lparr>mg_backend := b,
            mg_monitors := (mg_monitors m)[i := \<lparr>sm_backoff = backoff_reset (sm_backoff s), sm_phase = Watching\<rparr>]\<rparr>
      | (b, Inl e) \<Rightarrow>
          m\<lparr>mg_backend := b, mg_monitors := (mg_monitors m)[i := s\<lparr>sm_phase := Watching\<rparr>],
            mg_reports := mg_reports m @ [''backend restart failed'']\<rparr>)"

text \<open>A step of a monitor; \<open>'o\<close> is what the operations of the backend observe. With the shutdown flag set
  both branches of the select may be ready, and either may be taken.\<close>

inductive monitor_step ::
  "('o \<Rightarrow> 'b \<Rightarrow> bool) \<Rightarrow> ('o \<Rightarrow> 'b \<Rightarrow> 'b \<times> 's) \<Rightarrow> ('o \<Rightarrow> 'b \<Rightarrow> 'b \<times> unit result) \<Rightarrow> string \<Rightarrow> 'b manager \<Rightarrow> 'b manager \<Rightarrow> bool"
  for health stop start name where
  ends: "monitor_step health stop start name m (monitor_ends i m)"
    if "i < length (mg_monitors m)" and "sm_phase (mg_monitors m ! i) = Watching" and "mg_shutdown m"
| check: "monitor_step health stop start name m (monitor_check (health ob) name i m)"
    if "i < length (mg_monitors m)" and "sm_phase (mg_monitors m ! i) = Watching"
| restart: "monitor_step health stop start name m (monitor_restart (stop ob) (start ob) i m)"
    if "i < length (mg_monitors m)" and "sm_phase (mg_monitors m ! i) = Restarting"

section \<open>The contract of the trait\<close>

text \<open>A stop leaves the backend down, a successful start leaves it up, a failed one changes nothing about that.\<close>

locale backend_trait =
  fixes start :: "'o \<Rightarrow> 'b \<Rightarrow> 'b \<times> unit result"
    and stop :: "'o \<Rightarrow> 'b \<Rightarrow> 'b \<times> 's"
    and running :: "'b \<Rightarrow> bool"
  assumes stop_down: "\<not> running (fst (stop ob b))"
    and start_up: "start ob b = (b', Ok ()) \<Longrightarrow> running b'"
    and start_failed: "start ob b = (b', Err e) \<Longrightarrow> running b' = running b"
begin

text \<open>While no monitor is between its check and its restart and none checks any more, the backend stays
  down; so once every monitor has ended, a stopped manager stays stopped.\<close>

lemma ended_stays_down:
  assumes "(monitor_step health stop start name)\<^sup>*\<^sup>* m m'" and "list_all (\<lambda>s. sm_phase s = MonitorEnded) (mg_monitors m)"
  shows "m' = m"
  using assms
proof (induction rule: converse_rtranclp_induct)
  case (step m m1)
  then show ?case by (auto elim!: monitor_step.cases simp: list_all_length)
qed simp

text \<open>A restart leaves the backend up exactly when the start succeeds, and reports exactly when it does not.\<close>

lemma restart_result:
  shows "running (mg_backend (monitor_restart (stop ob) (start ob) i m)) \<longleftrightarrow>
      snd (start ob (fst (stop ob (mg_backend m)))) = Ok ()"
    and "mg_reports (monitor_restart (stop ob) (start ob) i m) = mg_reports m @
      (if snd (start ob (fst (stop ob (mg_backend m)))) = Ok () then [] else [''backend restart failed''])"
proof -
  obtain b r where s: "start ob (fst (stop ob (mg_backend m))) = (b, r)" by fastforce
  show "running (mg_backend (monitor_restart (stop ob) (start ob) i m)) \<longleftrightarrow>
      snd (start ob (fst (stop ob (mg_backend m)))) = Ok ()"
    using s start_up[of ob "fst (stop ob (mg_backend m))" b] start_failed[of ob "fst (stop ob (mg_backend m))" b]
      stop_down[of ob "mg_backend m"]
    by (cases r) (auto simp: monitor_restart_def Let_def)
  show "mg_reports (monitor_restart (stop ob) (start ob) i m) = mg_reports m @
      (if snd (start ob (fst (stop ob (mg_backend m)))) = Ok () then [] else [''backend restart failed''])"
    using s by (cases r) (auto simp: monitor_restart_def Let_def)
qed

text \<open>A stop in the wait of a monitor is undone by its restart: the manager has been stopped, the monitor
  then ends, and the backend runs.\<close>

lemma stop_undone:
  assumes "\<not> health ob (mg_backend m)" and "mg_monitors m = [s]" "sm_phase s = Watching"
    and "snd (start ob' (fst (stop ob' (fst (stop ob (mg_backend m)))))) = Ok ()"
  shows "\<exists>m1 m2. monitor_step health stop start name m m1 \<and>
    (monitor_step health stop start name)\<^sup>*\<^sup>* (snd (manager_stop (stop ob) m1)) m2 \<and>
    mg_shutdown m2 \<and> list_all (\<lambda>s. sm_phase s = MonitorEnded) (mg_monitors m2) \<and> running (mg_backend m2)"
proof -
  define m1 where "m1 = monitor_check (health ob) name 0 m"
  define m1' where "m1' = snd (manager_stop (stop ob) m1)"
  define m3 where "m3 = monitor_restart (stop ob') (start ob') 0 m1'"
  have one: "monitor_step health stop start name m m1"
    unfolding m1_def using assms(2,3) by (intro check) simp_all
  have m1: "mg_backend m1 = mg_backend m" "\<exists>s'. mg_monitors m1 = [s'] \<and> sm_phase s' = Restarting"
    using assms(1-3) by (auto simp: m1_def monitor_check_def Let_def split: prod.split)
  have m1': "mg_backend m1' = fst (stop ob (mg_backend m))" "mg_shutdown m1'" "mg_monitors m1' = mg_monitors m1"
    by (auto simp: m1'_def manager_stop_def m1(1) split: prod.split)
  have two: "monitor_step health stop start name m1' m3"
    unfolding m3_def using m1(2) m1'(3) by (intro restart) auto
  have m3: "running (mg_backend m3)" "mg_shutdown m3" "\<exists>s'. mg_monitors m3 = [s'] \<and> sm_phase s' = Watching"
    using restart_result(1)[of ob' 0 m1'] assms(4) m1' m1(2)
    by (auto simp: m3_def monitor_restart_def Let_def split: prod.split sum.split)
  then have three: "monitor_step health stop start name m3 (monitor_ends 0 m3)" by (intro ends) auto
  have "(monitor_step health stop start name)\<^sup>*\<^sup>* m1' (monitor_ends 0 m3)"
    using two three by (meson converse_rtranclp_into_rtranclp r_into_rtranclp)
  with one m3 show ?thesis
    unfolding m1'_def by (intro exI[of _ m1] exI[of _ "monitor_ends 0 m3"]) (auto simp: monitor_ends_def)
qed

end

interpretation vllm_trait: backend_trait "\<lambda>ob. vllm_start (fst ob)" "\<lambda>ob. vllm_stop (snd ob)" "\<lambda>b. vb_child b \<noteq> None"
  by unfold_locales (auto simp: vllm_start_def vllm_stop_def split: option.splits if_splits)

definition engine_running :: "worker option \<Rightarrow> bool" where
  "engine_running w = (case w of None \<Rightarrow> False | Some w \<Rightarrow> ie_loaded (wk_engine w))"

lemma engine_health_running: "engine_health ob w = engine_running w"
  by (simp add: engine_health_def engine_running_def shared_is_loaded_def worker_step_def split: option.split)

interpretation engine_trait: backend_trait engine_start engine_stop engine_running
proof unfold_locales
  fix ob and b :: "worker option"
  show "\<not> engine_running (fst (engine_stop ob b))"
  proof (cases b)
    case (Some w)
    from shared_unload_ok[of "fst ob" "snd ob" w] obtain w' where
      "engine_stop ob b = (Some w', Ok ())" "\<not> engine_health ob (Some w')"
      by (auto simp: engine_stop_def engine_health_def Some)
    then show ?thesis by (simp add: engine_health_running)
  qed (simp add: engine_stop_def shared_unload_def engine_running_def)
next
  fix ob :: "py_env \<times> vllm_env" and b b' :: "worker option"
  assume "engine_start ob b = (b', Ok ())"
  then show "engine_running b'"
    using shared_load_loads[of "fst ob" "snd ob" b b'] engine_health_running[of ob b']
    by (simp add: engine_start_def engine_health_def split: prod.splits)
next
  fix ob :: "py_env \<times> vllm_env" and b b' :: "worker option" and e
  assume a: "engine_start ob b = (b', Err e)"
  then show "engine_running b' = engine_running b"
    using engine_load_err[of "fst ob" "wk_engine (the b)" "wk_process (the b)"]
    by (cases b) (fastforce simp: engine_start_def shared_load_def engine_running_def worker_step_def split: prod.splits)+
qed

section \<open>Properties\<close>

text \<open>A check with the restart that follows it, undisturbed, is the turn of the monitor that \<open>monitor_tick\<close>
  describes, for a manager with one monitor.\<close>

lemma check_then_restart_is_tick:
  assumes "mg_monitors m = [s]" and "sm_phase s = Watching"
    and "monitor_tick health stop start name \<lparr>mon_backend = mg_backend m, mon_backoff = sm_backoff s\<rparr> = (t, delay, reports)"
  shows "let m1 = monitor_check health name 0 m;
             m2 = (if health (mg_backend m) then m1 else monitor_restart stop start 0 m1) in
    mg_backend m2 = mon_backend t \<and> mg_monitors m2 = [\<lparr>sm_backoff = mon_backoff t, sm_phase = Watching\<rparr>] \<and>
    mg_slept m2 = mg_slept m @ (case delay of None \<Rightarrow> [] | Some d \<Rightarrow> [d]) \<and> mg_reports m2 = mg_reports m @ reports"
  using assms
  by (auto simp: monitor_check_def monitor_restart_def monitor_tick_def Let_def split: prod.splits sum.splits if_splits)

text \<open>The monitor of the embedded engine: an engine that is not loaded is loaded by check and restart when
  loading succeeds, and then counts as healthy.\<close>

lemma engine_monitor_reloads:
  assumes "\<not> engine_health ob (mg_backend m)" and "mg_monitors m = [s]" and "sm_phase s = Watching"
    and "snd (engine_start ob (fst (engine_stop ob (mg_backend m)))) = Ok ()"
  shows "engine_health ob' (mg_backend (monitor_restart (engine_stop ob) (engine_start ob) 0
    (monitor_check (engine_health ob) name 0 m)))"
proof -
  have "mg_backend (monitor_check (engine_health ob) name 0 m) = mg_backend m"
    by (auto simp: monitor_check_def Let_def split: prod.split)
  with assms(4) engine_trait.restart_result(1)[of ob 0 "monitor_check (engine_health ob) name 0 m"]
  show ?thesis by (simp add: engine_health_running)
qed

text \<open>Stopping the manager does not always stop the backend: a stop that falls into the wait between check
  and restart is undone, and nothing watches the backend afterwards.\<close>

lemma vllm_stop_undone:
  fixes ob ob' :: "spawn_env \<times> nat option \<times> wait_result"
  assumes "snd (fst ob') \<noteq> None" "fst (fst ob')"
  shows "\<exists>m1 m2. monitor_step (\<lambda>_ b. False) (\<lambda>ob. vllm_stop (snd ob)) (\<lambda>ob. vllm_start (fst ob)) ''vllm-mlx''
      (snd (manager_start (vllm_start (True, Some 7)) (manager_new (vllm_new ''qwen'' 8100 True)))) m1 \<and>
    (monitor_step (\<lambda>_ b. False) (\<lambda>ob. vllm_stop (snd ob)) (\<lambda>ob. vllm_start (fst ob)) ''vllm-mlx'')\<^sup>*\<^sup>*
      (snd (manager_stop (vllm_stop (snd ob)) m1)) m2 \<and>
    mg_shutdown m2 \<and> list_all (\<lambda>s. sm_phase s = MonitorEnded) (mg_monitors m2) \<and> vb_child (mg_backend m2) \<noteq> None"
proof (rule vllm_trait.stop_undone[where ob' = ob' and s = "\<lparr>sm_backoff = backoff_new, sm_phase = Watching\<rparr>"])
  show "snd (vllm_start (fst ob') (fst (vllm_stop (snd ob') (fst (vllm_stop (snd ob)
      (mg_backend (snd (manager_start (vllm_start (True, Some 7)) (manager_new (vllm_new ''qwen'' 8100 True)))))))))) = Ok ()"
    using assms by (auto simp: manager_start_def manager_new_def vllm_start_def vllm_stop_def vllm_new_def split: option.split)
qed (simp_all add: manager_start_def manager_new_def vllm_start_def vllm_new_def)

end
