(* ===== verification/Cli.thy ===== *)
theory Cli
  imports Startup Update BuildTools
begin

text \<open>
  The command line of the provider: the derived declarations \<open>Cli\<close> and \<open>Command\<close> of \<open>main.rs\<close> and the
  dispatch of \<open>main\<close>. The parser is the crate \<open>clap\<close> and a parameter; what is relied on, that long options
  with values are collected as the declarations say, is a hypothesis. With it, the arguments the launchd
  service is installed with are read back as the serve command they were made for.
\<close>

section \<open>Declarations\<close>

datatype cli_command =
    Init
  | Serve serve_args bool
  | Install string "string option" "string option"
  | Enroll string
  | Unenroll
  | Benchmark
  | Status
  | KeyStatus
  | Models string "string option" string
  | Earnings string
  | Doctor string bool
  | Start string "string option" "u64 option"
  | Stop
  | Logs u64 bool
  | Update string bool
  | Login string
  | Logout
  | AutoUpdate string
  | HashRuntime string

record cli =
  cli_command :: cli_command
  cli_verbose :: bool

definition log_filter :: "bool \<Rightarrow> string" where
  "log_filter verbose = (if verbose then ''darkbloom=debug,info'' else ''darkbloom=info,warn'')"

text \<open>The options of \<open>serve\<close>: its flags, with the global one for verbose logs, and its options with their
  values, in the order given. A flag and an option that is not a list may be given once, numbers must
  fit their type, and what is not given has its default. \<open>--all-models\<close> is the second argument of the
  command.\<close>

definition once :: "string \<Rightarrow> (string \<times> string) list \<Rightarrow> string option option" where
  "once name opts =
     (case filter (\<lambda>(o', _). o' = name) opts of
        [] \<Rightarrow> Some None
      | [(_, v)] \<Rightarrow> Some (Some v)
      | _ \<Rightarrow> None)"

definition number :: "nat \<Rightarrow> string option \<Rightarrow> nat option option" where
  "number bound v =
     (case v of
        None \<Rightarrow> Some None
      | Some t \<Rightarrow> (case parse_nat t of
                     Some n \<Rightarrow> if n < bound then Some (Some n) else None
                   | None \<Rightarrow> None))"

definition many :: "string \<Rightarrow> (string \<times> string) list \<Rightarrow> string list" where
  "many name opts = map snd (filter (\<lambda>(o', _). o' = name) opts)"

definition serve_option_names :: "string list" where
  "serve_option_names = [''coordinator'', ''port'', ''model'', ''backend-port'', ''idle-timeout'']"

definition serve_flag_names :: "string list" where
  "serve_flag_names = [''local'', ''all-models'', ''no-auto-update'', ''verbose'']"

definition serve_of_options :: "cargo_line list \<Rightarrow> string list \<Rightarrow> (string \<times> string) list \<Rightarrow> cli option" where
  "serve_of_options build flags opts =
     do {
       (if distinct flags \<and> set flags \<subseteq> set serve_flag_names \<and> list_all (\<lambda>(o', _). o' \<in> set serve_option_names) opts
        then Some () else None);
       coordinator \<leftarrow> once ''coordinator'' opts;
       port \<leftarrow> Option.bind (once ''port'' opts) (number (2 ^ 16));
       backend_port \<leftarrow> Option.bind (once ''backend-port'' opts) (number (2 ^ 16));
       idle_timeout \<leftarrow> Option.bind (once ''idle-timeout'' opts) (number (2 ^ 64));
       Some
         \<lparr>cli_command = Serve
            \<lparr>sa_local = ''local'' \<in> set flags,
             sa_coordinator_url = option_unwrap_or (default_coordinator_ws_url build) coordinator,
             sa_port = word_of_nat (option_unwrap_or 8000 port),
             sa_models = many ''model'' opts,
             sa_backend_port = map_option word_of_nat backend_port,
             sa_idle_timeout = map_option word_of_nat idle_timeout,
             sa_auto_update = ''no-auto-update'' \<notin> set flags\<rparr> (''all-models'' \<in> set flags),
          cli_verbose = ''verbose'' \<in> set flags\<rparr>
     }"

section \<open>Dispatch\<close>

text \<open>The call \<open>main\<close> makes for a command. The negation of \<open>--no-auto-update\<close> is made here and is kept in
  the arguments of serve; \<open>--all-models\<close> is passed on and not looked at.\<close>

datatype main_call =
    CallInit
  | CallKeyStatus
  | CallInstall string "string option" "string option"
  | CallServe serve_args
  | CallEnroll string
  | CallUnenroll
  | CallBenchmark
  | CallStatus
  | CallModels string string "string option"
  | CallEarnings string
  | CallDoctor string bool
  | CallStart string "string option" "u64 option"
  | CallStop
  | CallLogs u64 bool
  | CallUpdate string bool
  | CallLogin string
  | CallLogout
  | CallAutoUpdate string
  | CallHashRuntime string

fun dispatch :: "cli_command \<Rightarrow> main_call" where
  "dispatch Init = CallInit"
| "dispatch KeyStatus = CallKeyStatus"
| "dispatch (Install coordinator profile_url model) = CallInstall coordinator profile_url model"
| "dispatch (Serve args all_models) = CallServe args"
| "dispatch (Enroll coordinator) = CallEnroll coordinator"
| "dispatch Unenroll = CallUnenroll"
| "dispatch Benchmark = CallBenchmark"
| "dispatch Status = CallStatus"
| "dispatch (Models action model coordinator) = CallModels action coordinator model"
| "dispatch (Earnings coordinator) = CallEarnings coordinator"
| "dispatch (Doctor coordinator support) = CallDoctor coordinator support"
| "dispatch (Start coordinator model idle) = CallStart coordinator model idle"
| "dispatch Stop = CallStop"
| "dispatch (Logs n follow) = CallLogs n follow"
| "dispatch (Update coordinator force) = CallUpdate coordinator force"
| "dispatch (Login coordinator) = CallLogin coordinator"
| "dispatch Logout = CallLogout"
| "dispatch (AutoUpdate action) = CallAutoUpdate action"
| "dispatch (HashRuntime p) = CallHashRuntime p"

text \<open>\<open>main\<close>: the arguments are parsed, logging is set up, the update alert is shown, and the command runs.
  A parse error ends the process before anything else.\<close>

definition main_run :: "(string list \<Rightarrow> cli option) \<Rightarrow> string list \<Rightarrow> (string \<times> main_call) option" where
  "main_run parse argv = map_option (\<lambda>c. (log_filter (cli_verbose c), dispatch (cli_command c))) (parse (tl argv))"

section \<open>What is relied on of the parser\<close>

text \<open>Flags, then long options with their values as separate arguments, none of which starts with a
  hyphen, are collected into the command as declared.\<close>

definition option_args :: "(string \<times> string) list \<Rightarrow> string list" where
  "option_args opts = concat (map (\<lambda>(o', v). [''--'' @ o', v]) opts)"

definition clap_ok :: "cargo_line list \<Rightarrow> (string list \<Rightarrow> cli option) \<Rightarrow> bool" where
  "clap_ok build parse \<longleftrightarrow>
     (\<forall>flags opts c. list_all (\<lambda>(_, v). \<not> prefix ''-'' v) opts \<longrightarrow> serve_of_options build flags opts = Some c \<longrightarrow>
        parse (''serve'' # map ((@) ''--'') flags @ option_args opts) = Some c)"

section \<open>Lemmas\<close>

definition service_options :: "string \<Rightarrow> string list \<Rightarrow> u64 option \<Rightarrow> (string \<times> string) list" where
  "service_options url models idle =
     [(''coordinator'', url)] @ map (\<lambda>m. (''model'', m)) models @
     (case idle of None \<Rightarrow> [] | Some mins \<Rightarrow> [(''idle-timeout'', show_nat (unat mins))])"

lemma service_args_options:
  "service_args binary url models idle = binary # ''serve'' # option_args (service_options url models idle)"
  by (simp add: service_args_def service_options_def option_args_def comp_def split: option.split)

lemma filter_models:
  "filter (\<lambda>(o', _). o' = name) (map (\<lambda>m. (''model'', m)) models) =
     (if name = ''model'' then map (\<lambda>m. (''model'', m)) models else [])"
  by (induction models) auto

lemma serve_of_service_options:
  "serve_of_options build [] (service_options url models idle) =
     Some \<lparr>cli_command = Serve \<lparr>sa_local = False, sa_coordinator_url = url, sa_port = 8000, sa_models = models, sa_backend_port = None,
       sa_idle_timeout = idle, sa_auto_update = True\<rparr> False, cli_verbose = False\<rparr>"
proof -
  have "list_all (\<lambda>(o', _). o' \<in> set serve_option_names) (service_options url models idle)"
    by (auto simp: service_options_def serve_option_names_def list_all_iff split: option.splits)
  moreover have "once ''coordinator'' (service_options url models idle) = Some (Some url)"
      "once ''port'' (service_options url models idle) = Some None" "once ''backend-port'' (service_options url models idle) = Some None"
      "once ''idle-timeout'' (service_options url models idle) = Some (map_option (\<lambda>m. show_nat (unat m)) idle)"
      "many ''model'' (service_options url models idle) = models"
    by (simp_all add: once_def many_def service_options_def filter_models comp_def split: option.split)
  moreover have "number (2 ^ 64) (map_option (\<lambda>m. show_nat (unat m)) idle) = Some (map_option unat idle)"
    using unsigned_less[of "the idle"] by (cases idle) (simp_all add: number_def parse_nat_show)
  ultimately show ?thesis
    by (simp add: serve_of_options_def number_def option_unwrap_or_def option.map_comp comp_def option.map_ident)
qed

lemma service_runs_serve:
  assumes "clap_ok build parse" and "\<not> prefix ''-'' url" and "list_all (\<lambda>m. \<not> prefix ''-'' m) models"
  shows "main_run parse (service_args binary url models idle) =
    Some (log_filter False, CallServe \<lparr>sa_local = False, sa_coordinator_url = url, sa_port = 8000, sa_models = models,
      sa_backend_port = None, sa_idle_timeout = idle, sa_auto_update = True\<rparr>)"
proof -
  have "\<not> prefix ''-'' (show_nat n)" for n
    using show_nat_no_char[of "CHR ''-''" n] by (cases "show_nat n") auto
  then have "list_all (\<lambda>(_, v). \<not> prefix ''-'' v) (service_options url models idle)"
    using assms(2,3) by (auto simp: service_options_def list_all_iff split: option.splits)
  then have "parse (''serve'' # map ((@) ''--'') [] @ option_args (service_options url models idle)) =
      serve_of_options build [] (service_options url models idle)"
    using assms(1) serve_of_service_options unfolding clap_ok_def by metis
  then show ?thesis by (simp add: main_run_def service_args_options serve_of_service_options)
qed

section \<open>A parser that keeps the declarations\<close>

fun pair_up :: "string list \<Rightarrow> (string \<times> string) list option" where
  "pair_up [] = Some []"
| "pair_up [_] = None"
| "pair_up (o' # v # rest) =
     (if prefix ''--'' o' \<and> \<not> prefix ''-'' v then map_option ((#) (drop 2 o', v)) (pair_up rest) else None)"

definition demo_parse :: "cargo_line list \<Rightarrow> string list \<Rightarrow> cli option" where
  "demo_parse build argv =
     (case argv of
        [] \<Rightarrow> None
      | sub # rest \<Rightarrow>
          let is_flag = (\<lambda>a. a \<in> set (map ((@) ''--'') serve_flag_names)) in
          if sub = ''serve''
          then Option.bind (pair_up (dropWhile is_flag rest)) (serve_of_options build (map (drop 2) (takeWhile is_flag rest)))
          else None)"

lemma pair_up_option_args:
  "list_all (\<lambda>(_, v). \<not> prefix ''-'' v) opts \<Longrightarrow> pair_up (option_args opts) = Some opts"
  by (induction opts) (auto simp: option_args_def)

lemma split_flags:
  assumes "set flags \<subseteq> set serve_flag_names" and "list_all (\<lambda>(o', _). o' \<in> set serve_option_names) opts"
  defines "is_flag \<equiv> \<lambda>a. a \<in> set (map ((@) ''--'') serve_flag_names)"
  shows "dropWhile is_flag (map ((@) ''--'') flags @ option_args opts) = option_args opts"
    and "map (drop 2) (takeWhile is_flag (map ((@) ''--'') flags @ option_args opts)) = flags"
proof -
  have flag: "is_flag a" if "a \<in> set (map ((@) ''--'') flags)" for a
    using that assms(1) by (auto simp: is_flag_def)
  have opt: "option_args opts = [] \<or> \<not> is_flag (hd (option_args opts))"
    using assms(2)
    by (cases opts) (auto simp: option_args_def is_flag_def serve_flag_names_def serve_option_names_def)
  then have "takeWhile is_flag (option_args opts) = []" "dropWhile is_flag (option_args opts) = option_args opts"
    by (cases "option_args opts"; simp)+
  moreover have "map (drop 2) (map ((@) ''--'') flags) = flags"
    by (induction flags) auto
  ultimately show "dropWhile is_flag (map ((@) ''--'') flags @ option_args opts) = option_args opts"
    and "map (drop 2) (takeWhile is_flag (map ((@) ''--'') flags @ option_args opts)) = flags"
    using dropWhile_append2[of "map ((@) ''--'') flags" is_flag] takeWhile_append2[of "map ((@) ''--'') flags" is_flag] flag
    by simp_all
qed

lemma demo_parse_ok: "clap_ok build (demo_parse build)"
  unfolding clap_ok_def
proof (intro allI impI)
  fix flags opts c
  assume v: "list_all (\<lambda>(_, v). \<not> prefix ''-'' v) opts" and c: "serve_of_options build flags opts = Some c"
  from c have "set flags \<subseteq> set serve_flag_names" "list_all (\<lambda>(o', _). o' \<in> set serve_option_names) opts"
    by (auto simp: serve_of_options_def split: if_splits)
  from split_flags[OF this] c show "demo_parse build (''serve'' # map ((@) ''--'') flags @ option_args opts) = Some c"
    by (simp add: demo_parse_def pair_up_option_args[OF v] del: set_map)
qed

end
