(* ===== verification/Spec2Isabelle.thy ===== *)
theory Spec2Isabelle
  imports Startup Proxy ManualUpdate Commands BuildTools Session Keychain Manager Cli
begin

text \<open>
  The provider of the d-inference repository: a Rust program (under \<open>src/provider\<close>) that runs on a Mac,
  keeps a WebSocket connection to a coordinator, receives inference requests encrypted by consumers,
  answers them with a language model in an embedded Python interpreter, encrypts the answers to the
  consumer, and proves with hardware-held keys and hashes what software it runs. Around that core are
  the commands that install, start, update and inspect it.

  \<^bold>\<open>How the parts work together.\<close> \<open>cmd_serve\<close> hardens the process, makes the keys, checks the runtime and
  builds the client (\<open>Startup\<close>), then runs three tasks: the connection (\<open>Coordinator\<close>), which reads
  messages (\<open>Protocol\<close>), decrypts requests (\<open>Crypto\<close>), answers attestation challenges (\<open>Attestation\<close>)
  and hands events to the event loop (\<open>Serve\<close>); the event loop, which routes a request to the slot of its
  model, loads the engine (\<open>Inference\<close>, \<open>Engine\<close>) and spawns a task that generates and encrypts the
  answer (\<open>Inference\<close>, \<open>EngineChat\<close>); and the supervision of subprocess backends (\<open>Supervisor\<close>,
  \<open>Backend\<close>), with the proxy to them (\<open>Proxy\<close>). Events for operators go through \<open>Telemetry\<close>. A user starts
  it with the command \<open>start\<close> (\<open>Start\<close>), which lets models be chosen (\<open>Picker\<close>) and downloads them
  (\<open>Download\<close>), and installs the launchd service (\<open>Service\<close>) that runs \<open>serve\<close> (\<open>Cli\<close>).

  \<^bold>\<open>Which theory models which source.\<close> All paths are under \<open>src/provider/src\<close> unless said otherwise.
  \<^item> The language and its library: \<open>Prelude\<close> (results, byte strings, text functions), \<open>Utf8\<close>, \<open>Float64\<close>,
    \<open>FloatArith\<close> and \<open>FloatParse\<close> (\<open>f64\<close> as its bit patterns, comparison, arithmetic, decimal text), \<open>Maps\<close> (hash maps and B-tree
    maps behind the locale \<open>kv_map\<close>), \<open>Json\<close> (JSON values and the locale \<open>codec\<close> of a writer and a reader),
    \<open>FileTree\<close> and \<open>LinkFs\<close> (directories, files, symbolic links), \<open>Python\<close> (what the embedded scripts use
    of Python).
  \<^item> The core: \<open>Security\<close> (\<open>security.rs\<close>), \<open>Models\<close> (\<open>models.rs\<close>), \<open>Hardware\<close> (\<open>hardware.rs\<close>), \<open>Protocol\<close>
    (\<open>protocol.rs\<close>), \<open>Crypto\<close> (\<open>crypto.rs\<close>), \<open>SecureEnclave\<close> and \<open>Keychain\<close> (\<open>secure_enclave_key.rs\<close>: the sealed
    secret, and the key that seals it with its attribute dictionaries), \<open>Attestation\<close> and
    \<open>Coordinator\<close> (\<open>coordinator.rs\<close>), \<open>Inference\<close> and \<open>Serve\<close> (the request handler and the event loop of
    \<open>main.rs\<close>), \<open>Session\<close> (the connection and the event loop together), \<open>Engine\<close> and \<open>EngineChat\<close> (\<open>inference.rs\<close> with its Python scripts), \<open>Startup\<close> (the rest of
    \<open>cmd_serve\<close>), \<open>Scheduling\<close> (\<open>scheduling.rs\<close>), \<open>Hypervisor\<close> (\<open>hypervisor.rs\<close>), \<open>Config\<close> (\<open>config.rs\<close>).
  \<^item> Subprocess backends: \<open>Backend\<close> (\<open>backend/\<close>), \<open>Manager\<close> (\<open>BackendManager\<close> of \<open>backend/mod.rs\<close> as the
    interleaving of its monitor with calls of its operations), \<open>Supervisor\<close> (the health monitor of \<open>main.rs\<close>), \<open>Proxy\<close>
    (\<open>proxy.rs\<close>), \<open>LocalServer\<close> (\<open>server.rs\<close>).
  \<^item> Telemetry: \<open>TelemetryEvent\<close>, \<open>TelemetryQueue\<close>, \<open>Telemetry\<close> (\<open>telemetry/\<close>).
  \<^item> Software on disk: \<open>Catalog\<close>, \<open>Download\<close>, \<open>Templates\<close>, \<open>Runtime\<close>, \<open>Update\<close>, \<open>ManualUpdate\<close> (\<open>main.rs\<close>),
    \<open>Service\<close> and \<open>Plist\<close> (\<open>service.rs\<close> and the migration in \<open>main.rs\<close>).
  \<^item> Commands: \<open>Cli\<close> (the declared command line and the dispatch of \<open>main\<close>), \<open>Picker\<close>, \<open>Start\<close>, \<open>Install\<close>,
    \<open>Commands\<close>, \<open>Account\<close> (\<open>main.rs\<close>, \<open>wallet.rs\<close>).
  \<^item> \<open>BuildTools\<close>: \<open>src/provider/build.rs\<close> and the reference decryptor under
    \<open>src/coordinator/internal/e2e/testdata\<close>.

  \<^bold>\<open>How code becomes definitions.\<close> A struct is a record, an enum a datatype, a machine integer a word, a
  fallible function returns \<open>'a result\<close> with \<open>Err\<close> and \<open>Ok\<close>; a panic is a value of its own where it can
  happen. A handler takes the state and returns the new one. What comes from outside (the clock, system
  calls, commands, HTTP answers, file operations that may fail) is a field of an observation record;
  what a library computes (NaCl box, SHA-256, base64, the printers and parsers of JSON and TOML, the
  command line parser \<open>clap\<close>, the package \<open>vllm_mlx\<close>, the Swift functions of the Secure Enclave) is a parameter, with what is relied on
  stated as a hypothesis. Text is a list of bytes, as Rust's \<open>str\<close> is; trimming and case folding are those
  of ASCII. Concurrency is the order of steps: the event loop, the telemetry pipeline, the memory pool and
  the backend manager are step relations or runs over any list of steps, and their invariants hold for
  every order.

  \<^bold>\<open>What the lemmas show.\<close> The theorems of this theory put components together: a request encrypted to the
  provider is delivered, acknowledged, tracked and answered so that the consumer's key opens the
  answer to what the engine streamed; the text of the model reaches the consumer completely and the
  attested hash covers it; the models a user chooses pass through the property list and the command line
  to the serve command, and a start that succeeds serves the models it was started for. Per component:
  \<^item> Privacy: nothing but encrypted requests reaches the event loop, answers carry no plaintext, the worker
    overwrites request texts, the connection is made only after the process is hardened.
  \<^item> Integrity: the status document determines every field it reports and is what is signed; runtime and
    response hashes bind what they cover; updates, templates and runtimes are verified or rolled back;
    the import path of the engine holds approved directories only.
  \<^item> Accounting: over any connections and any interleaving, the requests that decrypt are acknowledged in
    their order of arrival and each becomes a task or gets one error (\<open>acknowledged_in_order\<close>), those
    without an encrypted body are refused (\<open>requests_accounted\<close>), and the telemetry batcher leaves no
    event behind when its senders are gone (\<open>telemetry_worker_drains\<close>).
  \<^item> Bookkeeping: the invariants of the event loop, the engine map, the worker, the memory pool and the
    telemetry pipeline; the monitor is the independent supervision of each slot.
  \<^item> Reference definitions: schedules against calendar occurrences and least waiting times, the streaming
    proxy against cutting the whole answer into lines, streaming against plain generation, the provider's
    decryption against the reference decryptor.
  \<^item> Round trips: wire messages, telemetry events, configuration, property list, download with resumption,
    the encryption itself.
  \<^item> Where the code does not do what it or its comments say, a lemma shows the behaviour on a concrete input
    (for example \<open>alloc_buffer_wraps\<close>, \<open>preselection_unchecked\<close>, \<open>late_failure_loses_helper\<close>).

  \<^bold>\<open>Interfaces.\<close> \<open>kv_map\<close> (what a lookup returns after an insertion or a removal), \<open>codec\<close> (reading undoes writing),
  \<open>backend_iface\<close> (starting and stopping a backend), \<open>comparison\<close> (an order for sorting), \<open>lossy_fifo\<close> (a
  queue that may drop its oldest entries) and \<open>backend_trait\<close> (what the manager relies on of a backend) are
  locales; each is interpreted on the definitions that provide
  it, and the clients use the interpreted facts.

  \<^bold>\<open>Bounds and fuel.\<close> Link resolution follows at most 32 links (\<open>max_links\<close>), as the operating system does.
  Loops that poll have the number of turns of the source: four attempts of a download, three of the
  runtime detection, ten probes after a termination, 150 and 5 probes of a reload. Loops without a bound
  (connection, event loop, monitor, picker, login) run over the list of what they observe, so they are
  total and the list is as long as one likes; \<open>login_ends_and_stores_grant\<close> proves that the login loop
  ends by its expiry. Sums of \<open>f64\<close> are exact for whole numbers below \<open>2^53\<close>, the range in which the
  budget of the picker is proved.

  \<^bold>\<open>Not modelled.\<close> Log lines and printed text (kept as data where a property needs it), the forwarding of
  backend output, progress bars, the measurement script of \<open>cmd_benchmark\<close>, the calls to the Security
  framework themselves (their attribute dictionaries are modelled), and the startup of subprocess backends inside \<open>cmd_serve\<close>, which is unreachable as the only
  text backend mode is the embedded one. The coordinator and analytics services (Go), the Swift provider
  and enclave helper, the console and the scripts are other programs: what the provider sees of them is
  an argument.
\<close>

section \<open>From the wire to the answer\<close>


definition demo_body :: json where
  "demo_body = JObj [(''model'', JStr ''qwen''), (''stream'', JBool True)]"

definition demo_conn_env :: conn_env where
  "demo_conn_env = (demo_env demo_message)
     \<lparr>ce_from_slice := (\<lambda>bs. if bs = [123, 125] then Some demo_body else None)\<rparr>"

definition demo_consumer :: node_key_pair where
  "demo_consumer = kp_generate plain_box (replicate 32 1)"

lemma demo_task:
  "\<exists>ms u sg h stats'. handle_inprocess_request demo_reply_env True demo_run ''r1'' demo_body
     (kp_public demo_consumer) (cc_node_keypair demo_client) None provider_stats_default =
     (ms @ [InferenceComplete ''r1'' u sg h], stats')"
  by (simp add: handle_inprocess_request_def json_get_as_def option_unwrap_or_def stream_request_def demo_body_def
      demo_run_def send_encrypted_inference_chunk_def kp_encrypt_def demo_reply_env_def plain_box_def
      complete_message_def split: prod.split)


section \<open>From the model to the consumer\<close>

text \<open>Encryption that does not fail and a channel that stays open: every chunk is sent.\<close>

definition sends_all :: "reply_env \<Rightarrow> bool" where
  "sends_all renv \<longleftrightarrow> (\<forall>pk sk n m. cb_seal (re_box renv) pk sk n m \<noteq> None) \<and> (\<forall>k. re_open renv k)"

lemma chunk_sent:
  assumes "sends_all renv"
  shows "\<exists>m. send_encrypted_inference_chunk renv k rid pk kp t = Ok m"
proof -
  obtain c where "cb_seal (re_box renv) pk (kp_secret kp) (re_nonce renv k) (str_bytes t) = Some c"
    using assms by (fastforce simp: sends_all_def)
  with assms show ?thesis by (simp add: send_encrypted_inference_chunk_def kp_encrypt_def sends_all_def)
qed

lemma stream_sent:
  assumes "sends_all renv"
  shows "\<exists>ms. stream_loop renv rid pk kp k ts = (ms, concat ts, word_of_nat (length ts), None)"
proof (induction ts arbitrary: k)
  case (Cons t ts)
  obtain m where "send_encrypted_inference_chunk renv k rid pk kp t = Ok m" using chunk_sent[OF assms] by blast
  moreover obtain ms where "stream_loop renv rid pk kp (Suc k) ts = (ms, concat ts, word_of_nat (length ts), None)"
    using Cons by blast
  ultimately show ?case by simp
qed simp

lemma complete_message_shape:
  "\<exists>u sig h. complete_message renv se rid res t = InferenceComplete rid u sig h \<and> completion_tokens u = ir_completion_tokens res"
  by (simp add: complete_message_def case_prod_beta)


definition demo_chat :: json where
  "demo_chat = JObj [(''model'', JStr ''llama''), (''stream'', JBool True),
     (''messages'', JArr [JObj [(''role'', JStr ''user''), (''content'', JStr ''hello'')]])]"

lemma demo_chat_args: "stream_args sample_vllm demo_chat \<noteq> None"
  by code_simp


section \<open>From the start to the first request\<close>

lemma started_serves:
  assumes "cmd_serve_start args bo st0 = (Ok d, bst)" and "bt_trace st0 = []" and "engines_wf (bt_engines st0)"
    and "bo_python_feature bo" and "requested_model body \<in> set (sa_models args)" and "ob_load_result ob = Ok ()"
  shows "sv_outbound (on_coordinator_event (sd_config d) ob (EvInferenceRequest rid body (Some pk)) (sd_serve d)) =
      sv_outbound (sd_serve d) @ [InferenceAccepted rid]"
    and "map_of (sv_inflight (on_coordinator_event (sd_config d) ob (EvInferenceRequest rid body (Some pk)) (sd_serve d))) rid =
      Some (sv_next_task (sd_serve d))"
proof -
  note h = serve_start_state[OF assms(1-3)]
  then obtain cfg where ids: "map sl_model_id (sv_slots (sd_serve d)) = selected_models (sa_models args) cfg" by blast
  have "sa_models args \<noteq> []" using assms(5) by auto
  then have "requested_model body \<in> sl_model_id ` set (sv_slots (sd_serve d))"
    using assms(5) ids by (simp add: selected_models_def flip: set_map)
  then obtain s where "find_slot (requested_model body) (sv_slots (sd_serve d)) = Some s"
    by (cases "find_slot (requested_model body) (sv_slots (sd_serve d))") (auto simp: find_slot_def find_None_iff)
  note served = on_inference_request_served[OF _ _ _ this assms(6), of "sd_config d" rid pk]
  with h assms(4)
  show "sv_outbound (on_coordinator_event (sd_config d) ob (EvInferenceRequest rid body (Some pk)) (sd_serve d)) =
      sv_outbound (sd_serve d) @ [InferenceAccepted rid]"
    and "map_of (sv_inflight (on_coordinator_event (sd_config d) ob (EvInferenceRequest rid body (Some pk)) (sd_serve d))) rid =
      Some (sv_next_task (sd_serve d))"
    by simp_all
qed



section \<open>From the choice of models to the first request\<close>

text \<open>C3: The models a user chooses are the models the provider serves. An interactive start that succeeds
  writes a property list whose program arguments, read back and given to the provider's own command
  line, run the serve command with that coordinator, those models and that idle timeout; and when
  that command starts, a request for any of the chosen models that arrives with a key is acknowledged
  and tracked when its engine loads. The values are those a property list and a command line carry
  unchanged: without XML markup and without a leading hyphen.\<close>

theorem chosen_models_served:
  assumes start: "cmd_start ob url None idle st0 = (Started models, st)" and clap: "clap_ok build parse"
    and plain: "xml_plain (service_binary (sp_env (ts_stop ob)))" "xml_plain url" "list_all xml_plain models"
    and hyphens: "\<not> prefix ''-'' url" "list_all (\<lambda>m. \<not> prefix ''-'' m) models"
  shows "\<exists>plist argv args. sr_plist (ss_service (tt_stop st)) = Some plist \<and> extract_program_arguments plist = Ok argv \<and>
    hd argv = service_binary (sp_env (ts_stop ob)) \<and> main_run parse argv = Some (log_filter False, CallServe args) \<and>
    sa_coordinator_url args = url \<and> sa_models args = models \<and> sa_idle_timeout args = idle \<and> \<not> sa_local args \<and> models \<noteq> [] \<and>
    (\<forall>(bo :: ('i, 'd, 'p) boot_obs) bst0 d bst sob rid body pk.
       cmd_serve_start args bo bst0 = (Ok d, bst) \<longrightarrow> bt_trace bst0 = [] \<longrightarrow> engines_wf (bt_engines bst0) \<longrightarrow> bo_python_feature bo \<longrightarrow>
       requested_model body \<in> set models \<longrightarrow> ob_load_result sob = Ok () \<longrightarrow>
       sv_outbound (on_coordinator_event (sd_config d) sob (EvInferenceRequest rid body (Some pk)) (sd_serve d)) =
         sv_outbound (sd_serve d) @ [InferenceAccepted rid] \<and>
       map_of (sv_inflight (on_coordinator_event (sd_config d) sob (EvInferenceRequest rid body (Some pk)) (sd_serve d))) rid =
         Some (sv_next_task (sd_serve d)))"
proof -
  let ?binary = "service_binary (sp_env (ts_stop ob))"
  let ?argv = "service_args ?binary url models idle"
  let ?args = "\<lparr>sa_local = False, sa_coordinator_url = url, sa_port = 8000, sa_models = models, sa_backend_port = None,
    sa_idle_timeout = idle, sa_auto_update = True\<rparr>"
  obtain log where ms: "models \<noteq> []"
      and plist: "sr_plist (ss_service (tt_stop st)) = Some (plist_text ?binary log url models idle)"
    using cmd_start_installs[OF start] by blast
  have argv: "extract_program_arguments (plist_text ?binary log url models idle) = Ok ?argv"
    using extract_body[OF list_all_no_lt[OF args_plain(1)[OF plain]]] by (simp add: plist_text_body service_args_def)
  have first: "hd ?argv = ?binary" by (simp add: service_args_def)
  show ?thesis
    by (intro exI[of _ "plist_text ?binary log url models idle"] exI[of _ ?argv] exI[of _ ?args] conjI allI impI)
      (rule plist argv first ms service_runs_serve[OF clap hyphens] started_serves[where args = ?args] | assumption | simp)+
qed

theorem chosen_models_served_witness:
  "\<exists>st plist argv args d bst. cmd_start sample_start ''wss://c'' None None
       \<lparr>tt_stop = sample_stop_state None, tt_files = (\<lambda>_. None)\<rparr> = (Started [''m''], st) \<and>
     sr_plist (ss_service (tt_stop st)) = Some plist \<and> extract_program_arguments plist = Ok argv \<and>
     main_run (demo_parse []) argv = Some (log_filter False, CallServe args) \<and>
     cmd_serve_start args sample_boot sample_boot_state = (Ok d, bst) \<and>
     map_of (sv_inflight (on_coordinator_event (sd_config d) demo_obs (EvInferenceRequest ''r1'' (JObj [(''model'', JStr ''m'')]) (Some []))
       (sd_serve d))) ''r1'' = Some (sv_next_task (sd_serve d))"
proof -
  obtain st where st: "cmd_start sample_start ''wss://c'' None None
      \<lparr>tt_stop = sample_stop_state None, tt_files = (\<lambda>_. None)\<rparr> = (Started [''m''], st)"
    using sample_starts_service by blast
  have o1: "bt_trace sample_boot_state = []" "engines_wf (bt_engines sample_boot_state)" "bo_python_feature sample_boot"
      "ob_load_result demo_obs = Ok ()"
    by (simp_all add: sample_boot_state_def engines_wf_init sample_boot_def demo_obs_def)
  have r: "requested_model (JObj [(''model'', JStr ''m'')]) \<in> set [''m'']"
    by (simp add: requested_model_def json_get_as_def option_unwrap_or_def)
  have b: "xml_plain (service_binary (sp_env (ts_stop sample_start)))"
    by (simp add: sample_start_def sample_stop_def working_service_def service_binary_def xml_plain_def)
  note p = chosen_models_served[where 'i = nat and 'd = string and 'p = string, OF st demo_parse_ok[of "[]"] b]
  obtain plist argv args where a: "sr_plist (ss_service (tt_stop st)) = Some plist" "extract_program_arguments plist = Ok argv"
      "main_run (demo_parse []) argv = Some (log_filter False, CallServe args)" "\<not> sa_local args"
      "\<forall>(bo :: (nat, string, string) boot_obs) bst0 d bst sob rid body pk.
       cmd_serve_start args bo bst0 = (Ok d, bst) \<longrightarrow> bt_trace bst0 = [] \<longrightarrow> engines_wf (bt_engines bst0) \<longrightarrow> bo_python_feature bo \<longrightarrow>
       requested_model body \<in> set [''m''] \<longrightarrow> ob_load_result sob = Ok () \<longrightarrow>
       sv_outbound (on_coordinator_event (sd_config d) sob (EvInferenceRequest rid body (Some pk)) (sd_serve d)) =
         sv_outbound (sd_serve d) @ [InferenceAccepted rid] \<and>
       map_of (sv_inflight (on_coordinator_event (sd_config d) sob (EvInferenceRequest rid body (Some pk)) (sd_serve d))) rid =
         Some (sv_next_task (sd_serve d))"
    using p by (auto simp: xml_plain_def)
  obtain d bst where s: "cmd_serve_start args sample_boot sample_boot_state = (Ok d, bst)"
    using sample_boot_starts[OF a(4)] by blast
  from a(5)[rule_format, OF s o1(1-3) r o1(4), of "''r1''" "[]"] st a(1-3) s show ?thesis by blast
qed

end
